(* ===== verification/Prelude.thy ===== *)
theory Prelude
  imports Main "HOL-Library.Word" "HOL-Library.AList"
begin

text \<open>
  Shared vocabulary of the development: machine integers, hash maps, bounded memory reads and
  the fact collections of the component theories.

  A C++ \<open>std::unordered_map\<close> (or \<open>std::map\<close>) is an association list: \<open>find\<close> is \<open>map_of\<close>,
  \<open>m[k] = v\<close> is \<open>AList.update\<close>, \<open>erase\<close> is \<open>AList.delete\<close>. The order of the list stands for
  the iteration order of the container, which C++ leaves open for hash maps; properties of
  the development never depend on it. The locale \<open>hash_map\<close> states the laws a client of such a
  container uses and derives what loops of insertions and deletions do.
\<close>

unbundle bit_operations_syntax

named_theorems wire_simps \<open>evaluation of byte-level header operations\<close>
named_theorems text_simps \<open>evaluation of decimal text operations\<close>

type_synonym u8 = "8 word"
type_synonym u16 = "16 word"
type_synonym u32 = "32 word"
type_synonym u64 = "64 word"
type_synonym ('k, 'v) amap = "('k \<times> 'v) list"

abbreviation aget :: "('k, 'v) amap \<Rightarrow> 'k \<Rightarrow> 'v option" where
  "aget m k \<equiv> map_of m k"
abbreviation aput :: "'k \<Rightarrow> 'v \<Rightarrow> ('k, 'v) amap \<Rightarrow> ('k, 'v) amap" where
  "aput k v m \<equiv> AList.update k v m"
abbreviation aerase :: "'k \<Rightarrow> ('k, 'v) amap \<Rightarrow> ('k, 'v) amap" where
  "aerase k m \<equiv> AList.delete k m"
abbreviation akeys :: "('k, 'v) amap \<Rightarrow> 'k list" where
  "akeys m \<equiv> map fst m"
abbreviation awf :: "('k, 'v) amap \<Rightarrow> bool" where
  "awf m \<equiv> distinct (akeys m)"

section \<open>Hash maps\<close>

locale hash_map =
  fixes look :: "'m \<Rightarrow> 'k \<Rightarrow> 'v option"
    and put :: "'k \<Rightarrow> 'v \<Rightarrow> 'm \<Rightarrow> 'm"
    and del :: "'k \<Rightarrow> 'm \<Rightarrow> 'm"
    and wf :: "'m \<Rightarrow> bool"
  assumes look_put: "look (put k v m) j = (if j = k then Some v else look m j)"
    and look_del: "look (del k m) j = (if j = k then None else look m j)"
    and wf_put: "wf m \<Longrightarrow> wf (put k v m)"
    and wf_del: "wf m \<Longrightarrow> wf (del k m)"
begin

lemma look_fold_del:
  "look (fold del ks m) j = (if j \<in> set ks then None else look m j)"
  by (induction ks arbitrary: m) (auto simp: look_del)

lemma wf_fold_del: "wf m \<Longrightarrow> wf (fold del ks m)"
  by (induction ks arbitrary: m) (auto simp: wf_del)

lemma look_fold_put:
  assumes "j \<notin> f ` set xs"
  shows "look (fold (\<lambda>x. put (f x) (g x)) xs m) j = look m j"
  using assms by (induction xs arbitrary: m) (auto simp: look_put)

lemma put_overrides: "look (put k v (put k w m)) j = look (put k v m) j"
  by (simp add: look_put)

end

lemma aget_aput [simp]: "aget (aput k v m) j = (if j = k then Some v else aget m j)"
  by (simp add: update_conv)

lemma aget_aerase [simp]: "aget (aerase k m) j = (if j = k then None else aget m j)"
  by (simp add: delete_conv)

interpretation amap: hash_map aget aput aerase awf
  by unfold_locales (simp_all add: distinct_update distinct_delete)

lemma awf_aput [simp, intro]: "awf m \<Longrightarrow> awf (aput k v m)"
  by (rule amap.wf_put)

lemma awf_aerase [simp, intro]: "awf m \<Longrightarrow> awf (aerase k m)"
  by (rule amap.wf_del)

declare map_of_eq_Some_iff [simp del]

lemma aget_in_set: "aget m k = Some v \<Longrightarrow> (k, v) \<in> set m"
  by (rule map_of_SomeD)

lemma aget_iff_mem: "awf m \<Longrightarrow> (k, v) \<in> set m \<longleftrightarrow> aget m k = Some v"
  by (simp add: map_of_eq_Some_iff)

lemma mem_akeys_iff: "k \<in> set (akeys m) \<longleftrightarrow> aget m k \<noteq> None"
  by (metis map_of_eq_None_iff set_map)

lemma aerase_absent: "aget m k = None \<Longrightarrow> aerase k m = m"
  by (simp add: AList.delete_eq map_of_eq_None_iff filter_id_conv rev_image_eqI, force)

lemma akeys_mem_mono: "k \<in> set (akeys (filter P m)) \<Longrightarrow> k \<in> set (akeys m)"
  by auto

lemma awf_filter [simp]: "awf m \<Longrightarrow> awf (filter P m)"
  by (induction m) (auto dest: akeys_mem_mono)

lemma aget_filter:
  "awf m \<Longrightarrow> aget (filter (\<lambda>(k, v). P v) m) j
     = (case aget m j of Some v \<Rightarrow> if P v then Some v else None | None \<Rightarrow> None)"
proof (induction m)
  case (Cons p m)
  then show ?case
    by (cases p) (auto split: option.splits simp: map_of_eq_None_iff dest: map_of_SomeD)
qed simp

section \<open>Bounded memory reads\<close>

text \<open>A read of \<open>n\<close> bytes at offset \<open>off\<close>; \<open>None\<close> is a read outside the allocation,
  which is undefined behaviour in C++.\<close>

definition mem_read :: "u8 list \<Rightarrow> nat \<Rightarrow> nat \<Rightarrow> u8 list option" where
  "mem_read buf off n = (if off + n \<le> length buf then Some (take n (drop off buf)) else None)"

lemma mem_read_Some_iff: "(\<exists>bs. mem_read buf off n = Some bs) \<longleftrightarrow> off + n \<le> length buf"
  by (simp add: mem_read_def)

lemma mem_read_append: "off + n \<le> length xs \<Longrightarrow> mem_read (xs @ ys) off n = mem_read xs off n"
  by (simp add: mem_read_def)

lemma take_drop_nths: "off + n \<le> length buf \<Longrightarrow> take n (drop off buf) = map (\<lambda>i. buf ! (off + i)) [0..<n]"
  by (rule nth_equalityI) auto

lemma mem_read_2: "off + 2 \<le> length buf \<Longrightarrow> mem_read buf off 2 = Some [buf ! off, buf ! (off + 1)]"
  by (simp add: mem_read_def take_drop_nths upt_rec)

lemma mem_read_4:
  "off + 4 \<le> length buf \<Longrightarrow>
     mem_read buf off 4 = Some [buf ! off, buf ! (off + 1), buf ! (off + 2), buf ! (off + 3)]"
  by (simp add: mem_read_def take_drop_nths upt_rec eval_nat_numeral)

section \<open>Repeated turns\<close>

text \<open>A thread that is given its turns one after the other, each with what the environment answers during it; \<open>None\<close> as soon as a turn does not
  return.\<close>

fun run_turns :: "('a \<Rightarrow> 's \<Rightarrow> 's option) \<Rightarrow> 'a list \<Rightarrow> 's \<Rightarrow> 's option" where
  "run_turns turn [] s = Some s"
| "run_turns turn (a # as) s = (case turn a s of None \<Rightarrow> None | Some s' \<Rightarrow> run_turns turn as s')"

end
