(* ===== verification/Wire_Header.thy ===== *)
theory Wire_Header
  imports Prelude "HOL-Library.Monad_Syntax"
begin

text \<open>
  The binary header of the data plane. The bridge side (bridge/src/common_types.hpp) reads it:
  \<open>read_uint16_big_endian\<close>, \<open>read_uint32_big_endian\<close>, \<open>construct_routing_key\<close> and
  \<open>parse_message_header\<close>. The gateway side (modular_gateway_sender message_header.hpp) writes it:
  \<open>MessageOptions\<close>, \<open>create_header\<close> and \<open>create_header_in_buffer\<close>. Reads go through
  \<open>mem_read\<close>, so \<open>None\<close> at the outer level of a result is an out-of-bounds access; the inner
  \<open>None\<close> is \<open>std::nullopt\<close>. Hosts are little-endian, as the deployment targets are, and
  \<open>std::memcpy\<close> followed by \<open>ntohs\<close>/\<open>ntohl\<close> is modelled literally on that order.
\<close>

section \<open>Bridge side: reading\<close>

definition MAGIC_NUMBER_OFFSET :: nat where [wire_simps]: "MAGIC_NUMBER_OFFSET = 0"
definition MESSAGE_TYPE_OFFSET :: nat where [wire_simps]: "MESSAGE_TYPE_OFFSET = 3"
definition ID_GROUP_OFFSET :: nat where [wire_simps]: "ID_GROUP_OFFSET = 4"
definition IDENTIFIER_IN_GROUP_OFFSET :: nat where [wire_simps]: "IDENTIFIER_IN_GROUP_OFFSET = 5"
definition PAYLOAD_SIZE_FIELD_OFFSET :: nat where [wire_simps]: "PAYLOAD_SIZE_FIELD_OFFSET = 6"
definition TOPIC_LENGTH_FIELD_OFFSET :: nat where [wire_simps]: "TOPIC_LENGTH_FIELD_OFFSET = 10"
definition TOPIC_NAME_START_OFFSET :: nat where [wire_simps]: "TOPIC_NAME_START_OFFSET = 11"
definition MIN_HEADER_LEN_BEFORE_TOPIC_NAME :: nat where
  [wire_simps]: "MIN_HEADER_LEN_BEFORE_TOPIC_NAME = TOPIC_NAME_START_OFFSET"
definition EXPECTED_MAGIC_NUMBER :: u16 where [wire_simps]: "EXPECTED_MAGIC_NUMBER = 0xA5C3"

definition ntohs :: "u16 \<Rightarrow> u16" where
  "ntohs v = push_bit 8 v OR drop_bit 8 v"

definition ntohl :: "u32 \<Rightarrow> u32" where
  "ntohl v = push_bit 24 v OR push_bit 8 (v AND 0xFF00) OR (drop_bit 8 v AND 0xFF00) OR drop_bit 24 v"

definition read_uint16_big_endian :: "u8 list \<Rightarrow> nat \<Rightarrow> u16 option" where
  "read_uint16_big_endian buf off =
     (case mem_read buf off 2 of
        Some [b0, b1] \<Rightarrow> Some (ntohs (ucast b0 OR push_bit 8 (ucast b1)))
      | _ \<Rightarrow> None)"

definition read_uint32_big_endian :: "u8 list \<Rightarrow> nat \<Rightarrow> u32 option" where
  "read_uint32_big_endian buf off =
     (case mem_read buf off 4 of
        Some [b0, b1, b2, b3] \<Rightarrow>
          Some (ntohl (ucast b0 OR push_bit 8 (ucast b1) OR push_bit 16 (ucast b2) OR push_bit 24 (ucast b3)))
      | _ \<Rightarrow> None)"

definition read_u8 :: "u8 list \<Rightarrow> nat \<Rightarrow> u8 option" where
  "read_u8 buf off = (if off < length buf then Some (buf ! off) else None)"

record RoutingKey =
  source_id :: u16
  message_type :: u8

definition construct_routing_key :: "u8 \<Rightarrow> u8 \<Rightarrow> u8 \<Rightarrow> RoutingKey" where
  "construct_routing_key id_group id_in_group msg_type =
     \<lparr>source_id = push_bit 8 (ucast id_group) OR ucast id_in_group, message_type = msg_type\<rparr>"

record ParsedHeaderInfo =
  routing_key :: RoutingKey
  total_message_length :: nat
  payload_offset :: nat
  payload_size :: nat

definition parse_message_header :: "u8 list \<Rightarrow> nat \<Rightarrow> ParsedHeaderInfo option option" where
  "parse_message_header buffer buffer_size =
     (if buffer_size < MIN_HEADER_LEN_BEFORE_TOPIC_NAME then Some None
      else do {
        magic_number \<leftarrow> read_uint16_big_endian buffer MAGIC_NUMBER_OFFSET;
        if magic_number \<noteq> EXPECTED_MAGIC_NUMBER then Some None
        else do {
          msg_type \<leftarrow> read_u8 buffer MESSAGE_TYPE_OFFSET;
          id_group \<leftarrow> read_u8 buffer ID_GROUP_OFFSET;
          id_in_group \<leftarrow> read_u8 buffer IDENTIFIER_IN_GROUP_OFFSET;
          topic_length \<leftarrow> read_u8 buffer TOPIC_LENGTH_FIELD_OFFSET;
          if buffer_size < MIN_HEADER_LEN_BEFORE_TOPIC_NAME + unat topic_length then Some None
          else do {
            psize \<leftarrow> read_uint32_big_endian buffer PAYLOAD_SIZE_FIELD_OFFSET;
            let hlen = MIN_HEADER_LEN_BEFORE_TOPIC_NAME + unat topic_length;
            Some (Some \<lparr>routing_key = construct_routing_key id_group id_in_group msg_type,
                        total_message_length = hlen + unat psize,
                        payload_offset = hlen,
                        payload_size = unat psize\<rparr>)
          }
        }
      })"

definition parse_message_header_vec :: "u8 list \<Rightarrow> ParsedHeaderInfo option option" where
  "parse_message_header_vec data_buffer =
     (if data_buffer = [] then Some None else parse_message_header data_buffer (length data_buffer))"

section \<open>Gateway side: writing\<close>

datatype MessageType =
    STRING | INT32 | FLOAT32 | BOOL
  | smLASERSCAN | smSERIAL_STRING | smJOINTSTATE | smSERIAL_FEEDBACK
  | STRING_TEST_INPUT | STRING_TEST_RESULT

fun message_type_code :: "MessageType \<Rightarrow> u8" where
  "message_type_code STRING = 1"
| "message_type_code INT32 = 2"
| "message_type_code FLOAT32 = 3"
| "message_type_code BOOL = 4"
| "message_type_code smLASERSCAN = 11"
| "message_type_code smSERIAL_STRING = 12"
| "message_type_code smJOINTSTATE = 13"
| "message_type_code smSERIAL_FEEDBACK = 14"
| "message_type_code STRING_TEST_INPUT = 201"
| "message_type_code STRING_TEST_RESULT = 202"

definition HEADER_MAGIC :: u16 where [wire_simps]: "HEADER_MAGIC = 0xA5C3"
definition FLAG_HAS_TIMESTAMP :: u8 where [wire_simps]: "FLAG_HAS_TIMESTAMP = 0x80"
definition FLAG_FRAGMENTED :: u8 where [wire_simps]: "FLAG_FRAGMENTED = 0x40"
definition FLAG_SERIALIZED :: u8 where [wire_simps]: "FLAG_SERIALIZED = 0x20"
definition FLAG_HAS_CHECKSUM :: u8 where [wire_simps]: "FLAG_HAS_CHECKSUM = 0x10"
definition FLAG_COMPRESSED :: u8 where [wire_simps]: "FLAG_COMPRESSED = 0x08"
definition FLAG_VERSION_MASK :: u8 where [wire_simps]: "FLAG_VERSION_MASK = 0x07"

record MessageOptions =
  has_timestamp :: bool
  fragmented :: bool
  serialized :: bool
  has_checksum :: bool
  compressed :: bool
  version :: u8

definition to_flags :: "MessageOptions \<Rightarrow> u8" where
  "to_flags opts =
     (let flags = 0;
          flags = (if has_timestamp opts then flags OR FLAG_HAS_TIMESTAMP else flags);
          flags = (if fragmented opts then flags OR FLAG_FRAGMENTED else flags);
          flags = (if serialized opts then flags OR FLAG_SERIALIZED else flags);
          flags = (if has_checksum opts then flags OR FLAG_HAS_CHECKSUM else flags);
          flags = (if compressed opts then flags OR FLAG_COMPRESSED else flags)
      in flags OR (version opts AND FLAG_VERSION_MASK))"

definition MessageOptions_of_flags :: "u8 \<Rightarrow> MessageOptions" where
  "MessageOptions_of_flags flags =
     \<lparr>has_timestamp = (flags AND FLAG_HAS_TIMESTAMP \<noteq> 0),
      fragmented = (flags AND FLAG_FRAGMENTED \<noteq> 0),
      serialized = (flags AND FLAG_SERIALIZED \<noteq> 0),
      has_checksum = (flags AND FLAG_HAS_CHECKSUM \<noteq> 0),
      compressed = (flags AND FLAG_COMPRESSED \<noteq> 0),
      version = flags AND FLAG_VERSION_MASK\<rparr>"

definition create_header :: "u8 list \<Rightarrow> u8 \<Rightarrow> u8 \<Rightarrow> u8 \<Rightarrow> u32 \<Rightarrow> u8 \<Rightarrow> u8 list" where
  "create_header topic type id_group identifier_in_group data_size flags =
     (let header = [ucast (drop_bit 8 HEADER_MAGIC), ucast (HEADER_MAGIC AND 0xFF)];
          header = header @ [flags AND 0xFF];
          header = header @ [type];
          header = header @ [id_group];
          header = header @ [identifier_in_group];
          header = header @ [ucast (drop_bit 24 data_size AND 0xFF)];
          header = header @ [ucast (drop_bit 16 data_size AND 0xFF)];
          header = header @ [ucast (drop_bit 8 data_size AND 0xFF)];
          header = header @ [ucast (data_size AND 0xFF)];
          topic_len = (of_nat (min (length topic) 255) :: u8);
          header = header @ [topic_len]
      in header @ take (unat topic_len) topic)"

definition create_header_with_options ::
  "u8 list \<Rightarrow> u8 \<Rightarrow> u8 \<Rightarrow> u8 \<Rightarrow> u32 \<Rightarrow> MessageOptions \<Rightarrow> u8 list" where
  "create_header_with_options topic type id_group identifier_in_group data_size options =
     create_header topic type id_group identifier_in_group data_size (to_flags options)"

definition create_header_in_buffer ::
  "u8 list \<Rightarrow> u8 list \<Rightarrow> u8 \<Rightarrow> u8 \<Rightarrow> u8 \<Rightarrow> u32 \<Rightarrow> MessageOptions \<Rightarrow> u8 list \<times> nat" where
  "create_header_in_buffer buffer topic type id_group identifier_in_group data_size options =
     (let buffer = [];
          buffer = buffer @ [ucast (drop_bit 8 HEADER_MAGIC)];
          buffer = buffer @ [ucast (HEADER_MAGIC AND 0xFF)];
          buffer = buffer @ [to_flags options];
          buffer = buffer @ [type];
          buffer = buffer @ [id_group];
          buffer = buffer @ [identifier_in_group];
          buffer = buffer @ [ucast (drop_bit 24 data_size AND 0xFF)];
          buffer = buffer @ [ucast (drop_bit 16 data_size AND 0xFF)];
          buffer = buffer @ [ucast (drop_bit 8 data_size AND 0xFF)];
          buffer = buffer @ [ucast (data_size AND 0xFF)];
          topic_len = (of_nat (min (length topic) 255) :: u8);
          buffer = buffer @ [topic_len];
          buffer = buffer @ take (unat topic_len) topic
      in (buffer, length buffer))"

section \<open>Byte order\<close>

lemma bits32_cases:
  assumes "(n::nat) < 32"
  obtains "n < 8" | "8 \<le> n" "n < 16" | "16 \<le> n" "n < 24" | "24 \<le> n" "n < 32"
  using assms by linarith

lemma mask_bits:
  "bit (0xFF :: int) n \<longleftrightarrow> n < 8"
  "bit (0xFF00 :: int) n \<longleftrightarrow> 8 \<le> n \<and> n < 16"
  "bit (0xFF0000 :: int) n \<longleftrightarrow> 16 \<le> n \<and> n < 24"
proof -
  have m: "(0xFF :: int) = mask 8" "(0xFF00 :: int) = push_bit 8 (mask 8)"
    "(0xFF0000 :: int) = push_bit 16 (mask 8)"
    by (simp_all add: mask_eq_exp_minus_1 push_bit_eq_mult)
  show "bit (0xFF :: int) n \<longleftrightarrow> n < 8"
    by (auto simp only: m bit_mask_iff) simp
  show "bit (0xFF00 :: int) n \<longleftrightarrow> 8 \<le> n \<and> n < 16"
    by (auto simp only: m bit_mask_iff bit_push_bit_iff) simp_all
  show "bit (0xFF0000 :: int) n \<longleftrightarrow> 16 \<le> n \<and> n < 24"
    by (auto simp only: m bit_mask_iff bit_push_bit_iff) simp_all
qed

lemmas byte_bits = bit_and_iff bit_or_iff bit_push_bit_iff bit_drop_bit_eq bit_unsigned_iff mask_bits
  possible_bit_word

lemma low_byte_mask: "(ucast ((x :: u32) AND 0xFF) :: u8) = ucast x"
  by (rule bit_word_eqI) (auto simp: byte_bits)

definition be16 :: "u8 \<Rightarrow> u8 \<Rightarrow> u16" where
  "be16 a b = push_bit 8 (ucast a) OR ucast b"

definition be32 :: "u8 \<Rightarrow> u8 \<Rightarrow> u8 \<Rightarrow> u8 \<Rightarrow> u32" where
  "be32 a b c d = push_bit 24 (ucast a) OR push_bit 16 (ucast b) OR push_bit 8 (ucast c) OR ucast d"

lemma ntohs_le: "ntohs (ucast a OR push_bit 8 (ucast b)) = be16 (a :: u8) (b :: u8)"
  unfolding ntohs_def be16_def
proof (rule bit_word_eqI)
  fix n assume n: "n < LENGTH(16)"
  then consider "n < 8" | "8 \<le> n" "n < 16" by fastforce
  then show "bit (push_bit 8 (ucast a OR push_bit 8 (ucast b)) OR drop_bit 8 (ucast a OR push_bit 8 (ucast b)) :: u16) n
    = bit (push_bit 8 (ucast a) OR ucast b :: u16) n"
    by cases (auto simp: bit_simps dest: bit_imp_le_length)
qed

lemma ntohl_le:
  "ntohl (ucast a OR push_bit 8 (ucast b) OR push_bit 16 (ucast c) OR push_bit 24 (ucast d))
     = be32 (a :: u8) (b :: u8) (c :: u8) (d :: u8)" (is "ntohl ?v = _")
proof (rule bit_word_eqI)
  fix n assume "n < LENGTH(32)"
  then have n: "n < 32" by simp
  show "bit (ntohl ?v) n = bit (be32 a b c d) n"
    by (rule bits32_cases [OF n])
      (auto simp: ntohl_def be32_def byte_bits dest: bit_imp_le_length)
qed

lemma be32_bytes:
  "be32 (ucast (drop_bit 24 x)) (ucast (drop_bit 16 x)) (ucast (drop_bit 8 x)) (ucast x) = (x :: u32)"
  (is "?v = x")
proof (rule bit_word_eqI)
  fix n assume "n < LENGTH(32)"
  then have n: "n < 32" by simp
  show "bit ?v n = bit x n"
    by (rule bits32_cases [OF n]) (auto simp: be32_def byte_bits)
qed

lemma be16_inject: "be16 a b = be16 c d \<longleftrightarrow> a = c \<and> b = d"
proof
  assume eq: "be16 a b = be16 c d"
  have low: "ucast (be16 x y) = y" for x y :: u8
    by (rule bit_word_eqI) (auto simp: be16_def bit_simps)
  have high: "ucast (drop_bit 8 (be16 x y)) = x" for x y :: u8
    by (rule bit_word_eqI) (auto simp: be16_def bit_simps dest: bit_imp_le_length)
  show "a = c \<and> b = d" using eq low high by metis
qed simp

lemma be16_magic: "be16 a b = EXPECTED_MAGIC_NUMBER \<longleftrightarrow> a = 0xA5 \<and> b = 0xC3"
proof -
  have "EXPECTED_MAGIC_NUMBER = be16 0xA5 0xC3" by (simp add: wire_simps be16_def)
  then show ?thesis unfolding be16_inject [symmetric] by simp
qed

section \<open>What a header says\<close>

text \<open>The header of a byte sequence, as a function of its bytes: the reference definition the
  guarded reads of \<open>parse_message_header\<close> are compared with.\<close>

definition header_of :: "u8 list \<Rightarrow> ParsedHeaderInfo option" where
  "header_of bs =
     (if length bs < 11 \<or> bs ! 0 \<noteq> 0xA5 \<or> bs ! 1 \<noteq> 0xC3 \<or> length bs < 11 + unat (bs ! 10) then None
      else Some \<lparr>routing_key = construct_routing_key (bs ! 4) (bs ! 5) (bs ! 3),
             total_message_length = 11 + unat (bs ! 10) + unat (be32 (bs ! 6) (bs ! 7) (bs ! 8) (bs ! 9)),
             payload_offset = 11 + unat (bs ! 10),
             payload_size = unat (be32 (bs ! 6) (bs ! 7) (bs ! 8) (bs ! 9))\<rparr>)"

lemma parse_eq_header_of:
  assumes n: "n \<le> length buf"
  shows "parse_message_header buf n = Some (header_of (take n buf))"
proof (cases "n < 11")
  case True
  with n show ?thesis by (simp add: parse_message_header_def header_of_def wire_simps)
next
  case False
  with n have len: "11 \<le> length buf" by simp
  have magic: "read_uint16_big_endian buf 0 = Some (be16 (buf ! 0) (buf ! 1))"
    using len by (simp add: read_uint16_big_endian_def mem_read_2 ntohs_le)
  have size: "read_uint32_big_endian buf 6 = Some (be32 (buf ! 6) (buf ! 7) (buf ! 8) (buf ! 9))"
    using len by (simp add: read_uint32_big_endian_def mem_read_4 ntohl_le)
  have small: "be16 (buf ! 0) (buf ! 1) \<noteq> EXPECTED_MAGIC_NUMBER \<longleftrightarrow> buf ! 0 \<noteq> 0xA5 \<or> buf ! 1 \<noteq> 0xC3"
    by (simp add: be16_magic)
  note [simp del] = EXPECTED_MAGIC_NUMBER_def
  show ?thesis
    using n False len magic size small
    by (simp add: parse_message_header_def header_of_def wire_simps(1-8) read_u8_def Let_def)
qed

lemma header_of_lengths:
  "header_of bs = Some h \<Longrightarrow> payload_offset h \<le> length bs \<and> 11 \<le> payload_offset h
     \<and> total_message_length h = payload_offset h + payload_size h"
  by (auto simp: header_of_def split: if_splits)

lemma header_of_append: "header_of bs = Some h \<Longrightarrow> header_of (bs @ cs) = Some h"
  by (auto simp: header_of_def nth_append split: if_splits)

lemma header_of_take:
  "header_of bs = Some h \<Longrightarrow> payload_offset h \<le> k \<Longrightarrow> header_of (take k bs) = Some h"
  by (auto simp: header_of_def split: if_splits)

lemma unat_of_nat_min_255: "unat (of_nat (min n 255) :: u8) = min n 255"
  by (simp add: unat_of_nat)

lemma create_header_bytes:
  "create_header topic type g i ds flags =
     [0xA5, 0xC3, flags, type, g, i, ucast (drop_bit 24 ds), ucast (drop_bit 16 ds), ucast (drop_bit 8 ds),
      ucast ds, of_nat (min (length topic) 255)] @ take (min (length topic) 255) topic"
proof -
  have "flags AND 0xFF = flags"
    by (rule bit_word_eqI) (simp add: byte_bits)
  then show ?thesis
    by (simp add: create_header_def Let_def low_byte_mask wire_simps unat_of_nat_min_255)
qed

lemma u8_mask: "(f :: u8) AND 0xFF = f"
  by (rule bit_word_eqI) (simp add: byte_bits)

lemma length_create_header: "length (create_header topic type g i ds flags) = 11 + min (length topic) 255"
  by (simp add: create_header_bytes)

lemma header_of_create_header:
  "header_of (create_header topic type g i ds flags @ rest) =
     Some \<lparr>routing_key = construct_routing_key g i type,
           total_message_length = 11 + min (length topic) 255 + unat ds,
           payload_offset = 11 + min (length topic) 255, payload_size = unat ds\<rparr>"
  by (simp add: create_header_bytes header_of_def be32_bytes unat_of_nat_min_255)

lemma construct_routing_key_eq:
  "construct_routing_key g i t = \<lparr>source_id = be16 g i, message_type = t\<rparr>"
  by (simp add: construct_routing_key_def be16_def)

section \<open>Flags\<close>

lemma flag_bits:
  "bit (0x80 :: int) n \<longleftrightarrow> n = 7" "bit (0x40 :: int) n \<longleftrightarrow> n = 6" "bit (0x20 :: int) n \<longleftrightarrow> n = 5"
  "bit (0x10 :: int) n \<longleftrightarrow> n = 4" "bit (0x08 :: int) n \<longleftrightarrow> n = 3" "bit (0x07 :: int) n \<longleftrightarrow> n < 3"
proof -
  have p: "(0x80 :: int) = 2 ^ 7" "(0x40 :: int) = 2 ^ 6" "(0x20 :: int) = 2 ^ 5" "(0x10 :: int) = 2 ^ 4"
    "(0x08 :: int) = 2 ^ 3" "(0x07 :: int) = mask 3"
    by (simp_all add: mask_eq_exp_minus_1)
  show "bit (0x80 :: int) n \<longleftrightarrow> n = 7" "bit (0x40 :: int) n \<longleftrightarrow> n = 6" "bit (0x20 :: int) n \<longleftrightarrow> n = 5"
    "bit (0x10 :: int) n \<longleftrightarrow> n = 4" "bit (0x08 :: int) n \<longleftrightarrow> n = 3" "bit (0x07 :: int) n \<longleftrightarrow> n < 3"
    unfolding p by (auto simp only: bit_exp_iff bit_mask_iff possible_bit_def) auto
qed

lemma to_flags_bit:
  "bit (to_flags opts) n \<longleftrightarrow>
     (n = 7 \<and> has_timestamp opts \<or> n = 6 \<and> fragmented opts \<or> n = 5 \<and> serialized opts
      \<or> n = 4 \<and> has_checksum opts \<or> n = 3 \<and> compressed opts \<or> n < 3 \<and> bit (version opts) n)"
proof -
  have or_flag: "bit (if b then f OR m else f) n \<longleftrightarrow> bit f n \<or> b \<and> bit m n" for b and f m :: u8
    by (simp add: bit_or_iff)
  have masks: "bit FLAG_HAS_TIMESTAMP n \<longleftrightarrow> n = 7" "bit FLAG_FRAGMENTED n \<longleftrightarrow> n = 6"
    "bit FLAG_SERIALIZED n \<longleftrightarrow> n = 5" "bit FLAG_HAS_CHECKSUM n \<longleftrightarrow> n = 4"
    "bit FLAG_COMPRESSED n \<longleftrightarrow> n = 3" "bit FLAG_VERSION_MASK n \<longleftrightarrow> n < 3"
    by (auto simp: wire_simps flag_bits)
  show ?thesis
    by (simp only: to_flags_def Let_def bit_or_iff or_flag bit_and_iff masks bit_0_eq bot_fun_def bot_bool_def) blast
qed

lemma and_flag_nonzero: "((f :: u8) AND m \<noteq> 0) \<longleftrightarrow> (\<exists>n < 8. bit f n \<and> bit m n)"
  by (auto simp: bit_eq_iff byte_bits dest: bit_imp_le_length)

lemma MessageOptions_of_flags_eq:
  "MessageOptions_of_flags f =
     \<lparr>has_timestamp = bit f 7, fragmented = bit f 6, serialized = bit f 5, has_checksum = bit f 4,
      compressed = bit f 3, version = f AND FLAG_VERSION_MASK\<rparr>"
  by (auto simp: MessageOptions_of_flags_def and_flag_nonzero wire_simps byte_bits flag_bits)

section \<open>Properties of the wire format\<close>

text \<open>Parsing a header never reads outside the buffer it was given, whatever the bytes are: for
  every allocation and every claimed size within it, \<open>parse_message_header\<close> returns, and its answer
  is the header of the first \<open>buffer_size\<close> bytes alone.\<close>

lemma parse_message_header_in_bounds:
  "n \<le> length buf \<Longrightarrow> parse_message_header buf n = Some (header_of (take n buf))"
  by (rule parse_eq_header_of)

text \<open>C9: the header a gateway writes is the header the bridge reads. For every topic, message type,
  identity, payload size and flags, and whatever follows the header in the stream, the bridge finds
  the sender's identity and type as its routing key, the payload right after the (at most 255 byte)
  topic, and the payload size unchanged.\<close>

theorem parse_create_header_roundtrip:
  "let hdr = create_header topic type g i data_size flags; bytes = hdr @ rest in
   parse_message_header bytes (length bytes) =
     Some (Some \<lparr>routing_key = construct_routing_key g i type,
                 total_message_length = length hdr + unat data_size,
                 payload_offset = length hdr, payload_size = unat data_size\<rparr>)"
  by (simp add: parse_eq_header_of header_of_create_header length_create_header Let_def)

text \<open>C31: the three ways a gateway has to build a header agree: the pre-allocated buffer version
  returns exactly the bytes of the allocating versions, whatever the buffer held, and reports
  their number.\<close>

theorem create_header_in_buffer_equiv:
  "create_header_in_buffer buffer topic type g i data_size options =
     (create_header_with_options topic type g i data_size options,
      length (create_header topic type g i data_size (to_flags options)))"
  by (simp add: create_header_in_buffer_def create_header_with_options_def create_header_def Let_def u8_mask)

text \<open>No two (group, id, message type) triples share a routing key, so a route set up for one
  sender never captures the traffic of another.\<close>

lemma construct_routing_key_inject:
  "construct_routing_key g i t = construct_routing_key g' i' t' \<longleftrightarrow> g = g' \<and> i = i' \<and> t = t'"
  by (auto simp: construct_routing_key_eq be16_inject)

text \<open>The flags byte and \<open>MessageOptions\<close> carry the same information: every byte survives the
  trip through the options, and options survive the trip through a byte up to the masking of the
  version to its three bits.\<close>

lemma message_options_roundtrip:
  "to_flags (MessageOptions_of_flags f) = f \<and>
   MessageOptions_of_flags (to_flags opts) = opts\<lparr>version := version opts AND FLAG_VERSION_MASK\<rparr>"
proof
  show "to_flags (MessageOptions_of_flags f) = f"
  proof (rule bit_word_eqI)
    fix n assume "n < LENGTH(8)"
    then have "n < 3 \<or> n = 3 \<or> n = 4 \<or> n = 5 \<or> n = 6 \<or> n = 7" by auto
    then show "bit (to_flags (MessageOptions_of_flags f)) n = bit f n"
      by (auto simp: to_flags_bit MessageOptions_of_flags_eq wire_simps byte_bits flag_bits)
  qed
  have "to_flags opts AND FLAG_VERSION_MASK = version opts AND FLAG_VERSION_MASK"
    by (rule bit_word_eqI) (auto simp: to_flags_bit wire_simps byte_bits flag_bits)
  then show "MessageOptions_of_flags (to_flags opts) = opts\<lparr>version := version opts AND FLAG_VERSION_MASK\<rparr>"
    by (simp add: MessageOptions_of_flags_eq to_flags_bit)
qed

end
