(* ===== verification/Routing_Table.thy ===== *)
theory Routing_Table
  imports Wire_Header
begin

text \<open>
  The routing table of the bridge (bridge/src/RoutingTable.hpp, RoutingTable.cpp). A destination is
  a \<open>std::shared_ptr\<close> to a message queue: \<open>Some q\<close> for the queue with identity \<open>q\<close>, \<open>None\<close> for
  the null pointer. The operations run under the table's lock, so each is one atomic step.
  The locale \<open>router\<close> is the contract the bridge control plane and the data plane handlers rely on.
\<close>

type_synonym queue_ref = "nat option"

record RoutingTable =
  actual_map :: "(RoutingKey, queue_ref list) amap"
  max_expected_routes_config :: nat

definition RoutingTable_init :: "nat \<Rightarrow> RoutingTable" where
  "RoutingTable_init max_expected_routes = \<lparr>actual_map = [], max_expected_routes_config = max_expected_routes\<rparr>"

definition get_destinations :: "RoutingTable \<Rightarrow> RoutingKey \<Rightarrow> queue_ref list" where
  "get_destinations rt key = (case aget (actual_map rt) key of Some qs \<Rightarrow> qs | None \<Rightarrow> [])"

definition add_route :: "RoutingKey \<Rightarrow> queue_ref \<Rightarrow> RoutingTable \<Rightarrow> RoutingTable" where
  "add_route key destination_queue rt =
     (if destination_queue = None then rt
      else rt\<lparr>actual_map := aput key (get_destinations rt key @ [destination_queue]) (actual_map rt)\<rparr>)"

definition remove_routes_for_key :: "RoutingKey \<Rightarrow> RoutingTable \<Rightarrow> RoutingTable" where
  "remove_routes_for_key key rt =
     (case aget (actual_map rt) key of
        Some _ \<Rightarrow> rt\<lparr>actual_map := aerase key (actual_map rt)\<rparr>
      | None \<Rightarrow> rt)"

text \<open>Well-formedness: one entry per key, no empty destination list, no null destination.\<close>

definition routing_wf :: "RoutingTable \<Rightarrow> bool" where
  "routing_wf rt \<longleftrightarrow> awf (actual_map rt)
     \<and> list_all (\<lambda>(k, qs). qs \<noteq> [] \<and> None \<notin> set qs) (actual_map rt)"

section \<open>The contract of a router\<close>

locale router =
  fixes dests :: "'t \<Rightarrow> 'k \<Rightarrow> queue_ref list"
    and add :: "'k \<Rightarrow> queue_ref \<Rightarrow> 't \<Rightarrow> 't"
    and remove :: "'k \<Rightarrow> 't \<Rightarrow> 't"
    and ok :: "'t \<Rightarrow> bool"
  assumes dests_add: "dests (add k (Some q) t) j = (if j = k then dests t k @ [Some q] else dests t j)"
    and add_null: "add k None t = t"
    and dests_remove: "dests (remove k t) j = (if j = k then [] else dests t j)"
    and ok_add: "ok t \<Longrightarrow> ok (add k r t)"
    and ok_remove: "ok t \<Longrightarrow> ok (remove k t)"
    and dests_valid: "ok t \<Longrightarrow> None \<notin> set (dests t k)"
begin

lemma dests_fold_add:
  "dests (fold (\<lambda>x. add (f x) (Some q)) xs t) j
     = dests t j @ replicate (length (filter (\<lambda>x. f x = j) xs)) (Some q)"
proof (induction xs arbitrary: t)
  case (Cons x xs)
  then show ?case by (cases "f x = j") (simp_all add: dests_add)
qed simp

lemma dests_fold_remove:
  "dests (fold (\<lambda>x. remove (f x)) xs t) j = (if j \<in> f ` set xs then [] else dests t j)"
  by (induction xs arbitrary: t) (auto simp: dests_remove)

lemma ok_fold_add: "ok t \<Longrightarrow> ok (fold (\<lambda>x. add (f x) r) xs t)"
  by (induction xs arbitrary: t) (simp_all add: ok_add)

lemma ok_fold_remove: "ok t \<Longrightarrow> ok (fold (\<lambda>x. remove (f x)) xs t)"
  by (induction xs arbitrary: t) (simp_all add: ok_remove)

lemma remove_after_add:
  assumes "\<forall>j. j \<in> f ` set xs \<longrightarrow> dests t j = []"
  shows "dests (fold (\<lambda>x. remove (f x)) xs (fold (\<lambda>x. add (f x) (Some q)) xs t)) j = dests t j"
proof (cases "j \<in> f ` set xs")
  case True
  with assms show ?thesis by (simp add: dests_fold_remove)
next
  case False
  then have "filter (\<lambda>x. f x = j) xs = []" by (auto simp: filter_empty_conv)
  with False show ?thesis by (simp add: dests_fold_remove dests_fold_add)
qed

end

lemma get_destinations_add [simp]:
  "get_destinations (add_route k r rt) j
     = (if j = k \<and> r \<noteq> None then get_destinations rt k @ [r] else get_destinations rt j)"
  by (cases r) (auto simp: add_route_def get_destinations_def)

lemma get_destinations_remove [simp]:
  "get_destinations (remove_routes_for_key k rt) j = (if j = k then [] else get_destinations rt j)"
  by (auto simp: remove_routes_for_key_def get_destinations_def split: option.splits)

lemma routing_wf_get:
  "routing_wf rt \<Longrightarrow> aget (actual_map rt) k = Some qs \<Longrightarrow> qs \<noteq> [] \<and> None \<notin> set qs"
  by (auto simp: routing_wf_def list_all_iff dest!: map_of_SomeD)

lemma list_all_aput:
  "list_all P m \<Longrightarrow> P (k, v) \<Longrightarrow> list_all P (aput k v m)"
  by (induction m) (auto split: if_splits)

lemma list_all_aerase: "list_all P m \<Longrightarrow> list_all P (aerase k m)"
  by (simp add: list_all_iff AList.delete_eq)

lemma routing_wf_no_null: "routing_wf rt \<Longrightarrow> None \<notin> set (get_destinations rt k)"
  using routing_wf_get [of rt k] by (cases "aget (actual_map rt) k") (simp_all add: get_destinations_def)

lemma routing_wf_add: "routing_wf rt \<Longrightarrow> routing_wf (add_route k r rt)"
  using routing_wf_no_null [of rt k]
  by (cases r) (simp_all add: routing_wf_def add_route_def list_all_aput)

lemma routing_wf_remove: "routing_wf rt \<Longrightarrow> routing_wf (remove_routes_for_key k rt)"
  by (cases "aget (actual_map rt) k") (simp_all add: routing_wf_def remove_routes_for_key_def list_all_aerase)

interpretation table: router get_destinations add_route remove_routes_for_key routing_wf
proof
  show "add_route k None t = t" for k t by (simp add: add_route_def)
qed (simp_all add: routing_wf_add routing_wf_remove routing_wf_no_null)

section \<open>Properties of the routing table\<close>

text \<open>A well-formed routing table stays well formed under every operation and never hands out a
  null queue: the pointer checks of the forwarding loop are never needed.\<close>

lemma routing_table_invariant:
  "routing_wf rt \<Longrightarrow>
     routing_wf (add_route k r rt) \<and> routing_wf (remove_routes_for_key k rt)
     \<and> None \<notin> set (get_destinations rt k)"
  by (simp add: table.ok_add table.ok_remove table.dests_valid)

text \<open>Routes are multicast and are dropped as a whole. Adding the same destination for a list of
  message types appends it once per occurrence and touches no other key; removing the list of keys
  again leaves the table as it was, provided the keys had no destination before.\<close>

lemma routes_add_then_remove:
  "get_destinations (fold (\<lambda>t. add_route (f t) (Some q)) types rt) j
     = get_destinations rt j @ replicate (length (filter (\<lambda>t. f t = j) types)) (Some q)
   \<and> ((\<forall>k. k \<in> f ` set types \<longrightarrow> get_destinations rt k = []) \<longrightarrow>
        get_destinations (fold (\<lambda>t. remove_routes_for_key (f t)) types
          (fold (\<lambda>t. add_route (f t) (Some q)) types rt)) j = get_destinations rt j)"
  by (simp add: table.dests_fold_add table.remove_after_add)

end
