(* ===== verification/Framing.thy ===== *)
theory Framing
  imports Wire_Header
begin

text \<open>
  Cutting a byte stream into frames, as a specification: \<open>split_frames\<close> takes complete frames off the
  front as long as the header says how long the next one is, keeps an incomplete frame for later, and
  drops everything when at least eleven bytes are there and no header can be read from them. The
  locale \<open>framing\<close> holds what follows from the laws of a length-prefixed header alone; its
  interpretation is the data plane header.
\<close>

definition frame_len :: "u8 list \<Rightarrow> nat option" where
  "frame_len bs = map_option total_message_length (header_of bs)"

function split_frames :: "u8 list \<Rightarrow> u8 list list \<times> u8 list" where
  "split_frames bs =
     (case frame_len bs of
        None \<Rightarrow> ([], if length bs < 11 then bs else [])
      | Some n \<Rightarrow> if n \<le> length bs
                  then (take n bs # fst (split_frames (drop n bs)), snd (split_frames (drop n bs)))
                  else ([], bs))"
  by pat_completeness auto
termination
  by (relation "measure length") (auto simp: frame_len_def dest!: header_of_lengths)

declare split_frames.simps [simp del]

definition complete_frame :: "('a list \<Rightarrow> nat option) \<Rightarrow> 'a list \<Rightarrow> bool" where
  "complete_frame fl f \<longleftrightarrow> fl f = Some (length f)"

definition waiting_tail :: "('a list \<Rightarrow> nat option) \<Rightarrow> nat \<Rightarrow> 'a list \<Rightarrow> bool" where
  "waiting_tail fl m t \<longleftrightarrow> length t < m \<or> (case fl t of Some n \<Rightarrow> length t < n | None \<Rightarrow> False)"

locale framing =
  fixes flen :: "'a list \<Rightarrow> nat option"
    and hmin :: nat
    and split :: "'a list \<Rightarrow> 'a list list \<times> 'a list"
  assumes split_eq: "split bs =
     (case flen bs of
        None \<Rightarrow> ([], if length bs < hmin then bs else [])
      | Some n \<Rightarrow> if n \<le> length bs
                  then (take n bs # fst (split (drop n bs)), snd (split (drop n bs)))
                  else ([], bs))"
    and flen_append: "flen bs = Some n \<Longrightarrow> flen (bs @ cs) = Some n"
    and flen_min: "flen bs = Some n \<Longrightarrow> hmin \<le> n \<and> hmin \<le> length bs"
    and hmin_pos: "0 < hmin"
begin

lemma waiting_Nil: "waiting_tail flen hmin []"
  using hmin_pos by (simp add: waiting_tail_def)

lemma split_waiting: "waiting_tail flen hmin t \<Longrightarrow> split t = ([], t)"
  using flen_min [of t] by (subst split_eq) (auto simp: waiting_tail_def split: option.splits)

lemma split_Cons_frame: "complete_frame flen f \<Longrightarrow>
    split (f @ bs) = (f # fst (split bs), snd (split bs))"
  using flen_append [of f "length f" bs] by (subst split_eq) (simp add: complete_frame_def)

lemma split_concat:
  "\<forall>f \<in> set fs. complete_frame flen f \<Longrightarrow> waiting_tail flen hmin t \<Longrightarrow> split (concat fs @ t) = (fs, t)"
  by (induction fs) (simp_all add: split_waiting split_Cons_frame)

lemma split_tail_waiting: "waiting_tail flen hmin (snd (split bs))"
proof (induction bs rule: length_induct)
  case (1 bs)
  show ?case
  proof (cases "flen bs")
    case None
    then show ?thesis
      using hmin_pos by (subst split_eq) (simp add: waiting_tail_def)
  next
    case (Some n)
    have pos: "0 < n" "0 < length bs" using flen_min [OF Some] hmin_pos by linarith+
    show ?thesis
    proof (cases "n \<le> length bs")
      case True
      with pos have "length (drop n bs) < length bs" by simp
      with "1.IH" have "waiting_tail flen hmin (snd (split (drop n bs)))" by blast
      with Some True show ?thesis by (subst split_eq) simp
    next
      case False
      with Some show ?thesis by (subst split_eq) (simp add: waiting_tail_def)
    qed
  qed
qed

lemma split_incremental:
  assumes "concat (fst (split a)) @ snd (split a) = a"
  shows "split (a @ b) = (fst (split a) @ fst (split (snd (split a) @ b)), snd (split (snd (split a) @ b)))"
  using assms
proof (induction a rule: length_induct)
  case (1 a)
  show ?case
  proof (cases "flen a")
    case None
    then have "split a = ([], if length a < hmin then a else [])" by (subst split_eq) simp
    with "1.prems" have "split a = ([], a)" by auto
    then show ?thesis by simp
  next
    case (Some n)
    have n: "0 < n" using flen_min [OF Some] hmin_pos by simp
    show ?thesis
    proof (cases "n \<le> length a")
      case False
      with Some have "split a = ([], a)" by (subst split_eq) simp
      then show ?thesis by simp
    next
      case True
      let ?d = "drop n a"
      have sa: "split a = (take n a # fst (split ?d), snd (split ?d))"
        using Some True by (subst split_eq) simp
      have "take n a @ (concat (fst (split ?d)) @ snd (split ?d)) = take n a @ ?d"
        using "1.prems" sa by simp
      then have keep: "concat (fst (split ?d)) @ snd (split ?d) = ?d" by (simp only: same_append_eq)
      have shorter: "length ?d < length a" using n True by simp
      have rest: "split (?d @ b) = (fst (split ?d) @ fst (split (snd (split ?d) @ b)), snd (split (snd (split ?d) @ b)))"
        using "1.IH" shorter keep by blast
      have "split (a @ b) = (take n a # fst (split (?d @ b)), snd (split (?d @ b)))"
        using flen_append [OF Some, of b] True by (subst split_eq) simp
      with rest sa show ?thesis by simp
    qed
  qed
qed

end

lemma frame_len_append: "frame_len bs = Some n \<Longrightarrow> frame_len (bs @ cs) = Some n"
  by (auto simp: frame_len_def header_of_append)

lemma frame_len_min: "frame_len bs = Some n \<Longrightarrow> 11 \<le> n \<and> 11 \<le> length bs"
  by (auto simp: frame_len_def dest!: header_of_lengths)

interpretation dp: framing frame_len 11 split_frames
  by unfold_locales
    (simp_all add: split_frames.simps frame_len_append frame_len_min)

text \<open>A frame as a gateway sends it: header, then payload.\<close>

definition make_frame :: "u8 list \<Rightarrow> u8 \<Rightarrow> u8 \<Rightarrow> u8 \<Rightarrow> u8 \<Rightarrow> u8 list \<Rightarrow> u8 list" where
  "make_frame topic type g i flags payload =
     create_header topic type g i (of_nat (length payload)) flags @ payload"

lemma make_frame_complete:
  "length payload < 2 ^ 32 \<Longrightarrow> complete_frame frame_len (make_frame topic type g i flags payload)"
  by (simp add: complete_frame_def make_frame_def frame_len_def header_of_create_header
      length_create_header unat_of_nat)

text \<open>The bytes between the fixed part of the header and the end of the topic name: a frame cut there
  has eleven bytes or more but no readable header yet.\<close>

lemma cut_in_topic:
  assumes "length payload < 2 ^ 32" "11 \<le> k" "k < 11 + min (length topic) 255"
  shows "header_of (take k (make_frame topic type g i flags payload)) = None"
proof -
  have "(make_frame topic type g i flags payload) ! 10 = of_nat (min (length topic) 255)"
    by (simp add: make_frame_def create_header_bytes)
  moreover have "length (take k (make_frame topic type g i flags payload)) = k"
    using assms by (simp add: make_frame_def length_create_header)
  ultimately show ?thesis
    using assms by (simp add: header_of_def unat_of_nat_min_255)
qed

end
