(* ===== verification/Tcp_Client.thy ===== *)
theory Tcp_Client
  imports Prelude
begin

text \<open>
  \<open>TcpClientTransport\<close> of cpplib/transport (src/tcp_client_transport.cpp). The operating system is the
  environment: what \<open>socket\<close>, \<open>inet_pton\<close>, \<open>connect\<close>, \<open>send\<close>, \<open>recv\<close> and \<open>select\<close> answer is an
  argument of the operation that calls them, in call order. A call that still waits for an answer
  when the answers run out has not returned: its result is \<open>None\<close>. Log output is not modelled.
\<close>

record TcpClientTransport =
  tc_host :: string
  tc_port :: int
  tc_max_retries :: int
  tc_socket_fd :: int
  tc_connected :: bool

definition TcpClientTransport_init :: "string \<Rightarrow> int \<Rightarrow> int \<Rightarrow> TcpClientTransport" where
  "TcpClientTransport_init host port max_retries =
     \<lparr>tc_host = host, tc_port = port, tc_max_retries = max_retries, tc_socket_fd = -1, tc_connected = False\<rparr>"

text \<open>One attempt to open a connection: the descriptor \<open>socket\<close> returned, whether \<open>inet_pton\<close>
  accepted the address, whether \<open>connect\<close> succeeded.\<close>

record connect_answer =
  ca_socket :: int
  ca_inet_pton :: bool
  ca_connect :: bool

definition tc_is_connected :: "TcpClientTransport \<Rightarrow> bool" where
  "tc_is_connected c \<longleftrightarrow> tc_connected c \<and> tc_socket_fd c \<ge> 0"

definition tc_disconnect :: "TcpClientTransport \<Rightarrow> TcpClientTransport" where
  "tc_disconnect c = (if tc_socket_fd c \<ge> 0 then c\<lparr>tc_socket_fd := -1, tc_connected := False\<rparr> else c)"

definition tc_connect :: "TcpClientTransport \<Rightarrow> connect_answer \<Rightarrow> bool \<times> TcpClientTransport" where
  "tc_connect c a =
     (let c = (if tc_socket_fd c \<ge> 0 then c\<lparr>tc_socket_fd := -1, tc_connected := False\<rparr> else c);
          c = c\<lparr>tc_socket_fd := ca_socket a\<rparr>
      in if ca_socket a < 0 then (False, c\<lparr>tc_connected := False\<rparr>)
         else if \<not> ca_inet_pton a then (False, c\<lparr>tc_socket_fd := -1, tc_connected := False\<rparr>)
         else if \<not> ca_connect a then (False, c\<lparr>tc_socket_fd := -1, tc_connected := False\<rparr>)
         else (True, c\<lparr>tc_connected := True\<rparr>))"

section \<open>Sending\<close>

datatype send_answer = Sent nat | SendWouldBlock | SendError

text \<open>The \<open>while (remaining > 0)\<close> loop on an open socket: whether it got through, the bytes the
  kernel took, the bytes left, the unused answers. The exception of the error branches is the
  value \<open>False\<close>. The kernel takes at most what it is offered.\<close>

fun send_loop :: "u8 list \<Rightarrow> send_answer list \<Rightarrow> (bool \<times> u8 list \<times> u8 list \<times> send_answer list) option" where
  "send_loop [] as = Some (True, [], [], as)"
| "send_loop (b # bs) [] = None"
| "send_loop (b # bs) (SendWouldBlock # as) = send_loop (b # bs) as"
| "send_loop (b # bs) (SendError # as) = Some (False, [], b # bs, as)"
| "send_loop (b # bs) (Sent n # as) =
     (if n = 0 then Some (False, [], b # bs, as)
      else map_option (\<lambda>(ok, taken, rest, as'). (ok, take n (b # bs) @ taken, rest, as'))
             (send_loop (drop n (b # bs)) as))"

text \<open>\<open>send\<close> on a closed descriptor fails with \<open>EBADF\<close> whatever the network does.\<close>

definition send_attempt ::
  "TcpClientTransport \<Rightarrow> u8 list \<Rightarrow> send_answer list \<Rightarrow> (bool \<times> u8 list \<times> u8 list \<times> send_answer list) option" where
  "send_attempt c rest as =
     (if rest \<noteq> [] \<and> tc_socket_fd c < 0 then Some (False, [], rest, as) else send_loop rest as)"

text \<open>The retry loop: the result, the transport, and the bytes of this message the kernel took on
  the connection that is open at the end.\<close>

function send_retries ::
  "int \<Rightarrow> u8 list \<Rightarrow> int \<Rightarrow> u8 list \<Rightarrow> TcpClientTransport \<Rightarrow> send_answer list \<Rightarrow> connect_answer list \<Rightarrow>
   (bool \<times> TcpClientTransport \<times> u8 list) option" where
  "send_retries max_retries data retry rest c as cs =
     (if retry > max_retries then Some (False, c, [])
      else (case send_attempt c rest as of
         None \<Rightarrow> None
       | Some (True, taken, _, _) \<Rightarrow> Some (True, c, taken)
       | Some (False, _, rest', as') \<Rightarrow>
           (let c = tc_disconnect c in
            if retry < max_retries then
              (case cs of
                 [] \<Rightarrow> None
               | a # cs' \<Rightarrow>
                   (case tc_connect c a of
                      (False, c) \<Rightarrow>
                        if retry = max_retries - 1 then Some (False, c, [])
                        else send_retries max_retries data (retry + 1) rest' c as' cs'
                    | (True, c) \<Rightarrow> send_retries max_retries data (retry + 1) data c as' cs'))
            else Some (False, c, []))))"
  by pat_completeness auto
termination
  by (relation "measure (\<lambda>(m, data, retry, _). nat (m - retry))") auto

declare send_retries.simps [simp del]

definition tc_send_data ::
  "TcpClientTransport \<Rightarrow> u8 list \<Rightarrow> send_answer list \<Rightarrow> connect_answer list \<Rightarrow>
   (bool \<times> TcpClientTransport \<times> u8 list) option" where
  "tc_send_data c data as cs =
     (if \<not> tc_connected c \<or> tc_socket_fd c < 0 then Some (False, c, [])
      else send_retries (tc_max_retries c) data 0 data c as cs)"

section \<open>Receiving\<close>

datatype select_answer = SelectReady | SelectTimeout | SelectInterrupted | SelectBadFd | SelectError

definition tc_data_available :: "TcpClientTransport \<Rightarrow> select_answer \<Rightarrow> bool \<times> TcpClientTransport" where
  "tc_data_available c a =
     (if \<not> tc_is_connected c then (False, c)
      else (case a of
         SelectReady \<Rightarrow> (True, c)
       | SelectTimeout \<Rightarrow> (False, c)
       | SelectInterrupted \<Rightarrow> (False, c)
       | SelectBadFd \<Rightarrow> (False, tc_disconnect c)
       | SelectError \<Rightarrow> (False, c)))"

datatype recv_answer = Received "u8 list" | RecvClosed | RecvWouldBlock | RecvError

text \<open>\<open>receive_data\<close>: the returned count and the bytes stored at the start of the buffer. The kernel
  stores at most \<open>max_size\<close> bytes, and \<open>recv\<close> returning 0 means the peer closed.\<close>

definition tc_receive_data ::
  "TcpClientTransport \<Rightarrow> nat \<Rightarrow> recv_answer \<Rightarrow> int \<times> u8 list \<times> TcpClientTransport" where
  "tc_receive_data c max_size a =
     (if \<not> tc_is_connected c then (-1, [], c)
      else (case a of
         RecvWouldBlock \<Rightarrow> (0, [], c)
       | RecvError \<Rightarrow> (-1, [], tc_disconnect c)
       | RecvClosed \<Rightarrow> (-1, [], tc_disconnect c)
       | Received bs \<Rightarrow>
           if take max_size bs = [] then (-1, [], tc_disconnect c)
           else (int (length (take max_size bs)), take max_size bs, c)))"

text \<open>The loop of \<open>receive_exact\<close>: up to 50 consecutive would-block answers are waited out.\<close>

fun recv_exact_loop ::
  "nat \<Rightarrow> u8 list \<Rightarrow> nat \<Rightarrow> TcpClientTransport \<Rightarrow> recv_answer list \<Rightarrow>
   (bool \<times> u8 list \<times> TcpClientTransport \<times> recv_answer list) option" where
  "recv_exact_loop sz got attempts c [] =
     (if length got < sz then None else Some (True, got, c, []))"
| "recv_exact_loop sz got attempts c (a # as) =
     (if \<not> length got < sz then Some (True, got, c, a # as)
      else (case a of
         RecvWouldBlock \<Rightarrow>
           if attempts < 50 then recv_exact_loop sz got (attempts + 1) c as
           else Some (False, got, c, as)
       | RecvError \<Rightarrow> Some (False, got, tc_disconnect c, as)
       | RecvClosed \<Rightarrow> Some (False, got, tc_disconnect c, as)
       | Received bs \<Rightarrow>
           if take (sz - length got) bs = [] then Some (False, got, tc_disconnect c, as)
           else recv_exact_loop sz (got @ take (sz - length got) bs) 0 c as))"

definition tc_receive_exact ::
  "TcpClientTransport \<Rightarrow> nat \<Rightarrow> recv_answer list \<Rightarrow>
   (bool \<times> u8 list \<times> TcpClientTransport \<times> recv_answer list) option" where
  "tc_receive_exact c sz as =
     (if \<not> tc_is_connected c then Some (False, [], c, as)
      else if sz = 0 then Some (True, [], c, as)
      else recv_exact_loop sz [] 0 c as)"

section \<open>The multi-client interface on a client\<close>

definition DEFAULT_CLIENT :: int where "DEFAULT_CLIENT = 0"

definition tc_send_to ::
  "TcpClientTransport \<Rightarrow> int \<Rightarrow> u8 list \<Rightarrow> send_answer list \<Rightarrow> connect_answer list \<Rightarrow>
   (bool \<times> TcpClientTransport \<times> u8 list) option" where
  "tc_send_to c client_id data as cs =
     (if client_id \<noteq> DEFAULT_CLIENT then Some (False, c, []) else tc_send_data c data as cs)"

definition tc_receive_from ::
  "TcpClientTransport \<Rightarrow> int \<Rightarrow> nat \<Rightarrow> recv_answer \<Rightarrow> int \<times> u8 list \<times> TcpClientTransport" where
  "tc_receive_from c client_id max_size a =
     (if client_id \<noteq> DEFAULT_CLIENT then (-1, [], c) else tc_receive_data c max_size a)"

definition tc_data_available_from ::
  "TcpClientTransport \<Rightarrow> int \<Rightarrow> select_answer \<Rightarrow> bool \<times> TcpClientTransport" where
  "tc_data_available_from c client_id a =
     (if client_id \<noteq> DEFAULT_CLIENT then (False, c) else tc_data_available c a)"

definition tc_broadcast ::
  "TcpClientTransport \<Rightarrow> u8 list \<Rightarrow> send_answer list \<Rightarrow> connect_answer list \<Rightarrow>
   (int \<times> TcpClientTransport \<times> u8 list) option" where
  "tc_broadcast c data as cs =
     map_option (\<lambda>(ok, c', w). ((if ok then 1 else 0), c', w)) (tc_send_data c data as cs)"

definition tc_get_client_ids :: "TcpClientTransport \<Rightarrow> int list" where
  "tc_get_client_ids c = (if tc_is_connected c then [DEFAULT_CLIENT] else [])"

definition tc_is_client_connected :: "TcpClientTransport \<Rightarrow> int \<Rightarrow> bool" where
  "tc_is_client_connected c client_id \<longleftrightarrow> client_id = DEFAULT_CLIENT \<and> tc_is_connected c"

definition tc_disconnect_client :: "TcpClientTransport \<Rightarrow> int \<Rightarrow> TcpClientTransport" where
  "tc_disconnect_client c client_id = (if client_id = DEFAULT_CLIENT then tc_disconnect c else c)"

text \<open>\<open>process_events\<close>: the result, the transport, and whether the data callback ran.\<close>

definition tc_process_events :: "TcpClientTransport \<Rightarrow> select_answer \<Rightarrow> bool \<Rightarrow> bool \<times> TcpClientTransport \<times> bool" where
  "tc_process_events c a has_callback =
     (if \<not> tc_is_connected c then (False, c, False)
      else (case tc_data_available c a of
         (True, c') \<Rightarrow> (True, c', has_callback)
       | (False, c') \<Rightarrow> (True, c', False)))"

section \<open>Connection invariant\<close>

text \<open>The connected flag is only set while a descriptor is open.\<close>

definition tc_wf :: "TcpClientTransport \<Rightarrow> bool" where
  "tc_wf c \<longleftrightarrow> (tc_connected c \<longrightarrow> tc_socket_fd c \<ge> 0)"

lemma tc_wf_init [simp]: "tc_wf (TcpClientTransport_init h p m)"
  by (simp add: tc_wf_def TcpClientTransport_init_def)

lemma tc_disconnect_wf [simp]: "tc_wf c \<Longrightarrow> tc_wf (tc_disconnect c)"
  by (auto simp add: tc_wf_def tc_disconnect_def)

lemma tc_disconnect_off: "tc_wf c \<Longrightarrow> \<not> tc_is_connected (tc_disconnect c)"
  by (auto simp: tc_wf_def tc_disconnect_def tc_is_connected_def)

lemma tc_connect_result: "tc_connect c a = (ok, c') \<Longrightarrow> tc_wf c' \<and> ok = tc_is_connected c'"
  by (auto simp: tc_connect_def tc_wf_def tc_is_connected_def Let_def split: if_splits)

lemma tc_connect_failed_fd: "tc_connect c a = (False, c') \<Longrightarrow> tc_socket_fd c' < 0"
  by (auto simp: tc_connect_def Let_def split: if_splits)

lemma tc_receive_data_wf: "tc_wf c \<Longrightarrow> tc_receive_data c n a = (r, bs, c') \<Longrightarrow> tc_wf c'"
  by (auto simp: tc_receive_data_def split: if_splits recv_answer.splits)

lemma tc_receive_data_count:
  "tc_receive_data c n a = (r, bs, c') \<Longrightarrow> 0 < r \<Longrightarrow> r = int (length bs) \<and> length bs \<le> n \<and> c' = c"
  by (auto simp: tc_receive_data_def split: if_splits recv_answer.splits)

lemma tc_data_available_wf: "tc_wf c \<Longrightarrow> tc_data_available c a = (r, c') \<Longrightarrow> tc_wf c'"
  by (auto simp: tc_data_available_def split: if_splits select_answer.splits)

lemma send_loop_taken:
  "send_loop rest as = Some (ok, taken, rest', as') \<Longrightarrow> taken @ rest' = rest \<and> (ok \<longrightarrow> rest' = [])
     \<and> (\<not> ok \<longrightarrow> rest' \<noteq> [])"
proof (induction rest as arbitrary: ok taken rest' as' rule: send_loop.induct)
  case (5 b bs n as)
  show ?case
  proof (cases "n = 0")
    case False
    with "5.prems" obtain t where t: "send_loop (drop n (b # bs)) as = Some (ok, t, rest', as')"
      and tk: "taken = take n (b # bs) @ t"
      by (auto split: if_splits)
    from "5.IH" [OF False t] tk show ?thesis by (metis append.assoc append_take_drop_id)
  qed (use "5.prems" in auto)
qed auto

lemma send_attempt_taken:
  "send_attempt c rest as = Some (ok, taken, rest', as') \<Longrightarrow> (ok \<longrightarrow> taken = rest)"
  by (auto simp: send_attempt_def dest: send_loop_taken split: if_splits)

lemma send_attempt_failed:
  "send_attempt c rest as = Some (False, taken, rest', as') \<Longrightarrow> rest' \<noteq> []"
  by (auto simp: send_attempt_def dest: send_loop_taken split: if_splits)

lemma send_attempt_closed:
  "tc_socket_fd c < 0 \<Longrightarrow> rest \<noteq> [] \<Longrightarrow> send_attempt c rest as \<noteq> Some (True, x)"
  by (simp add: send_attempt_def)

text \<open>Either the whole message is about to be sent, or no connection is open and none of it can be.\<close>

lemma send_retries_complete:
  "send_retries m data retry rest c as cs = Some (True, c', w) \<Longrightarrow>
     rest = data \<or> rest \<noteq> [] \<and> tc_socket_fd c < 0 \<Longrightarrow> w = data"
proof (induction "nat (m - retry)" arbitrary: retry rest c as cs rule: less_induct)
  case less
  note unfold = send_retries.simps [of m data retry rest c as cs]
  have le: "\<not> retry > m" using less.prems(1) by (auto simp: unfold)
  obtain ok taken rest' as' where att: "send_attempt c rest as = Some (ok, taken, rest', as')"
    using less.prems(1) le by (auto simp: unfold split: option.splits)
  show ?case
  proof (cases ok)
    case True
    with less.prems att le have "rest = data" and "w = taken"
      using send_attempt_closed [of c rest as] by (auto simp: unfold)
    with send_attempt_taken [OF att] True show ?thesis by simp
  next
    case False
    with att have failed: "send_attempt c rest as = Some (False, taken, rest', as')" by simp
    obtain a cs' ok2 c2 where lt: "retry < m" and cs: "cs = a # cs'"
      and con: "tc_connect (tc_disconnect c) a = (ok2, c2)"
      using less.prems(1) le failed
      by (auto simp: unfold Let_def split: if_splits list.splits prod.splits)
    have IH: "send_retries m data (retry + 1) r c2 as' cs' = Some (True, c', w) \<Longrightarrow>
        r = data \<or> r \<noteq> [] \<and> tc_socket_fd c2 < 0 \<Longrightarrow> w = data" for r
      by (rule less.hyps [of "retry + 1"]) (use lt in auto)
    have "send_retries m data (retry + 1) (if ok2 then data else rest') c2 as' cs' = Some (True, c', w)"
      using less.prems(1) [unfolded unfold] le failed lt cs con
      by (cases ok2) (auto simp: Let_def split: if_splits)
    moreover have "ok2 \<or> rest' \<noteq> [] \<and> tc_socket_fd c2 < 0"
      using send_attempt_failed [OF failed] tc_connect_failed_fd con by (cases ok2) auto
    ultimately show ?thesis using IH by (cases ok2) auto
  qed
qed

lemma recv_exact_loop_ok:
  "recv_exact_loop sz got k c as = Some (True, bs, c', as') \<Longrightarrow> length got \<le> sz \<Longrightarrow> length bs = sz \<and> c' = c"
proof (induction as arbitrary: got k)
  case (Cons a as)
  show ?case
  proof (cases "length got < sz")
    case True
    with Cons.prems show ?thesis
      by (cases a) (auto split: if_splits intro!: Cons.IH)
  qed (use Cons.prems in auto)
qed (auto split: if_splits)

section \<open>Properties of the client transport\<close>

text \<open>A send that reports success has put the whole message, from its first byte to its last and
  nothing else, on the connection that is open when it returns, whatever partial writes, stalls,
  errors and reconnections happened on the way.\<close>

lemma tc_send_data_complete:
  "tc_send_data c data as cs = Some (True, c', wire) \<Longrightarrow> wire = data"
  by (auto simp: tc_send_data_def dest: send_retries_complete split: if_splits)

text \<open>C13: \<open>receive_exact\<close> either fails or delivers exactly the requested number of bytes, and on
  success the connection is untouched.\<close>

lemma tc_receive_exact_size:
  "tc_receive_exact c n as = Some (True, bs, c', as') \<Longrightarrow> length bs = n \<and> c' = c"
  by (auto simp: tc_receive_exact_def dest: recv_exact_loop_ok split: if_splits)

end
