(* ===== verification/Transport_Handler.thy ===== *)
theory Transport_Handler
  imports Routing_Table Framing Tcp_Client
begin

text \<open>
  The data plane handler of the bridge (bridge/src/TransportHandler.hpp, TransportHandler.cpp): one
  object and one thread per gateway. It connects to the gateway, cuts the received byte stream into
  frames, hands every frame to the queues the routing table names, and sends what other handlers
  put in its own queue.

  The shared objects it talks to are arguments: the routing table it reads under lock for each
  frame, the answers of the operating system, what its message queue (a third-party
  concurrent queue) answers to \<open>try_dequeue\<close>, and what it observes of the atomic flag
  \<open>shutdown_requested_\<close> that \<open>stop\<close> sets from another thread. Its effects on other objects are
  results: the enqueue calls in order and the bytes sent. \<open>None\<close> as a result is an out-of-bounds
  access or a system call that has not returned. The observer notifications only log and are left out,
  as are sleeps.
\<close>

type_synonym enqueue_call = "queue_ref \<times> u8 list"

record TransportHandler =
  gateway_id :: string
  target_ip :: string
  target_port :: int
  input_queue :: queue_ref
  tcp_client :: TcpClientTransport
  receive_buffer :: "u8 list"
  receive_buffer_watermark :: nat
  handler_thread_joinable :: bool
  shutdown_requested :: bool
  connected_status :: bool
  connect_max_retries :: int
  connect_retry_delay_ms :: int
  MAX_RECEIVE_BUFFER_SIZE :: nat
  minimum_sleep_time_us :: int
  max_connect_cycles :: int
  failed_connect_cycles :: int

datatype th_error =
    NullInputQueue | NullRoutingTable | EmptyGatewayId | EmptyTargetIp | InvalidTargetPort | ZeroBufferSize

definition TransportHandler_init ::
  "string \<Rightarrow> string \<Rightarrow> int \<Rightarrow> queue_ref \<Rightarrow> bool \<Rightarrow> int \<Rightarrow> int \<Rightarrow> nat \<Rightarrow> int \<Rightarrow> int \<Rightarrow> th_error + TransportHandler" where
  "TransportHandler_init gw ip port queue table_present max_retries delay bufsize sleep_us cycles =
     (if queue = None then Inl NullInputQueue
      else if \<not> table_present then Inl NullRoutingTable
      else if gw = [] then Inl EmptyGatewayId
      else if ip = [] then Inl EmptyTargetIp
      else if port \<le> 0 \<or> port > 65535 then Inl InvalidTargetPort
      else if bufsize = 0 then Inl ZeroBufferSize
      else Inr \<lparr>gateway_id = gw, target_ip = ip, target_port = port, input_queue = queue,
                tcp_client = TcpClientTransport_init ip port max_retries,
                receive_buffer = replicate bufsize 0, receive_buffer_watermark = 0,
                handler_thread_joinable = False, shutdown_requested = False, connected_status = False,
                connect_max_retries = max_retries, connect_retry_delay_ms = delay,
                MAX_RECEIVE_BUFFER_SIZE = bufsize, minimum_sleep_time_us = sleep_us,
                max_connect_cycles = cycles, failed_connect_cycles = 0\<rparr>)"

definition th_start :: "TransportHandler \<Rightarrow> TransportHandler" where
  "th_start h =
     (if handler_thread_joinable h then h
      else h\<lparr>shutdown_requested := False, connected_status := False, handler_thread_joinable := True\<rparr>)"

definition th_stop :: "TransportHandler \<Rightarrow> TransportHandler" where
  "th_stop h =
     (let h = h\<lparr>shutdown_requested := True\<rparr>;
          h = (if tc_is_connected (tcp_client h) then h\<lparr>tcp_client := tc_disconnect (tcp_client h)\<rparr> else h);
          h = (if handler_thread_joinable h then h\<lparr>handler_thread_joinable := False\<rparr> else h)
      in h\<lparr>connected_status := False\<rparr>)"

section \<open>Incoming data\<close>

text \<open>The destinations of one frame, null queues skipped.\<close>

definition route_frame :: "RoutingTable \<Rightarrow> RoutingKey \<Rightarrow> u8 list \<Rightarrow> enqueue_call list" where
  "route_frame rt key msg = map (\<lambda>q. (q, msg)) (filter (\<lambda>q. q \<noteq> None) (get_destinations rt key))"

lemma parse_total_ge: "parse_message_header buf n = Some (Some h) \<Longrightarrow> 11 \<le> total_message_length h"
  by (auto simp: parse_message_header_def wire_simps Let_def split: if_splits bind_splits)

text \<open>The \<open>memmove\<close> that drops the first \<open>len\<close> of \<open>wm\<close> valid bytes.\<close>

definition shift_down :: "nat \<Rightarrow> nat \<Rightarrow> u8 list \<Rightarrow> u8 list" where
  "shift_down len wm buf =
     (if wm > len then take (wm - len) (drop len buf) @ drop (wm - len) buf else buf)"

text \<open>The frame loop of \<open>handle_incoming_data\<close>. Iteration \<open>i\<close> observes the shutdown flag \<open>shut i\<close> and
  the routing table \<open>rts i\<close>.\<close>

function process_buffer ::
  "(nat \<Rightarrow> bool) \<Rightarrow> (nat \<Rightarrow> RoutingTable) \<Rightarrow> nat \<Rightarrow> u8 list \<Rightarrow> nat \<Rightarrow> (u8 list \<times> nat \<times> enqueue_call list) option" where
  "process_buffer shut rts i buf wm =
     (if shut i then Some (buf, wm, [])
      else if wm < MIN_HEADER_LEN_BEFORE_TOPIC_NAME then Some (buf, wm, [])
      else (case parse_message_header buf wm of
         None \<Rightarrow> None
       | Some None \<Rightarrow> Some (buf, 0, [])
       | Some (Some info) \<Rightarrow>
           (let len = total_message_length info in
            if wm \<ge> len then
              (case mem_read buf 0 len of
                 None \<Rightarrow> None
               | Some msg \<Rightarrow>
                   (let calls = route_frame (rts i) (routing_key info) msg
                    in map_option (\<lambda>(b, w, cs). (b, w, calls @ cs))
                         (process_buffer shut rts (Suc i) (shift_down len wm buf) (wm - len))))
            else Some (buf, wm, []))))"
  by pat_completeness auto
termination
  by (relation "measure (\<lambda>(shut, rts, i, buf, wm). wm)") (auto dest: parse_total_ge simp: wire_simps)

declare process_buffer.simps [simp del]

definition handle_incoming_data ::
  "TransportHandler \<Rightarrow> (nat \<Rightarrow> bool) \<Rightarrow> (nat \<Rightarrow> RoutingTable) \<Rightarrow> recv_answer \<Rightarrow>
   (TransportHandler \<times> enqueue_call list) option" where
  "handle_incoming_data h shut rts a =
     (if \<not> tc_is_connected (tcp_client h) then Some (h\<lparr>connected_status := False\<rparr>, [])
      else
        (let space = MAX_RECEIVE_BUFFER_SIZE h - receive_buffer_watermark h in
         if space = 0 then Some (h, [])
         else
           (case tc_receive_data (tcp_client h) space a of
              (n, bs, c) \<Rightarrow>
                (let h = h\<lparr>tcp_client := c\<rparr> in
                 if n > 0 then
                   (let wm = receive_buffer_watermark h;
                        buf = take wm (receive_buffer h) @ bs @ drop (wm + length bs) (receive_buffer h)
                    in map_option (\<lambda>(buf', wm', cs).
                            (h\<lparr>receive_buffer := buf', receive_buffer_watermark := wm'\<rparr>, cs))
                         (process_buffer shut rts 0 buf (wm + nat n)))
                 else Some (h\<lparr>connected_status := False, tcp_client := tc_disconnect c\<rparr>, [])))))"

section \<open>Outgoing messages\<close>

text \<open>The answer of \<open>try_dequeue\<close>: the queue is empty, it held a null pointer, or it held a message.\<close>

datatype dequeue_answer = QueueEmpty | DequeuedNull | Dequeued "u8 list"

text \<open>Result: whether a message was taken from the queue, the handler, and, for a message that was
  sent, its bytes on the wire.\<close>

definition handle_outgoing_messages ::
  "TransportHandler \<Rightarrow> dequeue_answer \<Rightarrow> send_answer list \<Rightarrow> connect_answer list \<Rightarrow>
   (bool \<times> TransportHandler \<times> u8 list option) option" where
  "handle_outgoing_messages h q as cs =
     (if \<not> tc_is_connected (tcp_client h) then Some (False, h, None)
      else (case q of
         QueueEmpty \<Rightarrow> Some (False, h, None)
       | DequeuedNull \<Rightarrow> Some (True, h, None)
       | Dequeued msg \<Rightarrow>
           if msg = [] then Some (True, h, None)
           else (case tc_send_data (tcp_client h) msg as cs of
              None \<Rightarrow> None
            | Some (True, c, wire) \<Rightarrow> Some (True, h\<lparr>tcp_client := c\<rparr>, Some wire)
            | Some (False, c, _) \<Rightarrow>
                Some (True, h\<lparr>connected_status := False, tcp_client := tc_disconnect c\<rparr>, None))))"

section \<open>Connecting and the thread loop\<close>

text \<open>The retry loop of \<open>attempt_connection\<close>; \<open>shut k\<close> is what retry \<open>k\<close> observes of the flag. The
  handshake step \<open>perform_handshake\<close> always succeeds.\<close>

definition perform_handshake :: "TransportHandler \<Rightarrow> bool" where
  "perform_handshake h = True"

fun attempt_connection_loop ::
  "int \<Rightarrow> int \<Rightarrow> (int \<Rightarrow> bool) \<Rightarrow> TransportHandler \<Rightarrow> connect_answer list \<Rightarrow> (bool \<times> TransportHandler) option" where
  "attempt_connection_loop max_retries current_retry shut h cs =
     (if current_retry < max_retries \<and> \<not> shut current_retry then
        (case cs of
           [] \<Rightarrow> None
         | a # cs' \<Rightarrow>
             (case tc_connect (tcp_client h) a of
                (True, c) \<Rightarrow>
                  (let h = h\<lparr>tcp_client := c\<rparr> in
                   if perform_handshake h then Some (True, h)
                   else Some (False, h\<lparr>tcp_client := tc_disconnect c\<rparr>))
              | (False, c) \<Rightarrow>
                  attempt_connection_loop max_retries (current_retry + 1) shut (h\<lparr>tcp_client := c\<rparr>) cs'))
      else Some (False, h))"

declare attempt_connection_loop.simps [simp del]

definition attempt_connection ::
  "TransportHandler \<Rightarrow> (int \<Rightarrow> bool) \<Rightarrow> connect_answer list \<Rightarrow> (bool \<times> TransportHandler) option" where
  "attempt_connection h shut cs = attempt_connection_loop (connect_max_retries h) 0 shut h cs"

text \<open>What one iteration of the thread loop observes of its environment.\<close>

record th_env =
  ev_attempt_shut :: "int \<Rightarrow> bool"
  ev_connects :: "connect_answer list"
  ev_io_shut :: bool
  ev_select :: select_answer
  ev_recv :: recv_answer
  ev_frame_shut :: "nat \<Rightarrow> bool"
  ev_tables :: "nat \<Rightarrow> RoutingTable"
  ev_dequeue :: dequeue_answer
  ev_sends :: "send_answer list"
  ev_reconnects :: "connect_answer list"

text \<open>What one iteration did besides changing the handler: whether the loop was left, the enqueue
  calls, whether a message was taken from the own queue, and the message sent.\<close>

record th_effect =
  ef_break :: bool
  ef_calls :: "enqueue_call list"
  ef_dequeued :: bool
  ef_sent :: "u8 list option"

definition no_effect :: th_effect where
  "no_effect = \<lparr>ef_break = False, ef_calls = [], ef_dequeued = False, ef_sent = None\<rparr>"

definition run_io :: "TransportHandler \<Rightarrow> th_env \<Rightarrow> (TransportHandler \<times> th_effect) option" where
  "run_io h e =
     (if connected_status h \<and> \<not> ev_io_shut e then
        (case tc_data_available (tcp_client h) (ev_select e) of
           (True, c) \<Rightarrow>
             \<comment> \<open>work was done, and \<open>||\<close> does not evaluate \<open>handle_outgoing_messages\<close>\<close>
             map_option (\<lambda>(h', calls). (h', no_effect\<lparr>ef_calls := calls\<rparr>))
               (handle_incoming_data (h\<lparr>tcp_client := c\<rparr>) (ev_frame_shut e) (ev_tables e) (ev_recv e))
         | (False, c) \<Rightarrow>
             if \<not> tc_is_connected c then
               Some (h\<lparr>tcp_client := tc_disconnect c, connected_status := False\<rparr>, no_effect)
             else
               map_option (\<lambda>(work, h', sent). (h', no_effect\<lparr>ef_dequeued := work, ef_sent := sent\<rparr>))
                 (handle_outgoing_messages (h\<lparr>tcp_client := c\<rparr>) (ev_dequeue e) (ev_sends e) (ev_reconnects e)))
      else Some (h, no_effect))"

definition run_iteration :: "TransportHandler \<Rightarrow> th_env \<Rightarrow> (TransportHandler \<times> th_effect) option" where
  "run_iteration h e =
     (if \<not> connected_status h then
        (case attempt_connection h (ev_attempt_shut e) (ev_connects e) of
           None \<Rightarrow> None
         | Some (True, h) \<Rightarrow> run_io (h\<lparr>connected_status := True, failed_connect_cycles := 0\<rparr>) e
         | Some (False, h) \<Rightarrow>
             (let h = h\<lparr>failed_connect_cycles := failed_connect_cycles h + 1\<rparr> in
              if failed_connect_cycles h \<ge> max_connect_cycles h
              then Some (h, no_effect\<lparr>ef_break := True\<rparr>)
              else Some (h, no_effect)))
      else run_io h e)"

definition run_prologue :: "TransportHandler \<Rightarrow> TransportHandler" where
  "run_prologue h = h\<lparr>receive_buffer_watermark := 0\<rparr>"

definition run_epilogue :: "TransportHandler \<Rightarrow> TransportHandler" where
  "run_epilogue h =
     (let h = (if tc_is_connected (tcp_client h) then h\<lparr>tcp_client := tc_disconnect (tcp_client h)\<rparr> else h)
      in h\<lparr>connected_status := False\<rparr>)"

text \<open>\<open>run_internal\<close> over the iterations the thread gets to run before it observes the shutdown flag:
  one environment per iteration. The enqueue calls and the sent messages are collected in order.\<close>

fun run_loop :: "TransportHandler \<Rightarrow> th_env list \<Rightarrow> (TransportHandler \<times> enqueue_call list \<times> u8 list list) option" where
  "run_loop h [] = Some (h, [], [])"
| "run_loop h (e # es) =
     (case run_iteration h e of
        None \<Rightarrow> None
      | Some (h', ef) \<Rightarrow>
          (let sent = (case ef_sent ef of None \<Rightarrow> [] | Some m \<Rightarrow> [m]) in
           if ef_break ef then Some (h', ef_calls ef, sent)
           else map_option (\<lambda>(h'', cs, ms). (h'', ef_calls ef @ cs, sent @ ms)) (run_loop h' es)))"

definition run_internal ::
  "TransportHandler \<Rightarrow> th_env list \<Rightarrow> (TransportHandler \<times> enqueue_call list \<times> u8 list list) option" where
  "run_internal h es =
     map_option (\<lambda>(h', cs, ms). (run_epilogue h', cs, ms)) (run_loop (run_prologue h) es)"

section \<open>The frame loop refines the frame specification\<close>

text \<open>The enqueue calls of a list of frames, the \<open>k\<close>-th of them routed by the table \<open>rts (i + k)\<close>.\<close>

fun frame_calls :: "(nat \<Rightarrow> RoutingTable) \<Rightarrow> nat \<Rightarrow> u8 list list \<Rightarrow> enqueue_call list" where
  "frame_calls rts i [] = []"
| "frame_calls rts i (f # fs) =
     (case header_of f of
        Some info \<Rightarrow> route_frame (rts i) (routing_key info) f
      | None \<Rightarrow> []) @ frame_calls rts (Suc i) fs"

lemma shift_down:
  assumes "len \<le> wm" "wm \<le> length buf"
  shows "length (shift_down len wm buf) = length buf"
    and "take (wm - len) (shift_down len wm buf) = drop len (take wm buf)"
proof -
  show "length (shift_down len wm buf) = length buf"
    using assms by (simp add: shift_down_def)
  have "length (take (wm - len) (drop len buf)) = wm - len" using assms by simp
  then show "take (wm - len) (shift_down len wm buf) = drop len (take wm buf)"
    using assms by (cases "wm > len") (simp_all add: shift_down_def drop_take)
qed

lemma process_buffer_step:
  assumes "\<not> shut i" "wm \<le> length buf" "header_of (take wm buf) = Some info" "total_message_length info \<le> wm"
  shows "process_buffer shut rts i buf wm =
     map_option (\<lambda>(b, w, cs). (b, w, route_frame (rts i) (routing_key info) (take (total_message_length info) buf) @ cs))
       (process_buffer shut rts (Suc i) (shift_down (total_message_length info) wm buf) (wm - total_message_length info))"
proof -
  have "11 \<le> wm" using header_of_lengths [OF assms(3)] assms(2) by simp
  moreover have "mem_read buf 0 (total_message_length info) = Some (take (total_message_length info) buf)"
    using assms by (simp add: mem_read_def)
  ultimately show ?thesis
    using assms by (simp add: process_buffer.simps [of shut rts i buf wm] parse_eq_header_of wire_simps Let_def)
qed

lemma process_buffer_halt:
  assumes "wm \<le> length buf"
    and "shut i \<or> wm < 11 \<or> (\<exists>info. header_of (take wm buf) = Some info \<and> wm < total_message_length info)"
  shows "process_buffer shut rts i buf wm = Some (buf, wm, [])"
  using assms by (auto simp: process_buffer.simps [of shut rts i buf wm] parse_eq_header_of wire_simps)

lemma process_buffer_desync:
  assumes "\<not> shut i" "wm \<le> length buf" "11 \<le> wm" "header_of (take wm buf) = None"
  shows "process_buffer shut rts i buf wm = Some (buf, 0, [])"
  using assms by (simp add: process_buffer.simps [of shut rts i buf wm] parse_eq_header_of wire_simps)

text \<open>The four ways one pass of the loop can go.\<close>

lemma buffer_cases:
  obtains (short) "wm < 11"
  | (desync) "11 \<le> wm" "header_of (take wm buf) = None"
  | (partial) info where "header_of (take wm buf) = Some info" "wm < total_message_length info"
  | (frame) info where "header_of (take wm buf) = Some info" "total_message_length info \<le> wm"
  by (cases "header_of (take wm buf)") (auto simp: not_less [symmetric])

lemma process_buffer_refines:
  assumes "wm \<le> length buf" "\<forall>k. \<not> shut k"
  shows "\<exists>buf' wm'. process_buffer shut rts i buf wm
            = Some (buf', wm', frame_calls rts i (fst (split_frames (take wm buf))))
          \<and> length buf' = length buf \<and> wm' \<le> wm \<and> take wm' buf' = snd (split_frames (take wm buf))"
  using assms(1)
proof (induction wm arbitrary: i buf rule: less_induct)
  case (less wm)
  note split = split_frames.simps [of "take wm buf"] and len = less.prems
  have go: "\<not> shut i" using assms(2) by simp
  show ?case
  proof (cases rule: buffer_cases [where wm = wm and buf = buf])
    case short
    then have "header_of (take wm buf) = None" by (auto simp: header_of_def)
    with short len have "split_frames (take wm buf) = ([], take wm buf)"
      by (simp add: split frame_len_def)
    with process_buffer_halt [OF len, of shut i rts] short show ?thesis by auto
  next
    case desync
    with len have "split_frames (take wm buf) = ([], [])" by (simp add: split frame_len_def)
    with process_buffer_desync [of shut i, OF go len desync, of rts] show ?thesis by auto
  next
    case (partial info)
    with len have "split_frames (take wm buf) = ([], take wm buf)" by (simp add: split frame_len_def)
    with process_buffer_halt [OF len, of shut i rts] partial show ?thesis by auto
  next
    case (frame info)
    let ?len = "total_message_length info" and ?buf' = "shift_down (total_message_length info) wm buf"
    have pos: "0 < ?len" "?len \<le> wm" using header_of_lengths [OF frame(1)] frame(2) by auto
    then have smaller: "wm - ?len < wm" and fits: "wm - ?len \<le> length ?buf'"
      using len shift_down(1) [OF frame(2) len] by linarith+
    have hd: "header_of (take ?len buf) = Some info"
      using header_of_take [OF frame(1), of ?len] header_of_lengths [OF frame(1)] frame(2) by (simp add: min_def)
    have sp: "split_frames (take wm buf)
        = (take ?len buf # fst (split_frames (take (wm - ?len) ?buf')), snd (split_frames (take (wm - ?len) ?buf')))"
      using frame len by (simp add: split frame_len_def shift_down(2) min_def)
    obtain b w where rec: "process_buffer shut rts (Suc i) ?buf' (wm - ?len)
          = Some (b, w, frame_calls rts (Suc i) (fst (split_frames (take (wm - ?len) ?buf'))))"
        "length b = length ?buf'" "w \<le> wm - ?len" "take w b = snd (split_frames (take (wm - ?len) ?buf'))"
      using less.IH [OF smaller fits, of "Suc i"] by auto
    show ?thesis
      using process_buffer_step [of shut i, OF go len frame, of rts] rec hd sp shift_down(1) [OF frame(2) len] by simp
  qed
qed

text \<open>Whatever the loop observes of the shutdown flag, it stays inside the buffer.\<close>

lemma process_buffer_safe:
  "wm \<le> length buf \<Longrightarrow>
     \<exists>buf' wm' cs. process_buffer shut rts i buf wm = Some (buf', wm', cs) \<and> length buf' = length buf \<and> wm' \<le> wm"
proof (induction wm arbitrary: i buf rule: less_induct)
  case (less wm)
  show ?case
  proof (cases "shut i")
    case True
    with process_buffer_halt [OF less.prems, of shut i rts] show ?thesis by simp
  next
    case go: False
    show ?thesis
    proof (cases rule: buffer_cases [where wm = wm and buf = buf])
      case (frame info)
      let ?len = "total_message_length info"
      have pos: "0 < ?len" using header_of_lengths [OF frame(1)] by auto
      have same: "length (shift_down ?len wm buf) = length buf" by (rule shift_down(1) [OF frame(2) less.prems])
      have smaller: "wm - ?len < wm" and fits: "wm - ?len \<le> length (shift_down ?len wm buf)"
        using pos frame(2) less.prems same by linarith+
      obtain b w cs where "process_buffer shut rts (Suc i) (shift_down ?len wm buf) (wm - ?len) = Some (b, w, cs)"
          "length b = length buf" "w \<le> wm - ?len"
        using less.IH [OF smaller fits, of "Suc i"] same by auto
      with process_buffer_step [of shut i, OF go less.prems frame, of rts] show ?thesis by simp
    qed (use process_buffer_halt [OF less.prems, of shut i rts] process_buffer_desync [of shut i, OF go less.prems, of rts] in auto)
  qed
qed

end
