(* ===== verification/Data_Plane.thy ===== *)
theory Data_Plane
  imports Transport_Handler
begin

text \<open>
  What the data plane handler guarantees: its buffer invariant and memory safety, delivery of every
  frame in order when no read ends inside a topic name, and the situations in which it loses data or
  stops making progress.
\<close>

section \<open>The buffer invariant\<close>

definition valid_bytes :: "TransportHandler \<Rightarrow> u8 list" where
  "valid_bytes h = take (receive_buffer_watermark h) (receive_buffer h)"

definition th_wf :: "TransportHandler \<Rightarrow> bool" where
  "th_wf h \<longleftrightarrow> length (receive_buffer h) = MAX_RECEIVE_BUFFER_SIZE h
     \<and> receive_buffer_watermark h \<le> MAX_RECEIVE_BUFFER_SIZE h \<and> tc_wf (tcp_client h)"

lemma th_wf_init: "TransportHandler_init gw ip port q t r d b s c = Inr h \<Longrightarrow> th_wf h"
  by (auto simp: TransportHandler_init_def th_wf_def split: if_splits)

lemma th_wf_start [simp]: "th_wf (th_start h) = th_wf h"
  by (simp add: th_start_def th_wf_def)

lemma th_wf_stop [simp]: "th_wf h \<Longrightarrow> th_wf (th_stop h)"
  by (simp add: th_stop_def th_wf_def Let_def)

lemma length_valid_bytes: "th_wf h \<Longrightarrow> length (valid_bytes h) = receive_buffer_watermark h"
  by (simp add: valid_bytes_def th_wf_def)

text \<open>One call of \<open>handle_incoming_data\<close> on an open connection, as one step of the frame loop on the
  bytes held so far followed by the bytes received.\<close>

definition filled_buffer :: "TransportHandler \<Rightarrow> u8 list \<Rightarrow> u8 list" where
  "filled_buffer h bs = valid_bytes h @ bs @ drop (receive_buffer_watermark h + length bs) (receive_buffer h)"

lemma filled_buffer:
  assumes "th_wf h" "receive_buffer_watermark h + length bs \<le> MAX_RECEIVE_BUFFER_SIZE h"
  shows "length (filled_buffer h bs) = MAX_RECEIVE_BUFFER_SIZE h"
    and "take (receive_buffer_watermark h + length bs) (filled_buffer h bs) = valid_bytes h @ bs"
  using assms by (simp_all add: filled_buffer_def valid_bytes_def th_wf_def)

lemma handle_incoming_safe:
  assumes wf: "th_wf h"
  shows "\<exists>h' cs. handle_incoming_data h shut rts a = Some (h', cs) \<and> th_wf h'"
proof (cases "tc_is_connected (tcp_client h) \<and> MAX_RECEIVE_BUFFER_SIZE h \<noteq> receive_buffer_watermark h")
  case False
  with wf show ?thesis by (auto simp: handle_incoming_data_def th_wf_def Let_def)
next
  case True
  let ?space = "MAX_RECEIVE_BUFFER_SIZE h - receive_buffer_watermark h"
  have space: "\<not> ?space = 0" using True wf by (auto simp: th_wf_def)
  obtain n bs c where recv: "tc_receive_data (tcp_client h) ?space a = (n, bs, c)" by (metis prod_cases3)
  have tcwf: "tc_wf c" using tc_receive_data_wf [OF _ recv] wf by (simp add: th_wf_def)
  show ?thesis
  proof (cases "n > 0")
    case False
    with True space recv tcwf wf show ?thesis by (auto simp: handle_incoming_data_def th_wf_def Let_def)
  next
    case pos: True
    then have cnt: "n = int (length bs)" "length bs \<le> ?space" "c = tcp_client h"
      using tc_receive_data_count [OF recv] by auto
    have fits: "receive_buffer_watermark h + length bs \<le> MAX_RECEIVE_BUFFER_SIZE h"
      using cnt(2) wf unfolding th_wf_def by linarith
    obtain buf' wm' cs where "process_buffer shut rts 0 (filled_buffer h bs) (receive_buffer_watermark h + length bs)
        = Some (buf', wm', cs)" "length buf' = length (filled_buffer h bs)" "wm' \<le> receive_buffer_watermark h + length bs"
      using process_buffer_safe [of "receive_buffer_watermark h + length bs" "filled_buffer h bs" shut rts 0]
        filled_buffer(1) [OF wf fits] fits by auto
    with True space recv pos cnt wf fits filled_buffer(1) [OF wf fits] show ?thesis
      by (auto simp: handle_incoming_data_def Let_def filled_buffer_def valid_bytes_def th_wf_def)
  qed
qed

lemma handle_incoming_refines:
  assumes wf: "th_wf h" and con: "tc_is_connected (tcp_client h)" and run: "\<forall>k. \<not> shut k"
    and bs: "bs \<noteq> []" "receive_buffer_watermark h + length bs \<le> MAX_RECEIVE_BUFFER_SIZE h"
  obtains h' where "handle_incoming_data h shut rts (Received bs)
        = Some (h', frame_calls rts 0 (fst (split_frames (valid_bytes h @ bs))))"
    and "valid_bytes h' = snd (split_frames (valid_bytes h @ bs))" "th_wf h'"
    and "tcp_client h' = tcp_client h" "MAX_RECEIVE_BUFFER_SIZE h' = MAX_RECEIVE_BUFFER_SIZE h"
proof -
  let ?wm = "receive_buffer_watermark h + length bs"
  have space: "MAX_RECEIVE_BUFFER_SIZE h - receive_buffer_watermark h \<noteq> 0"
    and tk: "take (MAX_RECEIVE_BUFFER_SIZE h - receive_buffer_watermark h) bs = bs"
    using bs by (cases bs; simp)+
  obtain buf' wm' where pb: "process_buffer shut rts 0 (filled_buffer h bs) ?wm
        = Some (buf', wm', frame_calls rts 0 (fst (split_frames (valid_bytes h @ bs))))"
      "length buf' = MAX_RECEIVE_BUFFER_SIZE h" "wm' \<le> ?wm" "take wm' buf' = snd (split_frames (valid_bytes h @ bs))"
    using process_buffer_refines [of ?wm "filled_buffer h bs" shut rts 0] filled_buffer [OF wf bs(2)] bs run by auto
  show thesis
  proof (rule that)
    show "handle_incoming_data h shut rts (Received bs)
        = Some (h\<lparr>receive_buffer := buf', receive_buffer_watermark := wm'\<rparr>,
                frame_calls rts 0 (fst (split_frames (valid_bytes h @ bs))))"
      using con space tk bs pb(1)
      by (simp add: handle_incoming_data_def tc_receive_data_def Let_def filled_buffer_def valid_bytes_def)
  qed (use pb wf bs in \<open>auto simp: valid_bytes_def th_wf_def\<close>)
qed


section \<open>The invariant along a run\<close>

lemma send_retries_wf:
  "send_retries m data retry rest c as cs = Some (ok, c', w) \<Longrightarrow> tc_wf c \<Longrightarrow> tc_wf c'"
proof (induction "nat (m - retry)" arbitrary: retry rest c as cs rule: less_induct)
  case less
  note unfold = send_retries.simps [of m data retry rest c as cs]
  show ?case
  proof (cases "retry > m")
    case True
    with less.prems show ?thesis by (simp add: unfold)
  next
    case le: False
    obtain ok1 taken rest' as' where att: "send_attempt c rest as = Some (ok1, taken, rest', as')"
      using less.prems(1) le by (auto simp: unfold split: option.splits)
    show ?thesis
    proof (cases "ok1 \<or> \<not> retry < m")
      case True
      with less.prems att le show ?thesis by (cases ok1) (auto simp: unfold Let_def)
    next
      case False
      then have lt: "retry < m" and failed: "send_attempt c rest as = Some (False, taken, rest', as')"
        using att by auto
      obtain a cs' ok2 c2 where cs: "cs = a # cs'" and con: "tc_connect (tc_disconnect c) a = (ok2, c2)"
        using less.prems(1) le lt failed by (auto simp: unfold Let_def split: list.splits prod.splits)
      have wf2: "tc_wf c2" using tc_connect_result [OF con] by simp
      have IH: "send_retries m data (retry + 1) r c2 as' cs' = Some (ok, c', w) \<Longrightarrow> tc_wf c'" for r
        using less.hyps [of "retry + 1" r c2 as' cs'] lt wf2 by simp
      show ?thesis
        using less.prems(1) [unfolded unfold] le failed lt cs con wf2 IH
        by (cases ok2) (auto simp: Let_def split: if_splits)
    qed
  qed
qed

lemma tc_send_data_wf: "tc_send_data c data as cs = Some (ok, c', w) \<Longrightarrow> tc_wf c \<Longrightarrow> tc_wf c'"
  by (auto simp: tc_send_data_def dest: send_retries_wf split: if_splits)

lemma handle_outgoing_wf:
  "handle_outgoing_messages h q as cs = Some (work, h', sent) \<Longrightarrow> th_wf h \<Longrightarrow> th_wf h'"
  using tc_send_data_wf [of "tcp_client h" _ as cs]
  by (fastforce simp: handle_outgoing_messages_def th_wf_def
      split: if_splits dequeue_answer.splits option.splits bool.splits)

lemma attempt_connection_loop_wf:
  "attempt_connection_loop m k shut h cs = Some (ok, h') \<Longrightarrow> th_wf h \<Longrightarrow>
     th_wf h' \<and> (ok \<longrightarrow> tc_is_connected (tcp_client h')) \<and> valid_bytes h' = valid_bytes h
       \<and> receive_buffer_watermark h' = receive_buffer_watermark h
       \<and> MAX_RECEIVE_BUFFER_SIZE h' = MAX_RECEIVE_BUFFER_SIZE h"
proof (induction cs arbitrary: k h)
  case Nil
  then show ?case by (auto simp: attempt_connection_loop.simps split: if_splits)
next
  case (Cons a cs)
  obtain ok2 c2 where con: "tc_connect (tcp_client h) a = (ok2, c2)" by (cases "tc_connect (tcp_client h) a")
  have wf2: "th_wf (h\<lparr>tcp_client := c2\<rparr>)" "ok2 = tc_is_connected c2"
    using tc_connect_result [OF con] Cons.prems(2) by (auto simp: th_wf_def)
  show ?case
  proof (cases "k < m \<and> \<not> shut k \<and> \<not> ok2")
    case True
    with Cons.prems con have "attempt_connection_loop m (k + 1) shut (h\<lparr>tcp_client := c2\<rparr>) cs = Some (ok, h')"
      by (simp add: attempt_connection_loop.simps [of m k])
    from Cons.IH [OF this wf2(1)] show ?thesis by (simp add: valid_bytes_def [of "h\<lparr>tcp_client := c2\<rparr>"] valid_bytes_def [of h])
  next
    case False
    with Cons.prems con wf2 show ?thesis
      by (auto simp: attempt_connection_loop.simps [of m k] perform_handshake_def valid_bytes_def Let_def split: if_splits)
  qed
qed

lemma attempt_connection_wf:
  "attempt_connection h shut cs = Some (ok, h') \<Longrightarrow> th_wf h \<Longrightarrow>
     th_wf h' \<and> (ok \<longrightarrow> tc_is_connected (tcp_client h')) \<and> valid_bytes h' = valid_bytes h
       \<and> receive_buffer_watermark h' = receive_buffer_watermark h
       \<and> MAX_RECEIVE_BUFFER_SIZE h' = MAX_RECEIVE_BUFFER_SIZE h"
  unfolding attempt_connection_def by (rule attempt_connection_loop_wf)

lemma th_wf_upd [simp]:
  "th_wf (h\<lparr>connected_status := b\<rparr>) = th_wf h"
  "th_wf (h\<lparr>failed_connect_cycles := i\<rparr>) = th_wf h"
  "th_wf h \<Longrightarrow> th_wf (h\<lparr>tcp_client := c\<rparr>) = tc_wf c"
  by (simp_all add: th_wf_def)

lemma run_io_wf:
  assumes run: "run_io h e = Some (h', ef)" and wf: "th_wf h"
  shows "th_wf h'"
proof -
  obtain avail c where av: "tc_data_available (tcp_client h) (ev_select e) = (avail, c)"
    by (cases "tc_data_available (tcp_client h) (ev_select e)")
  have c: "tc_wf c" "th_wf (h\<lparr>tcp_client := c\<rparr>)"
    using tc_data_available_wf [OF _ av] wf by (simp_all add: th_wf_def)
  show ?thesis
    using run av wf c handle_incoming_safe [OF c(2), of "ev_frame_shut e" "ev_tables e" "ev_recv e"]
      handle_outgoing_wf [OF _ c(2)]
    by (cases avail) (auto simp: run_io_def split: if_splits)
qed

lemma run_iteration_wf:
  assumes run: "run_iteration h e = Some (h', ef)" and wf: "th_wf h"
  shows "th_wf h'"
proof (cases "connected_status h")
  case True
  with run wf run_io_wf show ?thesis by (simp add: run_iteration_def)
next
  case False
  with run obtain ok h1 where att: "attempt_connection h (ev_attempt_shut e) (ev_connects e) = Some (ok, h1)"
    by (auto simp: run_iteration_def split: option.splits)
  have wf1: "th_wf h1" using attempt_connection_wf [OF att wf] by simp
  show ?thesis
    using run False att wf1 run_io_wf [of "h1\<lparr>connected_status := True, failed_connect_cycles := 0\<rparr>" e h' ef]
    by (cases ok) (auto simp: run_iteration_def Let_def split: if_splits)
qed

lemma run_loop_wf: "run_loop h es = Some (h', cs, ms) \<Longrightarrow> th_wf h \<Longrightarrow> th_wf h'"
proof (induction es arbitrary: h cs ms)
  case (Cons e es)
  then obtain h1 ef where it: "run_iteration h e = Some (h1, ef)" by (auto split: option.splits)
  with Cons.prems Cons.IH run_iteration_wf [OF it] show ?case
    by (auto simp: Let_def split: if_splits)
qed simp

lemma run_internal_wf: "run_internal h es = Some (h', cs, ms) \<Longrightarrow> th_wf h \<Longrightarrow> th_wf h'"
  using run_loop_wf [of "run_prologue h" es]
  by (fastforce simp: run_internal_def run_prologue_def run_epilogue_def th_wf_def Let_def)

section \<open>Delivery\<close>

text \<open>The handler fed with the chunks \<open>recv\<close> returns, one call per chunk, with a fixed routing table.\<close>

fun feed :: "TransportHandler \<Rightarrow> RoutingTable \<Rightarrow> u8 list list \<Rightarrow> (TransportHandler \<times> enqueue_call list) option" where
  "feed h rt [] = Some (h, [])"
| "feed h rt (c # cs) =
     (case handle_incoming_data h (\<lambda>_. False) (\<lambda>_. rt) (Received c) of
        None \<Rightarrow> None
      | Some (h', calls) \<Rightarrow> map_option (\<lambda>(h'', calls'). (h'', calls @ calls')) (feed h' rt cs))"

text \<open>What should arrive: every frame, in order, at every destination of its routing key.\<close>

definition deliver :: "RoutingTable \<Rightarrow> u8 list list \<Rightarrow> enqueue_call list" where
  "deliver rt fs = concat (map (\<lambda>f. case header_of f of
       Some info \<Rightarrow> route_frame rt (routing_key info) f | None \<Rightarrow> []) fs)"

text \<open>The stream \<open>concat fs\<close> cut after \<open>k\<close> bytes: the cut is safe unless it falls behind the eleventh byte
  of a frame and before the end of its topic name. \<open>tail_len\<close> is the number of bytes of the last,
  incomplete frame.\<close>

fun cut_safe :: "u8 list list \<Rightarrow> nat \<Rightarrow> bool" where
  "cut_safe [] k = True"
| "cut_safe (f # fs) k =
     (if length f \<le> k then cut_safe fs (k - length f)
      else k < 11 \<or> (case header_of f of Some info \<Rightarrow> payload_offset info \<le> k | None \<Rightarrow> False))"

fun tail_len :: "u8 list list \<Rightarrow> nat \<Rightarrow> nat" where
  "tail_len [] k = 0"
| "tail_len (f # fs) k = (if length f \<le> k then tail_len fs (k - length f) else k)"

text \<open>A run of reads: no empty chunk, no chunk larger than the free space, every cut safe.\<close>

fun chunks_ok :: "nat \<Rightarrow> u8 list list \<Rightarrow> nat \<Rightarrow> u8 list list \<Rightarrow> bool" where
  "chunks_ok cap fs k [] = True"
| "chunks_ok cap fs k (c # cs) =
     (c \<noteq> [] \<and> tail_len fs k + length c \<le> cap \<and> cut_safe fs (k + length c) \<and> chunks_ok cap fs (k + length c) cs)"

lemma frame_calls_const: "frame_calls (\<lambda>_. rt) i fs = deliver rt fs"
  by (induction fs arbitrary: i) (auto simp: deliver_def split: option.splits)

lemma deliver_append: "deliver rt (fs @ gs) = deliver rt fs @ deliver rt gs"
  by (simp add: deliver_def)

text \<open>A safe cut leaves complete frames and a waiting tail.\<close>

lemma cut_safe_split:
  assumes "\<forall>f \<in> set fs. complete_frame frame_len f" "k \<le> length (concat fs)" "cut_safe fs k"
  shows "\<exists>gs t. take k (concat fs) = concat gs @ t \<and> (\<forall>g \<in> set gs. complete_frame frame_len g)
           \<and> waiting_tail frame_len 11 t \<and> length t = tail_len fs k"
  using assms
proof (induction fs arbitrary: k)
  case Nil
  have "take k (concat []) = concat [] @ ([] :: u8 list)" by simp
  moreover have "waiting_tail frame_len 11 []" by (rule dp.waiting_Nil)
  ultimately show ?case by (metis Nil.prems(1) length_0_conv tail_len.simps(1))
next
  case (Cons f fs)
  show ?case
  proof (cases "length f \<le> k")
    case True
    have "k - length f \<le> length (concat fs)" using Cons.prems(2) by (simp del: length_concat)
    with Cons.IH [of "k - length f"] Cons.prems True obtain gs t where
      "take (k - length f) (concat fs) = concat gs @ t" "\<forall>g \<in> set gs. complete_frame frame_len g"
      "waiting_tail frame_len 11 t" "length t = tail_len fs (k - length f)" by auto
    then have "take k (concat (f # fs)) = concat (f # gs) @ t" "\<forall>g \<in> set (f # gs). complete_frame frame_len g"
      "waiting_tail frame_len 11 t" "length t = tail_len (f # fs) k"
      using True Cons.prems by auto
    then show ?thesis by blast
  next
    case False
    then have tk: "take k (concat (f # fs)) = take k f" "length (take k f) = k" by auto
    have "waiting_tail frame_len 11 (take k f)"
    proof (cases "k < 11")
      case True
      with tk show ?thesis by (simp add: waiting_tail_def)
    next
      case no: False
      with Cons.prems False obtain info where i: "header_of f = Some info" "payload_offset info \<le> k"
        by (auto split: option.splits)
      have "header_of (take k f) = Some info" by (rule header_of_take [OF i])
      moreover have "total_message_length info = length f"
        using Cons.prems(1) i by (simp add: complete_frame_def frame_len_def)
      ultimately show ?thesis using False tk by (simp add: waiting_tail_def frame_len_def)
    qed
    then have "take k (concat (f # fs)) = concat [] @ take k f" "waiting_tail frame_len 11 (take k f)"
      "length (take k f) = tail_len (f # fs) k" using tk False by auto
    then show ?thesis by (metis empty_iff list.set(1))
  qed
qed

lemma cut_safe_keeps:
  assumes "\<forall>f \<in> set fs. complete_frame frame_len f" "k \<le> length (concat fs)" "cut_safe fs k"
  shows "concat (fst (split_frames (take k (concat fs)))) @ snd (split_frames (take k (concat fs))) = take k (concat fs)"
    and "length (snd (split_frames (take k (concat fs)))) = tail_len fs k"
proof -
  obtain gs t where c: "take k (concat fs) = concat gs @ t" "\<forall>g \<in> set gs. complete_frame frame_len g"
      "waiting_tail frame_len 11 t" "length t = tail_len fs k"
    using cut_safe_split [OF assms] by blast
  then have "split_frames (take k (concat fs)) = (gs, t)" by (simp only: dp.split_concat)
  with c show "concat (fst (split_frames (take k (concat fs)))) @ snd (split_frames (take k (concat fs))) = take k (concat fs)"
    and "length (snd (split_frames (take k (concat fs)))) = tail_len fs k" by simp_all
qed

lemma feed_from:
  assumes fs: "\<forall>f \<in> set fs. complete_frame frame_len f"
  shows "th_wf h \<Longrightarrow> tc_is_connected (tcp_client h) \<Longrightarrow> MAX_RECEIVE_BUFFER_SIZE h = cap \<Longrightarrow>
     concat fs = a @ concat cs \<Longrightarrow> cut_safe fs (length a) \<Longrightarrow> chunks_ok cap fs (length a) cs \<Longrightarrow>
     valid_bytes h = snd (split_frames a) \<Longrightarrow>
     \<exists>h' calls. feed h rt cs = Some (h', calls) \<and> deliver rt fs = deliver rt (fst (split_frames a)) @ calls
       \<and> valid_bytes h' = [] \<and> th_wf h' \<and> tc_is_connected (tcp_client h')"
proof (induction cs arbitrary: h a)
  case Nil
  then have "split_frames a = (fs, [])"
    using dp.split_concat [of fs "[]"] fs dp.waiting_Nil by simp
  with Nil show ?case by simp
next
  case (Cons c cs)
  let ?s = "split_frames (snd (split_frames a) @ c)"
  have a: "a = take (length a) (concat fs)" using Cons.prems(4) by simp
  have bound: "length a \<le> length (concat fs)" unfolding Cons.prems(4) by simp
  have keep: "concat (fst (split_frames a)) @ snd (split_frames a) = a"
    and tl: "length (snd (split_frames a)) = tail_len fs (length a)"
    using cut_safe_keeps [OF fs bound Cons.prems(5)] a by simp_all
  have inc: "split_frames (a @ c) = (fst (split_frames a) @ fst ?s, snd ?s)"
    by (rule dp.split_incremental [OF keep])
  have room: "receive_buffer_watermark h + length c \<le> MAX_RECEIVE_BUFFER_SIZE h"
    using Cons.prems tl length_valid_bytes [of h] by simp
  obtain h1 where h1: "handle_incoming_data h (\<lambda>_. False) (\<lambda>_. rt) (Received c) = Some (h1, deliver rt (fst ?s))"
      "valid_bytes h1 = snd ?s" "th_wf h1" "tcp_client h1 = tcp_client h"
      "MAX_RECEIVE_BUFFER_SIZE h1 = MAX_RECEIVE_BUFFER_SIZE h"
    using handle_incoming_refines [of h "\<lambda>_. False" c "\<lambda>_. rt"] Cons.prems room
    by (auto simp: frame_calls_const)
  obtain h' calls where "feed h1 rt cs = Some (h', calls)"
      "deliver rt fs = deliver rt (fst (split_frames (a @ c))) @ calls"
      "valid_bytes h' = []" "th_wf h'" "tc_is_connected (tcp_client h')"
    using Cons.IH [of h1 "a @ c"] Cons.prems h1 inc by auto
  with h1 inc show ?case by (simp add: deliver_append)
qed

section \<open>Stalls, starvation and reconnection\<close>

lemma run_loop_fixpoint:
  "\<forall>e \<in> set es. run_iteration h e = Some (h, no_effect) \<Longrightarrow> run_loop h es = Some (h, [], [])"
  by (induction es) (simp_all add: no_effect_def)

lemma full_buffer_iteration:
  assumes "connected_status h" "tc_is_connected (tcp_client h)"
    and "receive_buffer_watermark h = MAX_RECEIVE_BUFFER_SIZE h" "ev_select e = SelectReady"
  shows "run_iteration h e = Some (h, no_effect)"
proof -
  have "h\<lparr>tcp_client := tcp_client h\<rparr> = h" by simp
  then show ?thesis
    using assms by (simp add: run_iteration_def run_io_def tc_data_available_def handle_incoming_data_def
        no_effect_def)
qed

lemma run_io_no_send:
  "run_io h e = Some (h', ef) \<Longrightarrow> ev_select e = SelectReady \<Longrightarrow> ef_sent ef = None \<and> \<not> ef_dequeued ef"
  by (auto simp: run_io_def tc_data_available_def no_effect_def split: if_splits)

lemma run_iteration_no_send:
  "run_iteration h e = Some (h', ef) \<Longrightarrow> ev_select e = SelectReady \<Longrightarrow> ef_sent ef = None \<and> \<not> ef_dequeued ef"
  by (auto simp: run_iteration_def no_effect_def Let_def dest: run_io_no_send split: if_splits option.splits bool.splits)

lemma run_loop_no_send:
  "run_loop h es = Some (h', cs, ms) \<Longrightarrow> \<forall>e \<in> set es. ev_select e = SelectReady \<Longrightarrow> ms = []"
proof (induction es arbitrary: h cs ms)
  case (Cons e es)
  then obtain h1 ef where it: "run_iteration h e = Some (h1, ef)" by (auto split: option.splits)
  from run_iteration_no_send [OF it] Cons.prems(2) have "ef_sent ef = None" by simp
  with Cons.prems it show ?case
    by (auto simp: Let_def split: if_splits dest: Cons.IH)
qed simp

text \<open>All answers to a connection attempt are failures, and there are enough of them.\<close>

definition connects_fail :: "int \<Rightarrow> connect_answer list \<Rightarrow> bool" where
  "connects_fail n cs \<longleftrightarrow> n \<le> int (length cs)
     \<and> (\<forall>a \<in> set cs. ca_socket a < 0 \<or> \<not> ca_inet_pton a \<or> \<not> ca_connect a)"

lemma tc_connect_fails:
  "ca_socket a < 0 \<or> \<not> ca_inet_pton a \<or> \<not> ca_connect a \<Longrightarrow> \<exists>c'. tc_connect c a = (False, c')"
  by (auto simp: tc_connect_def Let_def)

lemma attempt_connection_loop_halt:
  "\<not> (k < m \<and> \<not> shut k) \<Longrightarrow> attempt_connection_loop m k shut h cs = Some (False, h\<lparr>tcp_client := tcp_client h\<rparr>)"
  by (subst attempt_connection_loop.simps) auto

lemma attempt_connection_fails:
  "connects_fail (m - k) cs \<Longrightarrow> \<exists>c'. attempt_connection_loop m k shut h cs = Some (False, h\<lparr>tcp_client := c'\<rparr>)"
proof (induction cs arbitrary: k h)
  case Nil
  then have "\<not> (k < m \<and> \<not> shut k)" by (simp add: connects_fail_def)
  then show ?case using attempt_connection_loop_halt by blast
next
  case (Cons a cs)
  then obtain c' where c': "tc_connect (tcp_client h) a = (False, c')"
    using tc_connect_fails [of a "tcp_client h"] by (auto simp: connects_fail_def)
  show ?case
  proof (cases "k < m \<and> \<not> shut k")
    case True
    have "connects_fail (m - (k + 1)) cs" using Cons.prems by (auto simp: connects_fail_def)
    from Cons.IH [OF this, of "h\<lparr>tcp_client := c'\<rparr>"] True c' show ?thesis
      by (simp add: attempt_connection_loop.simps [of m k])
  next
    case False
    then show ?thesis using attempt_connection_loop_halt by blast
  qed
qed

lemma failing_iteration:
  assumes "\<not> connected_status h" "connects_fail (connect_max_retries h) (ev_connects e)"
  obtains c' where "run_iteration h e =
    Some (h\<lparr>tcp_client := c', failed_connect_cycles := failed_connect_cycles h + 1\<rparr>,
          no_effect\<lparr>ef_break := failed_connect_cycles h + 1 \<ge> max_connect_cycles h\<rparr>)"
proof -
  obtain c' where "attempt_connection h (ev_attempt_shut e) (ev_connects e) = Some (False, h\<lparr>tcp_client := c'\<rparr>)"
    using attempt_connection_fails [of "connect_max_retries h" 0 "ev_connects e" "ev_attempt_shut e" h] assms(2)
    by (auto simp: attempt_connection_def)
  with assms(1) have "run_iteration h e =
    Some (h\<lparr>tcp_client := c', failed_connect_cycles := failed_connect_cycles h + 1\<rparr>,
          no_effect\<lparr>ef_break := failed_connect_cycles h + 1 \<ge> max_connect_cycles h\<rparr>)"
    by (simp add: run_iteration_def no_effect_def Let_def)
  then show thesis by (rule that)
qed

lemma run_loop_gives_up:
  "\<not> connected_status h \<Longrightarrow> \<forall>e \<in> set es. connects_fail (connect_max_retries h) (ev_connects e) \<Longrightarrow>
   failed_connect_cycles h < max_connect_cycles h \<Longrightarrow>
   nat (max_connect_cycles h - failed_connect_cycles h) \<le> length es \<Longrightarrow>
   \<exists>c'. run_loop h (es @ rest) =
      Some (h\<lparr>tcp_client := c', failed_connect_cycles := max_connect_cycles h\<rparr>, [], [])"
proof (induction es arbitrary: h)
  case (Cons e es)
  then obtain c' where it: "run_iteration h e =
      Some (h\<lparr>tcp_client := c', failed_connect_cycles := failed_connect_cycles h + 1\<rparr>,
            no_effect\<lparr>ef_break := failed_connect_cycles h + 1 \<ge> max_connect_cycles h\<rparr>)"
    using failing_iteration [of h e] by auto
  show ?case
  proof (cases "failed_connect_cycles h + 1 \<ge> max_connect_cycles h")
    case True
    with it Cons.prems(3) have "max_connect_cycles h = failed_connect_cycles h + 1" by simp
    with it True show ?thesis by (auto simp: no_effect_def)
  next
    case False
    with Cons.IH [of "h\<lparr>tcp_client := c', failed_connect_cycles := failed_connect_cycles h + 1\<rparr>"] Cons.prems it
    show ?thesis by (auto simp: no_effect_def)
  qed
qed simp

section \<open>Properties of the data plane\<close>

text \<open>C3: memory safety and the buffer invariant. From a well-formed state, \<open>handle_incoming_data\<close> never
  reads or writes outside the receive buffer, whatever the network delivers, whatever the routing
  tables hold and whenever another thread requests the shutdown; and a run of the handler thread, however
  its environment behaves, ends in a well-formed, disconnected state.\<close>

theorem transport_handler_memory_safe:
  "th_wf h \<Longrightarrow>
     (\<exists>h' calls. handle_incoming_data h shut rts a = Some (h', calls) \<and> th_wf h')
     \<and> (\<forall>h' calls sent. run_internal h es = Some (h', calls, sent) \<longrightarrow>
          th_wf h' \<and> \<not> connected_status h' \<and> \<not> tc_is_connected (tcp_client h'))"
proof -
  assume wf: "th_wf h"
  have off: "\<not> connected_status (run_epilogue h1) \<and> \<not> tc_is_connected (tcp_client (run_epilogue h1))"
    if "th_wf h1" for h1
    using that tc_disconnect_off [of "tcp_client h1"] by (auto simp: run_epilogue_def th_wf_def Let_def)
  have "th_wf (run_prologue h)" using wf by (simp add: run_prologue_def th_wf_def)
  then have "\<not> connected_status h' \<and> \<not> tc_is_connected (tcp_client h')"
    if "run_internal h es = Some (h', calls, sent)" for h' calls sent
    using that off run_loop_wf [of "run_prologue h" es] by (auto simp: run_internal_def)
  with wf handle_incoming_safe [OF wf] run_internal_wf show ?thesis by blast
qed

definition example_handler :: "nat \<Rightarrow> TransportHandler" where
  "example_handler cap =
     \<lparr>gateway_id = ''mgw_1'', target_ip = ''10.0.0.2'', target_port = 7100, input_queue = Some 1,
      tcp_client = \<lparr>tc_host = ''10.0.0.2'', tc_port = 7100, tc_max_retries = 3, tc_socket_fd = 4, tc_connected = True\<rparr>,
      receive_buffer = replicate cap 0, receive_buffer_watermark = 0, handler_thread_joinable = True,
      shutdown_requested = False, connected_status = True, connect_max_retries = 3, connect_retry_delay_ms = 100,
      MAX_RECEIVE_BUFFER_SIZE = cap, minimum_sleep_time_us = 10, max_connect_cycles = 3, failed_connect_cycles = 0\<rparr>"

lemma example_handler [simp]:
  "th_wf (example_handler cap)" "tc_is_connected (tcp_client (example_handler cap))"
  "connected_status (example_handler cap)" "receive_buffer_watermark (example_handler cap) = 0"
  "valid_bytes (example_handler cap) = []" "MAX_RECEIVE_BUFFER_SIZE (example_handler cap) = cap"
  by (simp_all add: example_handler_def th_wf_def tc_wf_def tc_is_connected_def valid_bytes_def)

theorem transport_handler_memory_safe_witness:
  "th_wf (example_handler 64) \<and>
   (\<exists>h' calls. handle_incoming_data (example_handler 64) (\<lambda>k. k = 1) (\<lambda>_. RoutingTable_init 8)
       (Received [0xA5, 0xC3, 0, 11, 60, 5, 255, 255, 255, 255, 200, 47]) = Some (h', calls) \<and> th_wf h')"
  using transport_handler_memory_safe [OF example_handler(1), of 64 "\<lambda>k. k = 1" "\<lambda>_. RoutingTable_init 8"
      "Received [0xA5, 0xC3, 0, 11, 60, 5, 255, 255, 255, 255, 200, 47]"] by simp

text \<open>C7: the frame loop implements the stream specification. On an open connection, the bytes held
  after a read and the enqueue calls made are those of \<open>split_frames\<close> applied to the bytes held before,
  followed by the bytes read: complete frames are taken off in order and routed, one table lookup per
  frame, the incomplete rest is kept, unreadable bytes are dropped.\<close>

theorem handle_incoming_data_refines:
  assumes "th_wf h" "tc_is_connected (tcp_client h)" "\<forall>k. \<not> shut k"
    and "bs \<noteq> []" "receive_buffer_watermark h + length bs \<le> MAX_RECEIVE_BUFFER_SIZE h"
  shows "\<exists>h'. handle_incoming_data h shut rts (Received bs)
        = Some (h', frame_calls rts 0 (fst (split_frames (valid_bytes h @ bs))))
      \<and> valid_bytes h' = snd (split_frames (valid_bytes h @ bs))"
  using handle_incoming_refines [OF assms] by metis

theorem handle_incoming_data_refines_witness:
  "\<exists>h'. handle_incoming_data (example_handler 16) (\<lambda>_. False) (\<lambda>_. RoutingTable_init 8)
        (Received [0xA5, 0xC3, 0, 11, 60, 5, 0, 0, 0, 2, 1, 47])
        = Some (h', frame_calls (\<lambda>_. RoutingTable_init 8) 0
            (fst (split_frames (valid_bytes (example_handler 16) @ [0xA5, 0xC3, 0, 11, 60, 5, 0, 0, 0, 2, 1, 47]))))
      \<and> valid_bytes h' = snd (split_frames (valid_bytes (example_handler 16) @ [0xA5, 0xC3, 0, 11, 60, 5, 0, 0, 0, 2, 1, 47]))"
  by (rule handle_incoming_data_refines) simp_all

text \<open>C2: delivery. When gateways send complete frames and the reads of the handler never end inside a
  topic name, then however else the stream is cut into reads, every frame reaches every
  destination of its routing key exactly once and in order, byte for byte, and nothing is left over.\<close>

theorem frames_delivered_in_order:
  assumes "th_wf h" "tc_is_connected (tcp_client h)" "receive_buffer_watermark h = 0"
    and "\<forall>f \<in> set fs. complete_frame frame_len f"
    and "concat chunks = concat fs" "chunks_ok (MAX_RECEIVE_BUFFER_SIZE h) fs 0 chunks"
  shows "\<exists>h'. feed h rt chunks = Some (h', deliver rt fs) \<and> valid_bytes h' = []"
proof -
  have start: "split_frames [] = ([], [])" using dp.split_waiting [OF dp.waiting_Nil] .
  have cut: "cut_safe fs (length ([] :: u8 list))"
  proof (cases fs)
    case (Cons f gs)
    with assms(4) have "complete_frame frame_len f" by simp
    then have "11 \<le> length f" using frame_len_min [of f] by (simp add: complete_frame_def)
    with Cons show ?thesis by auto
  qed simp
  from feed_from [OF assms(4,1,2) refl, of "[]" chunks rt] assms cut start show ?thesis
    by (auto simp: valid_bytes_def deliver_def)
qed

theorem frames_delivered_in_order_witness:
  "\<exists>h'. feed (example_handler 32) (add_route (construct_routing_key 60 5 11) (Some 3) (RoutingTable_init 8))
       [take 5 (make_frame [47] 11 60 5 0 [1, 2]), drop 5 (make_frame [47] 11 60 5 0 [1, 2])]
     = Some (h', deliver (add_route (construct_routing_key 60 5 11) (Some 3) (RoutingTable_init 8))
                   [make_frame [47] 11 60 5 0 [1, 2]])
     \<and> valid_bytes h' = []"
proof (rule frames_delivered_in_order)
  have "length (make_frame [47] 11 60 5 0 [1, 2]) = 14" by (simp add: make_frame_def length_create_header)
  then show "chunks_ok (MAX_RECEIVE_BUFFER_SIZE (example_handler 32)) [make_frame [47] 11 60 5 0 [1, 2]] 0
     [take 5 (make_frame [47] 11 60 5 0 [1, 2]), drop 5 (make_frame [47] 11 60 5 0 [1, 2])]"
    by (auto simp: take_eq_Nil2)
qed (simp_all add: make_frame_complete)

text \<open>C27: the exception to delivery. A read that ends inside the topic name of a frame makes the handler
  take the frame for garbage: at least eleven bytes are there, the header cannot be parsed yet, and
  the buffer is cleared. The bytes read are lost and with them the frame.\<close>

theorem cut_inside_topic_loses_frame:
  assumes "th_wf h" "tc_is_connected (tcp_client h)" "receive_buffer_watermark h = 0"
    and "length payload < 2 ^ 32" "11 \<le> k" "k < 11 + min (length topic) 255" "k \<le> MAX_RECEIVE_BUFFER_SIZE h"
  shows "\<exists>h'. handle_incoming_data h (\<lambda>_. False) rts (Received (take k (make_frame topic type g i flags payload)))
              = Some (h', []) \<and> receive_buffer_watermark h' = 0"
proof -
  let ?bs = "take k (make_frame topic type g i flags payload)"
  have len: "length ?bs = k" using assms by (simp add: make_frame_def length_create_header)
  have "split_frames ?bs = ([], [])"
    using cut_in_topic [OF assms(4-6), of type g i flags] assms(5) len
    by (simp add: split_frames.simps [of ?bs] frame_len_def)
  moreover have empty: "valid_bytes h = []" using assms(3) by (simp add: valid_bytes_def)
  moreover have ne: "?bs \<noteq> []" using len assms(5) by (metis list.size(3) not_numeral_le_zero)
  ultimately obtain h' where "handle_incoming_data h (\<lambda>_. False) rts (Received ?bs) = Some (h', [])"
      "valid_bytes h' = []" "th_wf h'"
    using handle_incoming_refines [OF assms(1,2), of "\<lambda>_. False" ?bs rts] len assms by auto
  with length_valid_bytes [of h'] show ?thesis by auto
qed

theorem cut_inside_topic_loses_frame_witness:
  "\<exists>h'. handle_incoming_data (example_handler 8192) (\<lambda>_. False) (\<lambda>_. RoutingTable_init 8)
      (Received (take 13 (make_frame [47, 105, 109, 103] 11 60 5 0 [1, 2]))) = Some (h', [])
    \<and> receive_buffer_watermark h' = 0"
  by (rule cut_inside_topic_loses_frame) simp_all

text \<open>C28: a frame longer than the receive buffer stops the handler for good. Once the buffer is full of its
  first bytes, every further iteration that finds data to read leaves the handler unchanged:
  nothing is read, nothing is routed, nothing is sent, and the connection is not closed.\<close>

theorem oversized_frame_stalls:
  assumes "th_wf h" "tc_is_connected (tcp_client h)" "connected_status h" "receive_buffer_watermark h = 0"
    and "header_of f = Some info" "total_message_length info = length f"
    and "payload_offset info \<le> MAX_RECEIVE_BUFFER_SIZE h" "MAX_RECEIVE_BUFFER_SIZE h < length f"
    and "\<forall>e \<in> set es. ev_select e = SelectReady"
  shows "\<exists>h'. handle_incoming_data h (\<lambda>_. False) rts (Received (take (MAX_RECEIVE_BUFFER_SIZE h) f)) = Some (h', [])
              \<and> run_loop h' es = Some (h', [], [])"
proof -
  let ?bs = "take (MAX_RECEIVE_BUFFER_SIZE h) f"
  have len: "length ?bs = MAX_RECEIVE_BUFFER_SIZE h" "?bs \<noteq> []"
    using assms(7,8) header_of_lengths [OF assms(5)] by (auto simp: take_eq_Nil)
  have hd: "header_of ?bs = Some info" by (rule header_of_take [OF assms(5,7)])
  then have sp: "split_frames ?bs = ([], ?bs)"
    using assms(6,8) len by (simp add: split_frames.simps [of ?bs] frame_len_def)
  have space: "0 < MAX_RECEIVE_BUFFER_SIZE h" using len by (cases "MAX_RECEIVE_BUFFER_SIZE h") auto
  obtain buf' wm' where pb: "process_buffer (\<lambda>_. False) rts 0 (filled_buffer h ?bs) (MAX_RECEIVE_BUFFER_SIZE h) = Some (buf', wm', [])"
      "length buf' = MAX_RECEIVE_BUFFER_SIZE h" "take wm' buf' = ?bs" "wm' \<le> MAX_RECEIVE_BUFFER_SIZE h"
    using process_buffer_refines [of "MAX_RECEIVE_BUFFER_SIZE h" "filled_buffer h ?bs" "\<lambda>_. False" rts 0]
      filled_buffer [OF assms(1), of ?bs] assms(4) len sp by (auto simp: valid_bytes_def)
  have "length (take wm' buf') = wm'" using pb(2,4) by simp
  then have wm: "wm' = MAX_RECEIVE_BUFFER_SIZE h" unfolding pb(3) len(1) by simp
  let ?h' = "h\<lparr>receive_buffer := buf', receive_buffer_watermark := wm'\<rparr>"
  have "handle_incoming_data h (\<lambda>_. False) rts (Received ?bs) = Some (?h', [])"
    using assms(2,4) pb(1) len space
    by (simp add: handle_incoming_data_def tc_receive_data_def Let_def filled_buffer_def valid_bytes_def)
  moreover have "run_loop ?h' es = Some (?h', [], [])"
    using assms(2,3,9) wm by (intro run_loop_fixpoint) (auto intro!: full_buffer_iteration)
  ultimately show ?thesis by blast
qed

definition example_env :: "select_answer \<Rightarrow> recv_answer \<Rightarrow> connect_answer list \<Rightarrow> th_env" where
  "example_env s r cs = \<lparr>ev_attempt_shut = (\<lambda>_. False), ev_connects = cs, ev_io_shut = False, ev_select = s,
     ev_recv = r, ev_frame_shut = (\<lambda>_. False), ev_tables = (\<lambda>_. RoutingTable_init 8), ev_dequeue = Dequeued [1, 2],
     ev_sends = [Sent 2], ev_reconnects = []\<rparr>"

theorem oversized_frame_stalls_witness:
  "\<exists>h'. handle_incoming_data (example_handler 12) (\<lambda>_. False) (\<lambda>_. RoutingTable_init 8)
          (Received (take (MAX_RECEIVE_BUFFER_SIZE (example_handler 12)) [0xA5, 0xC3, 0, 11, 60, 5, 0, 0, 0, 2, 1, 47, 7, 8]))
        = Some (h', [])
      \<and> run_loop h' [example_env SelectReady (Received [7]) [], example_env SelectReady (Received [7, 8]) []]
        = Some (h', [], [])"
proof (rule oversized_frame_stalls)
  show "header_of [0xA5, 0xC3, 0, 11, 60, 5, 0, 0, 0, 2, 1, 47, 7, 8] =
      Some \<lparr>routing_key = construct_routing_key 60 5 11, total_message_length = 14, payload_offset = 12, payload_size = 2\<rparr>"
    by (simp add: header_of_def be32_def)
qed (simp_all add: example_env_def)

text \<open>C29: sending starves while data arrives. In every iteration in which \<open>select\<close> reports data,
  the short-circuit evaluation of \<open>work_done || handle_outgoing_messages()\<close> skips the own queue, so a
  run of such iterations sends nothing, however many messages wait.\<close>

theorem incoming_data_starves_sending:
  "run_loop h es = Some (h', calls, sent) \<Longrightarrow> (\<forall>e \<in> set es. ev_select e = SelectReady) \<Longrightarrow> sent = []"
  by (rule run_loop_no_send)

theorem incoming_data_starves_sending_witness:
  "\<exists>h' calls. run_loop (example_handler 64) [example_env SelectReady (Received [0xA5]) [],
       example_env SelectReady (Received [0xC3]) []] = Some (h', calls, [])"
proof -
  obtain h' calls sent where run: "run_loop (example_handler 64) [example_env SelectReady (Received [0xA5]) [],
       example_env SelectReady (Received [0xC3]) []] = Some (h', calls, sent)"
    by (simp add: example_handler_def example_env_def run_iteration_def run_io_def tc_data_available_def
        tc_is_connected_def handle_incoming_data_def tc_receive_data_def process_buffer.simps wire_simps
        no_effect_def Let_def)
  have "sent = []" using incoming_data_starves_sending [OF run] by (simp add: example_env_def)
  with run show ?thesis by blast
qed

text \<open>A reconnection does not discard the rest of the old stream. The iteration that reconnects
  parses the first bytes of the new connection behind whatever incomplete frame the old
  connection left in the buffer.\<close>

lemma reconnect_keeps_stale_bytes:
  assumes "th_wf h" "\<not> connected_status h" "ev_io_shut e = False" "ev_select e = SelectReady"
    and "attempt_connection h (ev_attempt_shut e) (ev_connects e) = Some (True, h1)"
    and "\<forall>k. \<not> ev_frame_shut e k"
    and "ev_recv e = Received bs" "bs \<noteq> []" "receive_buffer_watermark h + length bs \<le> MAX_RECEIVE_BUFFER_SIZE h"
  shows "\<exists>h' ef. run_iteration h e = Some (h', ef)
           \<and> ef_calls ef = frame_calls (ev_tables e) 0 (fst (split_frames (valid_bytes h @ bs)))
           \<and> valid_bytes h' = snd (split_frames (valid_bytes h @ bs))"
proof -
  let ?h2 = "h1\<lparr>connected_status := True, failed_connect_cycles := 0\<rparr>"
  have h1: "th_wf h1" "tc_is_connected (tcp_client h1)" "valid_bytes h1 = valid_bytes h"
      "receive_buffer_watermark h1 = receive_buffer_watermark h"
      "MAX_RECEIVE_BUFFER_SIZE h1 = MAX_RECEIVE_BUFFER_SIZE h"
    using attempt_connection_wf [OF assms(5,1)] by auto
  then have vb: "valid_bytes ?h2 = valid_bytes h" by (simp add: valid_bytes_def)
  obtain h' where "handle_incoming_data ?h2 (ev_frame_shut e) (ev_tables e) (Received bs)
        = Some (h', frame_calls (ev_tables e) 0 (fst (split_frames (valid_bytes h @ bs))))"
      "valid_bytes h' = snd (split_frames (valid_bytes h @ bs))"
    using handle_incoming_refines [of ?h2 "ev_frame_shut e" bs "ev_tables e"] h1 vb assms by auto
  then show ?thesis
    using assms h1 by (simp add: run_iteration_def run_io_def tc_data_available_def no_effect_def)
qed

text \<open>A handler whose connection broke after the first five bytes of a frame.\<close>

definition stale_handler :: TransportHandler where
  "stale_handler = (example_handler 32)\<lparr>connected_status := False,
     tcp_client := \<lparr>tc_host = ''10.0.0.2'', tc_port = 7100, tc_max_retries = 3, tc_socket_fd = -1, tc_connected = False\<rparr>,
     receive_buffer := [0xA5, 0xC3, 0, 11, 60] @ replicate 27 0, receive_buffer_watermark := 5\<rparr>"

text \<open>C30: the thread gives up after \<open>max_connect_cycles\<close> failed connection cycles. When every attempt fails, the
  loop ends after exactly the remaining number of cycles and does not look at any further iteration;
  nothing is routed or sent.\<close>

theorem connection_cycles_bounded:
  assumes "\<not> connected_status h" "failed_connect_cycles h < max_connect_cycles h"
    and "\<forall>e \<in> set es. connects_fail (connect_max_retries h) (ev_connects e)"
    and "length es = nat (max_connect_cycles h - failed_connect_cycles h)"
  shows "\<exists>h'. run_loop h (es @ rest) = Some (h', [], []) \<and> failed_connect_cycles h' = max_connect_cycles h
           \<and> \<not> connected_status h'"
  using run_loop_gives_up [OF assms(1,3,2)] assms(1,4) by fastforce

theorem connection_cycles_bounded_witness:
  "\<exists>h'. run_loop stale_handler (replicate 3 (example_env SelectTimeout RecvError
           (replicate 3 \<lparr>ca_socket = 5, ca_inet_pton = True, ca_connect = False\<rparr>)) @ [])
        = Some (h', [], []) \<and> failed_connect_cycles h' = max_connect_cycles stale_handler \<and> \<not> connected_status h'"
  by (rule connection_cycles_bounded)
    (simp_all add: stale_handler_def example_handler_def example_env_def connects_fail_def)

section \<open>Copies of a frame\<close>

text \<open>The calls for one frame that arrives in one piece, and how many of them go to a given queue.\<close>

lemma handler_routes_exactly:
  assumes h: "th_wf h" "tc_is_connected (tcp_client h)" "receive_buffer_watermark h = 0"
    and len: "length payload < 2 ^ 32" "length (make_frame topic t k n flags payload) \<le> MAX_RECEIVE_BUFFER_SIZE h"
  shows "\<exists>h'. handle_incoming_data h (\<lambda>_. False) (\<lambda>_. rt) (Received (make_frame topic t k n flags payload))
     = Some (h', route_frame rt (construct_routing_key k n t) (make_frame topic t k n flags payload))"
proof -
  let ?f = "make_frame topic t k n flags payload"
  have frame: "complete_frame frame_len ?f" by (rule make_frame_complete [OF len(1)])
  then have split: "split_frames ?f = ([?f], [])"
    using dp.split_concat [of "[?f]" "[]"] dp.waiting_Nil by simp
  have empty: "valid_bytes h = []" using h(3) by (simp add: valid_bytes_def)
  have ne: "?f \<noteq> []" using frame frame_len_min [of ?f] by (auto simp: complete_frame_def)
  have "frame_calls (\<lambda>_. rt) 0 [?f] = route_frame rt (construct_routing_key k n t) ?f"
    by (simp add: make_frame_def header_of_create_header)
  then show ?thesis
    using handle_incoming_refines [OF h(1,2), of "\<lambda>_. False" ?f "\<lambda>_. rt"] split empty ne h(3) len(2) by auto
qed

lemma route_frame_copies:
  "length (filter (\<lambda>c. c = (Some p, f)) (route_frame rt k f)) = length (filter (\<lambda>d. d = Some p) (get_destinations rt k))"
  by (simp add: route_frame_def filter_map filter_filter comp_def) (metis (mono_tags, lifting) filter_cong option.distinct(1))

end
