(* ===== verification/Cpp_Text.thy ===== *)
theory Cpp_Text
  imports Prelude
begin

text \<open>
  The text routines of the C++ standard library that the sources call: decimal output
  (\<open>std::to_string\<close>, \<open>ostream << int\<close>), \<open>std::stoi\<close>, extraction of an \<open>int\<close> from a
  \<open>std::stringstream\<close>, \<open>std::string::find\<close> on one character, and the \<open>std::getline\<close> loop
  of \<open>split_string\<close> in cpplib/discovery_protocol/src/protocol.cpp. A thrown exception and a
  set failbit are \<open>None\<close>. The locale \<open>delimited_text\<close> is the contract between joining fields
  with a delimiter and splitting them again.
\<close>

section \<open>Decimal digits\<close>

definition is_digit :: "char \<Rightarrow> bool" where
  "is_digit c \<longleftrightarrow> 48 \<le> (of_char c :: nat) \<and> (of_char c :: nat) \<le> 57"

definition digit_char :: "nat \<Rightarrow> char" where
  "digit_char n = ''0123456789'' ! (n mod 10)"

definition digit_val :: "char \<Rightarrow> nat" where
  "digit_val c = of_char c - 48"

lemma digit_table: "\<forall>k < 10. digit_val (''0123456789'' ! k) = k \<and> is_digit (''0123456789'' ! k)"
  by (simp add: digit_val_def is_digit_def eval_nat_numeral All_less_Suc)

lemma digit_val_char [simp]: "n < 10 \<Longrightarrow> digit_val (digit_char n) = n"
  using digit_table unfolding digit_char_def by auto

lemma is_digit_char [simp]: "is_digit (digit_char n)"
  using digit_table unfolding digit_char_def by auto

lemma digit_val_less: "is_digit c \<Longrightarrow> digit_val c < 10"
  unfolding is_digit_def digit_val_def by linarith

section \<open>Decimal output\<close>

fun show_nat :: "nat \<Rightarrow> string" where
  "show_nat n = (if n < 10 then [digit_char n] else show_nat (n div 10) @ [digit_char (n mod 10)])"

declare show_nat.simps [simp del]

lemmas show_nat_eval [text_simps] = show_nat.simps digit_char_def

definition show_int :: "int \<Rightarrow> string" where
  "show_int i = (if i < 0 then CHR ''-'' # show_nat (nat (- i)) else show_nat (nat i))"

definition digits_val :: "string \<Rightarrow> nat" where
  "digits_val s = foldl (\<lambda>v c. 10 * v + digit_val c) 0 s"

lemma digits_val_snoc: "digits_val (s @ [c]) = 10 * digits_val s + digit_val c"
  by (simp add: digits_val_def)

lemma digits_val_show_nat [simp]: "digits_val (show_nat n) = n"
proof (induction n rule: show_nat.induct)
  case (1 n)
  then show ?case
    by (subst show_nat.simps) (auto simp: digits_val_snoc, simp add: digits_val_def)
qed

lemma show_nat_digits: "c \<in> set (show_nat n) \<Longrightarrow> is_digit c"
proof (induction n rule: show_nat.induct)
  case (1 n)
  then show ?case
    by (subst (asm) show_nat.simps) (auto split: if_splits)
qed

lemma show_nat_nonempty [simp]: "show_nat n \<noteq> []"
  by (subst show_nat.simps) simp

section \<open>Decimal input\<close>

definition is_space :: "char \<Rightarrow> bool" where
  "is_space c \<longleftrightarrow> of_char c = (32::nat) \<or> 9 \<le> (of_char c :: nat) \<and> (of_char c :: nat) \<le> 13"

text \<open>Leading white space, an optional sign, then at least one digit: the number and what
  follows it, before any range check.\<close>

definition scan_int :: "string \<Rightarrow> (int \<times> string) option" where
  "scan_int s =
     (let t = dropWhile is_space s;
          neg = (case t of c # _ \<Rightarrow> c = CHR ''-'' | [] \<Rightarrow> False);
          u = (case t of c # r \<Rightarrow> if c = CHR ''-'' \<or> c = CHR ''+'' then r else t | [] \<Rightarrow> []);
          ds = takeWhile is_digit u
      in if ds = [] then None
         else Some ((if neg then - int (digits_val ds) else int (digits_val ds)), dropWhile is_digit u))"

definition int_range :: "int \<Rightarrow> bool" where
  "int_range v \<longleftrightarrow> - (2 ^ 31) \<le> v \<and> v < 2 ^ 31"

text \<open>\<open>std::stoi\<close>: \<open>None\<close> for \<open>std::invalid_argument\<close> and \<open>std::out_of_range\<close>; characters
  after the number are ignored.\<close>

definition stoi :: "string \<Rightarrow> int option" where
  "stoi s = (case scan_int s of Some (v, _) \<Rightarrow> if int_range v then Some v else None | None \<Rightarrow> None)"

text \<open>\<open>stream >> int\<close>: the value and the rest of the stream, \<open>None\<close> when failbit is set.\<close>

definition stream_int :: "string \<Rightarrow> (int \<times> string) option" where
  "stream_int s = (case scan_int s of Some (v, r) \<Rightarrow> if int_range v then Some (v, r) else None | None \<Rightarrow> None)"

text \<open>\<open>stream >> char\<close>.\<close>

definition stream_char :: "string \<Rightarrow> (char \<times> string) option" where
  "stream_char s = (case dropWhile is_space s of c # r \<Rightarrow> Some (c, r) | [] \<Rightarrow> None)"

lemma digit_not_space: "is_digit c \<Longrightarrow> \<not> is_space c"
  by (auto simp: is_digit_def is_space_def)

lemma digit_not_sign: "is_digit c \<Longrightarrow> c \<noteq> CHR ''-'' \<and> c \<noteq> CHR ''+''"
  by (auto simp: is_digit_def)

lemma scan_int_digits:
  assumes ds: "\<forall>c \<in> set ds. is_digit c" "ds \<noteq> []" and r: "r = [] \<or> \<not> is_digit (hd r)"
  shows "scan_int (ds @ r) = Some (int (digits_val ds), r)"
proof -
  obtain d ds' where d: "ds = d # ds'" using ds(2) by (cases ds) auto
  have "is_digit d" using ds(1) d by simp
  then have nosp: "dropWhile is_space (ds @ r) = ds @ r"
    by (simp add: d digit_not_space)
  have tw: "takeWhile is_digit (ds @ r) = ds" "dropWhile is_digit (ds @ r) = r"
    using ds(1) r by (cases r; simp)+
  show ?thesis
    using digit_not_sign [OF \<open>is_digit d\<close>] tw nosp
    by (simp add: scan_int_def Let_def d)
qed

lemma scan_int_neg_digits:
  assumes ds: "\<forall>c \<in> set ds. is_digit c" "ds \<noteq> []" and r: "r = [] \<or> \<not> is_digit (hd r)"
  shows "scan_int (CHR ''-'' # ds @ r) = Some (- int (digits_val ds), r)"
proof -
  have tw: "takeWhile is_digit (ds @ r) = ds" "dropWhile is_digit (ds @ r) = r"
    using ds(1) r by (cases r; simp)+
  have "\<not> is_space (CHR ''-'')" by (simp add: is_space_def)
  with tw ds(2) show ?thesis by (simp add: scan_int_def Let_def)
qed

lemma scan_int_show_int:
  "r = [] \<or> \<not> is_digit (hd r) \<Longrightarrow> scan_int (show_int i @ r) = Some (i, r)"
  using scan_int_digits [of "show_nat (nat i)" r] scan_int_neg_digits [of "show_nat (nat (- i))" r]
  by (auto simp: show_int_def show_nat_digits)

lemma stoi_show_int [simp]: "int_range i \<Longrightarrow> stoi (show_int i) = Some i"
  using scan_int_show_int [of "[]" i] by (simp add: stoi_def)

lemma stream_int_show_int:
  "int_range i \<Longrightarrow> r = [] \<or> \<not> is_digit (hd r) \<Longrightarrow> stream_int (show_int i @ r) = Some (i, r)"
  by (simp add: stream_int_def scan_int_show_int)

lemma stoi_range: "stoi s = Some v \<Longrightarrow> int_range v"
  by (auto simp: stoi_def split: option.splits if_splits)

lemma int_range_word [simp]: "int_range (uint (w :: u8))" "int_range (uint (v :: u16))"
  using uint_lt2p [of w] uint_lt2p [of v] uint_ge_0 [of w] uint_ge_0 [of v]
  unfolding int_range_def by (simp_all, linarith+)

lemma show_int_chars: "c \<in> set (show_int i) \<Longrightarrow> is_digit c \<or> c = CHR ''-''"
  by (auto simp: show_int_def dest: show_nat_digits split: if_splits)

lemma show_int_nonempty [simp]: "show_int i \<noteq> []"
  by (simp add: show_int_def)

section \<open>Splitting and searching\<close>

text \<open>\<open>s.find(c)\<close>: the index of the first occurrence, \<open>None\<close> for \<open>npos\<close>.\<close>

definition find_char :: "char \<Rightarrow> string \<Rightarrow> nat option" where
  "find_char c s = (if c \<in> set s then Some (length (takeWhile (\<lambda>x. x \<noteq> c) s)) else None)"

lemma token_whole: "c \<notin> set a \<Longrightarrow> takeWhile (\<lambda>x. x \<noteq> c) a = a \<and> dropWhile (\<lambda>x. x \<noteq> c) a = []"
  by (induction a) auto

lemma token_delim:
  "c \<notin> set a \<Longrightarrow> takeWhile (\<lambda>x. x \<noteq> c) (a @ c # b) = a \<and> dropWhile (\<lambda>x. x \<noteq> c) (a @ c # b) = c # b"
  by (induction a) auto

lemma find_char_split:
  assumes "c \<notin> set a"
  shows "find_char c (a @ c # b) = Some (length a)"
    and "take (length a) (a @ c # b) = a" and "drop (length a + 1) (a @ c # b) = b"
  using assms token_delim [of c a b] by (simp_all add: find_char_def)

text \<open>The \<open>std::getline\<close> loop of \<open>split_string\<close>: every token ends at the delimiter or at the
  end of the input, and no token is produced once the input is used up, so an empty token after
  the last delimiter is dropped.\<close>

function split_string :: "string \<Rightarrow> char \<Rightarrow> string list" where
  "split_string s d =
     (if s = [] then []
      else takeWhile (\<lambda>c. c \<noteq> d) s #
        (case dropWhile (\<lambda>c. c \<noteq> d) s of [] \<Rightarrow> [] | _ # r \<Rightarrow> split_string r d))"
  by pat_completeness auto
termination
proof (relation "measure (\<lambda>(s, d). length s)")
  fix s d x r
  assume "dropWhile (\<lambda>c. c \<noteq> d) s = x # r"
  then have "length (x # r) \<le> length s" by (metis length_dropWhile_le)
  then show "((r, d), s, d) \<in> measure (\<lambda>(s, d). length s)" by simp
qed simp

declare split_string.simps [simp del]

fun join_fields :: "char \<Rightarrow> string list \<Rightarrow> string" where
  "join_fields d [] = []"
| "join_fields d [f] = f"
| "join_fields d (f # g # fs) = f @ d # join_fields d (g # fs)"

lemma split_string_Nil [simp]: "split_string [] d = []"
  by (simp add: split_string.simps)

lemma split_string_token: "t \<noteq> [] \<Longrightarrow> d \<notin> set t \<Longrightarrow> split_string t d = [t]"
  using token_whole [of d t]
  by (subst split_string.simps) (simp del: dropWhile_eq_Nil_conv takeWhile_eq_all_conv)

lemma split_string_delim: "d \<notin> set t \<Longrightarrow> split_string (t @ d # r) d = t # split_string r d"
  using token_delim [of d t r] by (subst split_string.simps) simp

lemma join_fields_Cons: "fs \<noteq> [] \<Longrightarrow> join_fields d (f # fs) = f @ d # join_fields d fs"
  by (cases fs) auto

definition clean_fields :: "char \<Rightarrow> string list \<Rightarrow> bool" where
  "clean_fields d fs \<longleftrightarrow> (\<forall>f \<in> set fs. d \<notin> set f)"

lemma clean_fields_simps [simp]:
  "clean_fields d []" "clean_fields d (f # fs) \<longleftrightarrow> d \<notin> set f \<and> clean_fields d fs"
  "clean_fields d (fs @ gs) \<longleftrightarrow> clean_fields d fs \<and> clean_fields d gs"
  by (auto simp: clean_fields_def)

locale delimited_text =
  fixes join :: "string list \<Rightarrow> string" and split :: "string \<Rightarrow> string list"
    and clean :: "string list \<Rightarrow> bool"
  assumes split_join: "clean fs \<Longrightarrow> fs \<noteq> [] \<Longrightarrow> last fs \<noteq> [] \<Longrightarrow> split (join fs) = fs"
    and split_join_open: "clean fs \<Longrightarrow> fs \<noteq> [] \<Longrightarrow> split (join (fs @ [[]])) = fs"
begin

lemma arity: "clean fs \<Longrightarrow> fs \<noteq> [] \<Longrightarrow> last fs \<noteq> [] \<Longrightarrow> length (split (join fs)) = length fs"
  by (simp add: split_join)

lemma arity_open: "clean fs \<Longrightarrow> fs \<noteq> [] \<Longrightarrow> length (split (join (fs @ [[]]))) \<noteq> length (fs @ [[]])"
  by (simp add: split_join_open)

lemma join_inject:
  assumes "clean fs" "clean gs" "fs \<noteq> []" "gs \<noteq> []" "last fs \<noteq> []" "last gs \<noteq> []"
    and "join fs = join gs"
  shows "fs = gs"
  using assms split_join by metis

end

lemma split_join_fields:
  "clean_fields d fs \<Longrightarrow> fs \<noteq> [] \<Longrightarrow> last fs \<noteq> [] \<Longrightarrow> split_string (join_fields d fs) d = fs"
proof (induction fs)
  case (Cons f fs)
  then show ?case
    by (cases "fs = []") (auto simp: split_string_token join_fields_Cons split_string_delim)
qed simp

lemma split_join_fields_open:
  "clean_fields d fs \<Longrightarrow> fs \<noteq> [] \<Longrightarrow> split_string (join_fields d (fs @ [[]])) d = fs"
proof (induction fs)
  case (Cons f fs)
  then show ?case
    by (cases "fs = []") (auto simp: split_string_delim join_fields_Cons)
qed simp

interpretation semicolon: delimited_text "join_fields (CHR '';'')" "\<lambda>s. split_string s (CHR '';'')"
  "clean_fields (CHR '';'')"
  by unfold_locales (simp_all add: split_join_fields split_join_fields_open)

interpretation colon: delimited_text "join_fields (CHR '':'')" "\<lambda>s. split_string s (CHR '':'')"
  "clean_fields (CHR '':'')"
  by unfold_locales (simp_all add: split_join_fields split_join_fields_open)

lemma show_int_clean [simp]: "CHR '';'' \<notin> set (show_int i)" "CHR '':'' \<notin> set (show_int i)"
  by (auto dest!: show_int_chars simp: is_digit_def)

section \<open>Text as bytes\<close>

definition text_of_bytes :: "u8 list \<Rightarrow> string" where
  "text_of_bytes = map (\<lambda>b. char_of (unat b))"

definition bytes_of_text :: "string \<Rightarrow> u8 list" where
  "bytes_of_text = map (\<lambda>c. of_nat (of_char c))"

lemma text_of_bytes_of_text [simp]: "text_of_bytes (bytes_of_text s) = s"
proof -
  have "char_of (unat (of_nat (of_char c) :: u8)) = c" for c
    by (simp add: unat_of_nat of_char_mod_256)
  then show ?thesis by (simp add: text_of_bytes_def bytes_of_text_def comp_def)
qed

lemma length_bytes_of_text [simp]: "length (bytes_of_text s) = length s"
  by (simp add: bytes_of_text_def)

text \<open>The text that a buffer of received bytes holds as a C string.\<close>

definition c_text :: "u8 list \<Rightarrow> string" where
  "c_text bs = text_of_bytes (takeWhile (\<lambda>b. b \<noteq> 0) bs)"

lemma c_text_of_text: "CHR 0x00 \<notin> set s \<Longrightarrow> c_text (bytes_of_text s) = s"
proof -
  assume no: "CHR 0x00 \<notin> set s"
  have "(of_nat (of_char c) :: u8) \<noteq> 0" if "c \<in> set s" for c
  proof
    assume "(of_nat (of_char c) :: u8) = 0"
    then have "unat (of_nat (of_char c) :: u8) = 0" by simp
    then have "of_char c = (of_char (CHR 0x00) :: nat)" by (simp add: unat_of_nat of_char_mod_256)
    then have "c = CHR 0x00" by (simp only: of_char_eq_iff)
    with no that show False by blast
  qed
  then have "takeWhile (\<lambda>b. b \<noteq> 0) (bytes_of_text s) = bytes_of_text s"
    by (auto simp: takeWhile_eq_all_conv bytes_of_text_def)
  then show ?thesis by (simp only: c_text_def text_of_bytes_of_text)
qed

end
