(* ===== verification/Discovery_Protocol.thy ===== *)
theory Discovery_Protocol
  imports Cpp_Text
begin

text \<open>
  The text protocol of the discovery service (cpplib/discovery_protocol: protocol.hpp, protocol.cpp).
  A message is a tag and fields separated by semicolons; component data inside a list message is
  separated by colons. The encoders return \<open>ProtocolStatus::OK\<close> on every path, so they are
  modelled by the text they produce; the decoders return the status of a failure or the message.
  The variant \<open>Message\<close> is the datatype \<open>Message\<close>: its constructors keep the tag and the variant
  alternative together, as the C++ constructors do. An enum value decoded from the wire may be any
  \<open>int\<close>, hence the last constructors of \<open>ResponseCode\<close> and \<open>ErrorCode\<close>.
\<close>

datatype ProtocolStatus =
    OK | BUFFER_TOO_SMALL | INVALID_MESSAGE_TYPE | MALFORMED_MESSAGE | MISSING_REQUIRED_FIELDS
  | INVALID_FORMAT | FIELD_TOO_LONG | INCOMPLETE_MESSAGE

datatype ComponentType = VEHICLE | MEC | BRIDGE | OFFLOAD_MANAGER | TEST

datatype IdRequestType = AUTOMATIC | STATIC

datatype ResponseCode = SUCCESS | WAIT | ID_CONFLICT | INVALID_REQUEST | GENERAL_ERROR | ResponseCode_other int

datatype ErrorCode = CONFIGURATION | NETWORK | INTERNAL | PROTOCOL | ErrorCode_other int

record RegistrationRequest =
  componentType :: ComponentType
  idRequestType :: IdRequestType
  groupId :: u8
  idInGroup :: u8
  componentName :: string
  listenAddress :: string
  listenPort :: string
  rq_humanReadableMessage :: string

record RegistrationResponse =
  responseCode :: ResponseCode
  assignedGroupId :: u8
  assignedIdInGroup :: u8
  connectionTargetType :: string
  connectionTargetAddress :: string
  connectionTargetPort :: string
  connectionTargetId :: u16
  configJson :: string
  detectedClientAddress :: string
  rs_humanReadableMessage :: string

record KeepalivePing =
  kp_componentId :: string
  kp_status :: string
  kp_humanReadableMessage :: string

record KeepaliveResponse =
  kr_response :: string
  nextIntervalMs :: int
  kr_humanReadableMessage :: string

record ErrorMessage =
  errorCode :: ErrorCode
  er_humanReadableMessage :: string

record ComponentQuery =
  componentTypeFilter :: string
  cq_humanReadableMessage :: string

record ComponentListResponse =
  componentCount :: u32
  componentDataList :: "string list"
  cl_humanReadableMessage :: string

datatype Message =
    MsgRegistrationRequest RegistrationRequest
  | MsgRegistrationResponse RegistrationResponse
  | MsgError ErrorMessage
  | MsgKeepalivePing KeepalivePing
  | MsgKeepaliveResponse KeepaliveResponse
  | MsgComponentQuery ComponentQuery
  | MsgComponentList ComponentListResponse

section \<open>Enumerations as text and numbers\<close>

fun protocol_status_to_string :: "ProtocolStatus \<Rightarrow> string" where
  "protocol_status_to_string OK = ''OK''"
| "protocol_status_to_string BUFFER_TOO_SMALL = ''BUFFER_TOO_SMALL''"
| "protocol_status_to_string INVALID_MESSAGE_TYPE = ''INVALID_MESSAGE_TYPE''"
| "protocol_status_to_string MALFORMED_MESSAGE = ''MALFORMED_MESSAGE''"
| "protocol_status_to_string MISSING_REQUIRED_FIELDS = ''MISSING_REQUIRED_FIELDS''"
| "protocol_status_to_string INVALID_FORMAT = ''INVALID_FORMAT''"
| "protocol_status_to_string FIELD_TOO_LONG = ''FIELD_TOO_LONG''"
| "protocol_status_to_string INCOMPLETE_MESSAGE = ''INCOMPLETE_MESSAGE''"

fun component_type_to_string :: "ComponentType \<Rightarrow> string" where
  "component_type_to_string VEHICLE = ''V''"
| "component_type_to_string MEC = ''M''"
| "component_type_to_string BRIDGE = ''B''"
| "component_type_to_string OFFLOAD_MANAGER = ''O''"
| "component_type_to_string TEST = ''T''"

definition string_to_component_type :: "string \<Rightarrow> ComponentType" where
  "string_to_component_type str =
     (if str = ''V'' then VEHICLE
      else if str = ''M'' then MEC
      else if str = ''B'' then BRIDGE
      else if str = ''O'' then OFFLOAD_MANAGER
      else if str = ''T'' then TEST
      else TEST)"

text \<open>\<open>static_cast\<close> between the enumerations and \<open>int\<close>.\<close>

fun int_of_ResponseCode :: "ResponseCode \<Rightarrow> int" where
  "int_of_ResponseCode SUCCESS = 0"
| "int_of_ResponseCode WAIT = 1"
| "int_of_ResponseCode ID_CONFLICT = 2"
| "int_of_ResponseCode INVALID_REQUEST = 3"
| "int_of_ResponseCode GENERAL_ERROR = 4"
| "int_of_ResponseCode (ResponseCode_other v) = v"

definition ResponseCode_of_int :: "int \<Rightarrow> ResponseCode" where
  "ResponseCode_of_int v =
     (if v = 0 then SUCCESS else if v = 1 then WAIT else if v = 2 then ID_CONFLICT
      else if v = 3 then INVALID_REQUEST else if v = 4 then GENERAL_ERROR else ResponseCode_other v)"

fun int_of_ErrorCode :: "ErrorCode \<Rightarrow> int" where
  "int_of_ErrorCode CONFIGURATION = 0"
| "int_of_ErrorCode NETWORK = 1"
| "int_of_ErrorCode INTERNAL = 2"
| "int_of_ErrorCode PROTOCOL = 3"
| "int_of_ErrorCode (ErrorCode_other v) = v"

definition ErrorCode_of_int :: "int \<Rightarrow> ErrorCode" where
  "ErrorCode_of_int v =
     (if v = 0 then CONFIGURATION else if v = 1 then NETWORK else if v = 2 then INTERNAL
      else if v = 3 then PROTOCOL else ErrorCode_other v)"

section \<open>Encoders and decoders\<close>

definition encode_registration_request :: "RegistrationRequest \<Rightarrow> string" where
  "encode_registration_request request =
     ''DISC:REG;'' @ component_type_to_string (componentType request) @ '';''
     @ (if idRequestType request = AUTOMATIC then ''A'' else ''S'') @ '';''
     @ show_int (uint (groupId request)) @ '';''
     @ show_int (uint (idInGroup request)) @ '';''
     @ componentName request @ '';''
     @ listenAddress request @ '';''
     @ listenPort request @ '';''
     @ rq_humanReadableMessage request"

definition decode_registration_request :: "string \<Rightarrow> ProtocolStatus + RegistrationRequest" where
  "decode_registration_request input =
     (let parts = split_string input (CHR '';'') in
      if length parts \<noteq> 9 then Inl MALFORMED_MESSAGE
      else (case stoi (parts ! 3) of
         None \<Rightarrow> Inl INVALID_FORMAT
       | Some g \<Rightarrow>
           (case stoi (parts ! 4) of
              None \<Rightarrow> Inl INVALID_FORMAT
            | Some i \<Rightarrow>
                Inr \<lparr>componentType = string_to_component_type (parts ! 1),
                     idRequestType = (if parts ! 2 = ''A'' then AUTOMATIC else STATIC),
                     groupId = of_int g, idInGroup = of_int i,
                     componentName = parts ! 5, listenAddress = parts ! 6, listenPort = parts ! 7,
                     rq_humanReadableMessage = parts ! 8\<rparr>)))"

definition encode_registration_response :: "RegistrationResponse \<Rightarrow> string" where
  "encode_registration_response response =
     ''DISC:ACK;'' @ show_int (int_of_ResponseCode (responseCode response)) @ '';''
     @ show_int (uint (assignedGroupId response)) @ '';''
     @ show_int (uint (assignedIdInGroup response)) @ '';''
     @ connectionTargetType response @ '';''
     @ connectionTargetAddress response @ '';''
     @ connectionTargetPort response @ '';''
     @ show_int (uint (connectionTargetId response)) @ '';''
     @ configJson response @ '';''
     @ detectedClientAddress response @ '';''
     @ rs_humanReadableMessage response"

definition decode_registration_response :: "string \<Rightarrow> ProtocolStatus + RegistrationResponse" where
  "decode_registration_response input =
     (let parts = split_string input (CHR '';'') in
      if length parts \<noteq> 11 then Inl MALFORMED_MESSAGE
      else (case (stoi (parts ! 1), stoi (parts ! 2), stoi (parts ! 3), stoi (parts ! 7)) of
         (Some c, Some g, Some i, Some t) \<Rightarrow>
           Inr \<lparr>responseCode = ResponseCode_of_int c,
                assignedGroupId = of_int g, assignedIdInGroup = of_int i,
                connectionTargetType = parts ! 4, connectionTargetAddress = parts ! 5,
                connectionTargetPort = parts ! 6, connectionTargetId = of_int t,
                configJson = parts ! 8, detectedClientAddress = parts ! 9,
                rs_humanReadableMessage = parts ! 10\<rparr>
       | _ \<Rightarrow> Inl INVALID_FORMAT))"

definition encode_keepalive_ping :: "KeepalivePing \<Rightarrow> string" where
  "encode_keepalive_ping ping =
     ''DISC:PNG;'' @ kp_componentId ping @ '';'' @ kp_status ping @ '';'' @ kp_humanReadableMessage ping"

definition decode_keepalive_ping :: "string \<Rightarrow> ProtocolStatus + KeepalivePing" where
  "decode_keepalive_ping input =
     (let parts = split_string input (CHR '';'') in
      if length parts \<noteq> 4 then Inl MALFORMED_MESSAGE
      else Inr \<lparr>kp_componentId = parts ! 1, kp_status = parts ! 2, kp_humanReadableMessage = parts ! 3\<rparr>)"

definition encode_keepalive_response :: "KeepaliveResponse \<Rightarrow> string" where
  "encode_keepalive_response response =
     ''DISC:PON;'' @ kr_response response @ '';'' @ show_int (nextIntervalMs response) @ '';''
     @ kr_humanReadableMessage response"

definition decode_keepalive_response :: "string \<Rightarrow> ProtocolStatus + KeepaliveResponse" where
  "decode_keepalive_response input =
     (let parts = split_string input (CHR '';'') in
      if length parts \<noteq> 4 then Inl MALFORMED_MESSAGE
      else (case stoi (parts ! 2) of
         None \<Rightarrow> Inl INVALID_FORMAT
       | Some ms \<Rightarrow>
           Inr \<lparr>kr_response = parts ! 1, nextIntervalMs = ms, kr_humanReadableMessage = parts ! 3\<rparr>))"

definition encode_error_message :: "ErrorMessage \<Rightarrow> string" where
  "encode_error_message err =
     ''DISC:ERR;'' @ show_int (int_of_ErrorCode (errorCode err)) @ '';'' @ er_humanReadableMessage err"

definition decode_error_message :: "string \<Rightarrow> ProtocolStatus + ErrorMessage" where
  "decode_error_message input =
     (let parts = split_string input (CHR '';'') in
      if length parts \<noteq> 3 then Inl MALFORMED_MESSAGE
      else (case stoi (parts ! 1) of
         None \<Rightarrow> Inl INVALID_FORMAT
       | Some c \<Rightarrow> Inr \<lparr>errorCode = ErrorCode_of_int c, er_humanReadableMessage = parts ! 2\<rparr>))"

definition encode_component_query :: "ComponentQuery \<Rightarrow> string" where
  "encode_component_query query =
     ''DISC:QRY;'' @ componentTypeFilter query @ '';'' @ cq_humanReadableMessage query"

definition decode_component_query :: "string \<Rightarrow> ProtocolStatus + ComponentQuery" where
  "decode_component_query input =
     (let parts = split_string input (CHR '';'') in
      if length parts \<noteq> 3 then Inl MALFORMED_MESSAGE
      else Inr \<lparr>componentTypeFilter = parts ! 1, cq_humanReadableMessage = parts ! 2\<rparr>)"

definition encode_component_list_response :: "ComponentListResponse \<Rightarrow> string" where
  "encode_component_list_response response =
     ''DISC:LST;'' @ show_int (uint (componentCount response))
     @ concat (map (\<lambda>componentData. '';'' @ componentData) (componentDataList response))
     @ '';'' @ cl_humanReadableMessage response"

text \<open>The count is a \<open>uint32_t\<close>, and so are the sums \<open>2 + componentCount + 1\<close>, \<open>2 + i\<close> and
  \<open>2 + componentCount\<close> compared with the number of fields: they wrap around.\<close>

definition list_indices :: "u32 \<Rightarrow> nat \<Rightarrow> nat list" where
  "list_indices cnt n =
     filter (\<lambda>j. j < n) (map (\<lambda>i. unat (2 + of_nat i :: u32)) [0..<unat cnt])"

definition decode_component_list_response :: "string \<Rightarrow> ProtocolStatus + ComponentListResponse" where
  "decode_component_list_response input =
     (let parts = split_string input (CHR '';'') in
      if length parts < 3 then Inl MALFORMED_MESSAGE
      else (case stoi (parts ! 1) of
         None \<Rightarrow> Inl INVALID_FORMAT
       | Some c \<Rightarrow>
           (let cnt = (of_int c :: u32) in
            if length parts < unat (2 + cnt + 1) then Inl MALFORMED_MESSAGE
            else Inr \<lparr>componentCount = cnt,
                      componentDataList = map (\<lambda>j. parts ! j) (list_indices cnt (length parts)),
                      cl_humanReadableMessage =
                        (if length parts > unat (2 + cnt) then parts ! unat (2 + cnt) else [])\<rparr>)))"

fun encode_message :: "Message \<Rightarrow> string" where
  "encode_message (MsgRegistrationRequest m) = encode_registration_request m"
| "encode_message (MsgRegistrationResponse m) = encode_registration_response m"
| "encode_message (MsgKeepalivePing m) = encode_keepalive_ping m"
| "encode_message (MsgKeepaliveResponse m) = encode_keepalive_response m"
| "encode_message (MsgError m) = encode_error_message m"
| "encode_message (MsgComponentQuery m) = encode_component_query m"
| "encode_message (MsgComponentList m) = encode_component_list_response m"

definition decode_message :: "string \<Rightarrow> ProtocolStatus + Message" where
  "decode_message input =
     (if length input < 8 \<or> take 5 input \<noteq> ''DISC:'' then Inl INVALID_MESSAGE_TYPE
      else
        (let msg_type = take 3 (drop 5 input) in
         if msg_type = ''REG'' then map_sum id MsgRegistrationRequest (decode_registration_request input)
         else if msg_type = ''ACK'' then map_sum id MsgRegistrationResponse (decode_registration_response input)
         else if msg_type = ''PNG'' then map_sum id MsgKeepalivePing (decode_keepalive_ping input)
         else if msg_type = ''PON'' then map_sum id MsgKeepaliveResponse (decode_keepalive_response input)
         else if msg_type = ''ERR'' then map_sum id MsgError (decode_error_message input)
         else if msg_type = ''QRY'' then map_sum id MsgComponentQuery (decode_component_query input)
         else if msg_type = ''LST'' then map_sum id MsgComponentList (decode_component_list_response input)
         else Inl INVALID_MESSAGE_TYPE))"

section \<open>Component data\<close>

record ComponentData =
  component_type :: string
  group_id :: u8
  id_in_group :: u8
  subtype :: u8

text \<open>\<open>group_id\<close> and \<open>id_in_group\<close> have no initialiser: when there are fewer than three fields
  they keep whatever was in memory, the arguments \<open>g0\<close> and \<open>i0\<close>.\<close>

definition parse_component_data :: "u8 \<Rightarrow> u8 \<Rightarrow> string \<Rightarrow> ComponentData" where
  "parse_component_data g0 i0 data_str =
     (let parts = split_string data_str (CHR '':'') in
      if length parts \<ge> 3 then
        (case (stoi (parts ! 1), stoi (parts ! 2), if length parts \<ge> 4 then stoi (parts ! 3) else Some 0) of
           (Some g, Some i, Some s) \<Rightarrow>
             \<lparr>component_type = parts ! 0, group_id = of_int g, id_in_group = of_int i, subtype = of_int s\<rparr>
         | _ \<Rightarrow> \<lparr>component_type = parts ! 0, group_id = 0, id_in_group = 0, subtype = 0\<rparr>)
      else \<lparr>component_type = [], group_id = g0, id_in_group = i0, subtype = 0\<rparr>)"

definition format_component_data :: "ComponentData \<Rightarrow> string" where
  "format_component_data data =
     component_type data @ '':'' @ show_int (uint (group_id data)) @ '':''
     @ show_int (uint (id_in_group data)) @ '':'' @ show_int (uint (subtype data))"

section \<open>Messages as field lists\<close>

text \<open>The free-text fields of a message in wire order; the last one is the human readable message.\<close>

fun message_texts :: "Message \<Rightarrow> string list" where
  "message_texts (MsgRegistrationRequest m) =
     [componentName m, listenAddress m, listenPort m, rq_humanReadableMessage m]"
| "message_texts (MsgRegistrationResponse m) =
     [connectionTargetType m, connectionTargetAddress m, connectionTargetPort m, configJson m,
      detectedClientAddress m, rs_humanReadableMessage m]"
| "message_texts (MsgError m) = [er_humanReadableMessage m]"
| "message_texts (MsgKeepalivePing m) = [kp_componentId m, kp_status m, kp_humanReadableMessage m]"
| "message_texts (MsgKeepaliveResponse m) = [kr_response m, kr_humanReadableMessage m]"
| "message_texts (MsgComponentQuery m) = [componentTypeFilter m, cq_humanReadableMessage m]"
| "message_texts (MsgComponentList m) = componentDataList m @ [cl_humanReadableMessage m]"

text \<open>The numeric fields are as a C++ program can have built them: \<open>int\<close> values in range, no
  enumerator spelt as an out-of-range value, the list as long as its count says and shorter than
  \<open>std::stoi\<close> can read.\<close>

fun message_numbers_ok :: "Message \<Rightarrow> bool" where
  "message_numbers_ok (MsgRegistrationResponse m) =
     (case responseCode m of ResponseCode_other v \<Rightarrow> int_range v \<and> (v < 0 \<or> 4 < v) | _ \<Rightarrow> True)"
| "message_numbers_ok (MsgError m) =
     (case errorCode m of ErrorCode_other v \<Rightarrow> int_range v \<and> (v < 0 \<or> 3 < v) | _ \<Rightarrow> True)"
| "message_numbers_ok (MsgKeepaliveResponse m) = int_range (nextIntervalMs m)"
| "message_numbers_ok (MsgComponentList m) =
     (unat (componentCount m) = length (componentDataList m) \<and> length (componentDataList m) < 2 ^ 31)"
| "message_numbers_ok _ = True"

text \<open>The fields of the encoded message before its human readable message.\<close>

fun message_front :: "Message \<Rightarrow> string list" where
  "message_front (MsgRegistrationRequest m) =
     [''DISC:REG'', component_type_to_string (componentType m), if idRequestType m = AUTOMATIC then ''A'' else ''S'',
      show_int (uint (groupId m)), show_int (uint (idInGroup m)), componentName m, listenAddress m, listenPort m]"
| "message_front (MsgRegistrationResponse m) =
     [''DISC:ACK'', show_int (int_of_ResponseCode (responseCode m)), show_int (uint (assignedGroupId m)),
      show_int (uint (assignedIdInGroup m)), connectionTargetType m, connectionTargetAddress m,
      connectionTargetPort m, show_int (uint (connectionTargetId m)), configJson m, detectedClientAddress m]"
| "message_front (MsgError m) = [''DISC:ERR'', show_int (int_of_ErrorCode (errorCode m))]"
| "message_front (MsgKeepalivePing m) = [''DISC:PNG'', kp_componentId m, kp_status m]"
| "message_front (MsgKeepaliveResponse m) = [''DISC:PON'', kr_response m, show_int (nextIntervalMs m)]"
| "message_front (MsgComponentQuery m) = [''DISC:QRY'', componentTypeFilter m]"
| "message_front (MsgComponentList m) =
     [''DISC:LST'', show_int (uint (componentCount m))] @ componentDataList m"

lemma join_list_fields:
  "join_fields (CHR '';'') (f # ds @ [h]) = f @ concat (map (\<lambda>x. '';'' @ x) ds) @ '';'' @ h"
  by (induction ds arbitrary: f) (simp_all add: join_fields_Cons)

lemma encode_message_fields:
  "encode_message m = join_fields (CHR '';'') (message_front m @ [last (message_texts m)])"
proof (cases m)
  case (MsgComponentList x)
  then show ?thesis
    using join_list_fields [of "show_int (uint (componentCount x))" "componentDataList x"]
    by (simp add: encode_component_list_response_def)
qed (simp_all add: encode_registration_request_def encode_registration_response_def encode_error_message_def
    encode_keepalive_ping_def encode_keepalive_response_def encode_component_query_def)

lemma component_type_clean [simp]: "CHR '';'' \<notin> set (component_type_to_string t)"
  by (cases t) simp_all

lemma front_clean: "clean_fields (CHR '';'') (message_texts m) \<Longrightarrow> clean_fields (CHR '';'') (message_front m)"
  by (cases m) auto

lemma texts_last_clean: "clean_fields d (message_texts m) \<Longrightarrow> d \<notin> set (last (message_texts m))"
  by (cases m) auto

lemma front_nonempty [simp]: "message_front m \<noteq> []"
  by (cases m) simp_all

lemma split_encoded:
  assumes "clean_fields (CHR '';'') (message_texts m)"
  shows "split_string (encode_message m) (CHR '';'') =
     (if last (message_texts m) = [] then message_front m else message_front m @ [last (message_texts m)])"
  using semicolon.split_join [of "message_front m @ [last (message_texts m)]"]
    semicolon.split_join_open [of "message_front m"] front_clean [OF assms] texts_last_clean [OF assms]
  by (simp add: encode_message_fields)

section \<open>The component list decoder\<close>

lemma list_indices_small:
  assumes "unat cnt + 2 < 2 ^ 32" "unat cnt + 2 \<le> n"
  shows "list_indices cnt n = [2..<unat cnt + 2]"
proof -
  have "unat (2 + of_nat i :: u32) = i + 2" if "i < unat cnt" for i
    using that assms(1) unat_of_nat [where 'a = 32, of "2 + i"] by simp
  then have "map (\<lambda>i. unat (2 + of_nat i :: u32)) [0..<unat cnt] = map (\<lambda>i. i + 2) [0..<unat cnt]"
    by simp
  also have "\<dots> = [2..<unat cnt + 2]" by (rule map_add_upt)
  finally show ?thesis using assms(2) by (simp add: list_indices_def)
qed

lemma count_sums:
  assumes "unat (cnt :: u32) < 2 ^ 31"
  shows "unat (2 + cnt) = unat cnt + 2" "unat (2 + cnt + 1) = unat cnt + 3"
proof -
  have a: "unat (2 + cnt) = unat (2 :: u32) + unat cnt"
    by (rule unat_add_lem [THEN iffD1]) (use assms in simp)
  then show "unat (2 + cnt) = unat cnt + 2" by simp
  have "unat (2 + cnt + 1) = unat (2 + cnt) + unat (1 :: u32)"
    by (rule unat_add_lem [THEN iffD1]) (use assms a in simp)
  with a show "unat (2 + cnt + 1) = unat cnt + 3" by simp
qed

lemma nth_map_upt_front:
  "map (\<lambda>j. (a # b # ds @ r) ! j) [2..<length ds + 2] = ds"
proof -
  have "[2..<length ds + 2] = map (\<lambda>i. i + 2) [0..<length ds]" by (rule map_add_upt [symmetric])
  then show ?thesis by (auto intro!: nth_equalityI simp: nth_append simp del: upt_Suc)
qed

lemma decode_list_fields:
  assumes parts: "split_string input (CHR '';'') = [t, show_int (uint cnt)] @ ds @ r"
    and cnt: "unat cnt = length ds" "length ds < 2 ^ 31"
  shows "decode_component_list_response input =
    (case r of [] \<Rightarrow> Inl MALFORMED_MESSAGE
     | h # _ \<Rightarrow> Inr \<lparr>componentCount = cnt, componentDataList = ds, cl_humanReadableMessage = h\<rparr>)"
proof -
  have u: "uint cnt = int (length ds)" using cnt(1) by (metis uint_nat)
  then have rd: "stoi (show_int (uint cnt)) = Some (uint cnt)"
    using cnt(2) by (intro stoi_show_int) (simp add: int_range_def)
  have sums: "unat (2 + cnt) = length ds + 2" "unat (2 + cnt + 1) = length ds + 3"
    using count_sums [of cnt] cnt by simp_all
  show ?thesis
  proof (cases r)
    case Nil
    with parts rd sums show ?thesis by (simp add: decode_component_list_response_def Let_def)
  next
    case (Cons h r')
    have "list_indices cnt (length (t # show_int (uint cnt) # ds @ r)) = [2..<length ds + 2]"
      using list_indices_small [of cnt] cnt Cons by simp
    with Cons parts rd sums nth_map_upt_front [of t "show_int (uint cnt)" ds r] show ?thesis
      by (simp add: decode_component_list_response_def Let_def nth_append)
  qed
qed

section \<open>Properties of the discovery protocol\<close>

lemma ResponseCode_roundtrip [simp]:
  "(case c of ResponseCode_other v \<Rightarrow> int_range v \<and> (v < 0 \<or> 4 < v) | _ \<Rightarrow> True) \<Longrightarrow>
     ResponseCode_of_int (int_of_ResponseCode c) = c \<and> int_range (int_of_ResponseCode c)"
  by (cases c) (auto simp: ResponseCode_of_int_def int_range_def)

lemma ErrorCode_roundtrip [simp]:
  "(case c of ErrorCode_other v \<Rightarrow> int_range v \<and> (v < 0 \<or> 3 < v) | _ \<Rightarrow> True) \<Longrightarrow>
     ErrorCode_of_int (int_of_ErrorCode c) = c \<and> int_range (int_of_ErrorCode c)"
  by (cases c) (auto simp: ErrorCode_of_int_def int_range_def)

lemma component_type_roundtrip [simp]: "string_to_component_type (component_type_to_string t) = t"
  by (cases t) (simp_all add: string_to_component_type_def)

lemma id_request_roundtrip [simp]: "(if (if t = AUTOMATIC then ''A'' else ''S'') = ''A'' then AUTOMATIC else STATIC) = t"
  by (cases t) simp_all

text \<open>The tag selects the decoder.\<close>

lemma decode_dispatch:
  "decode_message (encode_message m) = (case m of
      MsgRegistrationRequest _ \<Rightarrow> map_sum id MsgRegistrationRequest (decode_registration_request (encode_message m))
    | MsgRegistrationResponse _ \<Rightarrow> map_sum id MsgRegistrationResponse (decode_registration_response (encode_message m))
    | MsgError _ \<Rightarrow> map_sum id MsgError (decode_error_message (encode_message m))
    | MsgKeepalivePing _ \<Rightarrow> map_sum id MsgKeepalivePing (decode_keepalive_ping (encode_message m))
    | MsgKeepaliveResponse _ \<Rightarrow> map_sum id MsgKeepaliveResponse (decode_keepalive_response (encode_message m))
    | MsgComponentQuery _ \<Rightarrow> map_sum id MsgComponentQuery (decode_component_query (encode_message m))
    | MsgComponentList _ \<Rightarrow> map_sum id MsgComponentList (decode_component_list_response (encode_message m)))"
  by (cases m) (simp_all add: decode_message_def encode_registration_request_def encode_registration_response_def
      encode_error_message_def encode_keepalive_ping_def encode_keepalive_response_def
      encode_component_query_def encode_component_list_response_def)

lemmas decode_defs = decode_registration_request_def decode_registration_response_def decode_error_message_def
  decode_keepalive_ping_def decode_keepalive_response_def decode_component_query_def

lemma decode_encoded_list:
  assumes "clean_fields (CHR '';'') (message_texts (MsgComponentList x))" "message_numbers_ok (MsgComponentList x)"
  shows "decode_component_list_response (encode_message (MsgComponentList x)) =
    (if cl_humanReadableMessage x = [] then Inl MALFORMED_MESSAGE else Inr x)"
  using split_encoded [OF assms(1)] assms(2)
    decode_list_fields [of "encode_message (MsgComponentList x)" "''DISC:LST''" "componentCount x" "componentDataList x"
      "if cl_humanReadableMessage x = [] then [] else [cl_humanReadableMessage x]"]
  by simp

lemma of_int_uint [simp]: "of_int (uint (w :: 'a :: len word)) = w"
  by simp

lemma discovery_roundtrip:
  assumes "clean_fields (CHR '';'') (message_texts m)" "message_numbers_ok m" "last (message_texts m) \<noteq> []"
  shows "decode_message (encode_message m) = Inr m"
proof (cases m)
  case (MsgComponentList x)
  with assms decode_encoded_list [of x] show ?thesis by (simp add: decode_dispatch del: encode_message.simps)
qed (use split_encoded [OF assms(1)] assms(2,3) in
    \<open>simp_all add: decode_dispatch decode_defs Let_def del: encode_message.simps\<close>)

text \<open>C8: round trip. Every message of the protocol survives encoding and decoding unchanged, provided its
  text fields contain no semicolon, its human readable message is not empty and a component list is as
  long as its count says.\<close>

theorem discovery_message_roundtrip:
  assumes "clean_fields (CHR '';'') (message_texts m)" "message_numbers_ok m" "last (message_texts m) \<noteq> []"
  shows "decode_message (encode_message m) = Inr m"
  using assms by (rule discovery_roundtrip)

theorem discovery_message_roundtrip_witness:
  "decode_message (encode_message (MsgComponentList
      \<lparr>componentCount = 2, componentDataList = [''M:60:5:1'', ''M:60:6:2''], cl_humanReadableMessage = ''2 found''\<rparr>))
   = Inr (MsgComponentList
      \<lparr>componentCount = 2, componentDataList = [''M:60:5:1'', ''M:60:6:2''], cl_humanReadableMessage = ''2 found''\<rparr>)"
  by (rule discovery_message_roundtrip) simp_all

text \<open>An empty human readable message makes a message undecodable. The field splitter drops an empty
  token at the end of the input, the field count is then one short, and the decoder answers
  \<open>MALFORMED_MESSAGE\<close>, for every message type.\<close>

lemma empty_text_not_decodable:
  assumes "clean_fields (CHR '';'') (message_texts m)" "message_numbers_ok m" "last (message_texts m) = []"
  shows "decode_message (encode_message m) = Inl MALFORMED_MESSAGE"
proof (cases m)
  case (MsgComponentList x)
  with assms decode_encoded_list [of x] show ?thesis by (simp add: decode_dispatch del: encode_message.simps)
qed (use split_encoded [OF assms(1)] assms(2,3) in
    \<open>simp_all add: decode_dispatch decode_defs Let_def del: encode_message.simps\<close>)

text \<open>The count \<open>-2\<close> read into a \<open>uint32_t\<close>: the sums of the bounds check wrap around.\<close>

lemma filter_less_upt: "n \<le> k \<Longrightarrow> filter (\<lambda>j. j < n) [a..<k] = [a..<n]"
proof (induction k)
  case (Suc k)
  then show ?case by (cases "n = Suc k") (auto simp: filter_id_conv simp del: upt_Suc, auto)
qed simp

lemma list_indices_minus_2:
  assumes "n < 2 ^ 32 - 2"
  shows "list_indices (- 2) n = [2..<n]"
proof -
  define c where "c = unat (- 2 :: u32)"
  have c: "c = 2 ^ 32 - 2" by (simp add: c_def)
  have "unat (2 + of_nat i :: u32) = i + 2" if "i < c" for i
    using that c unat_of_nat [where 'a = 32, of "2 + i"] by simp
  then have "map (\<lambda>i. unat (2 + of_nat i :: u32)) [0..<c] = map (\<lambda>i. i + 2) [0..<c]" by simp
  also have "\<dots> = [2..<c + 2]" by (rule map_add_upt)
  finally have "list_indices (- 2) n = filter (\<lambda>j. j < n) [2..<c + 2]"
    unfolding list_indices_def c_def [symmetric] by (rule arg_cong)
  also have "\<dots> = [2..<n]" by (rule filter_less_upt) (use assms c in linarith)
  finally show ?thesis .
qed

text \<open>The bounds check of the list decoder can be bypassed. A list message that announces \<open>-2\<close>
  components is accepted, whatever it contains: the check \<open>parts.size() < 2 + componentCount + 1\<close> is done in
  \<open>uint32_t\<close> and wraps around. The decoded count is 4294967294, the human readable message is
  the tag of the message, and the real message text becomes the last component.\<close>

lemma list_count_wraps_around:
  assumes "clean_fields (CHR '';'') (ds @ [h])" "h \<noteq> []" "length ds < 2 ^ 31"
  shows "decode_message (join_fields (CHR '';'') ([''DISC:LST'', ''-2''] @ ds @ [h])) =
     Inr (MsgComponentList \<lparr>componentCount = 4294967294, componentDataList = ds @ [h],
                            cl_humanReadableMessage = ''DISC:LST''\<rparr>)"
proof -
  let ?in = "join_fields (CHR '';'') ([''DISC:LST'', ''-2''] @ ds @ [h])"
  have parts: "split_string ?in (CHR '';'') = [''DISC:LST'', ''-2''] @ ds @ [h]"
    using assms by (intro semicolon.split_join) simp_all
  have rd: "stoi ''-2'' = Some (- 2)"
    using stoi_show_int [of "- 2"] by (simp add: show_int_def int_range_def show_nat.simps digit_char_def)
  have idx: "list_indices (- 2) (Suc (Suc (Suc (length ds)))) = [2..<length (ds @ [h]) + 2]"
    using list_indices_minus_2 [of "Suc (Suc (Suc (length ds)))"] assms(3) by simp
  have "decode_component_list_response ?in =
      Inr \<lparr>componentCount = - 2, componentDataList = ds @ [h], cl_humanReadableMessage = ''DISC:LST''\<rparr>"
    using nth_map_upt_front [of "''DISC:LST''" "''-2''" "ds @ [h]" "[]"]
    unfolding decode_component_list_response_def parts by (simp add: rd idx Let_def del: upt_Suc)
  moreover have "\<exists>rest. ?in = ''DISC:LST;'' @ rest" by (simp add: join_fields_Cons)
  ultimately show ?thesis by (auto simp: decode_message_def)
qed

lemma component_data_parse:
  assumes "CHR '':'' \<notin> set (component_type d)"
  shows "parse_component_data g0 i0 (format_component_data d) = d \<and>
    parse_component_data g0 i0 (component_type d @ '':'' @ show_int (uint (group_id d)) @ '':'' @ show_int (uint (id_in_group d)))
      = d\<lparr>subtype := 0\<rparr>"
proof -
  have new: "split_string (format_component_data d) (CHR '':'') =
      [component_type d, show_int (uint (group_id d)), show_int (uint (id_in_group d)), show_int (uint (subtype d))]"
    using colon.split_join [of "[component_type d, show_int (uint (group_id d)), show_int (uint (id_in_group d)),
      show_int (uint (subtype d))]"] assms by (simp add: format_component_data_def)
  have old: "split_string (component_type d @ '':'' @ show_int (uint (group_id d)) @ '':'' @ show_int (uint (id_in_group d)))
      (CHR '':'') = [component_type d, show_int (uint (group_id d)), show_int (uint (id_in_group d))]"
    using colon.split_join [of "[component_type d, show_int (uint (group_id d)), show_int (uint (id_in_group d))]"]
      assms by simp
  show ?thesis unfolding parse_component_data_def new old by simp
qed

text \<open>Component data survives formatting and parsing, whatever was in the uninitialised fields
  of the parser's result; the older form without a subtype reads as subtype 0.\<close>

lemma component_data_roundtrip:
  assumes "CHR '':'' \<notin> set (component_type d)"
  shows "parse_component_data g0 i0 (format_component_data d) = d \<and>
    parse_component_data g0 i0 (component_type d @ '':'' @ show_int (uint (group_id d)) @ '':'' @ show_int (uint (id_in_group d)))
      = d\<lparr>subtype := 0\<rparr>"
  using assms by (rule component_data_parse)

end
