(* ===== verification/Component_Registry.thy ===== *)
theory Component_Registry
  imports Discovery_Protocol
begin

text \<open>
  The registry of the discovery service (DiscoveryService/src/component_registry.hpp, .cpp): components by
  transport client, the reverse map from component ids, and the lists of bridges and offloading
  managers that the round-robin assignment walks. \<open>registry_inv\<close> says that the four containers
  describe one and the same set of components; registering a client that has no component keeps it, registering a
  second time on one connection does not. Time points are integers (milliseconds).
\<close>

record ComponentInfo =
  info_client_id :: int
  info_component_type :: ComponentType
  info_group_id :: u8
  info_id_in_group :: u8
  info_component_subtype :: u8
  info_name :: string
  info_listen_address :: string
  info_listen_port :: u16
  info_last_seen :: int

record ComponentRegistry =
  registry_by_client_id :: "(int, ComponentInfo) amap"
  client_id_by_component_id :: "(u8 \<times> u8, int) amap"
  bridge_client_ids :: "int list"
  next_bridge_idx :: nat
  om_client_ids :: "int list"
  next_om_idx :: nat

definition ComponentRegistry_init :: ComponentRegistry where
  "ComponentRegistry_init = \<lparr>registry_by_client_id = [], client_id_by_component_id = [], bridge_client_ids = [],
     next_bridge_idx = 0, om_client_ids = [], next_om_idx = 0\<rparr>"

definition is_id_taken :: "ComponentRegistry \<Rightarrow> u8 \<Rightarrow> u8 \<Rightarrow> bool" where
  "is_id_taken r g i \<longleftrightarrow> aget (client_id_by_component_id r) (g, i) \<noteq> None"

definition register_component :: "ComponentInfo \<Rightarrow> ComponentRegistry \<Rightarrow> bool \<times> ComponentRegistry" where
  "register_component info r =
     (if is_id_taken r (info_group_id info) (info_id_in_group info) then (False, r)
      else
        (let r = r\<lparr>registry_by_client_id := aput (info_client_id info) info (registry_by_client_id r)\<rparr>;
             r = r\<lparr>client_id_by_component_id :=
                    aput (info_group_id info, info_id_in_group info) (info_client_id info) (client_id_by_component_id r)\<rparr>;
             r = (if info_component_type info = BRIDGE
                  then r\<lparr>bridge_client_ids := bridge_client_ids r @ [info_client_id info]\<rparr>
                  else if info_component_type info = OFFLOAD_MANAGER
                  then r\<lparr>om_client_ids := om_client_ids r @ [info_client_id info]\<rparr>
                  else r)
         in (True, r)))"

definition unregister_component :: "int \<Rightarrow> ComponentRegistry \<Rightarrow> ComponentRegistry" where
  "unregister_component cid r =
     (case aget (registry_by_client_id r) cid of
        None \<Rightarrow> r
      | Some info \<Rightarrow>
          (let r = r\<lparr>client_id_by_component_id :=
                      aerase (info_group_id info, info_id_in_group info) (client_id_by_component_id r)\<rparr>;
               r = (if info_component_type info = BRIDGE
                    then r\<lparr>bridge_client_ids := removeAll cid (bridge_client_ids r)\<rparr>
                    else if info_component_type info = OFFLOAD_MANAGER
                    then r\<lparr>om_client_ids := removeAll cid (om_client_ids r)\<rparr>
                    else r)
           in r\<lparr>registry_by_client_id := aerase cid (registry_by_client_id r)\<rparr>))"

definition find_by_client_id :: "ComponentRegistry \<Rightarrow> int \<Rightarrow> ComponentInfo option" where
  "find_by_client_id r cid = aget (registry_by_client_id r) cid"

definition find_available_bridge :: "ComponentRegistry \<Rightarrow> ComponentInfo option \<times> ComponentRegistry" where
  "find_available_bridge r =
     (if bridge_client_ids r = [] then (None, r)
      else
        (let r = (if next_bridge_idx r \<ge> length (bridge_client_ids r) then r\<lparr>next_bridge_idx := 0\<rparr> else r);
             cid = bridge_client_ids r ! next_bridge_idx r;
             r = r\<lparr>next_bridge_idx := next_bridge_idx r + 1\<rparr>
         in (find_by_client_id r cid, r)))"

definition find_available_om :: "ComponentRegistry \<Rightarrow> ComponentInfo option \<times> ComponentRegistry" where
  "find_available_om r =
     (if om_client_ids r = [] then (None, r)
      else
        (let r = (if next_om_idx r \<ge> length (om_client_ids r) then r\<lparr>next_om_idx := 0\<rparr> else r);
             cid = om_client_ids r ! next_om_idx r;
             r = r\<lparr>next_om_idx := next_om_idx r + 1\<rparr>
         in (find_by_client_id r cid, r)))"

definition get_all_client_ids :: "ComponentRegistry \<Rightarrow> int list" where
  "get_all_client_ids r = map fst (registry_by_client_id r)"

definition get_all_components :: "ComponentRegistry \<Rightarrow> ComponentInfo list" where
  "get_all_components r = map snd (registry_by_client_id r)"

definition update_keepalive :: "int \<Rightarrow> u8 \<Rightarrow> u8 \<Rightarrow> ComponentRegistry \<Rightarrow> bool \<times> ComponentRegistry" where
  "update_keepalive now g i r =
     (case aget (client_id_by_component_id r) (g, i) of
        None \<Rightarrow> (False, r)
      | Some cid \<Rightarrow>
          (case aget (registry_by_client_id r) cid of
             None \<Rightarrow> (False, r)
           | Some info \<Rightarrow>
               (True, r\<lparr>registry_by_client_id := aput cid (info\<lparr>info_last_seen := now\<rparr>) (registry_by_client_id r)\<rparr>)))"

section \<open>The registry invariant\<close>

abbreviation component_key :: "ComponentInfo \<Rightarrow> u8 \<times> u8" where
  "component_key info \<equiv> (info_group_id info, info_id_in_group info)"

text \<open>The clients registered with a given type.\<close>

definition typed_clients :: "ComponentRegistry \<Rightarrow> ComponentType \<Rightarrow> int set" where
  "typed_clients r t = {cid. \<exists>info. aget (registry_by_client_id r) cid = Some info \<and> info_component_type info = t}"

definition registry_inv :: "ComponentRegistry \<Rightarrow> bool" where
  "registry_inv r \<longleftrightarrow>
     awf (registry_by_client_id r) \<and> awf (client_id_by_component_id r)
     \<and> (\<forall>cid info. aget (registry_by_client_id r) cid = Some info \<longrightarrow>
          info_client_id info = cid \<and> aget (client_id_by_component_id r) (component_key info) = Some cid)
     \<and> (\<forall>k cid. aget (client_id_by_component_id r) k = Some cid \<longrightarrow>
          (\<exists>info. aget (registry_by_client_id r) cid = Some info \<and> component_key info = k))
     \<and> distinct (bridge_client_ids r) \<and> set (bridge_client_ids r) = typed_clients r BRIDGE
     \<and> distinct (om_client_ids r) \<and> set (om_client_ids r) = typed_clients r OFFLOAD_MANAGER"

lemma registry_invD:
  assumes "registry_inv r"
  shows "awf (registry_by_client_id r)" "awf (client_id_by_component_id r)"
    and "aget (registry_by_client_id r) cid = Some info \<Longrightarrow> info_client_id info = cid"
    and "aget (registry_by_client_id r) cid = Some info \<Longrightarrow> aget (client_id_by_component_id r) (component_key info) = Some cid"
    and "aget (client_id_by_component_id r) k = Some cid \<Longrightarrow>
          \<exists>info. aget (registry_by_client_id r) cid = Some info \<and> component_key info = k"
    and "distinct (bridge_client_ids r)" "set (bridge_client_ids r) = typed_clients r BRIDGE"
    and "distinct (om_client_ids r)" "set (om_client_ids r) = typed_clients r OFFLOAD_MANAGER"
  using assms unfolding registry_inv_def by blast+

lemma registry_inv_init: "registry_inv ComponentRegistry_init"
  by (simp add: registry_inv_def ComponentRegistry_init_def typed_clients_def)

lemma registry_inv_register:
  assumes inv: "registry_inv r" and new: "aget (registry_by_client_id r) (info_client_id info) = None"
    and reg: "register_component info r = (ok, r')"
  shows "registry_inv r'"
proof (cases "is_id_taken r (info_group_id info) (info_id_in_group info)")
  case True
  with inv reg show ?thesis by (simp add: register_component_def)
next
  case False
  let ?c = "info_client_id info"
  have free: "aget (client_id_by_component_id r) (component_key info) = None"
    using False by (simp add: is_id_taken_def)
  have r': "registry_by_client_id r' = aput ?c info (registry_by_client_id r)"
    "client_id_by_component_id r' = aput (component_key info) ?c (client_id_by_component_id r)"
    "bridge_client_ids r' = bridge_client_ids r @ (if info_component_type info = BRIDGE then [?c] else [])"
    "om_client_ids r' = om_client_ids r @ (if info_component_type info = OFFLOAD_MANAGER then [?c] else [])"
    using reg False by (auto simp: register_component_def Let_def)
  have typed: "typed_clients r' t = typed_clients r t \<union> (if info_component_type info = t then {?c} else {})" for t
    using new by (auto simp: typed_clients_def r' split: if_splits)
  have notin: "?c \<notin> typed_clients r t" for t using new by (simp add: typed_clients_def)
  have other_key: "\<not> (info_group_id info' = info_group_id info \<and> info_id_in_group info' = info_id_in_group info)"
    if "aget (registry_by_client_id r) c = Some info'" for c info'
    using registry_invD(4) [OF inv that] free by auto
  have no_ghost: "aget (client_id_by_component_id r) k \<noteq> Some ?c" for k
    using registry_invD(5) [OF inv, of k ?c] new by auto
  show ?thesis
    unfolding registry_inv_def typed r'
    using registry_invD [OF inv] new notin other_key no_ghost
    by (intro conjI allI impI) (auto split: if_splits)
qed

lemma registry_inv_unregister:
  assumes inv: "registry_inv r"
  shows "registry_inv (unregister_component cid r)"
proof (cases "aget (registry_by_client_id r) cid")
  case None
  with inv show ?thesis by (simp add: unregister_component_def)
next
  case (Some info)
  let ?r' = "unregister_component cid r"
  have r': "registry_by_client_id ?r' = aerase cid (registry_by_client_id r)"
    "client_id_by_component_id ?r' = aerase (component_key info) (client_id_by_component_id r)"
    "bridge_client_ids ?r' = (if info_component_type info = BRIDGE then removeAll cid (bridge_client_ids r) else bridge_client_ids r)"
    "om_client_ids ?r' = (if info_component_type info = OFFLOAD_MANAGER then removeAll cid (om_client_ids r) else om_client_ids r)"
    using Some by (auto simp: unregister_component_def Let_def)
  have typed: "typed_clients ?r' t = typed_clients r t - {cid}" for t
    by (auto simp: typed_clients_def r' split: if_splits)
  have other: "cid \<notin> typed_clients r t" if "info_component_type info \<noteq> t" for t
    using Some that by (simp add: typed_clients_def)
  have key: "component_key info' \<noteq> component_key info"
    if "aget (registry_by_client_id r) c = Some info'" "c \<noteq> cid" for c info'
    using registry_invD(4) [OF inv that(1)] registry_invD(4) [OF inv Some] that(2) by auto
  show ?thesis
    unfolding registry_inv_def typed r'
    using registry_invD [OF inv] key other Some
    by (intro conjI allI impI) (auto simp: distinct_removeAll split: if_splits, (metis option.inject)+)
qed

lemma registry_inv_keepalive:
  assumes inv: "registry_inv r" and upd: "update_keepalive now g i r = (ok, r')"
  shows "registry_inv r'"
proof (cases "ok")
  case False
  with inv upd show ?thesis by (auto simp: update_keepalive_def split: option.splits)
next
  case True
  then obtain cid info where c: "aget (client_id_by_component_id r) (g, i) = Some cid"
      "aget (registry_by_client_id r) cid = Some info"
      "r' = r\<lparr>registry_by_client_id := aput cid (info\<lparr>info_last_seen := now\<rparr>) (registry_by_client_id r)\<rparr>"
    using upd by (auto simp: update_keepalive_def split: option.splits)
  have typed: "typed_clients r' t = typed_clients r t" for t
    using c by (auto simp: typed_clients_def)
  let ?new = "info\<lparr>info_last_seen := now\<rparr>"
  have same: "info_client_id ?new = info_client_id info" "component_key ?new = component_key info" by simp_all
  have old: "info_client_id x = d \<and> aget (client_id_by_component_id r) (component_key x) = Some d"
    if "aget (registry_by_client_id r') d = Some x" for d x
    using that registry_invD(3,4) [OF inv, of d] c(2) same by (auto simp: c(3) split: if_splits)
  have new: "\<exists>x. aget (registry_by_client_id r') d = Some x \<and> component_key x = k"
    if "aget (client_id_by_component_id r) k = Some d" for k d
    using registry_invD(5) [OF inv that] c(2) same by (cases "d = cid") (auto simp: c(3))
  show ?thesis
    unfolding registry_inv_def typed
    using registry_invD(1,2,6-9) [OF inv] old new by (simp add: c(3))
qed

lemma typed_clients_idx [simp]:
  "typed_clients (r\<lparr>next_bridge_idx := n\<rparr>) t = typed_clients r t"
  "typed_clients (r\<lparr>next_om_idx := n\<rparr>) t = typed_clients r t"
  by (simp_all add: typed_clients_def)

lemma registry_inv_idx [simp]:
  "registry_inv (r\<lparr>next_bridge_idx := n\<rparr>) = registry_inv r"
  "registry_inv (r\<lparr>next_om_idx := n\<rparr>) = registry_inv r"
  by (simp_all add: registry_inv_def)

lemma registry_inv_find:
  "registry_inv r \<Longrightarrow> registry_inv (snd (find_available_bridge r))"
  "registry_inv r \<Longrightarrow> registry_inv (snd (find_available_om r))"
  by (simp_all add: find_available_bridge_def find_available_om_def Let_def)

lemma find_available_keeps:
  "registry_by_client_id (snd (find_available_bridge r)) = registry_by_client_id r"
  "client_id_by_component_id (snd (find_available_bridge r)) = client_id_by_component_id r"
  "registry_by_client_id (snd (find_available_om r)) = registry_by_client_id r"
  "client_id_by_component_id (snd (find_available_om r)) = client_id_by_component_id r"
  by (simp_all add: find_available_bridge_def find_available_om_def Let_def)

section \<open>The contract of a component directory\<close>

text \<open>What the discovery service relies on: registered components have distinct ids, an id is taken
  exactly while a component holds it, registration and removal change nothing else.\<close>

locale component_directory =
  fixes find :: "'r \<Rightarrow> int \<Rightarrow> ComponentInfo option"
    and taken :: "'r \<Rightarrow> u8 \<Rightarrow> u8 \<Rightarrow> bool"
    and reg :: "ComponentInfo \<Rightarrow> 'r \<Rightarrow> bool \<times> 'r"
    and unreg :: "int \<Rightarrow> 'r \<Rightarrow> 'r"
    and inv :: "'r \<Rightarrow> bool"
  assumes inv_reg: "inv r \<Longrightarrow> find r (info_client_id x) = None \<Longrightarrow> inv (snd (reg x r))"
    and inv_unreg: "inv r \<Longrightarrow> inv (unreg c r)"
    and reg_ok: "fst (reg x r) \<longleftrightarrow> \<not> taken r (info_group_id x) (info_id_in_group x)"
    and find_reg: "fst (reg x r) \<Longrightarrow> find (snd (reg x r)) c = (if c = info_client_id x then Some x else find r c)"
    and reg_refused: "\<not> fst (reg x r) \<Longrightarrow> snd (reg x r) = r"
    and find_unreg: "find (unreg c r) d = (if d = c then None else find r d)"
    and taken_iff: "inv r \<Longrightarrow> taken r g i \<longleftrightarrow> (\<exists>c x. find r c = Some x \<and> component_key x = (g, i))"
    and key_unique: "inv r \<Longrightarrow> find r c = Some x \<Longrightarrow> find r d = Some y \<Longrightarrow> component_key x = component_key y \<Longrightarrow> c = d"
begin

lemma unreg_frees_id:
  assumes "inv r" "find r c = Some x"
  shows "\<not> taken (unreg c r) (info_group_id x) (info_id_in_group x)"
proof
  assume "taken (unreg c r) (info_group_id x) (info_id_in_group x)"
  then obtain d y where "find (unreg c r) d = Some y" "component_key y = component_key x"
    using taken_iff [OF inv_unreg [OF assms(1)]] by blast
  then have "d \<noteq> c" "find r d = Some y" by (auto simp: find_unreg split: if_splits)
  with key_unique [OF assms, of d y] \<open>component_key y = component_key x\<close> show False by auto
qed

lemma restart_registers:
  assumes "inv r" "find r c = Some x"
  shows "fst (reg x (unreg c r))"
  using unreg_frees_id [OF assms] reg_ok by blast

lemma reg_takes_id:
  assumes "inv r" "find r (info_client_id x) = None" "fst (reg x r)"
  shows "taken (snd (reg x r)) g i \<longleftrightarrow> (g, i) = component_key x \<or> taken r g i"
proof -
  have "taken (snd (reg x r)) g i \<longleftrightarrow> (\<exists>c y. (if c = info_client_id x then Some x else find r c) = Some y \<and> component_key y = (g, i))"
    using taken_iff [OF inv_reg [OF assms(1,2)]] find_reg [OF assms(3)] by simp
  also have "\<dots> \<longleftrightarrow> (g, i) = component_key x \<or> (\<exists>c y. find r c = Some y \<and> component_key y = (g, i))"
    using assms(2) by (metis (no_types, lifting) option.distinct(1) option.inject)
  finally show ?thesis by (simp add: taken_iff [OF assms(1)])
qed

lemma unreg_all:
  "inv r \<Longrightarrow> inv (fold unreg cs r) \<and> (\<forall>d. find (fold unreg cs r) d = (if d \<in> set cs then None else find r d))"
  by (induction cs arbitrary: r) (auto simp: inv_unreg find_unreg)

end

lemma find_after_register:
  "register_component x r = (True, r') \<Longrightarrow>
     find_by_client_id r' c = (if c = info_client_id x then Some x else find_by_client_id r c)"
  by (auto simp: register_component_def find_by_client_id_def Let_def split: if_splits)

lemma registry_taken_iff:
  assumes "registry_inv r"
  shows "is_id_taken r g i \<longleftrightarrow> (\<exists>c x. find_by_client_id r c = Some x \<and> component_key x = (g, i))"
proof
  assume "is_id_taken r g i"
  then obtain c where "aget (client_id_by_component_id r) (g, i) = Some c" by (auto simp: is_id_taken_def)
  from registry_invD(5) [OF assms this] show "\<exists>c x. find_by_client_id r c = Some x \<and> component_key x = (g, i)"
    by (auto simp: find_by_client_id_def)
next
  assume "\<exists>c x. find_by_client_id r c = Some x \<and> component_key x = (g, i)"
  then obtain c x where "aget (registry_by_client_id r) c = Some x" "component_key x = (g, i)"
    by (auto simp: find_by_client_id_def)
  with registry_invD(4) [OF assms, of c x] show "is_id_taken r g i" by (simp add: is_id_taken_def)
qed

interpretation registry: component_directory find_by_client_id is_id_taken register_component
  unregister_component registry_inv
proof
  show "registry_inv (snd (register_component x r))"
    if "registry_inv r" "find_by_client_id r (info_client_id x) = None" for r x
    using registry_inv_register [OF that(1), of x] that(2)
    by (cases "register_component x r") (simp add: find_by_client_id_def)
  show "registry_inv (unregister_component c r)" if "registry_inv r" for r c
    using that by (rule registry_inv_unregister)
  show "fst (register_component x r) \<longleftrightarrow> \<not> is_id_taken r (info_group_id x) (info_id_in_group x)" for x r
    by (simp add: register_component_def Let_def)
  show "find_by_client_id (snd (register_component x r)) c = (if c = info_client_id x then Some x else find_by_client_id r c)"
    if "fst (register_component x r)" for x r c
    using find_after_register [of x r "snd (register_component x r)"] that
    by (cases "register_component x r") simp
  show "snd (register_component x r) = r" if "\<not> fst (register_component x r)" for x r
    using that by (auto simp: register_component_def Let_def split: if_splits)
  show "find_by_client_id (unregister_component c r) d = (if d = c then None else find_by_client_id r d)" for c r d
    by (cases "aget (registry_by_client_id r) c") (auto simp: find_by_client_id_def unregister_component_def Let_def)
  show "is_id_taken r g i \<longleftrightarrow> (\<exists>c x. find_by_client_id r c = Some x \<and> component_key x = (g, i))"
    if "registry_inv r" for r g i
    using that by (rule registry_taken_iff)
  show "c = d" if "registry_inv r" "find_by_client_id r c = Some x" "find_by_client_id r d = Some y"
    "component_key x = component_key y" for r c x d y
    using registry_invD(4) [OF that(1), of c x] registry_invD(4) [OF that(1), of d y] that(2-4)
    by (simp add: find_by_client_id_def)
qed

section \<open>Round-robin assignment\<close>

text \<open>The bridges handed out by \<open>n\<close> successive calls.\<close>

fun bridge_assignments :: "nat \<Rightarrow> ComponentRegistry \<Rightarrow> int list" where
  "bridge_assignments 0 r = []"
| "bridge_assignments (Suc n) r =
     (case find_available_bridge r of
        (Some info, r') \<Rightarrow> info_client_id info # bridge_assignments n r'
      | (None, r') \<Rightarrow> bridge_assignments n r')"

text \<open>Where the walk over the bridges goes on.\<close>

definition bridge_start :: "ComponentRegistry \<Rightarrow> nat" where
  "bridge_start r = (if next_bridge_idx r \<ge> length (bridge_client_ids r) then 0 else next_bridge_idx r)"

lemma find_available_bridge_step:
  assumes inv: "registry_inv r" and ne: "bridge_client_ids r \<noteq> []"
  shows "\<exists>info r'. find_available_bridge r = (Some info, r') \<and> info_component_type info = BRIDGE
      \<and> info_client_id info = bridge_client_ids r ! bridge_start r
      \<and> find_by_client_id r (info_client_id info) = Some info
      \<and> registry_inv r' \<and> bridge_client_ids r' = bridge_client_ids r
      \<and> next_bridge_idx r' = Suc (bridge_start r)"
proof -
  have "bridge_start r < length (bridge_client_ids r)" using ne by (simp add: bridge_start_def)
  then have "bridge_client_ids r ! bridge_start r \<in> typed_clients r BRIDGE"
    using registry_invD(7) [OF inv] nth_mem by blast
  then obtain info where info: "aget (registry_by_client_id r) (bridge_client_ids r ! bridge_start r) = Some info"
      "info_component_type info = BRIDGE"
    by (auto simp: typed_clients_def)
  have cid: "info_client_id info = bridge_client_ids r ! bridge_start r" by (rule registry_invD(3) [OF inv info(1)])
  have "find_available_bridge r = (Some info, r\<lparr>next_bridge_idx := Suc (bridge_start r)\<rparr>)"
    using ne info(1) by (auto simp: find_available_bridge_def find_by_client_id_def bridge_start_def Let_def)
  with info cid inv show ?thesis by (auto simp: find_by_client_id_def)
qed

lemma find_available_om_step:
  assumes inv: "registry_inv r" and ne: "om_client_ids r \<noteq> []"
  shows "\<exists>info r'. find_available_om r = (Some info, r') \<and> info_component_type info = OFFLOAD_MANAGER
      \<and> find_by_client_id r (info_client_id info) = Some info \<and> registry_inv r'"
proof -
  let ?k = "if next_om_idx r \<ge> length (om_client_ids r) then 0 else next_om_idx r"
  have "?k < length (om_client_ids r)" using ne by simp
  then have "om_client_ids r ! ?k \<in> typed_clients r OFFLOAD_MANAGER"
    using registry_invD(9) [OF inv] nth_mem by blast
  then obtain info where info: "aget (registry_by_client_id r) (om_client_ids r ! ?k) = Some info"
      "info_component_type info = OFFLOAD_MANAGER"
    by (auto simp: typed_clients_def)
  have cid: "info_client_id info = om_client_ids r ! ?k" by (rule registry_invD(3) [OF inv info(1)])
  have "find_available_om r = (Some info, r\<lparr>next_om_idx := Suc ?k\<rparr>)"
    using ne info(1) by (auto simp: find_available_om_def find_by_client_id_def Let_def)
  with info cid inv show ?thesis by (auto simp: find_by_client_id_def)
qed

lemma bridge_assignments_eq:
  assumes "registry_inv r" "bridge_client_ids r \<noteq> []"
  shows "bridge_assignments n r
    = map (\<lambda>k. bridge_client_ids r ! ((bridge_start r + k) mod length (bridge_client_ids r))) [0..<n]"
  using assms
proof (induction n arbitrary: r)
  case (Suc n)
  let ?m = "length (bridge_client_ids r)"
  obtain info r' where st: "find_available_bridge r = (Some info, r')"
      "info_client_id info = bridge_client_ids r ! bridge_start r" "registry_inv r'"
      "bridge_client_ids r' = bridge_client_ids r" "next_bridge_idx r' = Suc (bridge_start r)"
    using find_available_bridge_step [OF Suc.prems] by blast
  have lt: "bridge_start r < ?m" using Suc.prems(2) by (simp add: bridge_start_def)
  then have "bridge_start r' = Suc (bridge_start r) mod ?m"
    using st by (auto simp: bridge_start_def mod_Suc)
  then have step: "(bridge_start r' + k) mod ?m = (bridge_start r + Suc k) mod ?m" for k
    by (simp add: mod_add_left_eq)
  have "bridge_assignments n r' = map (\<lambda>k. bridge_client_ids r ! ((bridge_start r + Suc k) mod ?m)) [0..<n]"
    using Suc.IH [OF st(3)] st Suc.prems(2) step by simp
  moreover have "[0..<Suc n] = 0 # map Suc [0..<n]" by (simp add: map_Suc_upt upt_conv_Cons)
  ultimately show ?case using st lt by (simp add: comp_def del: upt_Suc)
qed simp

lemma bridge_round:
  assumes "registry_inv r" "bridge_client_ids r \<noteq> []"
  shows "bridge_assignments (length (bridge_client_ids r)) r = rotate (bridge_start r) (bridge_client_ids r)"
  unfolding bridge_assignments_eq [OF assms]
  by (rule nth_equalityI) (simp_all add: nth_rotate)

section \<open>What holds whatever clients do\<close>

text \<open>The part of the invariant that survives repeated registrations on one connection: every registered
  component is stored under its client and its id points back to that client.\<close>

definition registry_weak :: "ComponentRegistry \<Rightarrow> bool" where
  "registry_weak r \<longleftrightarrow> awf (registry_by_client_id r) \<and> awf (client_id_by_component_id r)
     \<and> (\<forall>cid info. aget (registry_by_client_id r) cid = Some info \<longrightarrow>
          info_client_id info = cid \<and> aget (client_id_by_component_id r) (component_key info) = Some cid)"

lemma registry_weak_init: "registry_weak ComponentRegistry_init"
  by (simp add: registry_weak_def ComponentRegistry_init_def)

lemma registry_weak_register:
  assumes "registry_weak r"
  shows "registry_weak (snd (register_component x r))"
proof (cases "is_id_taken r (info_group_id x) (info_id_in_group x)")
  case True
  with assms show ?thesis by (simp add: register_component_def)
next
  case False
  then have free: "aget (client_id_by_component_id r) (component_key x) = None" by (simp add: is_id_taken_def)
  have maps: "registry_by_client_id (snd (register_component x r)) = aput (info_client_id x) x (registry_by_client_id r)"
    "client_id_by_component_id (snd (register_component x r)) = aput (component_key x) (info_client_id x) (client_id_by_component_id r)"
    using False by (auto simp: register_component_def Let_def)
  have old: "info_client_id y = d \<and> aget (client_id_by_component_id r) (component_key y) = Some d"
    if "aget (registry_by_client_id r) d = Some y" for d y
    using assms that unfolding registry_weak_def by blast
  have "info_client_id y = d \<and> aget (aput (component_key x) (info_client_id x) (client_id_by_component_id r)) (component_key y) = Some d"
    if "aget (aput (info_client_id x) x (registry_by_client_id r)) d = Some y" for d y
  proof (cases "d = info_client_id x")
    case False
    with that have "aget (registry_by_client_id r) d = Some y" by simp
    with old [OF this] free show ?thesis by (cases "component_key y = component_key x") auto
  qed (use that in simp)
  moreover have "awf (registry_by_client_id r)" "awf (client_id_by_component_id r)"
    using assms unfolding registry_weak_def by blast+
  ultimately show ?thesis unfolding registry_weak_def maps by (intro conjI awf_aput allI impI) blast+
qed

lemma registry_weak_unregister:
  assumes "registry_weak r"
  shows "registry_weak (unregister_component c r)"
proof (cases "aget (registry_by_client_id r) c")
  case None
  with assms show ?thesis by (simp add: unregister_component_def)
next
  case (Some x)
  have maps: "registry_by_client_id (unregister_component c r) = aerase c (registry_by_client_id r)"
    "client_id_by_component_id (unregister_component c r) = aerase (component_key x) (client_id_by_component_id r)"
    using Some by (auto simp: unregister_component_def Let_def)
  have "component_key y \<noteq> component_key x" if "aget (registry_by_client_id r) d = Some y" "d \<noteq> c" for d y
    using assms Some that unfolding registry_weak_def by (metis option.inject)
  then show ?thesis
    using assms unfolding registry_weak_def maps by (auto split: if_splits)
qed

lemma registry_weak_keepalive:
  "registry_weak r \<Longrightarrow> registry_weak (snd (update_keepalive now g i r))"
  by (auto simp: registry_weak_def update_keepalive_def split: option.splits if_splits)

lemma registry_weak_find:
  "registry_weak r \<Longrightarrow> registry_weak (snd (find_available_bridge r))"
  "registry_weak r \<Longrightarrow> registry_weak (snd (find_available_om r))"
  by (simp_all add: registry_weak_def find_available_keeps)

lemma registry_weak_unique:
  assumes "registry_weak r" "find_by_client_id r c = Some x" "find_by_client_id r d = Some y"
    and "component_key x = component_key y"
  shows "c = d"
  using assms unfolding registry_weak_def find_by_client_id_def by (metis option.inject)

section \<open>Properties of the registry\<close>

text \<open>The registry stays consistent. Removing a component, keepalives and the round-robin lookups
  always keep the invariant; registering keeps it when the client has no component yet.\<close>

lemma registry_invariant:
  assumes "registry_inv r"
  shows "registry_inv (unregister_component c r) \<and> registry_inv (snd (update_keepalive now g i r))
    \<and> registry_inv (snd (find_available_bridge r)) \<and> registry_inv (snd (find_available_om r))
    \<and> (find_by_client_id r (info_client_id x) = None \<longrightarrow> registry_inv (snd (register_component x r)))"
  using registry.inv_unreg [OF assms] registry.inv_reg [OF assms] registry_inv_find [of r] assms
    registry_inv_keepalive [OF assms, of now g i]
  by (metis prod.collapse)

definition example_component :: "int \<Rightarrow> ComponentType \<Rightarrow> u8 \<Rightarrow> u8 \<Rightarrow> ComponentInfo" where
  "example_component c t g i = \<lparr>info_client_id = c, info_component_type = t, info_group_id = g, info_id_in_group = i,
     info_component_subtype = 0, info_name = ''x'', info_listen_address = ''10.0.0.7'', info_listen_port = 7001,
     info_last_seen = 0\<rparr>"

text \<open>Component ids are unique and are released. Two registered clients never hold the same id,
  a registration is refused exactly when its id is held, and a component that disconnects can
  register again under its id.\<close>

lemma component_ids_unique_and_released:
  assumes "registry_inv r" "find_by_client_id r c = Some x"
  shows "(find_by_client_id r d = Some y \<and> component_key y = component_key x \<longrightarrow> d = c)
    \<and> \<not> fst (register_component (x\<lparr>info_client_id := d\<rparr>) r)
    \<and> fst (register_component (x\<lparr>info_client_id := d\<rparr>) (unregister_component c r))"
proof -
  have "is_id_taken r (info_group_id x) (info_id_in_group x)"
    using registry.taken_iff [OF assms(1)] assms(2) by auto
  with registry.unreg_frees_id [OF assms] registry.key_unique [OF assms, of d y] show ?thesis
    using registry.reg_ok by fastforce
qed

text \<open>Bridges are assigned in turn. As many requests as there are bridges give every registered bridge
  exactly once, in list order from where the last assignment stopped.\<close>

lemma bridges_assigned_round_robin:
  assumes "registry_inv r" "bridge_client_ids r \<noteq> []"
  shows "bridge_assignments (length (bridge_client_ids r)) r = rotate (bridge_start r) (bridge_client_ids r)
    \<and> distinct (bridge_client_ids r) \<and> set (bridge_client_ids r) = typed_clients r BRIDGE"
  using bridge_round [OF assms] registry_invD(6,7) [OF assms(1)] by simp

text \<open>A second registration on one connection leaks the first id. When one client registers two ids, its
  entry is overwritten, the reverse map keeps both ids, and the first id stays taken after the client
  has disconnected, although no component holds it.\<close>

lemma second_registration_leaks_id:
  assumes "register_component x r = (True, r1)" "register_component y r1 = (True, r2)"
    and "info_client_id x = c" "info_client_id y = c"
  shows "is_id_taken (unregister_component c r2) (info_group_id x) (info_id_in_group x)
    \<and> find_by_client_id (unregister_component c r2) c = None"
proof -
  have r1: "aget (client_id_by_component_id r1) (component_key x) = Some c"
    using assms(1,3) by (auto simp: register_component_def Let_def split: if_splits)
  with assms(2) have key: "component_key y \<noteq> component_key x"
    by (auto simp: register_component_def is_id_taken_def)
  have r2: "aget (client_id_by_component_id r2) (component_key x) = Some c"
    "aget (registry_by_client_id r2) c = Some y"
    using assms(2,4) r1 key by (auto simp: register_component_def Let_def split: if_splits)
  with key have "aget (client_id_by_component_id (unregister_component c r2)) (component_key x) = Some c"
    by (auto simp: unregister_component_def Let_def)
  then show ?thesis using registry.find_unreg [of c r2 c] by (simp add: is_id_taken_def)
qed

end
