(* ===== verification/Tcp_Server.thy ===== *)
theory Tcp_Server
  imports Tcp_Client
begin

text \<open>
  \<open>TcpServerTransport\<close> of cpplib/transport (src/tcp_server_transport.cpp), the server of the discovery
  service and of the bridge control plane. Its user installs callbacks, and a callback may call
  back into the server: the world a callback transforms is the server together with the state of its
  user. The answers of the operating system are arguments, as for the client.

  A result \<open>Inl fault\<close> is a run that C++ leaves undefined or that never ends: \<open>IteratorInvalidated\<close> when
  the server goes on using an iterator to a client that a callback has erased, \<open>SelfDeadlock\<close> when a
  thread locks a \<open>std::mutex\<close> it already holds. \<open>CallDepthExceeded\<close> is not a behaviour of the program: it says
  that a bound on nested callbacks was chosen too small.
\<close>

datatype fault = IteratorInvalidated | SelfDeadlock | CallDepthExceeded

record ClientInfo =
  ci_socket_fd :: int
  ci_ip_address :: string
  ci_port :: int

record TcpServerTransport =
  ts_port :: int
  ts_multi_client_mode :: bool
  ts_max_clients :: int
  ts_server_socket_fd :: int
  ts_running :: bool
  ts_clients :: "(int, ClientInfo) amap"

type_synonym 'a server_world = "TcpServerTransport \<times> 'a"

record 'a callbacks =
  connect_callback :: "(int \<Rightarrow> string \<Rightarrow> int \<Rightarrow> 'a server_world \<Rightarrow> fault + 'a server_world) option"
  disconnect_callback :: "(int \<Rightarrow> 'a server_world \<Rightarrow> fault + 'a server_world) option"
  data_callback :: "(int \<Rightarrow> 'a server_world \<Rightarrow> fault + 'a server_world) option"

definition TcpServerTransport_init :: "int \<Rightarrow> bool \<Rightarrow> int \<Rightarrow> TcpServerTransport" where
  "TcpServerTransport_init port multi max_clients =
     \<lparr>ts_port = port, ts_multi_client_mode = multi, ts_max_clients = max_clients, ts_server_socket_fd = -1,
      ts_running = False, ts_clients = []\<rparr>"

section \<open>Disconnecting\<close>

text \<open>The sequence every disconnection goes through: callback, close, erase through the iterator found
  before the callback.\<close>

definition drop_client :: "'a callbacks \<Rightarrow> int \<Rightarrow> 'a server_world \<Rightarrow> fault + 'a server_world" where
  "drop_client cbs client_id w =
     (case (case disconnect_callback cbs of None \<Rightarrow> Inr w | Some f \<Rightarrow> f client_id w) of
        Inl e \<Rightarrow> Inl e
      | Inr (s, a) \<Rightarrow>
          if aget (ts_clients s) client_id = None then Inl IteratorInvalidated
          else Inr (s\<lparr>ts_clients := aerase client_id (ts_clients s)\<rparr>, a))"

definition ts_disconnect_client :: "'a callbacks \<Rightarrow> int \<Rightarrow> 'a server_world \<Rightarrow> fault + 'a server_world" where
  "ts_disconnect_client cbs client_id w =
     (case aget (ts_clients (fst w)) client_id of
        None \<Rightarrow> Inr w
      | Some _ \<Rightarrow> drop_client cbs client_id w)"

fun disconnect_all :: "'a callbacks \<Rightarrow> int list \<Rightarrow> 'a server_world \<Rightarrow> fault + 'a server_world" where
  "disconnect_all cbs [] w = Inr w"
| "disconnect_all cbs (i # is) w =
     (case ts_disconnect_client cbs i w of Inl e \<Rightarrow> Inl e | Inr w' \<Rightarrow> disconnect_all cbs is w')"

definition ts_get_client_ids :: "TcpServerTransport \<Rightarrow> int list" where
  "ts_get_client_ids s = akeys (ts_clients s)"

definition ts_disconnect :: "'a callbacks \<Rightarrow> 'a server_world \<Rightarrow> fault + 'a server_world" where
  "ts_disconnect cbs w =
     (case w of (s, a) \<Rightarrow>
        if \<not> ts_running s then Inr (s, a)
        else (case disconnect_all cbs (ts_get_client_ids s) (s\<lparr>ts_running := False\<rparr>, a) of
           Inl e \<Rightarrow> Inl e
         | Inr (s', a') \<Rightarrow> Inr (s'\<lparr>ts_server_socket_fd := -1\<rparr>, a')))"

section \<open>Starting and accepting\<close>

text \<open>Answers to \<open>socket\<close>, \<open>setsockopt\<close>, \<open>bind\<close>, \<open>fcntl\<close> and \<open>listen\<close>.\<close>

record listen_answer =
  la_socket :: int
  la_setsockopt :: bool
  la_bind :: bool
  la_nonblock :: bool
  la_listen :: bool

definition ts_connect :: "'a callbacks \<Rightarrow> listen_answer \<Rightarrow> 'a server_world \<Rightarrow> fault + bool \<times> 'a server_world" where
  "ts_connect cbs l w =
     (case (if ts_running (fst w) then ts_disconnect cbs w else Inr w) of
        Inl e \<Rightarrow> Inl e
      | Inr (s, a) \<Rightarrow>
          if la_socket l < 0 then Inr (False, s\<lparr>ts_server_socket_fd := la_socket l\<rparr>, a)
          else if \<not> la_setsockopt l \<or> \<not> la_bind l \<or> \<not> la_nonblock l \<or> \<not> la_listen l
          then Inr (False, s\<lparr>ts_server_socket_fd := -1\<rparr>, a)
          else Inr (True, s\<lparr>ts_server_socket_fd := la_socket l, ts_running := True\<rparr>, a))"

definition ts_is_connected :: "TcpServerTransport \<Rightarrow> bool" where
  "ts_is_connected s = (if \<not> ts_multi_client_mode s then ts_clients s \<noteq> [] else ts_running s)"

text \<open>\<open>accept\<close>: no connection pending, an error, or a descriptor with the peer's address and whether it could
  be made non-blocking.\<close>

datatype accept_answer = AcceptWouldBlock | AcceptError | Accepted int string int bool

text \<open>The loop over the existing clients in single-client mode: the callback must leave the client the loop
  stands at.\<close>

fun notify_existing :: "'a callbacks \<Rightarrow> int list \<Rightarrow> 'a server_world \<Rightarrow> fault + 'a server_world" where
  "notify_existing cbs [] w = Inr w"
| "notify_existing cbs (i # is) w =
     (case (case disconnect_callback cbs of None \<Rightarrow> Inr w | Some f \<Rightarrow> f i w) of
        Inl e \<Rightarrow> Inl e
      | Inr (s, a) \<Rightarrow>
          if aget (ts_clients s) i = None then Inl IteratorInvalidated else notify_existing cbs is (s, a))"

definition accept_new_connections ::
  "'a callbacks \<Rightarrow> accept_answer \<Rightarrow> 'a server_world \<Rightarrow> fault + bool \<times> 'a server_world" where
  "accept_new_connections cbs ans w =
     (case ans of
        AcceptWouldBlock \<Rightarrow> Inr (True, w)
      | AcceptError \<Rightarrow> Inr (False, w)
      | Accepted client_fd ip port nonblock \<Rightarrow>
          if \<not> nonblock then Inr (False, w)
          else
            (case (if \<not> ts_multi_client_mode (fst w) \<and> ts_clients (fst w) \<noteq> []
                   then map_sum id (\<lambda>(s, a). (s\<lparr>ts_clients := []\<rparr>, a)) (notify_existing cbs (ts_get_client_ids (fst w)) w)
                   else Inr w) of
               Inl e \<Rightarrow> Inl e
             | Inr (s, a) \<Rightarrow>
                 if ts_multi_client_mode s \<and> ts_max_clients s > 0 \<and> int (length (ts_clients s)) \<ge> ts_max_clients s
                 then Inr (False, s, a)
                 else
                   (let client_id = (if ts_multi_client_mode s then client_fd else DEFAULT_CLIENT);
                        info = \<lparr>ci_socket_fd = client_fd, ci_ip_address = ip, ci_port = port\<rparr>;
                        w' = (s\<lparr>ts_clients := aput client_id info (ts_clients s)\<rparr>, a)
                    in (case connect_callback cbs of
                          None \<Rightarrow> Inr (True, w')
                        | Some f \<Rightarrow> map_sum id (\<lambda>w''. (True, w'')) (f client_id ip port w')))))"

section \<open>Events\<close>

text \<open>\<open>handle_client_data\<close>: the answer is that of \<open>recv\<close> with \<open>MSG_PEEK\<close>.\<close>

definition handle_client_data :: "'a callbacks \<Rightarrow> int \<Rightarrow> recv_answer \<Rightarrow> 'a server_world \<Rightarrow> fault + 'a server_world" where
  "handle_client_data cbs client_id peek w =
     (case aget (ts_clients (fst w)) client_id of
        None \<Rightarrow> Inr w
      | Some _ \<Rightarrow>
          (case peek of
             RecvClosed \<Rightarrow> drop_client cbs client_id w
           | RecvError \<Rightarrow> drop_client cbs client_id w
           | RecvWouldBlock \<Rightarrow> Inr w
           | Received _ \<Rightarrow> (case data_callback cbs of None \<Rightarrow> Inr w | Some f \<Rightarrow> f client_id w)))"

datatype server_select =
    ServerSelectInterrupted | ServerSelectError | ServerSelectTimeout | ServerSelectReady bool "int \<Rightarrow> bool"

record server_events =
  sv_select :: server_select
  sv_accept :: accept_answer
  sv_peek :: "int \<Rightarrow> recv_answer"

fun serve_clients ::
  "'a callbacks \<Rightarrow> (int \<Rightarrow> bool) \<Rightarrow> (int \<Rightarrow> recv_answer) \<Rightarrow> int list \<Rightarrow> 'a server_world \<Rightarrow> fault + 'a server_world" where
  "serve_clients cbs ready peek [] w = Inr w"
| "serve_clients cbs ready peek (i # is) w =
     (case (case aget (ts_clients (fst w)) i of
              None \<Rightarrow> Inr w
            | Some info \<Rightarrow> if ready (ci_socket_fd info) then handle_client_data cbs i (peek i) w else Inr w) of
        Inl e \<Rightarrow> Inl e
      | Inr w' \<Rightarrow> serve_clients cbs ready peek is w')"

text \<open>Only descriptors that were in the set handed to \<open>select\<close> can be reported ready.\<close>

definition ts_process_events :: "'a callbacks \<Rightarrow> server_events \<Rightarrow> 'a server_world \<Rightarrow> fault + bool \<times> 'a server_world" where
  "ts_process_events cbs ev w =
     (if \<not> ts_running (fst w) \<or> ts_server_socket_fd (fst w) < 0 then Inr (False, w)
      else (case sv_select ev of
         ServerSelectInterrupted \<Rightarrow> Inr (True, w)
       | ServerSelectError \<Rightarrow> Inr (False, w)
       | ServerSelectTimeout \<Rightarrow> Inr (True, w)
       | ServerSelectReady listening ready \<Rightarrow>
           (let watched = map (ci_socket_fd \<circ> snd) (ts_clients (fst w)) in
            (case (if listening then map_sum id snd (accept_new_connections cbs (sv_accept ev) w) else Inr w) of
               Inl e \<Rightarrow> Inl e
             | Inr w1 \<Rightarrow>
                 map_sum id (\<lambda>w2. (True, w2))
                   (serve_clients cbs (\<lambda>fd. fd \<in> set watched \<and> ready fd) (sv_peek ev) (ts_get_client_ids (fst w1)) w1)))))"

section \<open>Sending and receiving\<close>

text \<open>\<open>send\<close> took some bytes, would block and the socket became writable or not within a second, or failed.\<close>

datatype server_send = ServerSent nat | ServerBlockedWritable | ServerBlockedTimeout | ServerSendError

fun server_send_loop :: "u8 list \<Rightarrow> server_send list \<Rightarrow> (bool \<times> u8 list) option" where
  "server_send_loop [] as = Some (True, [])"
| "server_send_loop (b # bs) [] = None"
| "server_send_loop (b # bs) (ServerBlockedWritable # as) = server_send_loop (b # bs) as"
| "server_send_loop (b # bs) (ServerBlockedTimeout # as) = Some (False, [])"
| "server_send_loop (b # bs) (ServerSendError # as) = Some (False, [])"
| "server_send_loop (b # bs) (ServerSent n # as) =
     (if n = 0 then Some (False, [])
      else map_option (\<lambda>(ok, taken). (ok, take n (b # bs) @ taken)) (server_send_loop (drop n (b # bs)) as))"

definition ts_send_to :: "TcpServerTransport \<Rightarrow> int \<Rightarrow> u8 list \<Rightarrow> server_send list \<Rightarrow> (bool \<times> u8 list) option" where
  "ts_send_to s client_id data as =
     (case aget (ts_clients s) client_id of
        None \<Rightarrow> Some (False, [])
      | Some _ \<Rightarrow> server_send_loop data as)"

definition ts_first_client :: "TcpServerTransport \<Rightarrow> int" where
  "ts_first_client s = (if \<not> ts_multi_client_mode s then DEFAULT_CLIENT else fst (hd (ts_clients s)))"

definition ts_send_data :: "TcpServerTransport \<Rightarrow> u8 list \<Rightarrow> server_send list \<Rightarrow> (bool \<times> u8 list) option" where
  "ts_send_data s data as =
     (if ts_clients s = [] then Some (False, []) else ts_send_to s (ts_first_client s) data as)"

fun ts_broadcast :: "TcpServerTransport \<Rightarrow> int list \<Rightarrow> u8 list \<Rightarrow> (int \<Rightarrow> server_send list) \<Rightarrow> int option" where
  "ts_broadcast s [] data as = Some 0"
| "ts_broadcast s (i # is) data as =
     (case ts_send_to s i data (as i) of
        None \<Rightarrow> None
      | Some (ok, _) \<Rightarrow> map_option (\<lambda>n. if ok then n + 1 else n) (ts_broadcast s is data as))"

definition ts_receive_from ::
  "'a callbacks \<Rightarrow> int \<Rightarrow> nat \<Rightarrow> recv_answer \<Rightarrow> 'a server_world \<Rightarrow> fault + int \<times> u8 list \<times> 'a server_world" where
  "ts_receive_from cbs client_id max_size ans w =
     (case aget (ts_clients (fst w)) client_id of
        None \<Rightarrow> Inr (-1, [], w)
      | Some _ \<Rightarrow>
          (case ans of
             RecvClosed \<Rightarrow> map_sum id (\<lambda>w'. (0, [], w')) (drop_client cbs client_id w)
           | RecvWouldBlock \<Rightarrow> Inr (0, [], w)
           | RecvError \<Rightarrow> Inr (-1, [], w)
           | Received bs \<Rightarrow>
               if take max_size bs = [] then map_sum id (\<lambda>w'. (0, [], w')) (drop_client cbs client_id w)
               else Inr (int (length (take max_size bs)), take max_size bs, w)))"

definition ts_receive_data ::
  "'a callbacks \<Rightarrow> nat \<Rightarrow> recv_answer \<Rightarrow> 'a server_world \<Rightarrow> fault + int \<times> u8 list \<times> 'a server_world" where
  "ts_receive_data cbs max_size ans w =
     (if ts_clients (fst w) = [] then Inr (-1, [], w)
      else ts_receive_from cbs (ts_first_client (fst w)) max_size ans w)"

text \<open>\<open>receive_exact\<close>, given one answer per \<open>recv\<close>; \<open>None\<close> inside when the answers run out.\<close>

fun ts_receive_exact ::
  "'a callbacks \<Rightarrow> nat \<Rightarrow> u8 list \<Rightarrow> recv_answer list \<Rightarrow> 'a server_world \<Rightarrow>
   fault + (bool \<times> u8 list \<times> 'a server_world) option" where
  "ts_receive_exact cbs sz got as w =
     (if \<not> length got < sz then Inr (Some (True, got, w))
      else (case as of
         [] \<Rightarrow> Inr None
       | a # as' \<Rightarrow>
           (case ts_receive_data cbs (sz - length got) a w of
              Inl e \<Rightarrow> Inl e
            | Inr (n, bs, w') \<Rightarrow>
                if n \<le> 0 then Inr (Some (False, got, w')) else ts_receive_exact cbs sz (got @ bs) as' w')))"

definition ts_data_available_from ::
  "'a callbacks \<Rightarrow> int \<Rightarrow> select_answer \<Rightarrow> recv_answer \<Rightarrow> 'a server_world \<Rightarrow> fault + bool \<times> 'a server_world" where
  "ts_data_available_from cbs client_id sel peek w =
     (case aget (ts_clients (fst w)) client_id of
        None \<Rightarrow> Inr (False, w)
      | Some _ \<Rightarrow>
          (case sel of
             SelectReady \<Rightarrow>
               (case peek of
                  RecvClosed \<Rightarrow> map_sum id (\<lambda>w'. (False, w')) (drop_client cbs client_id w)
                | RecvError \<Rightarrow> map_sum id (\<lambda>w'. (False, w')) (drop_client cbs client_id w)
                | RecvWouldBlock \<Rightarrow> Inr (False, w)
                | Received _ \<Rightarrow> Inr (True, w))
           | _ \<Rightarrow> Inr (False, w)))"

definition ts_data_available ::
  "'a callbacks \<Rightarrow> select_answer \<Rightarrow> recv_answer \<Rightarrow> 'a server_world \<Rightarrow> fault + bool \<times> 'a server_world" where
  "ts_data_available cbs sel peek w =
     (if ts_clients (fst w) = [] then Inr (False, w)
      else ts_data_available_from cbs (ts_first_client (fst w)) sel peek w)"

definition ts_is_client_connected :: "TcpServerTransport \<Rightarrow> int \<Rightarrow> bool" where
  "ts_is_client_connected s client_id \<longleftrightarrow> aget (ts_clients s) client_id \<noteq> None"

section \<open>Well-behaved callbacks\<close>

text \<open>A disconnect callback is well behaved on the states of \<open>ok\<close> when it returns and leaves the server as it
  is, and when \<open>ok\<close> still holds once the server has erased the client.\<close>

locale passive_callback =
  fixes cb :: "int \<Rightarrow> 'a server_world \<Rightarrow> fault + 'a server_world"
    and ok :: "'a \<Rightarrow> bool"
  assumes leaves_server: "ok a \<Longrightarrow> \<exists>a'. cb i (s, a) = Inr (s, a') \<and> ok a'"
begin

lemma drop_client_ok:
  assumes "disconnect_callback cbs = Some cb" "ok a" "aget (ts_clients s) i = Some info"
  shows "\<exists>a'. drop_client cbs i (s, a) = Inr (s\<lparr>ts_clients := aerase i (ts_clients s)\<rparr>, a') \<and> ok a'"
  using leaves_server [OF assms(2), of i s] assms by (auto simp: drop_client_def)

lemma disconnect_client_ok:
  assumes "disconnect_callback cbs = Some cb" "ok a"
  shows "\<exists>a'. ts_disconnect_client cbs i (s, a) = Inr (s\<lparr>ts_clients := aerase i (ts_clients s)\<rparr>, a') \<and> ok a'"
proof (cases "aget (ts_clients s) i")
  case None
  with assms aerase_absent [OF None] show ?thesis by (simp add: ts_disconnect_client_def)
qed (use drop_client_ok [OF assms] in \<open>auto simp: ts_disconnect_client_def\<close>)

lemma disconnect_all_ok:
  assumes "disconnect_callback cbs = Some cb"
  shows "ok a \<Longrightarrow> \<exists>a'. disconnect_all cbs is (s, a) = Inr (s\<lparr>ts_clients := fold aerase is (ts_clients s)\<rparr>, a') \<and> ok a'"
proof (induction "is" arbitrary: s a)
  case (Cons i "is")
  obtain a1 where a1: "ts_disconnect_client cbs i (s, a) = Inr (s\<lparr>ts_clients := aerase i (ts_clients s)\<rparr>, a1)" "ok a1"
    using disconnect_client_ok [OF assms Cons.prems] by blast
  with Cons.IH [OF a1(2), of "s\<lparr>ts_clients := aerase i (ts_clients s)\<rparr>"] show ?case by auto
qed simp

lemma disconnect_ok:
  assumes "disconnect_callback cbs = Some cb" "ok a" "ts_running s"
  shows "\<exists>s' a'. ts_disconnect cbs (s, a) = Inr (s', a') \<and> ok a' \<and> ts_clients s' = [] \<and> \<not> ts_running s'"
proof -
  have "fold aerase (akeys m) m = []" for m :: "(int, ClientInfo) amap"
  proof -
    have "aget (fold aerase (akeys m) m) j = None" for j
      using amap.look_fold_del [of "akeys m" m j] mem_akeys_iff [of j m] by (cases "aget m j") auto
    then show ?thesis by (metis map_of_eq_empty_iff ext)
  qed
  with disconnect_all_ok [OF assms(1,2), of "ts_get_client_ids s" "s\<lparr>ts_running := False\<rparr>"] assms(3)
  show ?thesis by (auto simp: ts_disconnect_def ts_get_client_ids_def)
qed

end

text \<open>A property of the user's state that its disconnect callback keeps is kept by every way the server has of
  disconnecting clients.\<close>

locale preserving_callback =
  fixes cb :: "int \<Rightarrow> 'a server_world \<Rightarrow> fault + 'a server_world"
    and P :: "'a \<Rightarrow> bool"
  assumes keeps: "cb i (s, a) = Inr (s', a') \<Longrightarrow> P a \<Longrightarrow> P a'"
begin

lemma drop_client_keeps:
  "disconnect_callback cbs = Some cb \<Longrightarrow> drop_client cbs i (s, a) = Inr (s', a') \<Longrightarrow> P a \<Longrightarrow> P a'"
  using keeps by (auto simp: drop_client_def split: sum.splits if_splits)

lemma disconnect_client_keeps:
  "disconnect_callback cbs = Some cb \<Longrightarrow> ts_disconnect_client cbs i (s, a) = Inr (s', a') \<Longrightarrow> P a \<Longrightarrow> P a'"
  using drop_client_keeps by (auto simp: ts_disconnect_client_def split: option.splits)

lemma disconnect_all_keeps:
  assumes "disconnect_callback cbs = Some cb"
  shows "disconnect_all cbs is (s, a) = Inr (s', a') \<Longrightarrow> P a \<Longrightarrow> P a'"
proof (induction "is" arbitrary: s a)
  case (Cons i "is")
  then show ?case
    using disconnect_client_keeps [OF assms, of i s a] by (auto split: sum.splits)
qed simp

lemma disconnect_keeps:
  "disconnect_callback cbs = Some cb \<Longrightarrow> ts_disconnect cbs (s, a) = Inr (s', a') \<Longrightarrow> P a \<Longrightarrow> P a'"
  using disconnect_all_keeps by (auto simp: ts_disconnect_def split: sum.splits if_splits)

end

end
