(* ===== verification/Discovery_Service.thy ===== *)
theory Discovery_Service
  imports Component_Registry Tcp_Server
begin

text \<open>
  The discovery service (DiscoveryService/src/discovery_service.hpp, .cpp): it registers components,
  tells each where to connect, answers keepalives and queries, and disconnects silent clients. The
  message handlers change the service only and produce one reply at their end; the transport callbacks
  and the event loop act on the service together with its TCP server, because a disconnection calls
  back into the service, which may stop the server. Responses handed to the transport are recorded in
  \<open>ds_sent\<close>; logging is left out. The steady clock is an argument, in milliseconds.
\<close>

record DiscoveryService =
  ds_port :: u16
  ds_p2p_mode :: bool
  ds_registry :: ComponentRegistry
  ds_global_configuration :: "string option"
  ds_client_ip_addresses :: "(int, string) amap"
  ds_last_purge_time :: int
  ds_shutting_down :: bool
  ds_sent :: "(int \<times> string) list"

definition KEEPALIVE_TIMEOUT :: int where "KEEPALIVE_TIMEOUT = 15000"

text \<open>\<open>KEEPALIVE_TIMEOUT / 2\<close> is an integer division of seconds.\<close>

definition PURGE_INTERVAL :: int where "PURGE_INTERVAL = (KEEPALIVE_TIMEOUT div 1000 div 2) * 1000"

definition DiscoveryService_init :: "u16 \<Rightarrow> bool \<Rightarrow> int \<Rightarrow> DiscoveryService" where
  "DiscoveryService_init port p2p_mode now =
     \<lparr>ds_port = port, ds_p2p_mode = p2p_mode, ds_registry = ComponentRegistry_init, ds_global_configuration = None,
      ds_client_ip_addresses = [], ds_last_purge_time = now, ds_shutting_down = False, ds_sent = []\<rparr>"

section \<open>Registration\<close>

text \<open>The response object before any field but the ids is assigned: strings are empty, the target id is whatever
  was in memory.\<close>

definition fresh_response :: "u16 \<Rightarrow> RegistrationRequest \<Rightarrow> RegistrationResponse" where
  "fresh_response junk req =
     \<lparr>responseCode = SUCCESS, assignedGroupId = groupId req, assignedIdInGroup = idInGroup req,
      connectionTargetType = [], connectionTargetAddress = [], connectionTargetPort = [], connectionTargetId = junk,
      configJson = [], detectedClientAddress = [], rs_humanReadableMessage = []\<rparr>"

text \<open>A step of the handler either has sent its response and returned (\<open>Inl\<close>) or goes on with the response
  built so far (\<open>Inr\<close>).\<close>

type_synonym reg_step = "RegistrationResponse + RegistrationResponse"

definition detect_address :: "int \<Rightarrow> DiscoveryService \<Rightarrow> RegistrationResponse \<Rightarrow> RegistrationResponse" where
  "detect_address cid d resp =
     (case aget (ds_client_ip_addresses d) cid of
        Some ip \<Rightarrow> resp\<lparr>detectedClientAddress := ip\<rparr>
      | None \<Rightarrow> resp)"

definition register_p2p ::
  "int \<Rightarrow> RegistrationRequest \<Rightarrow> DiscoveryService \<Rightarrow> RegistrationResponse \<Rightarrow> reg_step" where
  "register_p2p cid req d resp =
     (if componentType req = VEHICLE then
        (case find (\<lambda>cinfo. info_component_type cinfo = MEC \<and> info_group_id cinfo = groupId req
                         \<and> info_id_in_group cinfo = idInGroup req) (get_all_components (ds_registry d)) of
           Some cinfo \<Rightarrow>
             Inl (resp\<lparr>responseCode := SUCCESS, connectionTargetType := ''MEC'',
                       connectionTargetAddress := info_listen_address cinfo,
                       connectionTargetPort := show_int (uint (info_listen_port cinfo)),
                       rs_humanReadableMessage := ''P2P Match found.''\<rparr>)
         | None \<Rightarrow>
             Inl (detect_address cid d
                   (resp\<lparr>responseCode := WAIT, rs_humanReadableMessage := ''Waiting for peer MEC to register.''\<rparr>)))
      else if componentType req = MEC then
        Inr (resp\<lparr>responseCode := SUCCESS, rs_humanReadableMessage := ''MEC registered in P2P mode.''\<rparr>)
      else
        Inl (resp\<lparr>responseCode := INVALID_REQUEST,
                  rs_humanReadableMessage := ''Only VHC and MEC allowed in P2P mode.''\<rparr>))"

definition target_of :: "ComponentInfo \<Rightarrow> RegistrationResponse \<Rightarrow> RegistrationResponse" where
  "target_of cinfo resp =
     resp\<lparr>connectionTargetType := component_type_to_string (info_component_type cinfo),
          connectionTargetAddress := info_listen_address cinfo,
          connectionTargetPort := show_int (uint (info_listen_port cinfo)),
          connectionTargetId := push_bit 8 (ucast (info_group_id cinfo)) OR ucast (info_id_in_group cinfo)\<rparr>"

definition register_networked ::
  "RegistrationRequest \<Rightarrow> DiscoveryService \<Rightarrow> RegistrationResponse \<Rightarrow> DiscoveryService \<times> reg_step" where
  "register_networked req d resp =
     (let d = (if componentType req = OFFLOAD_MANAGER
               then d\<lparr>ds_global_configuration := Some (rq_humanReadableMessage req)\<rparr> else d)
      in
      if componentType req \<noteq> OFFLOAD_MANAGER \<and> ds_global_configuration d = None then
        (d, Inl (resp\<lparr>responseCode := WAIT,
            rs_humanReadableMessage := ''Waiting for system configuration from Offloading Manager.''\<rparr>))
      else if is_id_taken (ds_registry d) (groupId req) (idInGroup req) then
        (d, Inl (resp\<lparr>responseCode := ID_CONFLICT, rs_humanReadableMessage := ''Component ID is already in use.''\<rparr>))
      else if componentType req = VEHICLE \<or> componentType req = MEC then
        (case find_available_bridge (ds_registry d) of
           (None, r) \<Rightarrow>
             (d\<lparr>ds_registry := r\<rparr>, Inl (resp\<lparr>responseCode := WAIT,
                 rs_humanReadableMessage := ''No Bridge component is currently available.''\<rparr>))
         | (Some bridge, r) \<Rightarrow> (d\<lparr>ds_registry := r\<rparr>, Inr (target_of bridge resp)))
      else if componentType req = BRIDGE then
        (case find_available_om (ds_registry d) of
           (None, r) \<Rightarrow>
             (d\<lparr>ds_registry := r\<rparr>, Inl (resp\<lparr>responseCode := WAIT,
                 rs_humanReadableMessage := ''No Offloading Manager is currently available.''\<rparr>))
         | (Some om, r) \<Rightarrow> (d\<lparr>ds_registry := r\<rparr>, Inr (target_of om resp)))
      else (d, Inr resp))"

text \<open>The component that is stored: the detected address, else the one from the request.\<close>

definition new_component :: "int \<Rightarrow> int \<Rightarrow> RegistrationRequest \<Rightarrow> DiscoveryService \<Rightarrow> int \<Rightarrow> ComponentInfo" where
  "new_component now cid req d port =
     \<lparr>info_client_id = cid, info_component_type = componentType req, info_group_id = groupId req,
      info_id_in_group = idInGroup req, info_component_subtype = 0, info_name = componentName req,
      info_listen_address = (case aget (ds_client_ip_addresses d) cid of Some ip \<Rightarrow> ip | None \<Rightarrow> listenAddress req),
      info_listen_port = of_int port, info_last_seen = now\<rparr>"

definition register_common ::
  "int \<Rightarrow> int \<Rightarrow> RegistrationRequest \<Rightarrow> DiscoveryService \<Rightarrow> RegistrationResponse \<Rightarrow> DiscoveryService \<times> RegistrationResponse" where
  "register_common now cid req d resp =
     (if is_id_taken (ds_registry d) (groupId req) (idInGroup req) then
        (d, detect_address cid d
              (resp\<lparr>responseCode := ID_CONFLICT, rs_humanReadableMessage := ''Component ID is already in use.''\<rparr>))
      else (case stoi (listenPort req) of
         None \<Rightarrow> (d, resp\<lparr>responseCode := INVALID_REQUEST, rs_humanReadableMessage := ''Invalid listen port format.''\<rparr>)
       | Some port \<Rightarrow>
           (let detected = (case aget (ds_client_ip_addresses d) cid of Some ip \<Rightarrow> ip | None \<Rightarrow> ''unknown'')
            in (case register_component (new_component now cid req d port) (ds_registry d) of
                  (True, r) \<Rightarrow>
                    (d\<lparr>ds_registry := r\<rparr>,
                     resp\<lparr>responseCode := SUCCESS,
                          configJson := (case ds_global_configuration d of Some c \<Rightarrow> c | None \<Rightarrow> []),
                          detectedClientAddress := detected,
                          rs_humanReadableMessage := ''Registration successful.''\<rparr>)
                | (False, r) \<Rightarrow>
                    (d\<lparr>ds_registry := r\<rparr>,
                     resp\<lparr>detectedClientAddress := detected, responseCode := GENERAL_ERROR,
                          rs_humanReadableMessage := ''An internal server error occurred during registration.''\<rparr>)))))"

text \<open>\<open>handleRegistration\<close> up to the sending of the response.\<close>

definition register_request ::
  "u16 \<Rightarrow> int \<Rightarrow> int \<Rightarrow> RegistrationRequest \<Rightarrow> DiscoveryService \<Rightarrow> DiscoveryService \<times> RegistrationResponse" where
  "register_request junk now cid req d =
     (case (if ds_p2p_mode d then (d, register_p2p cid req d (fresh_response junk req))
            else register_networked req d (fresh_response junk req)) of
        (d, Inl resp) \<Rightarrow> (d, resp)
      | (d, Inr resp) \<Rightarrow> register_common now cid req d resp)"

definition sendResponse :: "int \<Rightarrow> string \<Rightarrow> DiscoveryService \<Rightarrow> DiscoveryService" where
  "sendResponse cid message d = d\<lparr>ds_sent := ds_sent d @ [(cid, message)]\<rparr>"

definition handleRegistration ::
  "u16 \<Rightarrow> int \<Rightarrow> int \<Rightarrow> RegistrationRequest \<Rightarrow> DiscoveryService \<Rightarrow> DiscoveryService" where
  "handleRegistration junk now cid req d =
     (case register_request junk now cid req d of
        (d, resp) \<Rightarrow> sendResponse cid (encode_message (MsgRegistrationResponse resp)) d)"

section \<open>Keepalives and queries\<close>

text \<open>\<open>ss >> group_id >> dot >> id_in_group\<close>.\<close>

definition parse_component_id :: "string \<Rightarrow> (int \<times> int) option" where
  "parse_component_id s =
     (case stream_int s of
        None \<Rightarrow> None
      | Some (g, r) \<Rightarrow>
          (case stream_char r of
             None \<Rightarrow> None
           | Some (dot, r') \<Rightarrow>
               (case stream_int r' of
                  None \<Rightarrow> None
                | Some (i, _) \<Rightarrow> if dot \<noteq> CHR ''.'' then None else Some (g, i))))"

definition handleKeepalive :: "int \<Rightarrow> int \<Rightarrow> KeepalivePing \<Rightarrow> DiscoveryService \<Rightarrow> DiscoveryService" where
  "handleKeepalive now cid ping d =
     (case parse_component_id (kp_componentId ping) of
        None \<Rightarrow> d
      | Some (g, i) \<Rightarrow>
          (case update_keepalive now (of_int g) (of_int i) (ds_registry d) of
             (True, r) \<Rightarrow>
               sendResponse cid (encode_message (MsgKeepaliveResponse
                   \<lparr>kr_response = ''OK'', nextIntervalMs = 5000, kr_humanReadableMessage = ''Keepalive acknowledged.''\<rparr>))
                 (d\<lparr>ds_registry := r\<rparr>)
           | (False, _) \<Rightarrow> d))"

definition query_response :: "ComponentQuery \<Rightarrow> DiscoveryService \<Rightarrow> ComponentListResponse" where
  "query_response query d =
     (if componentTypeFilter query = ''ALL'' \<or> componentTypeFilter query = [] then
        \<lparr>componentCount = 0, componentDataList = [],
         cl_humanReadableMessage = ''Invalid filter: only single component types allowed (V, M, B, O, T)''\<rparr>
      else
        (let target_type = string_to_component_type (componentTypeFilter query);
             filtered = filter (\<lambda>c. info_component_type c = target_type) (get_all_components (ds_registry d))
         in \<lparr>componentCount = of_nat (length filtered),
             componentDataList = map (\<lambda>c. component_type_to_string (info_component_type c) @ '':''
                 @ show_int (uint (info_group_id c)) @ '':'' @ show_int (uint (info_id_in_group c)) @ '':''
                 @ show_int (uint (info_component_subtype c))) filtered,
             cl_humanReadableMessage = ''Component query successful''\<rparr>))"

definition handleComponentQuery :: "int \<Rightarrow> ComponentQuery \<Rightarrow> DiscoveryService \<Rightarrow> DiscoveryService" where
  "handleComponentQuery cid query d =
     sendResponse cid (encode_message (MsgComponentList (query_response query d))) d"

definition onDataReceived :: "u16 \<Rightarrow> int \<Rightarrow> int \<Rightarrow> u8 list \<Rightarrow> DiscoveryService \<Rightarrow> DiscoveryService" where
  "onDataReceived junk now cid data d =
     (case decode_message (text_of_bytes data) of
        Inl _ \<Rightarrow>
          sendResponse cid (encode_message (MsgError \<lparr>errorCode = PROTOCOL,
              er_humanReadableMessage = ''Malformed or invalid message received.''\<rparr>)) d
      | Inr (MsgRegistrationRequest req) \<Rightarrow> handleRegistration junk now cid req d
      | Inr (MsgKeepalivePing ping) \<Rightarrow> handleKeepalive now cid ping d
      | Inr (MsgComponentQuery query) \<Rightarrow> handleComponentQuery cid query d
      | Inr _ \<Rightarrow> d)"

section \<open>Transport callbacks and the event loop\<close>

type_synonym ds_world = "DiscoveryService server_world"

definition onClientConnected :: "int \<Rightarrow> string \<Rightarrow> DiscoveryService \<Rightarrow> DiscoveryService" where
  "onClientConnected cid ip d = d\<lparr>ds_client_ip_addresses := aput cid ip (ds_client_ip_addresses d)\<rparr>"

text \<open>\<open>onClientDisconnected\<close> with \<open>stop\<close> inside: the first argument bounds the depth of nested callbacks.
  Only the disconnect callback can be reached from the server's \<open>disconnect\<close>.\<close>

definition ds_stop :: "(int \<Rightarrow> ds_world \<Rightarrow> fault + ds_world) \<Rightarrow> ds_world \<Rightarrow> fault + ds_world" where
  "ds_stop on_disconnect w =
     (case w of (s, d) \<Rightarrow>
        if ds_shutting_down d then Inr (s, d)
        else ts_disconnect
               \<lparr>connect_callback = None, disconnect_callback = Some on_disconnect, data_callback = None\<rparr>
               (s, d\<lparr>ds_shutting_down := True\<rparr>))"

fun onClientDisconnected :: "nat \<Rightarrow> int \<Rightarrow> ds_world \<Rightarrow> fault + ds_world" where
  "onClientDisconnected 0 cid w = Inl CallDepthExceeded"
| "onClientDisconnected (Suc n) cid (s, d) =
     (let d1 = d\<lparr>ds_client_ip_addresses := aerase cid (ds_client_ip_addresses d)\<rparr> in
      (case find_by_client_id (ds_registry d1) cid of
         None \<Rightarrow> Inr (s, d1)
       | Some cinfo \<Rightarrow>
           (let d2 = d1\<lparr>ds_registry := unregister_component cid (ds_registry d1)\<rparr> in
            if \<not> ds_p2p_mode d2 \<and> info_component_type cinfo = OFFLOAD_MANAGER \<and> \<not> ds_shutting_down d2
            then ds_stop (onClientDisconnected n) (s, d2)
            else Inr (s, d2))))"

text \<open>Nesting of two is enough: \<open>stop\<close> runs once.\<close>

definition ds_on_disconnect :: "int \<Rightarrow> ds_world \<Rightarrow> fault + ds_world" where
  "ds_on_disconnect = onClientDisconnected 2"

text \<open>The callbacks \<open>start\<close> installs. The data callback reads up to 1024 bytes; \<open>recv\<close> is answered by
  \<open>answers\<close>.\<close>

definition ds_on_data ::
  "u16 \<Rightarrow> int \<Rightarrow> (int \<Rightarrow> recv_answer) \<Rightarrow> int \<Rightarrow> ds_world \<Rightarrow> fault + ds_world" where
  "ds_on_data junk now answers cid w =
     (case ts_receive_from \<lparr>connect_callback = None, disconnect_callback = Some ds_on_disconnect, data_callback = None\<rparr>
             cid 1024 (answers cid) w of
        Inl e \<Rightarrow> Inl e
      | Inr (n, bytes, s, d) \<Rightarrow> if n > 0 then Inr (s, onDataReceived junk now cid bytes d) else Inr (s, d))"

definition ds_callbacks :: "u16 \<Rightarrow> int \<Rightarrow> (int \<Rightarrow> recv_answer) \<Rightarrow> DiscoveryService callbacks" where
  "ds_callbacks junk now answers =
     \<lparr>connect_callback = Some (\<lambda>cid ip port (s, d). Inr (s, onClientConnected cid ip d)),
      disconnect_callback = Some ds_on_disconnect,
      data_callback = Some (ds_on_data junk now answers)\<rparr>"

fun purge_loop :: "DiscoveryService callbacks \<Rightarrow> int \<Rightarrow> int list \<Rightarrow> ds_world \<Rightarrow> fault + ds_world" where
  "purge_loop cbs now [] w = Inr w"
| "purge_loop cbs now (cid # cids) w =
     (case (case find_by_client_id (ds_registry (snd w)) cid of
              None \<Rightarrow> Inr w
            | Some cinfo \<Rightarrow>
                if now - info_last_seen cinfo > KEEPALIVE_TIMEOUT then ts_disconnect_client cbs cid w else Inr w) of
        Inl e \<Rightarrow> Inl e
      | Inr w' \<Rightarrow> purge_loop cbs now cids w')"

definition purgeStaleClients :: "DiscoveryService callbacks \<Rightarrow> int \<Rightarrow> ds_world \<Rightarrow> fault + ds_world" where
  "purgeStaleClients cbs now w = purge_loop cbs now (get_all_client_ids (ds_registry (snd w))) w"

text \<open>One iteration of the loop of \<open>start\<close>: \<open>None\<close> when the loop condition fails. \<open>now\<close> is the time during the
  events, \<open>now'\<close> the time read after them.\<close>

definition ds_iteration ::
  "u16 \<Rightarrow> int \<Rightarrow> int \<Rightarrow> (int \<Rightarrow> recv_answer) \<Rightarrow> server_events \<Rightarrow> ds_world \<Rightarrow> (fault + ds_world) option" where
  "ds_iteration junk now now' answers ev w =
     (if ds_shutting_down (snd w) \<or> \<not> ts_is_connected (fst w) then None
      else Some
        (case ts_process_events (ds_callbacks junk now answers) ev w of
           Inl e \<Rightarrow> Inl e
         | Inr (_, s, d) \<Rightarrow>
             if now' - ds_last_purge_time d > PURGE_INTERVAL then
               map_sum id (\<lambda>(s, d). (s, d\<lparr>ds_last_purge_time := now'\<rparr>))
                 (purgeStaleClients (ds_callbacks junk now' answers) now' (s, d))
             else Inr (s, d)))"

definition ds_start ::
  "u16 \<Rightarrow> int \<Rightarrow> (int \<Rightarrow> recv_answer) \<Rightarrow> listen_answer \<Rightarrow> ds_world \<Rightarrow> fault + bool \<times> ds_world" where
  "ds_start junk now answers l w = ts_connect (ds_callbacks junk now answers) l w"

section \<open>Registrations\<close>

lemma sendResponse_fields [simp]:
  "ds_registry (sendResponse c m d) = ds_registry d" "ds_p2p_mode (sendResponse c m d) = ds_p2p_mode d"
  "ds_shutting_down (sendResponse c m d) = ds_shutting_down d"
  "ds_global_configuration (sendResponse c m d) = ds_global_configuration d"
  "ds_sent (sendResponse c m d) = ds_sent d @ [(c, m)]"
  by (simp_all add: sendResponse_def)

text \<open>\<open>register_common\<close> on its three branches; the internal error branch is unreachable.\<close>

lemma register_common_cases:
  obtains (conflict) "is_id_taken (ds_registry d) (groupId req) (idInGroup req)"
      "register_common now cid req d resp = (d, detect_address cid d
         (resp\<lparr>responseCode := ID_CONFLICT, rs_humanReadableMessage := ''Component ID is already in use.''\<rparr>))"
  | (invalid) "\<not> is_id_taken (ds_registry d) (groupId req) (idInGroup req)" "stoi (listenPort req) = None"
      "register_common now cid req d resp =
         (d, resp\<lparr>responseCode := INVALID_REQUEST, rs_humanReadableMessage := ''Invalid listen port format.''\<rparr>)"
  | (success) port r where "\<not> is_id_taken (ds_registry d) (groupId req) (idInGroup req)" "stoi (listenPort req) = Some port"
      "register_component (new_component now cid req d port) (ds_registry d) = (True, r)"
      "register_common now cid req d resp = (d\<lparr>ds_registry := r\<rparr>,
         resp\<lparr>responseCode := SUCCESS, configJson := (case ds_global_configuration d of Some c \<Rightarrow> c | None \<Rightarrow> []),
              detectedClientAddress := (case aget (ds_client_ip_addresses d) cid of Some ip \<Rightarrow> ip | None \<Rightarrow> ''unknown''),
              rs_humanReadableMessage := ''Registration successful.''\<rparr>)"
proof (cases "is_id_taken (ds_registry d) (groupId req) (idInGroup req)")
  case True
  then show ?thesis by (intro conflict) (simp_all add: register_common_def)
next
  case free: False
  show ?thesis
  proof (cases "stoi (listenPort req)")
    case None
    with free show ?thesis by (intro invalid) (simp_all add: register_common_def)
  next
    case (Some port)
    obtain r where "register_component (new_component now cid req d port) (ds_registry d) = (True, r)"
      using free by (auto simp: register_component_def new_component_def Let_def)
    with free Some show ?thesis by (intro success) (simp_all add: register_common_def)
  qed
qed

lemma register_common_registry:
  "register_common now cid req d resp = (d', resp') \<Longrightarrow>
     ds_registry d' = ds_registry d \<or>
     (\<exists>info. info_client_id info = cid \<and> ds_registry d' = snd (register_component info (ds_registry d)))"
proof (cases rule: register_common_cases [where d = d and req = req and now = now and cid = cid and resp = resp])
  case (success port r)
  assume "register_common now cid req d resp = (d', resp')"
  with success have "ds_registry d' = snd (register_component (new_component now cid req d port) (ds_registry d))" by auto
  moreover have "info_client_id (new_component now cid req d port) = cid" by (simp add: new_component_def)
  ultimately show ?thesis by blast
qed auto

lemma register_networked_registry:
  "register_networked req d resp = (d', st) \<Longrightarrow>
     ds_registry d' \<in> {ds_registry d, snd (find_available_bridge (ds_registry d)), snd (find_available_om (ds_registry d))}"
  by (auto simp: register_networked_def Let_def split: if_splits option.splits prod.splits)

text \<open>Every registration request changes the registry by at most a round-robin step and one registration for the
  requesting client.\<close>

lemma register_request_registry:
  assumes "register_request junk now cid req d = (d', resp)"
  shows "\<exists>r \<in> {ds_registry d, snd (find_available_bridge (ds_registry d)), snd (find_available_om (ds_registry d))}.
     ds_registry d' = r \<or> (\<exists>info. info_client_id info = cid \<and> ds_registry d' = snd (register_component info r))"
proof (cases "ds_p2p_mode d")
  case True
  with assms show ?thesis
    by (auto simp: register_request_def split: sum.splits dest!: register_common_registry)
next
  case False
  obtain d1 st where st: "register_networked req d (fresh_response junk req) = (d1, st)"
    by (cases "register_networked req d (fresh_response junk req)")
  with False assms register_networked_registry [OF st] show ?thesis
    by (cases st) (auto simp: register_request_def dest!: register_common_registry)
qed

section \<open>Reachable states of the service\<close>

text \<open>The service as a state machine: a client connects, sends data, disconnects.\<close>

inductive ds_step :: "DiscoveryService \<Rightarrow> DiscoveryService \<Rightarrow> bool" where
  connected: "ds_step d (onClientConnected cid ip d)"
| data: "ds_step d (onDataReceived junk now cid bytes d)"
| disconnected: "onClientDisconnected n cid (s, d) = Inr (s', d') \<Longrightarrow> ds_step d d'"

inductive ds_reachable :: "DiscoveryService \<Rightarrow> DiscoveryService \<Rightarrow> bool" for d0 where
  start: "ds_reachable d0 d0"
| step: "ds_reachable d0 d \<Longrightarrow> ds_step d d' \<Longrightarrow> ds_reachable d0 d'"

inductive_cases ds_stepE: "ds_step d d'"

lemma register_request_weak:
  assumes "registry_weak (ds_registry d)" "register_request junk now cid req d = (d', resp)"
  shows "registry_weak (ds_registry d')"
  using register_request_registry [OF assms(2)] registry_weak_find [OF assms(1)] assms(1)
    registry_weak_register by auto

lemma onDataReceived_weak:
  assumes "registry_weak (ds_registry d)"
  shows "registry_weak (ds_registry (onDataReceived junk now cid bytes d))"
proof (cases "decode_message (text_of_bytes bytes)")
  case (Inl e)
  with assms show ?thesis by (simp add: onDataReceived_def)
next
  case (Inr m)
  show ?thesis
  proof (cases m)
    case (MsgRegistrationRequest req)
    with Inr assms register_request_weak [OF assms, of junk now cid req] show ?thesis
      by (auto simp: onDataReceived_def handleRegistration_def split: prod.splits)
  next
    case (MsgKeepalivePing ping)
    with Inr assms registry_weak_keepalive [OF assms] show ?thesis
      by (auto simp: onDataReceived_def handleKeepalive_def split: option.splits prod.splits bool.splits)
        (metis snd_conv)
  qed (use Inr assms in \<open>simp_all add: onDataReceived_def handleComponentQuery_def\<close>)
qed

text \<open>What a disconnection does to the service when the service is not stopped by it.\<close>

definition forget_client :: "int \<Rightarrow> DiscoveryService \<Rightarrow> DiscoveryService" where
  "forget_client cid d = d\<lparr>ds_client_ip_addresses := aerase cid (ds_client_ip_addresses d),
     ds_registry := unregister_component cid (ds_registry d)\<rparr>"

text \<open>The disconnection that stops the service: the offloading manager's, in networked mode.\<close>

definition stops_service :: "int \<Rightarrow> DiscoveryService \<Rightarrow> bool" where
  "stops_service cid d \<longleftrightarrow> \<not> ds_p2p_mode d \<and> \<not> ds_shutting_down d
     \<and> (case find_by_client_id (ds_registry d) cid of
          Some info \<Rightarrow> info_component_type info = OFFLOAD_MANAGER | None \<Rightarrow> False)"

lemma onClientDisconnected_eq:
  "onClientDisconnected (Suc n) cid (s, d) =
     (if stops_service cid d then ds_stop (onClientDisconnected n) (s, forget_client cid d)
      else Inr (s, forget_client cid d))"
  by (auto simp: stops_service_def forget_client_def find_by_client_id_def unregister_component_def Let_def
      split: option.splits)

lemma forget_client_fields [simp]:
  "ds_registry (forget_client cid d) = unregister_component cid (ds_registry d)"
  "ds_shutting_down (forget_client cid d) = ds_shutting_down d" "ds_p2p_mode (forget_client cid d) = ds_p2p_mode d"
  by (simp_all add: forget_client_def)

interpretation quiet: passive_callback "onClientDisconnected (Suc 0)" ds_shutting_down
  by unfold_locales (simp add: onClientDisconnected_eq stops_service_def del: onClientDisconnected.simps)

lemma ds_stop_keeps:
  assumes "preserving_callback cb P" "\<And>d. P (d\<lparr>ds_shutting_down := True\<rparr>) = P d"
    and "ds_stop cb (s, d) = Inr (s', d')" "P d"
  shows "P d'"
proof (cases "ds_shutting_down d")
  case True
  with assms(3,4) show ?thesis by (simp add: ds_stop_def)
next
  case False
  with assms(3) have "ts_disconnect \<lparr>connect_callback = None, disconnect_callback = Some cb, data_callback = None\<rparr>
      (s, d\<lparr>ds_shutting_down := True\<rparr>) = Inr (s', d')"
    by (simp add: ds_stop_def)
  then show ?thesis
    by (rule preserving_callback.disconnect_keeps [OF assms(1), rotated]) (simp_all add: assms(2,4))
qed

lemma onClientDisconnected_keeps:
  assumes forget: "\<And>c d. P d \<Longrightarrow> P (forget_client c d)" and flag: "\<And>d. P (d\<lparr>ds_shutting_down := True\<rparr>) = P d"
  shows "preserving_callback (onClientDisconnected n) P"
proof (induction n)
  case 0
  show ?case by unfold_locales simp
next
  case (Suc n)
  show ?case
    by unfold_locales
      (auto simp: onClientDisconnected_eq intro: ds_stop_keeps [OF Suc flag] forget split: if_splits
        simp del: onClientDisconnected.simps)
qed

interpretation weak: preserving_callback "onClientDisconnected 2" "\<lambda>d. registry_weak (ds_registry d)"
  by (rule onClientDisconnected_keeps) (simp_all add: registry_weak_unregister)

lemma reachable_weak:
  assumes "ds_reachable (DiscoveryService_init port p2p t0) d"
  shows "registry_weak (ds_registry d)"
  using assms
proof (induction rule: ds_reachable.induct)
  case start
  show ?case by (simp add: DiscoveryService_init_def registry_weak_init)
next
  case (step d d')
  from step.hyps(2) show ?case
  proof (cases rule: ds_step.cases)
    case (disconnected n cid s s')
    with step.IH onClientDisconnected_keeps [of "\<lambda>d. registry_weak (ds_registry d)" n] show ?thesis
      by (auto simp: registry_weak_unregister dest: preserving_callback.keeps)
  qed (use step.IH in \<open>auto simp: onClientConnected_def intro: onDataReceived_weak\<close>)
qed

section \<open>The registration decision\<close>

text \<open>The component whose turn it is in a round robin over client ids, if it is (still) registered.\<close>

definition round_robin :: "ComponentRegistry \<Rightarrow> int list \<Rightarrow> nat \<Rightarrow> ComponentInfo option" where
  "round_robin r cids n =
     (if cids = [] then None else find_by_client_id r (cids ! (if n < length cids then n else 0)))"

definition next_bridge :: "ComponentRegistry \<Rightarrow> ComponentInfo option" where
  "next_bridge r = round_robin r (bridge_client_ids r) (next_bridge_idx r)"

definition next_om :: "ComponentRegistry \<Rightarrow> ComponentInfo option" where
  "next_om r = round_robin r (om_client_ids r) (next_om_idx r)"

text \<open>The MEC a vehicle of a given id is matched with in peer-to-peer mode.\<close>

definition peer_mecs :: "ComponentRegistry \<Rightarrow> u8 \<Rightarrow> u8 \<Rightarrow> ComponentInfo list" where
  "peer_mecs r g i =
     filter (\<lambda>x. info_component_type x = MEC \<and> component_key x = (g, i)) (get_all_components r)"

text \<open>The response code of a registration, as a table over both modes.\<close>

definition storing_code :: "RegistrationRequest \<Rightarrow> ResponseCode" where
  "storing_code req = (if stoi (listenPort req) = None then INVALID_REQUEST else SUCCESS)"

definition registration_code :: "RegistrationRequest \<Rightarrow> DiscoveryService \<Rightarrow> ResponseCode" where
  "registration_code req d =
     (let r = ds_registry d; held = is_id_taken r (groupId req) (idInGroup req) in
      if ds_p2p_mode d then
        (case componentType req of
           VEHICLE \<Rightarrow> if peer_mecs r (groupId req) (idInGroup req) = [] then WAIT else SUCCESS
         | MEC \<Rightarrow> if held then ID_CONFLICT else storing_code req
         | _ \<Rightarrow> INVALID_REQUEST)
      else
        (case componentType req of
           OFFLOAD_MANAGER \<Rightarrow> if held then ID_CONFLICT else storing_code req
         | BRIDGE \<Rightarrow> if ds_global_configuration d = None then WAIT else if held then ID_CONFLICT
                      else if next_om r = None then WAIT else storing_code req
         | VEHICLE \<Rightarrow> if ds_global_configuration d = None then WAIT else if held then ID_CONFLICT
                      else if next_bridge r = None then WAIT else storing_code req
         | MEC \<Rightarrow> if ds_global_configuration d = None then WAIT else if held then ID_CONFLICT
                      else if next_bridge r = None then WAIT else storing_code req
         | _ \<Rightarrow> if ds_global_configuration d = None then WAIT else if held then ID_CONFLICT else storing_code req))"

text \<open>The component that a stored registration is sent to.\<close>

definition registration_target :: "RegistrationRequest \<Rightarrow> DiscoveryService \<Rightarrow> ComponentInfo option" where
  "registration_target req d =
     (if ds_p2p_mode d then None
      else (case componentType req of
              VEHICLE \<Rightarrow> next_bridge (ds_registry d)
            | MEC \<Rightarrow> next_bridge (ds_registry d)
            | BRIDGE \<Rightarrow> next_om (ds_registry d)
            | _ \<Rightarrow> None))"

lemma find_available_next [simp]:
  "fst (find_available_bridge r) = next_bridge r" "fst (find_available_om r) = next_om r"
  by (simp_all add: find_available_bridge_def find_available_om_def next_bridge_def next_om_def round_robin_def
      find_by_client_id_def Let_def)

lemma is_id_taken_find [simp]:
  "is_id_taken (snd (find_available_bridge r)) g i = is_id_taken r g i"
  "is_id_taken (snd (find_available_om r)) g i = is_id_taken r g i"
  by (simp_all add: is_id_taken_def find_available_keeps)

lemma find_by_client_id_find [simp]:
  "find_by_client_id (snd (find_available_bridge r)) c = find_by_client_id r c"
  "find_by_client_id (snd (find_available_om r)) c = find_by_client_id r c"
  by (simp_all add: find_by_client_id_def find_available_keeps)

lemma find_available_pair:
  "find_available_bridge r = (next_bridge r, snd (find_available_bridge r))"
  "find_available_om r = (next_om r, snd (find_available_om r))"
  by (simp_all flip: find_available_next)

lemma round_robin_typed:
  assumes inv: "registry_inv r" and ids: "set cids = typed_clients r t"
  shows "round_robin r cids n = None \<longleftrightarrow> typed_clients r t = {}"
    and "round_robin r cids n = Some b \<Longrightarrow> info_component_type b = t \<and> find_by_client_id r (info_client_id b) = Some b"
proof -
  have reg: "\<exists>x. find_by_client_id r c = Some x \<and> info_component_type x = t \<and> info_client_id x = c" if "c \<in> set cids" for c
    using that registry_invD(3) [OF inv] unfolding ids by (auto simp: typed_clients_def find_by_client_id_def)
  have mem: "cids ! (if n < length cids then n else 0) \<in> set cids" if "cids \<noteq> []" using that by auto
  show "round_robin r cids n = None \<longleftrightarrow> typed_clients r t = {}"
    using reg [OF mem] by (cases "cids = []") (auto simp: round_robin_def simp flip: ids)
  show "round_robin r cids n = Some b \<Longrightarrow> info_component_type b = t \<and> find_by_client_id r (info_client_id b) = Some b"
    using reg [OF mem] by (cases "cids = []") (auto simp: round_robin_def)
qed

lemma next_bridge_typed:
  assumes "registry_inv r"
  shows "next_bridge r = None \<longleftrightarrow> typed_clients r BRIDGE = {}"
    and "next_bridge r = Some b \<Longrightarrow> info_component_type b = BRIDGE \<and> find_by_client_id r (info_client_id b) = Some b"
  unfolding next_bridge_def by (rule round_robin_typed [OF assms registry_invD(7) [OF assms]]; assumption?)+

lemma next_om_typed:
  assumes "registry_inv r"
  shows "next_om r = None \<longleftrightarrow> typed_clients r OFFLOAD_MANAGER = {}"
    and "next_om r = Some b \<Longrightarrow> info_component_type b = OFFLOAD_MANAGER \<and> find_by_client_id r (info_client_id b) = Some b"
  unfolding next_om_def by (rule round_robin_typed [OF assms registry_invD(9) [OF assms]]; assumption?)+

lemma register_common_code:
  "responseCode (snd (register_common now cid req d resp)) =
     (if is_id_taken (ds_registry d) (groupId req) (idInGroup req) then ID_CONFLICT else storing_code req)"
  by (cases rule: register_common_cases [where d = d and req = req and now = now and cid = cid and resp = resp])
    (auto simp: detect_address_def storing_code_def split: option.splits)

lemma register_common_target:
  "connectionTargetType (snd (register_common now cid req d resp)) = connectionTargetType resp"
  "connectionTargetAddress (snd (register_common now cid req d resp)) = connectionTargetAddress resp"
  "connectionTargetPort (snd (register_common now cid req d resp)) = connectionTargetPort resp"
  "connectionTargetId (snd (register_common now cid req d resp)) = connectionTargetId resp"
  by (cases rule: register_common_cases [where d = d and req = req and now = now and cid = cid and resp = resp];
      auto simp: detect_address_def split: option.splits)+

lemma find_filter: "find P xs = (case filter P xs of [] \<Rightarrow> None | x # _ \<Rightarrow> Some x)"
  by (induction xs) auto

lemma peer_found:
  "find (\<lambda>x. info_component_type x = MEC \<and> info_group_id x = g \<and> info_id_in_group x = i) (get_all_components r)
     = (case peer_mecs r g i of [] \<Rightarrow> None | x # _ \<Rightarrow> Some x)"
  by (simp add: peer_mecs_def find_filter)

text \<open>A request is answered at once, matched with its peer, or passed on to the common part with the target
  to connect to.\<close>

definition target_fields :: "ComponentInfo option \<Rightarrow> string \<times> string \<times> string" where
  "target_fields t =
     (case t of
        None \<Rightarrow> ([], [], [])
      | Some b \<Rightarrow> (component_type_to_string (info_component_type b), info_listen_address b,
                   show_int (uint (info_listen_port b))))"

lemma p2p_cases:
  assumes run: "register_request junk now cid req d = (d', resp)" and mode: "ds_p2p_mode d"
  obtains (answered) "responseCode resp = registration_code req d" "responseCode resp \<noteq> SUCCESS"
  | (matched) x where "componentType req = VEHICLE" "x \<in> set (peer_mecs (ds_registry d) (groupId req) (idInGroup req))"
      "d' = d" "resp = (fresh_response junk req)\<lparr>responseCode := SUCCESS, connectionTargetType := ''MEC'',
         connectionTargetAddress := info_listen_address x, connectionTargetPort := show_int (uint (info_listen_port x)),
         rs_humanReadableMessage := ''P2P Match found.''\<rparr>"
      "registration_code req d = SUCCESS"
  | (stored) resp1 where "componentType req = MEC" "register_common now cid req d resp1 = (d', resp)"
      "(connectionTargetType resp1, connectionTargetAddress resp1, connectionTargetPort resp1) = ([], [], [])"
proof (cases "componentType req")
  case VEHICLE
  show ?thesis
  proof (cases "peer_mecs (ds_registry d) (groupId req) (idInGroup req)")
    case Nil
    with VEHICLE run mode show ?thesis
      by (intro answered) (auto simp: register_request_def register_p2p_def peer_found detect_address_def registration_code_def
          split: option.splits)
  next
    case (Cons x xs)
    with VEHICLE run mode show ?thesis
      by (intro matched [of x]) (auto simp: register_request_def register_p2p_def peer_found registration_code_def)
  qed
next
  case MEC
  with run mode show ?thesis
    by (intro stored [of "(fresh_response junk req)\<lparr>responseCode := SUCCESS,
          rs_humanReadableMessage := ''MEC registered in P2P mode.''\<rparr>"])
      (simp_all add: register_request_def register_p2p_def fresh_response_def)
qed (use run mode in \<open>auto simp: register_request_def register_p2p_def registration_code_def intro!: answered\<close>)

text \<open>What the networked part refuses, and that it hands on everything else.\<close>

definition networked_refusal :: "RegistrationRequest \<Rightarrow> DiscoveryService \<Rightarrow> ResponseCode option" where
  "networked_refusal req d =
     (if componentType req \<noteq> OFFLOAD_MANAGER \<and> ds_global_configuration d = None then Some WAIT
      else if is_id_taken (ds_registry d) (groupId req) (idInGroup req) then Some ID_CONFLICT
      else if componentType req \<in> {VEHICLE, MEC, BRIDGE} \<and> registration_target req d = None then Some WAIT
      else None)"

lemma networked_code:
  "\<not> ds_p2p_mode d \<Longrightarrow>
     registration_code req d = (case networked_refusal req d of Some c \<Rightarrow> c | None \<Rightarrow> storing_code req)"
  by (cases "componentType req") (simp_all add: registration_code_def networked_refusal_def registration_target_def Let_def)

lemma networked_refused:
  assumes "\<not> ds_p2p_mode d" "networked_refusal req d = Some c"
  shows "\<exists>d1 resp. register_networked req d resp0 = (d1, Inl resp) \<and> responseCode resp = c \<and> c \<noteq> SUCCESS"
proof -
  obtain rb ro where found: "find_available_bridge (ds_registry d) = (next_bridge (ds_registry d), rb)"
      "find_available_om (ds_registry d) = (next_om (ds_registry d), ro)"
    using find_available_pair by blast
  show ?thesis
    using assms unfolding networked_refusal_def registration_target_def register_networked_def Let_def
    by (cases "componentType req") (auto simp: found split: if_splits)
qed

lemma networked_cases:
  assumes run: "register_request junk now cid req d = (d', resp)" and mode: "\<not> ds_p2p_mode d"
  obtains (answered) "responseCode resp = registration_code req d" "responseCode resp \<noteq> SUCCESS"
  | (stored) d1 resp1 where "register_common now cid req d1 resp1 = (d', resp)"
      "registration_code req d = storing_code req"
      "\<not> is_id_taken (ds_registry d) (groupId req) (idInGroup req)"
      "ds_registry d1 \<in> {ds_registry d, snd (find_available_bridge (ds_registry d)), snd (find_available_om (ds_registry d))}"
      "ds_client_ip_addresses d1 = ds_client_ip_addresses d"
      "ds_global_configuration d1 =
         (if componentType req = OFFLOAD_MANAGER then Some (rq_humanReadableMessage req) else ds_global_configuration d)"
      "ds_global_configuration d1 \<noteq> None"
      "componentType req \<in> {VEHICLE, MEC, BRIDGE} \<longrightarrow> registration_target req d \<noteq> None"
      "(connectionTargetType resp1, connectionTargetAddress resp1, connectionTargetPort resp1)
         = target_fields (registration_target req d)"
proof (cases "networked_refusal req d")
  case None
  then have go: "\<not> is_id_taken (ds_registry d) (groupId req) (idInGroup req)"
    "componentType req \<in> {VEHICLE, MEC, BRIDGE} \<longrightarrow> registration_target req d \<noteq> None"
    "componentType req = OFFLOAD_MANAGER \<or> ds_global_configuration d \<noteq> None"
    by (auto simp: networked_refusal_def split: if_splits)
  let ?d = "if componentType req = OFFLOAD_MANAGER
      then d\<lparr>ds_global_configuration := Some (rq_humanReadableMessage req)\<rparr> else d"
  let ?r = "if componentType req \<in> {VEHICLE, MEC} then snd (find_available_bridge (ds_registry d))
      else if componentType req = BRIDGE then snd (find_available_om (ds_registry d)) else ds_registry d"
  let ?resp = "case registration_target req d of Some b \<Rightarrow> target_of b (fresh_response junk req) | None \<Rightarrow> fresh_response junk req"
  have net: "register_networked req d (fresh_response junk req) = (?d\<lparr>ds_registry := ?r\<rparr>, Inr ?resp)"
    using go mode find_available_pair [of "ds_registry d"]
    by (cases "componentType req") (auto simp: register_networked_def registration_target_def Let_def split: prod.splits option.splits)
  have common: "register_common now cid req (?d\<lparr>ds_registry := ?r\<rparr>) ?resp = (d', resp)"
    using run mode unfolding register_request_def net by simp
  have fields: "(connectionTargetType ?resp, connectionTargetAddress ?resp, connectionTargetPort ?resp)
      = target_fields (registration_target req d)"
    by (simp add: target_fields_def target_of_def fresh_response_def split: option.splits)
  show ?thesis by (rule stored [OF common _ _ _ _ _ _ _ fields]) (use go None mode in \<open>auto simp: networked_code\<close>)
next
  case (Some c)
  then obtain d1 where "register_networked req d (fresh_response junk req) = (d1, Inl resp)" "responseCode resp = c" "c \<noteq> SUCCESS"
    using networked_refused [OF mode Some, of "fresh_response junk req"] run mode by (auto simp: register_request_def)
  then show ?thesis using Some mode by (intro answered) (simp_all add: networked_code)
qed

lemma decision_code: "responseCode (snd (register_request junk now cid req d)) = registration_code req d"
proof -
  obtain d' resp where run: "register_request junk now cid req d = (d', resp)" by (cases "register_request junk now cid req d")
  show ?thesis
  proof (cases "ds_p2p_mode d")
    case True
    with run show ?thesis
    proof (cases rule: p2p_cases [consumes 2, case_names answered matched stored])
      case (stored resp1)
      with True run register_common_code [of now cid req d resp1] show ?thesis by (simp add: registration_code_def)
    qed (use run in auto)
  next
    case False
    with run show ?thesis
    proof (cases rule: networked_cases [consumes 2, case_names answered stored])
      case (stored d1 resp1)
      have "\<not> is_id_taken (ds_registry d1) (groupId req) (idInGroup req)" using stored(3,4) by auto
      with stored(1,2) run register_common_code [of now cid req d1 resp1] show ?thesis by simp
    qed (use run in auto)
  qed
qed

section \<open>Disconnections\<close>

definition ds_disconnecting :: "(int \<Rightarrow> ds_world \<Rightarrow> fault + ds_world) \<Rightarrow> DiscoveryService callbacks" where
  "ds_disconnecting cb = \<lparr>connect_callback = None, disconnect_callback = Some cb, data_callback = None\<rparr>"

lemma on_disconnect_quiet:
  "\<not> stops_service cid d \<Longrightarrow> ds_on_disconnect cid (s, d) = Inr (s, forget_client cid d)"
  by (simp add: ds_on_disconnect_def numeral_2_eq_2 onClientDisconnected_eq del: onClientDisconnected.simps)

lemma drop_client_quiet:
  assumes "disconnect_callback cbs = Some ds_on_disconnect" "\<not> stops_service cid d" "aget (ts_clients s) cid \<noteq> None"
  shows "drop_client cbs cid (s, d) = Inr (s\<lparr>ts_clients := aerase cid (ts_clients s)\<rparr>, forget_client cid d)"
  using assms by (simp add: drop_client_def on_disconnect_quiet)

text \<open>The offloading manager disconnects: the callback stops the service, which disconnects every client,
  the offloading manager included, while the server still holds an iterator to it.\<close>

lemma drop_client_om:
  assumes cb: "disconnect_callback cbs = Some ds_on_disconnect" and om: "stops_service cid d" and run: "ts_running s"
  shows "drop_client cbs cid (s, d) = Inl IteratorInvalidated"
proof -
  let ?d = "(forget_client cid d)\<lparr>ds_shutting_down := True\<rparr>"
  have "\<not> ds_shutting_down d" using om by (simp add: stops_service_def)
  then have "ds_on_disconnect cid (s, d) = ts_disconnect (ds_disconnecting (onClientDisconnected (Suc 0))) (s, ?d)"
    using om by (simp add: ds_on_disconnect_def numeral_2_eq_2 onClientDisconnected_eq ds_stop_def ds_disconnecting_def
        del: onClientDisconnected.simps)
  moreover obtain s' d' where "ts_disconnect (ds_disconnecting (onClientDisconnected (Suc 0))) (s, ?d) = Inr (s', d')"
      "ts_clients s' = []"
    using quiet.disconnect_ok [of "ds_disconnecting (onClientDisconnected (Suc 0))" ?d s] run
    by (auto simp: ds_disconnecting_def)
  ultimately show ?thesis using cb by (simp add: drop_client_def)
qed

section \<open>Purging\<close>

definition stale :: "int \<Rightarrow> ComponentInfo \<Rightarrow> bool" where
  "stale now info \<longleftrightarrow> now - info_last_seen info > KEEPALIVE_TIMEOUT"

lemma purge_loop_quiet:
  assumes cb: "disconnect_callback cbs = Some ds_on_disconnect"
  shows "\<forall>c x. find_by_client_id (ds_registry d) c = Some x \<longrightarrow> aget (ts_clients s) c \<noteq> None \<Longrightarrow>
    \<forall>c x. find_by_client_id (ds_registry d) c = Some x \<and> stale now x \<longrightarrow> \<not> stops_service c d \<Longrightarrow>
    \<exists>s' d'. purge_loop cbs now cids (s, d) = Inr (s', d')
      \<and> (\<forall>c. find_by_client_id (ds_registry d') c =
           (case find_by_client_id (ds_registry d) c of
              Some x \<Rightarrow> if c \<in> set cids \<and> stale now x then None else Some x | None \<Rightarrow> None))"
proof (induction cids arbitrary: s d)
  case Nil
  then show ?case by (auto split: option.splits)
next
  case (Cons cid cids)
  show ?case
  proof (cases "\<exists>x. find_by_client_id (ds_registry d) cid = Some x \<and> stale now x")
    case False
    then have "purge_loop cbs now (cid # cids) (s, d) = purge_loop cbs now cids (s, d)"
      by (auto simp: stale_def split: option.splits)
    with Cons.IH [OF Cons.prems] False show ?thesis
      by (auto split: option.splits) metis+
  next
    case True
    then obtain x where x: "find_by_client_id (ds_registry d) cid = Some x" "stale now x" by blast
    let ?s = "s\<lparr>ts_clients := aerase cid (ts_clients s)\<rparr>" and ?d = "forget_client cid d"
    have present: "aget (ts_clients s) cid \<noteq> None" and quiet: "\<not> stops_service cid d"
      using Cons.prems x by blast+
    have step: "purge_loop cbs now (cid # cids) (s, d) = purge_loop cbs now cids (?s, ?d)"
      using x drop_client_quiet [OF cb quiet present] present
      by (auto simp: ts_disconnect_client_def stale_def)
    have stop: "stops_service c ?d \<Longrightarrow> stops_service c d" for c
      by (auto simp: stops_service_def registry.find_unreg split: if_splits)
    have clients: "\<forall>c x. find_by_client_id (ds_registry ?d) c = Some x \<longrightarrow> aget (ts_clients ?s) c \<noteq> None"
    proof (intro allI impI)
      fix c y assume "find_by_client_id (ds_registry ?d) c = Some y"
      then have "c \<noteq> cid" "find_by_client_id (ds_registry d) c = Some y"
        by (auto simp: registry.find_unreg split: if_splits)
      with Cons.prems(1) show "aget (ts_clients ?s) c \<noteq> None" by auto
    qed
    have quiet': "\<forall>c x. find_by_client_id (ds_registry ?d) c = Some x \<and> stale now x \<longrightarrow> \<not> stops_service c ?d"
    proof (intro allI impI)
      fix c y assume "find_by_client_id (ds_registry ?d) c = Some y \<and> stale now y"
      then have "find_by_client_id (ds_registry d) c = Some y \<and> stale now y"
        by (auto simp: registry.find_unreg split: if_splits)
      with Cons.prems(2) stop show "\<not> stops_service c ?d" by blast
    qed
    obtain s' d' where "purge_loop cbs now cids (?s, ?d) = Inr (s', d')"
      "\<forall>c. find_by_client_id (ds_registry d') c = (case find_by_client_id (ds_registry ?d) c of
          Some x \<Rightarrow> if c \<in> set cids \<and> stale now x then None else Some x | None \<Rightarrow> None)"
      using Cons.IH [OF clients quiet'] by blast
    with step x show ?thesis by (auto simp: registry.find_unreg split: option.splits if_splits)
  qed
qed

end
