(* ===== verification/Discovery_Guarantees.thy ===== *)
theory Discovery_Guarantees
  imports Discovery_Service
begin

text \<open>
  What the discovery service guarantees to the components that register with it, and where it does not:
  uniqueness of ids in every reachable state, the complete registration decision and its effect, the
  answers to keepalives and queries, the removal of silent clients, and the disconnection of the
  offloading manager.
\<close>

section \<open>Field counts\<close>

lemma split_string_length:
  "length (split_string s d) = count_list s d + (if s = [] \<or> last s = d then 0 else 1)"
proof (induction s d rule: split_string.induct)
  case (1 s d)
  show ?case
  proof (cases "s = []")
    case False
    have parts: "s = takeWhile (\<lambda>c. c \<noteq> d) s @ dropWhile (\<lambda>c. c \<noteq> d) s" by simp
    have none: "count_list (takeWhile (\<lambda>c. c \<noteq> d) s) d = 0" by (auto simp: count_list_0_iff dest: set_takeWhileD)
    show ?thesis
    proof (cases "dropWhile (\<lambda>c. c \<noteq> d) s")
      case Nil
      then have all: "\<forall>c \<in> set s. c \<noteq> d" by (simp only: dropWhile_eq_Nil_conv)
      then have "count_list s d = 0" "last s \<noteq> d" using False by (auto simp: count_list_0_iff)
      with False Nil show ?thesis by (simp add: split_string.simps del: dropWhile_eq_Nil_conv)
    next
      case (Cons x r)
      then have x: "x = d" by (metis (mono_tags, lifting) dropWhile_eq_Cons_conv)
      have s: "s = takeWhile (\<lambda>c. c \<noteq> d) s @ d # r" using parts Cons x by simp
      have "count_list s d = Suc (count_list r d)" by (subst s) (simp add: none)
      moreover have "last s = (if r = [] then d else last r)" by (subst s) simp
      ultimately show ?thesis using False Cons "1.IH" [OF False Cons] by (simp add: split_string.simps)
    qed
  qed simp
qed

lemma count_join_fields:
  "fs \<noteq> [] \<Longrightarrow> count_list (join_fields d fs) d = (\<Sum>f\<leftarrow>fs. count_list f d) + (length fs - 1)"
proof (induction fs)
  case (Cons f fs)
  then show ?case by (cases fs) simp_all
qed simp

lemma last_join_fields: "fs \<noteq> [] \<Longrightarrow> last fs \<noteq> [] \<Longrightarrow> join_fields d fs \<noteq> [] \<and> last (join_fields d fs) = last (last fs)"
proof (induction fs)
  case (Cons f fs)
  then show ?case by (cases fs) auto
qed simp

section \<open>Properties of the discovery service\<close>

text \<open>C10: component ids are unique in every reachable state. Whatever clients send, in whatever order they
  connect, register and disconnect, two different clients are never registered under the same id, and
  every entry of the registry is stored under the client it belongs to.\<close>

theorem reachable_ids_unique:
  assumes "ds_reachable (DiscoveryService_init port p2p t0) d"
    and "find_by_client_id (ds_registry d) c = Some x" "find_by_client_id (ds_registry d) e = Some y"
    and "component_key x = component_key y"
  shows "c = e \<and> info_client_id x = c"
  using registry_weak_unique [OF reachable_weak [OF assms(1)] assms(2-4)] reachable_weak [OF assms(1)] assms(2)
  by (auto simp: registry_weak_def find_by_client_id_def)

definition example_request :: "ComponentType \<Rightarrow> u8 \<Rightarrow> u8 \<Rightarrow> RegistrationRequest" where
  "example_request t g i = \<lparr>componentType = t, idRequestType = STATIC, groupId = g, idInGroup = i,
     componentName = ''n'', listenAddress = ''10.0.0.1'', listenPort = show_int 7000,
     rq_humanReadableMessage = ''cfg''\<rparr>"

text \<open>C11: the registration decision. In both modes and in every state of the service, the response code is the
  one of the table. In networked mode everybody waits for the offloading manager's configuration, a held id
  is a conflict, vehicles and MECs wait while the round robin over the bridges offers none, bridges while the one
  over the offloading managers offers none, an unreadable port is an invalid request, everything else succeeds. In
  peer-to-peer mode a vehicle is matched with a registered MEC of its id or waits, a MEC is stored unless its id is
  held or its port unreadable, and every other component is refused. The internal error branch is never taken. On
  a consistent registry, the round robins offer a component exactly when one of that type is registered.\<close>

theorem registration_decision:
  "responseCode (snd (register_request junk now cid req d)) = registration_code req d
   \<and> (registry_inv (ds_registry d) \<longrightarrow>
        (next_bridge (ds_registry d) = None \<longleftrightarrow> typed_clients (ds_registry d) BRIDGE = {})
      \<and> (next_om (ds_registry d) = None \<longleftrightarrow> typed_clients (ds_registry d) OFFLOAD_MANAGER = {}))"
  by (auto simp: decision_code next_bridge_typed next_om_typed)

theorem registration_decision_witness:
  "responseCode (snd (register_request 0 0 4 (example_request BRIDGE 5 1) (DiscoveryService_init 9090 False 0))) = WAIT
   \<and> responseCode (snd (register_request 0 0 4 (example_request BRIDGE 5 1) (DiscoveryService_init 9090 True 0))) = INVALID_REQUEST
   \<and> next_bridge (ds_registry (DiscoveryService_init 9090 False 0)) = None"
proof -
  have "typed_clients (ds_registry (DiscoveryService_init 9090 False 0)) BRIDGE = {}"
    by (simp add: typed_clients_def DiscoveryService_init_def ComponentRegistry_init_def)
  moreover have "registry_inv (ds_registry (DiscoveryService_init 9090 False 0))"
    by (simp add: DiscoveryService_init_def registry_inv_init)
  ultimately show ?thesis
    using registration_decision [of 0 0 4 "example_request BRIDGE 5 1" "DiscoveryService_init 9090 False 0"]
      registration_decision [of 0 0 4 "example_request BRIDGE 5 1" "DiscoveryService_init 9090 True 0"]
    by (simp add: registration_code_def example_request_def DiscoveryService_init_def)
qed

text \<open>What the common part stores when it succeeds.\<close>

lemma common_success:
  assumes "register_common now cid req d resp = (d', resp')" "responseCode resp' = SUCCESS"
  shows "\<exists>port. stoi (listenPort req) = Some port
     \<and> ds_registry d' = snd (register_component (new_component now cid req d port) (ds_registry d))
     \<and> find_by_client_id (ds_registry d') cid = Some (new_component now cid req d port)"
    and "c \<noteq> cid \<Longrightarrow> find_by_client_id (ds_registry d') c = find_by_client_id (ds_registry d) c"
    and "ds_global_configuration d' = ds_global_configuration d"
    and "configJson resp' = (case ds_global_configuration d of Some c \<Rightarrow> c | None \<Rightarrow> [])"
    and "detectedClientAddress resp' = (case aget (ds_client_ip_addresses d) cid of Some ip \<Rightarrow> ip | None \<Rightarrow> ''unknown'')"
proof -
  have "\<exists>port r. stoi (listenPort req) = Some port
     \<and> register_component (new_component now cid req d port) (ds_registry d) = (True, r)
     \<and> d' = d\<lparr>ds_registry := r\<rparr>
     \<and> resp' = resp\<lparr>responseCode := SUCCESS, configJson := (case ds_global_configuration d of Some c \<Rightarrow> c | None \<Rightarrow> []),
         detectedClientAddress := (case aget (ds_client_ip_addresses d) cid of Some ip \<Rightarrow> ip | None \<Rightarrow> ''unknown''),
         rs_humanReadableMessage := ''Registration successful.''\<rparr>"
    by (cases rule: register_common_cases [where d = d and req = req and now = now and cid = cid and resp = resp])
      (use assms in \<open>auto simp: detect_address_def split: option.splits\<close>)
  then obtain port r where s: "stoi (listenPort req) = Some port"
      "register_component (new_component now cid req d port) (ds_registry d) = (True, r)" "d' = d\<lparr>ds_registry := r\<rparr>"
      "resp' = resp\<lparr>responseCode := SUCCESS, configJson := (case ds_global_configuration d of Some c \<Rightarrow> c | None \<Rightarrow> []),
         detectedClientAddress := (case aget (ds_client_ip_addresses d) cid of Some ip \<Rightarrow> ip | None \<Rightarrow> ''unknown''),
         rs_humanReadableMessage := ''Registration successful.''\<rparr>"
    by blast
  have find: "find_by_client_id r x = (if x = cid then Some (new_component now cid req d port) else find_by_client_id (ds_registry d) x)" for x
    using find_after_register [OF s(2), of x] by (simp add: new_component_def)
  show "\<exists>port. stoi (listenPort req) = Some port
     \<and> ds_registry d' = snd (register_component (new_component now cid req d port) (ds_registry d))
     \<and> find_by_client_id (ds_registry d') cid = Some (new_component now cid req d port)"
    using s(1-3) find [of cid] by simp
  show "c \<noteq> cid \<Longrightarrow> find_by_client_id (ds_registry d') c = find_by_client_id (ds_registry d) c"
    using s(3) find [of c] by simp
  show "ds_global_configuration d' = ds_global_configuration d"
    "configJson resp' = (case ds_global_configuration d of Some c \<Rightarrow> c | None \<Rightarrow> [])"
    "detectedClientAddress resp' = (case aget (ds_client_ip_addresses d) cid of Some ip \<Rightarrow> ip | None \<Rightarrow> ''unknown'')"
    using s(3,4) by simp_all
qed

text \<open>A successful registration that is not the matching of a vehicle with its peer went through the common part.\<close>

lemma stored_registration:
  assumes run: "register_request junk now cid req d = (d', resp)" and ok: "responseCode resp = SUCCESS"
    and kind: "\<not> (ds_p2p_mode d \<and> componentType req = VEHICLE)"
  obtains d1 resp1 where "register_common now cid req d1 resp1 = (d', resp)"
    "ds_registry d1 \<in> {ds_registry d, snd (find_available_bridge (ds_registry d)), snd (find_available_om (ds_registry d))}"
    "ds_client_ip_addresses d1 = ds_client_ip_addresses d"
    "ds_global_configuration d1 = (if \<not> ds_p2p_mode d \<and> componentType req = OFFLOAD_MANAGER
       then Some (rq_humanReadableMessage req) else ds_global_configuration d)"
    "\<not> ds_p2p_mode d \<longrightarrow> ds_global_configuration d1 \<noteq> None
       \<and> (componentType req \<in> {VEHICLE, MEC, BRIDGE} \<longrightarrow> registration_target req d \<noteq> None)"
    "(connectionTargetType resp, connectionTargetAddress resp, connectionTargetPort resp)
       = target_fields (registration_target req d)"
proof (cases "ds_p2p_mode d")
  case True
  with run show ?thesis
  proof (cases rule: p2p_cases [consumes 2, case_names answered matched stored])
    case (stored resp1)
    show ?thesis
      by (rule that [OF stored(2)])
        (use True stored register_common_target [of now cid req d resp1] in
          \<open>auto simp: registration_target_def target_fields_def\<close>)
  qed (use ok kind True in auto)
next
  case False
  with run show ?thesis
  proof (cases rule: networked_cases [consumes 2, case_names answered stored])
    case (stored d1 resp1)
    have "(connectionTargetType resp, connectionTargetAddress resp, connectionTargetPort resp)
        = target_fields (registration_target req d)"
      using stored(1,9) register_common_target [of now cid req d1 resp1] by simp
    with stored(4-8) False show ?thesis by (intro that [OF stored(1)]) auto
  qed (use ok in auto)
qed

lemma target_typed:
  assumes "registry_inv (ds_registry d)" "registration_target req d = Some b"
  shows "find_by_client_id (ds_registry d) (info_client_id b) = Some b"
    and "info_component_type b = (if componentType req = BRIDGE then OFFLOAD_MANAGER else BRIDGE)"
  using assms next_bridge_typed(2) [OF assms(1), of b] next_om_typed(2) [OF assms(1), of b]
  by (auto simp: registration_target_def split: if_splits ComponentType.splits)

lemma stored_keeps_inv:
  assumes "register_common now cid req d1 resp1 = (d', resp)" "responseCode resp = SUCCESS"
    and "ds_registry d1 \<in> {ds_registry d, snd (find_available_bridge (ds_registry d)), snd (find_available_om (ds_registry d))}"
    and "registry_inv (ds_registry d)" "find_by_client_id (ds_registry d) cid = None"
  shows "registry_inv (ds_registry d')"
proof -
  have "registry_inv (ds_registry d1)" "find_by_client_id (ds_registry d1) cid = None"
    using assms(3-5) registry_inv_find [OF assms(4)] by auto
  then show ?thesis
    using common_success(1) [OF assms(1,2)] registry.inv_reg [of "ds_registry d1"] by (auto simp: new_component_def)
qed

lemma successful_registration:
  assumes "\<not> ds_p2p_mode d" "registry_inv (ds_registry d)" "find_by_client_id (ds_registry d) cid = None"
    and "register_request junk now cid req d = (d', resp)" "responseCode resp = SUCCESS"
  shows "ds_global_configuration d' = Some (configJson resp)
    \<and> (componentType req = BRIDGE \<longrightarrow> (\<exists>b. info_component_type b = OFFLOAD_MANAGER
         \<and> find_by_client_id (ds_registry d) (info_client_id b) = Some b
         \<and> connectionTargetAddress resp = info_listen_address b
         \<and> connectionTargetPort resp = show_int (uint (info_listen_port b))))"
proof -
  obtain d1 resp1 where s: "register_common now cid req d1 resp1 = (d', resp)" "ds_global_configuration d1 \<noteq> None"
      "componentType req = BRIDGE \<longrightarrow> registration_target req d \<noteq> None"
      "(connectionTargetType resp, connectionTargetAddress resp, connectionTargetPort resp)
         = target_fields (registration_target req d)"
    by (rule stored_registration [OF assms(4,5)]) (use assms(1) in auto)
  show ?thesis
    using common_success(3,4) [OF s(1) assms(5)] s(2-4) target_typed [OF assms(2), of req]
    by (auto simp: target_fields_def)
qed

text \<open>C12: what a successful registration does. In peer-to-peer mode a vehicle is not stored: the service is
  unchanged, no configuration is handed out, and the target is a registered MEC with the vehicle's own id. In
  every other case the component is stored under its client with the requested id and type, the address the
  transport detected (else the one it claims) and its port modulo 65536; the entries of other clients do not change.
  The offloading manager of networked mode leaves its message as the global configuration, and the response carries
  the configuration as it then is. In networked mode vehicles and MECs are sent to the component that the round robin over the bridges
  offers, bridges to the one over the offloading managers; an offloading manager, a MEC in peer-to-peer mode and any other
  component get no target. On a consistent registry, for a client with no component yet, the registry stays
  consistent and the target is a registered component of the right type.\<close>

theorem registration_success_effect:
  assumes "register_request junk now cid req d = (d', resp)" "responseCode resp = SUCCESS"
  shows "if ds_p2p_mode d \<and> componentType req = VEHICLE
    then d' = d \<and> configJson resp = []
      \<and> (\<exists>x \<in> set (peer_mecs (ds_registry d) (groupId req) (idInGroup req)). connectionTargetType resp = ''MEC''
           \<and> connectionTargetAddress resp = info_listen_address x
           \<and> connectionTargetPort resp = show_int (uint (info_listen_port x)))
    else
      (\<exists>port. stoi (listenPort req) = Some port \<and> find_by_client_id (ds_registry d') cid =
         Some \<lparr>info_client_id = cid, info_component_type = componentType req, info_group_id = groupId req,
               info_id_in_group = idInGroup req, info_component_subtype = 0, info_name = componentName req,
               info_listen_address = (case aget (ds_client_ip_addresses d) cid of Some ip \<Rightarrow> ip | None \<Rightarrow> listenAddress req),
               info_listen_port = of_int port, info_last_seen = now\<rparr>)
      \<and> (\<forall>c. c \<noteq> cid \<longrightarrow> find_by_client_id (ds_registry d') c = find_by_client_id (ds_registry d) c)
      \<and> ds_global_configuration d' = (if \<not> ds_p2p_mode d \<and> componentType req = OFFLOAD_MANAGER
           then Some (rq_humanReadableMessage req) else ds_global_configuration d)
      \<and> configJson resp = (case ds_global_configuration d' of Some c \<Rightarrow> c | None \<Rightarrow> [])
      \<and> detectedClientAddress resp = (case aget (ds_client_ip_addresses d) cid of Some ip \<Rightarrow> ip | None \<Rightarrow> ''unknown'')
      \<and> (connectionTargetType resp, connectionTargetAddress resp, connectionTargetPort resp)
           = target_fields (registration_target req d)
      \<and> (\<not> ds_p2p_mode d \<and> componentType req \<in> {VEHICLE, MEC, BRIDGE} \<longrightarrow> registration_target req d \<noteq> None)
      \<and> (registry_inv (ds_registry d) \<and> find_by_client_id (ds_registry d) cid = None \<longrightarrow> registry_inv (ds_registry d')
           \<and> (\<forall>b. registration_target req d = Some b \<longrightarrow> find_by_client_id (ds_registry d) (info_client_id b) = Some b
                \<and> info_component_type b = (if componentType req = BRIDGE then OFFLOAD_MANAGER else BRIDGE)))"
proof (cases "ds_p2p_mode d \<and> componentType req = VEHICLE")
  case True
  from assms(1) True [THEN conjunct1] show ?thesis
  proof (cases rule: p2p_cases [consumes 2, case_names answered matched stored])
    case (matched x)
    with True show ?thesis by (auto simp: fresh_response_def)
  qed (use assms(2) True in auto)
next
  case False
  obtain d1 resp1 where s: "register_common now cid req d1 resp1 = (d', resp)"
    "ds_registry d1 \<in> {ds_registry d, snd (find_available_bridge (ds_registry d)), snd (find_available_om (ds_registry d))}"
    "ds_client_ip_addresses d1 = ds_client_ip_addresses d"
    "ds_global_configuration d1 = (if \<not> ds_p2p_mode d \<and> componentType req = OFFLOAD_MANAGER
       then Some (rq_humanReadableMessage req) else ds_global_configuration d)"
    "\<not> ds_p2p_mode d \<longrightarrow> ds_global_configuration d1 \<noteq> None
       \<and> (componentType req \<in> {VEHICLE, MEC, BRIDGE} \<longrightarrow> registration_target req d \<noteq> None)"
    "(connectionTargetType resp, connectionTargetAddress resp, connectionTargetPort resp)
       = target_fields (registration_target req d)"
    by (rule stored_registration [OF assms False])
  note eff = common_success [OF s(1) assms(2)]
  have same: "find_by_client_id (ds_registry d1) c = find_by_client_id (ds_registry d) c" for c using s(2) by auto
  have kept: "\<forall>c. c \<noteq> cid \<longrightarrow> find_by_client_id (ds_registry d') c = find_by_client_id (ds_registry d) c"
    using eff(2) same by simp
  have stored: "\<exists>port. stoi (listenPort req) = Some port \<and> find_by_client_id (ds_registry d') cid =
         Some \<lparr>info_client_id = cid, info_component_type = componentType req, info_group_id = groupId req,
               info_id_in_group = idInGroup req, info_component_subtype = 0, info_name = componentName req,
               info_listen_address = (case aget (ds_client_ip_addresses d) cid of Some ip \<Rightarrow> ip | None \<Rightarrow> listenAddress req),
               info_listen_port = of_int port, info_last_seen = now\<rparr>"
    using eff(1) s(3) by (auto simp: new_component_def)
  have typed: "find_by_client_id (ds_registry d) (info_client_id b) = Some b
      \<and> info_component_type b = (if componentType req = BRIDGE then OFFLOAD_MANAGER else BRIDGE)"
    if "registry_inv (ds_registry d)" "registration_target req d = Some b" for b
    using target_typed [OF that] by simp
  have offered: "\<not> ds_p2p_mode d \<and> componentType req \<in> {VEHICLE, MEC, BRIDGE} \<longrightarrow> registration_target req d \<noteq> None"
    using s(5) by blast
  show ?thesis
    unfolding if_not_P [OF False]
    using stored kept eff(3-5) s(3,4,6) offered stored_keeps_inv [OF s(1) assms(2) s(2)] typed
    by (intro conjI impI allI; (rule offered [rule_format])?; simp)
qed

definition example_service :: DiscoveryService where
  "example_service = (DiscoveryService_init 9090 False 0)\<lparr>
     ds_registry := snd (register_component (example_component 5 BRIDGE 5 1)
        (snd (register_component (example_component 4 OFFLOAD_MANAGER 1 1) ComponentRegistry_init))),
     ds_global_configuration := Some ''cfg'', ds_client_ip_addresses := [(7, ''10.0.0.9'')]\<rparr>"

lemma example_service:
  "registry_inv (ds_registry example_service)" "\<not> ds_p2p_mode example_service"
  "find_by_client_id (ds_registry example_service) 7 = None"
proof -
  note eval = example_service_def DiscoveryService_init_def find_by_client_id_def register_component_def
    is_id_taken_def ComponentRegistry_init_def example_component_def
  have "registry_inv (snd (register_component (example_component 4 OFFLOAD_MANAGER 1 1) ComponentRegistry_init))"
    by (rule registry.inv_reg [OF registry_inv_init]) (simp add: eval)
  then have "registry_inv (snd (register_component (example_component 5 BRIDGE 5 1)
        (snd (register_component (example_component 4 OFFLOAD_MANAGER 1 1) ComponentRegistry_init))))"
    by (rule registry.inv_reg) (simp add: eval)
  then show "registry_inv (ds_registry example_service)" by (simp add: example_service_def)
  show "\<not> ds_p2p_mode example_service" "find_by_client_id (ds_registry example_service) 7 = None"
    by (simp_all add: eval)
qed

theorem registration_success_effect_witness:
  "\<exists>d' resp. register_request 0 99 7 (example_request VEHICLE 50 1) example_service = (d', resp)
     \<and> responseCode resp = SUCCESS \<and> registry_inv (ds_registry d')
     \<and> (\<exists>info. find_by_client_id (ds_registry d') 7 = Some info \<and> info_listen_address info = ''10.0.0.9'')"
proof -
  obtain d' resp where run: "register_request 0 99 7 (example_request VEHICLE 50 1) example_service = (d', resp)"
    by (cases "register_request 0 99 7 (example_request VEHICLE 50 1) example_service")
  have "stoi (show_int 7000) = Some 7000" by (rule stoi_show_int) (simp add: int_range_def)
  then have code: "responseCode resp = SUCCESS"
    using run by (simp add: register_request_def register_networked_def register_common_def example_service_def
        DiscoveryService_init_def find_by_client_id_def register_component_def is_id_taken_def ComponentRegistry_init_def
        example_component_def example_request_def find_available_bridge_def new_component_def Let_def) auto
  have ip: "aget (ds_client_ip_addresses example_service) 7 = Some ''10.0.0.9''" by (simp add: example_service_def)
  from registration_success_effect [OF run code] ip run code example_service show ?thesis
    by (auto simp: example_request_def)
qed

text \<open>A second registration makes the round robin inconsistent with the registry: a client that registers as a
  bridge and then, on the same connection, as something else stays in the list of bridges and is offered to vehicles
  although no bridge is registered.\<close>

definition retyped_service :: DiscoveryService where
  "retyped_service = fst (register_request 0 20 5 (example_request MEC 50 2) example_service)"

lemma retyped_bridge_still_offered:
  "typed_clients (ds_registry retyped_service) BRIDGE = {}"
  "\<exists>x. next_bridge (ds_registry retyped_service) = Some x \<and> info_component_type x = MEC"
  "registration_code (example_request VEHICLE 50 1) retyped_service = SUCCESS"
proof -
  have port: "stoi (show_int 7000) = Some 7000" by (rule stoi_show_int) (simp add: int_range_def)
  note eval = retyped_service_def register_request_def register_networked_def register_common_def example_service_def
    DiscoveryService_init_def find_by_client_id_def register_component_def is_id_taken_def ComponentRegistry_init_def
    example_component_def example_request_def find_available_bridge_def new_component_def Let_def next_bridge_def
    round_robin_def storing_code_def
  show "typed_clients (ds_registry retyped_service) BRIDGE = {}"
    by (simp add: eval port typed_clients_def)
  show "\<exists>x. next_bridge (ds_registry retyped_service) = Some x \<and> info_component_type x = MEC"
    by (simp add: eval port)
  show "registration_code (example_request VEHICLE 50 1) retyped_service = SUCCESS"
    by (simp add: eval port registration_code_def)
qed

text \<open>The configuration must not contain a semicolon. The response of a successful registration decodes to what
  was sent when the configuration has none, and is malformed for every receiver when it has one; the
  addresses involved are assumed to be ordinary.\<close>

lemma configuration_must_be_clean:
  assumes "responseCode resp = SUCCESS" "rs_humanReadableMessage resp = ''Registration successful.''"
    and "clean_fields (CHR '';'') [connectionTargetType resp, connectionTargetAddress resp, connectionTargetPort resp,
        detectedClientAddress resp]"
  shows "decode_message (encode_message (MsgRegistrationResponse resp)) =
    (if CHR '';'' \<in> set (configJson resp) then Inl MALFORMED_MESSAGE else Inr (MsgRegistrationResponse resp))"
proof (cases "CHR '';'' \<in> set (configJson resp)")
  case False
  with assms have "decode_message (encode_message (MsgRegistrationResponse resp)) = Inr (MsgRegistrationResponse resp)"
    by (intro discovery_roundtrip) simp_all
  with False show ?thesis by simp
next
  case True
  let ?m = "MsgRegistrationResponse resp"
  let ?fs = "message_front ?m @ [last (message_texts ?m)]"
  have lst: "join_fields (CHR '';'') ?fs \<noteq> []" "last (join_fields (CHR '';'') ?fs) \<noteq> CHR '';''"
    using last_join_fields [of ?fs "CHR '';''"] assms(2) by simp_all
  have "0 < count_list (configJson resp) (CHR '';'')" using True count_list_0_iff by fastforce
  then have "10 < count_list (join_fields (CHR '';'') ?fs) (CHR '';'')"
    by (subst count_join_fields) simp_all
  then have "length (split_string (encode_message ?m) (CHR '';'')) \<noteq> 11"
    using lst unfolding encode_message_fields split_string_length by simp
  then have "decode_registration_response (encode_message ?m) = Inl MALFORMED_MESSAGE"
    by (simp add: decode_registration_response_def Let_def del: encode_message.simps)
  then show ?thesis using True by (simp add: decode_dispatch del: encode_message.simps)
qed

lemma data_registration:
  assumes "clean_fields (CHR '';'') [componentName req, listenAddress req, listenPort req, rq_humanReadableMessage req]"
    and "rq_humanReadableMessage req \<noteq> []"
  shows "onDataReceived junk now cid (bytes_of_text (encode_message (MsgRegistrationRequest req))) d
     = handleRegistration junk now cid req d"
  using discovery_roundtrip [of "MsgRegistrationRequest req"] assms
  by (simp add: onDataReceived_def del: encode_message.simps)

theorem reachable_ids_unique_witness:
  "\<exists>d x. ds_reachable (DiscoveryService_init 9090 False 0) d \<and> find_by_client_id (ds_registry d) 4 = Some x
     \<and> info_client_id x = 4"
proof -
  let ?req = "example_request OFFLOAD_MANAGER 1 1"
  let ?init = "DiscoveryService_init 9090 False 0"
  let ?d = "handleRegistration 0 9 4 ?req ?init"
  have "ds_step ?init ?d"
    using ds_step.data [of ?init 0 9 4 "bytes_of_text (encode_message (MsgRegistrationRequest ?req))"]
      data_registration [of ?req 0 9 4 ?init] by (simp add: example_request_def)
  then have reach: "ds_reachable ?init ?d" by (rule ds_reachable.step [OF ds_reachable.start])
  have "stoi (show_int 7000) = Some 7000" by (rule stoi_show_int) (simp add: int_range_def)
  then obtain x where x: "find_by_client_id (ds_registry ?d) 4 = Some x"
    by (simp add: handleRegistration_def register_request_def register_networked_def register_common_def
        DiscoveryService_init_def example_request_def is_id_taken_def ComponentRegistry_init_def
        register_component_def new_component_def find_by_client_id_def Let_def)
  from reachable_ids_unique [OF reach x x refl] reach x show ?thesis by blast
qed

text \<open>Keepalives. A ping with id \<open>a.b\<close> refreshes the component whose id equals \<open>a.b\<close> modulo 256 in both parts,
  from whatever connection it comes, and is acknowledged to the sender.\<close>

lemma keepalive_refreshes_modulo_256:
  assumes "registry_inv (ds_registry d)" "find_by_client_id (ds_registry d) c = Some x"
    and "info_group_id x = of_int a" "info_id_in_group x = of_int b" "int_range a" "int_range b"
    and "kp_componentId ping = show_int a @ ''.'' @ show_int b"
  shows "find_by_client_id (ds_registry (handleKeepalive now cid ping d)) c = Some (x\<lparr>info_last_seen := now\<rparr>)
    \<and> ds_sent (handleKeepalive now cid ping d) = ds_sent d @ [(cid, encode_message (MsgKeepaliveResponse
         \<lparr>kr_response = ''OK'', nextIntervalMs = 5000, kr_humanReadableMessage = ''Keepalive acknowledged.''\<rparr>))]"
proof -
  have "\<not> is_digit (CHR ''.'')" "\<not> is_space (CHR ''.'')" by (simp_all add: is_digit_def is_space_def)
  then have id: "parse_component_id (kp_componentId ping) = Some (a, b)"
    using stream_int_show_int [OF assms(5), of "CHR ''.'' # show_int b"] stream_int_show_int [OF assms(6), of "[]"]
    by (simp add: parse_component_id_def assms(7) stream_char_def)
  have x: "aget (registry_by_client_id (ds_registry d)) c = Some x" using assms(2) by (simp add: find_by_client_id_def)
  have "aget (client_id_by_component_id (ds_registry d)) (of_int a, of_int b) = Some c"
    using registry_invD(4) [OF assms(1) x] assms(3,4) by simp
  with x id show ?thesis by (simp add: handleKeepalive_def update_keepalive_def find_by_client_id_def)
qed

text \<open>Queries. The answer to a query for one component type is a message that decodes to exactly the registered
  components of that type, with their ids and subtypes.\<close>

lemma query_lists_components_of_type:
  assumes "componentTypeFilter query = component_type_to_string t"
    and "length (get_all_components (ds_registry d)) < 2 ^ 31"
  shows "\<exists>l. ds_sent (handleComponentQuery cid query d) = ds_sent d @ [(cid, encode_message (MsgComponentList l))]
    \<and> decode_message (encode_message (MsgComponentList l)) = Inr (MsgComponentList l)
    \<and> map (parse_component_data g0 i0) (componentDataList l)
      = map (\<lambda>c. \<lparr>component_type = component_type_to_string t, group_id = info_group_id c,
                  id_in_group = info_id_in_group c, subtype = info_component_subtype c\<rparr>)
          (filter (\<lambda>c. info_component_type c = t) (get_all_components (ds_registry d)))"
proof -
  let ?l = "query_response query d"
  let ?cs = "filter (\<lambda>c. info_component_type c = t) (get_all_components (ds_registry d))"
  let ?cd = "\<lambda>c. \<lparr>component_type = component_type_to_string t, group_id = info_group_id c,
                  id_in_group = info_id_in_group c, subtype = info_component_subtype c\<rparr>"
  have single: "componentTypeFilter query \<noteq> ''ALL''" "componentTypeFilter query \<noteq> []"
    unfolding assms(1) by (cases t; simp)+
  have l: "?l = \<lparr>componentCount = of_nat (length ?cs), componentDataList = map (\<lambda>c. format_component_data (?cd c)) ?cs,
      cl_humanReadableMessage = ''Component query successful''\<rparr>"
    using single by (auto simp: query_response_def format_component_data_def assms(1) Let_def)
  have few: "length ?cs < 2 ^ 31" using assms(2) length_filter_le le_less_trans by blast
  have colon: "CHR '':'' \<notin> set (component_type_to_string t)" by (cases t) simp_all
  have "CHR '';'' \<notin> set (format_component_data (?cd c))" for c
    by (simp add: format_component_data_def)
  then have "decode_message (encode_message (MsgComponentList ?l)) = Inr (MsgComponentList ?l)"
    using few unfolding l by (intro discovery_roundtrip) (auto simp: unat_of_nat clean_fields_def)
  moreover have "map (parse_component_data g0 i0) (componentDataList ?l) = map ?cd ?cs"
    unfolding l by (simp add: component_data_parse [THEN conjunct1] colon)
  ultimately show ?thesis by (auto simp: handleComponentQuery_def)
qed

text \<open>C32: the disconnection of the offloading manager is a use after erase. In networked mode, whether its
  socket closes or the service disconnects it, the disconnect callback stops the service, which disconnects
  all clients and erases the offloading manager; the server then goes on with its iterator to the erased
  client.\<close>

theorem om_disconnect_uses_erased_iterator:
  assumes "\<not> ds_p2p_mode d" "\<not> ds_shutting_down d" "ts_running s" "aget (ts_clients s) cid \<noteq> None"
    and "find_by_client_id (ds_registry d) cid = Some info" "info_component_type info = OFFLOAD_MANAGER"
  shows "handle_client_data (ds_callbacks junk now answers) cid RecvClosed (s, d) = Inl IteratorInvalidated
    \<and> ts_disconnect_client (ds_callbacks junk now answers) cid (s, d) = Inl IteratorInvalidated"
proof -
  have "drop_client (ds_callbacks junk now answers) cid (s, d) = Inl IteratorInvalidated"
    using assms by (intro drop_client_om) (simp_all add: ds_callbacks_def stops_service_def)
  with assms(4) show ?thesis by (auto simp: handle_client_data_def ts_disconnect_client_def)
qed

theorem om_disconnect_uses_erased_iterator_witness:
  "handle_client_data (ds_callbacks 0 0 (\<lambda>_. RecvClosed)) 4 RecvClosed
     (\<lparr>ts_port = 9090, ts_multi_client_mode = True, ts_max_clients = 0, ts_server_socket_fd = 3, ts_running = True,
       ts_clients = [(4, \<lparr>ci_socket_fd = 4, ci_ip_address = ''10.0.0.7'', ci_port = 5000\<rparr>)]\<rparr>, example_service)
   = Inl IteratorInvalidated"
proof -
  have "find_by_client_id (ds_registry example_service) 4 = Some (example_component 4 OFFLOAD_MANAGER 1 1)"
    "\<not> ds_p2p_mode example_service" "\<not> ds_shutting_down example_service"
    by (simp_all add: example_service_def DiscoveryService_init_def find_by_client_id_def register_component_def
        is_id_taken_def ComponentRegistry_init_def example_component_def Let_def)
  then show ?thesis
    using om_disconnect_uses_erased_iterator [of example_service "\<lparr>ts_port = 9090, ts_multi_client_mode = True,
        ts_max_clients = 0, ts_server_socket_fd = 3, ts_running = True,
        ts_clients = [(4, \<lparr>ci_socket_fd = 4, ci_ip_address = ''10.0.0.7'', ci_port = 5000\<rparr>)]\<rparr>" 4]
    by (simp add: example_component_def)
qed

text \<open>Silent clients are removed. When every registered component is connected and the offloading manager is not
  the silent one, the periodic check removes exactly the components that were silent for longer than the
  timeout and leaves the others as they are.\<close>

lemma purge_removes_exactly_stale:
  assumes "\<forall>c x. find_by_client_id (ds_registry d) c = Some x \<longrightarrow> aget (ts_clients s) c \<noteq> None"
    and "\<forall>c x. find_by_client_id (ds_registry d) c = Some x \<and> now - info_last_seen x > KEEPALIVE_TIMEOUT
           \<longrightarrow> info_component_type x \<noteq> OFFLOAD_MANAGER"
  shows "\<exists>s' d'. purgeStaleClients (ds_callbacks junk now answers) now (s, d) = Inr (s', d')
    \<and> (\<forall>c x. find_by_client_id (ds_registry d') c = Some x \<longleftrightarrow>
         find_by_client_id (ds_registry d) c = Some x \<and> \<not> now - info_last_seen x > KEEPALIVE_TIMEOUT)"
proof -
  have "\<forall>c x. find_by_client_id (ds_registry d) c = Some x \<and> stale now x \<longrightarrow> \<not> stops_service c d"
    using assms(2) by (auto simp: stops_service_def stale_def)
  then obtain s' d' where run: "purge_loop (ds_callbacks junk now answers) now (get_all_client_ids (ds_registry d)) (s, d) = Inr (s', d')"
    and find: "\<forall>c. find_by_client_id (ds_registry d') c = (case find_by_client_id (ds_registry d) c of
        Some x \<Rightarrow> if c \<in> set (get_all_client_ids (ds_registry d)) \<and> stale now x then None else Some x | None \<Rightarrow> None)"
    using purge_loop_quiet [of "ds_callbacks junk now answers" d s now "get_all_client_ids (ds_registry d)"] assms(1)
    by (auto simp: ds_callbacks_def)
  have "c \<in> set (get_all_client_ids (ds_registry d))" if "find_by_client_id (ds_registry d) c = Some x" for c x
    using that mem_akeys_iff [of c "registry_by_client_id (ds_registry d)"]
    by (simp add: find_by_client_id_def get_all_client_ids_def)
  with find have "find_by_client_id (ds_registry d') c = Some x \<longleftrightarrow>
      find_by_client_id (ds_registry d) c = Some x \<and> \<not> stale now x" for c x
    by (auto split: option.splits if_splits)
  with run show ?thesis by (auto simp: purgeStaleClients_def stale_def)
qed

end
