(* ===== verification/Json_Value.thy ===== *)
theory Json_Value
  imports Prelude
begin

text \<open>
  The interface to JSON values the bridge uses (nlohmann::json, a third-party library): the operations
  are the fields of a record that every definition using JSON takes as its first argument. \<open>js_at\<close> is the
  constant subscript operator: a missing key of an object is undefined behaviour, a subscript on a value
  that is not an object throws. \<open>js_string\<close> and \<open>js_int\<close> are the conversions, \<open>None\<close> when they throw a type error;
  an integer conversion narrows to the width of its target. \<open>json_laws\<close> states the documented
  behaviour properties rely on; the tree instance at the end shows that it can hold.
\<close>

datatype 'j lookup = Found 'j | Missing | NotObject

record 'j json_ops =
  js_at :: "'j \<Rightarrow> string \<Rightarrow> 'j lookup"
  js_string :: "'j \<Rightarrow> string option"
  js_int :: "'j \<Rightarrow> int option"
  js_is_integer :: "'j \<Rightarrow> bool"
  js_array :: "'j \<Rightarrow> 'j list option"
  js_size :: "'j \<Rightarrow> nat"
  js_items :: "'j \<Rightarrow> 'j list"
  js_object :: "(string \<times> 'j) list \<Rightarrow> 'j"
  js_null :: 'j
  js_of_string :: "string \<Rightarrow> 'j"
  js_of_int :: "int \<Rightarrow> 'j"
  js_set :: "'j \<Rightarrow> string \<Rightarrow> 'j \<Rightarrow> 'j"
  js_parse :: "string \<Rightarrow> 'j option"
  js_dump :: "'j \<Rightarrow> string"

definition js_contains :: "'j json_ops \<Rightarrow> 'j \<Rightarrow> string \<Rightarrow> bool" where
  "js_contains ops j k = (case js_at ops j k of Found _ \<Rightarrow> True | _ \<Rightarrow> False)"

text \<open>The value of a key that is known to be present.\<close>

definition js_get :: "'j json_ops \<Rightarrow> 'j \<Rightarrow> string \<Rightarrow> 'j" where
  "js_get ops j k = (case js_at ops j k of Found v \<Rightarrow> v | _ \<Rightarrow> js_null ops)"

text \<open>\<open>j.value(k, default)\<close> for a string default; \<open>None\<close> when it throws.\<close>

definition js_value :: "'j json_ops \<Rightarrow> 'j \<Rightarrow> string \<Rightarrow> string \<Rightarrow> string option" where
  "js_value ops j k dflt =
     (case js_at ops j k of Found v \<Rightarrow> js_string ops v | Missing \<Rightarrow> Some dflt | NotObject \<Rightarrow> None)"

text \<open>The outcome of code that may throw, with the state it leaves; \<open>Undefined\<close> for undefined behaviour.\<close>

datatype 's outcome = Returned 's | Thrown 's | Undefined

fun outcome_state :: "'s outcome \<Rightarrow> 's option" where
  "outcome_state (Returned s) = Some s"
| "outcome_state (Thrown s) = Some s"
| "outcome_state Undefined = None"

fun run_then :: "'s outcome \<Rightarrow> ('s \<Rightarrow> 's outcome) \<Rightarrow> 's outcome" where
  "run_then (Returned s) f = f s"
| "run_then (Thrown s) f = Thrown s"
| "run_then Undefined f = Undefined"

text \<open>Narrowing of an integer to \<open>int\<close>.\<close>

definition to_int32 :: "int \<Rightarrow> int" where
  "to_int32 v = sint (of_int v :: u32)"

lemma to_int32_id: "- (2 ^ 31) \<le> v \<Longrightarrow> v < 2 ^ 31 \<Longrightarrow> to_int32 v = v"
  by (simp add: to_int32_def signed_of_int signed_take_bit_int_eq_self)

section \<open>Documented behaviour\<close>

text \<open>The laws are stated for all integers; the library holds numbers of 64 bits, and every number the program stores is within them.\<close>

definition json_laws :: "'j json_ops \<Rightarrow> bool" where
  "json_laws ops \<longleftrightarrow>
     (\<forall>m k. js_at ops (js_object ops m) k = (case map_of m k of Some v \<Rightarrow> Found v | None \<Rightarrow> Missing))
     \<and> (\<forall>s. js_string ops (js_of_string ops s) = Some s)
     \<and> (\<forall>i. js_int ops (js_of_int ops i) = Some i \<and> js_is_integer ops (js_of_int ops i) \<and> js_string ops (js_of_int ops i) = None)
     \<and> (\<forall>m k v. \<exists>m'. js_set ops (js_object ops m) k v = js_object ops m' \<and> map_of m' = (map_of m)(k \<mapsto> v))"

lemma json_object_at:
  "json_laws ops \<Longrightarrow> js_at ops (js_object ops m) k = (case map_of m k of Some v \<Rightarrow> Found v | None \<Rightarrow> Missing)"
  by (simp add: json_laws_def)

lemma json_object_contains: "json_laws ops \<Longrightarrow> js_contains ops (js_object ops m) k \<longleftrightarrow> map_of m k \<noteq> None"
  by (cases "map_of m k") (simp_all add: js_contains_def json_object_at)

lemma json_object_get: "json_laws ops \<Longrightarrow> map_of m k = Some v \<Longrightarrow> js_get ops (js_object ops m) k = v"
  by (simp add: js_get_def json_object_at)

lemma json_scalars:
  assumes "json_laws ops"
  shows "js_string ops (js_of_string ops s) = Some s" "js_int ops (js_of_int ops i) = Some i"
  using assms by (simp_all add: json_laws_def)

section \<open>A tree instance\<close>

datatype json_tree = JNull | JString string | JInt int | JArray "json_tree list" | JObject "(string \<times> json_tree) list"

definition tree_ops :: "json_tree json_ops" where
  "tree_ops =
     \<lparr>js_at = (\<lambda>j k. case j of JObject m \<Rightarrow> (case map_of m k of Some v \<Rightarrow> Found v | None \<Rightarrow> Missing) | _ \<Rightarrow> NotObject),
      js_string = (\<lambda>j. case j of JString s \<Rightarrow> Some s | _ \<Rightarrow> None),
      js_int = (\<lambda>j. case j of JInt i \<Rightarrow> Some i | _ \<Rightarrow> None),
      js_is_integer = (\<lambda>j. case j of JInt i \<Rightarrow> True | _ \<Rightarrow> False),
      js_array = (\<lambda>j. case j of JArray xs \<Rightarrow> Some xs | _ \<Rightarrow> None),
      js_size = (\<lambda>j. case j of JNull \<Rightarrow> 0 | JArray xs \<Rightarrow> length xs | JObject m \<Rightarrow> length m | _ \<Rightarrow> 1),
      js_items = (\<lambda>j. case j of JNull \<Rightarrow> [] | JArray xs \<Rightarrow> xs | JObject m \<Rightarrow> map snd m | _ \<Rightarrow> [j]),
      js_object = JObject, js_null = JNull, js_of_string = JString, js_of_int = JInt,
      js_set = (\<lambda>j k v. case j of JObject m \<Rightarrow> JObject (aput k v m) | _ \<Rightarrow> JObject [(k, v)]),
      js_parse = (\<lambda>s. Some (JString s)), js_dump = (\<lambda>j. [])\<rparr>"

lemma tree_laws: "json_laws tree_ops"
  unfolding json_laws_def
proof (intro conjI allI)
  fix m k v
  show "\<exists>m'. js_set tree_ops (js_object tree_ops m) k v = js_object tree_ops m' \<and> map_of m' = (map_of m)(k \<mapsto> v)"
    by (rule exI [of _ "aput k v m"]) (auto simp: tree_ops_def)
qed (simp_all add: tree_ops_def)

end
