(* ===== verification/Session_Manager.thy ===== *)
theory Session_Manager
  imports Json_Value
begin

text \<open>
  The task database (bridge/src/GlobalConfig.hpp, .cpp) and the table of active sessions
  (bridge/src/SessionManager.hpp, .cpp) of the bridge. Pointers to sessions that the C++ code returns are
  read at once by its callers, so a lookup returns the session. Time points are integers.
\<close>

section \<open>Global configuration\<close>

record TaskConfig =
  tk_task_id :: u32
  tk_task_name :: string
  tk_input_message_types :: "u8 list"
  tk_output_message_types :: "u8 list"

record GlobalConfig =
  gc_tasks :: "TaskConfig list"
  gc_task_id_to_index :: "(u32, nat) amap"
  gc_default_session_timeout :: u32
  gc_max_concurrent_sessions :: u32

definition GlobalConfig_init :: GlobalConfig where
  "GlobalConfig_init = \<lparr>gc_tasks = [], gc_task_id_to_index = [], gc_default_session_timeout = 300,
     gc_max_concurrent_sessions = 100\<rparr>"

text \<open>A list of message types: every element must convert to a number.\<close>

fun parse_types :: "'j json_ops \<Rightarrow> 'j list \<Rightarrow> u8 list option" where
  "parse_types ops [] = Some []"
| "parse_types ops (x # xs) =
     (case js_int ops x of
        None \<Rightarrow> None
      | Some v \<Rightarrow> map_option (\<lambda>ts. of_int v # ts) (parse_types ops xs))"

definition parse_types_field :: "'j json_ops \<Rightarrow> 'j \<Rightarrow> string \<Rightarrow> u8 list option" where
  "parse_types_field ops j key =
     (if js_contains ops j key then parse_types ops (js_items ops (js_get ops j key)) else Some [])"

definition parse_task :: "'j json_ops \<Rightarrow> 'j \<Rightarrow> TaskConfig option outcome" where
  "parse_task ops j =
     (case js_at ops j ''task_id'' of
        Missing \<Rightarrow> Undefined
      | NotObject \<Rightarrow> Thrown None
      | Found vid \<Rightarrow>
          (case js_int ops vid of
             None \<Rightarrow> Thrown None
           | Some tid \<Rightarrow>
               (case js_at ops j ''task_name'' of
                  Missing \<Rightarrow> Undefined
                | NotObject \<Rightarrow> Thrown None
                | Found vname \<Rightarrow>
                    (case (js_string ops vname, parse_types_field ops j ''input_message_types'',
                           parse_types_field ops j ''output_message_types'') of
                       (Some name, Some ins, Some outs) \<Rightarrow>
                         Returned (Some \<lparr>tk_task_id = of_int tid, tk_task_name = name,
                            tk_input_message_types = ins, tk_output_message_types = outs\<rparr>)
                     | _ \<Rightarrow> Thrown None))))"

definition store_task :: "TaskConfig \<Rightarrow> GlobalConfig \<Rightarrow> GlobalConfig" where
  "store_task task gc =
     gc\<lparr>gc_task_id_to_index := aput (tk_task_id task) (length (gc_tasks gc)) (gc_task_id_to_index gc),
        gc_tasks := gc_tasks gc @ [task]\<rparr>"

fun parse_tasks :: "'j json_ops \<Rightarrow> 'j list \<Rightarrow> GlobalConfig \<Rightarrow> GlobalConfig outcome" where
  "parse_tasks ops [] gc = Returned gc"
| "parse_tasks ops (j # js) gc =
     (case parse_task ops j of
        Returned (Some task) \<Rightarrow> parse_tasks ops js (store_task task gc)
      | Undefined \<Rightarrow> Undefined
      | _ \<Rightarrow> Thrown gc)"

definition parse_task_array :: "'j json_ops \<Rightarrow> 'j \<Rightarrow> GlobalConfig \<Rightarrow> GlobalConfig outcome" where
  "parse_task_array ops j gc =
     (if \<not> js_contains ops j ''available_tasks'' then Returned gc
      else
        (let arr = js_get ops j ''available_tasks'' in
         case js_array ops arr of
           Some js \<Rightarrow> parse_tasks ops js gc
         | None \<Rightarrow> if js_size ops arr = 0 then Returned gc else Thrown gc))"

definition parse_limits :: "'j json_ops \<Rightarrow> 'j \<Rightarrow> GlobalConfig \<Rightarrow> GlobalConfig outcome" where
  "parse_limits ops j gc =
     run_then
       (if js_contains ops j ''default_session_timeout'' then
          (case js_int ops (js_get ops j ''default_session_timeout'') of
             None \<Rightarrow> Thrown gc
           | Some t \<Rightarrow> Returned (gc\<lparr>gc_default_session_timeout := of_int t + 10\<rparr>))
        else Returned gc)
       (\<lambda>gc. if js_contains ops j ''max_concurrent_sessions'' then
          (case js_int ops (js_get ops j ''max_concurrent_sessions'') of
             None \<Rightarrow> Thrown gc
           | Some n \<Rightarrow> Returned (gc\<lparr>gc_max_concurrent_sessions := of_int n\<rparr>))
        else Returned gc)"

text \<open>\<open>parse_from_json\<close>: the result and the configuration it leaves; \<open>None\<close> for undefined behaviour.\<close>

definition parse_from_json :: "'j json_ops \<Rightarrow> 'j \<Rightarrow> GlobalConfig \<Rightarrow> (bool \<times> GlobalConfig) option" where
  "parse_from_json ops j gc =
     (case run_then (parse_task_array ops j (gc\<lparr>gc_tasks := [], gc_task_id_to_index := []\<rparr>)) (parse_limits ops j) of
        Returned gc' \<Rightarrow> Some (True, gc')
      | Thrown gc' \<Rightarrow> Some (False, gc')
      | Undefined \<Rightarrow> None)"

text \<open>\<open>get_task_config\<close>: the outer \<open>None\<close> is an access outside the task vector.\<close>

definition get_task_config :: "GlobalConfig \<Rightarrow> u32 \<Rightarrow> TaskConfig option option" where
  "get_task_config gc task_id =
     (case aget (gc_task_id_to_index gc) task_id of
        None \<Rightarrow> Some None
      | Some i \<Rightarrow> if i < length (gc_tasks gc) then Some (Some (gc_tasks gc ! i)) else None)"

section \<open>Sessions\<close>

record ActiveSession =
  se_request_id :: string
  se_mgwcp_component_id :: string
  se_task_id :: u32
  se_task_name :: string
  se_input_message_types :: "u8 list"
  se_output_message_types :: "u8 list"
  se_assigned_mec_id :: string
  se_last_keepalive :: int
  se_created_at :: int
  se_vhc_dp_connected :: bool
  se_mec_dp_connected :: bool
  se_routing_rules_created :: bool

type_synonym SessionManager = "(string, ActiveSession) amap"

definition create_session ::
  "int \<Rightarrow> string \<Rightarrow> string \<Rightarrow> u32 \<Rightarrow> string \<Rightarrow> GlobalConfig \<Rightarrow> SessionManager \<Rightarrow> (bool \<times> SessionManager) option" where
  "create_session now request_id mgwcp_id task_id task_name gc sm =
     (if aget sm request_id \<noteq> None then Some (False, sm)
      else (case get_task_config gc task_id of
         None \<Rightarrow> None
       | Some None \<Rightarrow> Some (False, sm)
       | Some (Some task) \<Rightarrow>
           Some (True, aput request_id
             \<lparr>se_request_id = request_id, se_mgwcp_component_id = mgwcp_id, se_task_id = task_id,
              se_task_name = task_name, se_input_message_types = tk_input_message_types task,
              se_output_message_types = tk_output_message_types task, se_assigned_mec_id = [],
              se_last_keepalive = now, se_created_at = now, se_vhc_dp_connected = False,
              se_mec_dp_connected = False, se_routing_rules_created = False\<rparr> sm)))"

definition remove_session :: "string \<Rightarrow> SessionManager \<Rightarrow> bool \<times> SessionManager" where
  "remove_session request_id sm =
     (case aget sm request_id of None \<Rightarrow> (False, sm) | Some _ \<Rightarrow> (True, aerase request_id sm))"

definition get_session :: "SessionManager \<Rightarrow> string \<Rightarrow> ActiveSession option" where
  "get_session sm request_id = aget sm request_id"

definition get_sessions_for_mgwcp :: "SessionManager \<Rightarrow> string \<Rightarrow> ActiveSession list" where
  "get_sessions_for_mgwcp sm mgwcp_id = filter (\<lambda>s. se_mgwcp_component_id s = mgwcp_id) (map snd sm)"

definition modify_session ::
  "string \<Rightarrow> (ActiveSession \<Rightarrow> ActiveSession) \<Rightarrow> SessionManager \<Rightarrow> bool \<times> SessionManager" where
  "modify_session request_id f sm =
     (case aget sm request_id of None \<Rightarrow> (False, sm) | Some s \<Rightarrow> (True, aput request_id (f s) sm))"

definition sm_update_keepalive :: "int \<Rightarrow> string \<Rightarrow> SessionManager \<Rightarrow> bool \<times> SessionManager" where
  "sm_update_keepalive now request_id sm = modify_session request_id (\<lambda>s. s\<lparr>se_last_keepalive := now\<rparr>) sm"

definition set_assigned_mec :: "string \<Rightarrow> string \<Rightarrow> SessionManager \<Rightarrow> bool \<times> SessionManager" where
  "set_assigned_mec request_id mec_id sm = modify_session request_id (\<lambda>s. s\<lparr>se_assigned_mec_id := mec_id\<rparr>) sm"

definition set_vhc_dp_connected :: "string \<Rightarrow> bool \<Rightarrow> SessionManager \<Rightarrow> bool \<times> SessionManager" where
  "set_vhc_dp_connected request_id b sm = modify_session request_id (\<lambda>s. s\<lparr>se_vhc_dp_connected := b\<rparr>) sm"

definition set_mec_dp_connected :: "string \<Rightarrow> bool \<Rightarrow> SessionManager \<Rightarrow> bool \<times> SessionManager" where
  "set_mec_dp_connected request_id b sm = modify_session request_id (\<lambda>s. s\<lparr>se_mec_dp_connected := b\<rparr>) sm"

definition set_routing_rules_created :: "string \<Rightarrow> bool \<Rightarrow> SessionManager \<Rightarrow> bool \<times> SessionManager" where
  "set_routing_rules_created request_id b sm = modify_session request_id (\<lambda>s. s\<lparr>se_routing_rules_created := b\<rparr>) sm"

text \<open>The loop of \<open>find_expired_sessions\<close>: the statement that records an expired session is commented out.\<close>

fun find_expired_loop :: "int \<Rightarrow> int \<Rightarrow> (string \<times> ActiveSession) list \<Rightarrow> string list \<Rightarrow> string list" where
  "find_expired_loop now timeout [] expired = expired"
| "find_expired_loop now timeout ((_, s) # rest) expired =
     (let expired = (if now - se_last_keepalive s > timeout then expired else expired)
      in find_expired_loop now timeout rest expired)"

definition find_expired_sessions :: "int \<Rightarrow> int \<Rightarrow> SessionManager \<Rightarrow> string list" where
  "find_expired_sessions now timeout sm = find_expired_loop now timeout sm []"

definition get_all_request_ids :: "SessionManager \<Rightarrow> string list" where
  "get_all_request_ids sm = map fst sm"

definition get_active_session_count :: "SessionManager \<Rightarrow> nat" where
  "get_active_session_count sm = length sm"

text \<open>The erasing loop of \<open>cleanup_sessions_for_mgwcp\<close>: how many were removed, and what is left.\<close>

fun cleanup_sessions_for_mgwcp :: "string \<Rightarrow> SessionManager \<Rightarrow> nat \<times> SessionManager" where
  "cleanup_sessions_for_mgwcp mgwcp_id [] = (0, [])"
| "cleanup_sessions_for_mgwcp mgwcp_id ((k, s) # rest) =
     (case cleanup_sessions_for_mgwcp mgwcp_id rest of
        (n, rest') \<Rightarrow>
          if se_mgwcp_component_id s = mgwcp_id then (n + 1, rest') else (n, (k, s) # rest'))"

section \<open>Invariants\<close>

definition gc_wf :: "GlobalConfig \<Rightarrow> bool" where
  "gc_wf gc \<longleftrightarrow> (\<forall>t i. aget (gc_task_id_to_index gc) t = Some i \<longrightarrow>
      i < length (gc_tasks gc) \<and> tk_task_id (gc_tasks gc ! i) = t)"

lemma gc_wf_store: "gc_wf gc \<Longrightarrow> gc_wf (store_task task gc)"
  by (auto simp: gc_wf_def store_task_def nth_append less_Suc_eq)

lemma parse_tasks_wf: "gc_wf gc \<Longrightarrow> outcome_state (parse_tasks ops js gc) = Some gc' \<Longrightarrow> gc_wf gc'"
  by (induction ops js gc rule: parse_tasks.induct)
    (auto simp: gc_wf_store split: outcome.splits option.splits)

lemma parse_limits_wf: "gc_wf gc \<Longrightarrow> outcome_state (parse_limits ops j gc) = Some gc' \<Longrightarrow> gc_wf gc'"
  by (auto simp: parse_limits_def gc_wf_def split: if_splits option.splits)

lemma parse_task_array_wf: "gc_wf gc \<Longrightarrow> outcome_state (parse_task_array ops j gc) = Some gc' \<Longrightarrow> gc_wf gc'"
  by (auto simp: parse_task_array_def Let_def dest: parse_tasks_wf split: if_splits option.splits)

lemma parse_from_json_wf:
  assumes "parse_from_json ops j gc = Some (ok, gc')"
  shows "gc_wf gc'"
proof -
  let ?gc = "gc\<lparr>gc_tasks := [], gc_task_id_to_index := []\<rparr>"
  have wf: "gc_wf ?gc" by (simp add: gc_wf_def)
  show ?thesis
  proof (cases "parse_task_array ops j ?gc")
    case (Returned gc1)
    with parse_task_array_wf [OF wf, of ops j gc1] have "gc_wf gc1" by simp
    with Returned assms parse_limits_wf [of gc1 ops j] show ?thesis
      by (cases "parse_limits ops j gc1") (auto simp: parse_from_json_def)
  qed (use assms parse_task_array_wf [OF wf, of ops j gc'] in \<open>auto simp: parse_from_json_def\<close>)
qed

lemma get_task_config_wf: "gc_wf gc \<Longrightarrow> \<exists>r. get_task_config gc t = Some r \<and> (\<forall>task. r = Some task \<longrightarrow> tk_task_id task = t)"
  by (auto simp: gc_wf_def get_task_config_def split: option.splits)

lemma cleanup_eq:
  "cleanup_sessions_for_mgwcp c sm =
     (length (filter (\<lambda>(k, s). se_mgwcp_component_id s = c) sm), filter (\<lambda>(k, s). se_mgwcp_component_id s \<noteq> c) sm)"
  by (induction c sm rule: cleanup_sessions_for_mgwcp.induct) auto

lemma find_expired_empty: "find_expired_sessions now timeout sm = []"
proof -
  have "find_expired_loop now timeout sm acc = acc" for acc
    by (induction now timeout sm acc rule: find_expired_loop.induct) auto
  then show ?thesis by (simp add: find_expired_sessions_def)
qed

lemma modify_session_get:
  "modify_session r f sm = (ok, sm') \<Longrightarrow> get_session sm' k = (if k = r then map_option f (get_session sm r) else get_session sm k)"
  by (auto simp: modify_session_def get_session_def split: option.splits)

end
