(* ===== verification/Mgwcp_Connection.thy ===== *)
theory Mgwcp_Connection
  imports Session_Manager Cpp_Text
begin

text \<open>
  One control connection of a gateway to the bridge (bridge/src/MGWCPConnection.hpp, .cpp), without the
  parts that call back into the bridge: reliable sending with acknowledgements and retries, the
  connection state, and the checks on incoming messages. What the shared server transport answers is the argument
  \<open>link\<close>: whether a client is connected and whether a send succeeds. Texts that were sent are recorded in
  \<open>mc_sent\<close>.
\<close>

datatype MGWCPConnectionState = CONNECTING | WAITING_FOR_DP | OPERATIONAL

record 'j PendingAck =
  pa_message :: 'j
  pa_time_sent :: int
  pa_retry_count :: int

record 'j MGWCPConnection =
  mc_connection_id :: u32
  mc_transport_client_id :: int
  mc_client_ip :: string
  mc_component_id :: string
  mc_state :: MGWCPConnectionState
  mc_dp_host :: string
  mc_dp_port :: int
  mc_running :: bool
  mc_pending_acks :: "(u64, 'j PendingAck) amap"
  mc_sequence_number :: u64
  mc_sent :: "string list"

record link =
  lk_connected :: "int \<Rightarrow> bool"
  lk_send_ok :: "int \<Rightarrow> bool"

definition ACK_TIMEOUT :: int where "ACK_TIMEOUT = 5000"
definition MAX_RETRY_COUNT :: int where "MAX_RETRY_COUNT = 3"

definition MGWCPConnection_init :: "u32 \<Rightarrow> int \<Rightarrow> string \<Rightarrow> 'j MGWCPConnection" where
  "MGWCPConnection_init connection_id transport_client_id client_ip =
     \<lparr>mc_connection_id = connection_id, mc_transport_client_id = transport_client_id, mc_client_ip = client_ip,
      mc_component_id = [], mc_state = CONNECTING, mc_dp_host = [], mc_dp_port = 0, mc_running = False,
      mc_pending_acks = [], mc_sequence_number = 1, mc_sent = []\<rparr>"

definition mc_start :: "link \<Rightarrow> 'j MGWCPConnection \<Rightarrow> 'j MGWCPConnection" where
  "mc_start lk c =
     (if mc_running c then c
      else if \<not> lk_connected lk (mc_transport_client_id c) then c
      else c\<lparr>mc_running := True\<rparr>)"

section \<open>Sending\<close>

definition send_reliable_message :: "'j json_ops \<Rightarrow> link \<Rightarrow> int \<Rightarrow> 'j \<Rightarrow> 'j MGWCPConnection \<Rightarrow> 'j MGWCPConnection" where
  "send_reliable_message ops lk now message c =
     (if \<not> lk_connected lk (mc_transport_client_id c) then c
      else
        (let seq_num = mc_sequence_number c;
             c = c\<lparr>mc_sequence_number := seq_num + 1\<rparr>;
             message = js_set ops message ''sequence_number'' (js_of_int ops (uint seq_num));
             c = c\<lparr>mc_pending_acks := aput seq_num \<lparr>pa_message = message, pa_time_sent = now, pa_retry_count = 0\<rparr>
                    (mc_pending_acks c)\<rparr>
         in if \<not> lk_send_ok lk (mc_transport_client_id c)
            then c\<lparr>mc_pending_acks := aerase seq_num (mc_pending_acks c)\<rparr>
            else c\<lparr>mc_sent := mc_sent c @ [js_dump ops message]\<rparr>))"

definition mgw_message :: "'j json_ops \<Rightarrow> string \<Rightarrow> int \<Rightarrow> string \<Rightarrow> 'j \<Rightarrow> 'j" where
  "mgw_message ops component_id code type payload =
     js_object ops [(''component_id'', js_of_string ops component_id), (''message_code'', js_of_int ops code),
       (''message_type'', js_of_string ops type), (''payload'', payload)]"

definition send_session_approved ::
  "'j json_ops \<Rightarrow> link \<Rightarrow> int \<Rightarrow> 'j \<Rightarrow> 'j MGWCPConnection \<Rightarrow> 'j MGWCPConnection" where
  "send_session_approved ops lk now payload c =
     send_reliable_message ops lk now (mgw_message ops ''15:10'' 200 ''SESSION_APPROVED'' payload) c"

definition send_session_denied ::
  "'j json_ops \<Rightarrow> link \<Rightarrow> int \<Rightarrow> string \<Rightarrow> string \<Rightarrow> 'j MGWCPConnection \<Rightarrow> 'j MGWCPConnection" where
  "send_session_denied ops lk now request_id reason c =
     send_reliable_message ops lk now (mgw_message ops ''15:10'' 201 ''SESSION_DENIED''
       (js_object ops [(''request_id'', js_of_string ops request_id), (''reason_description'', js_of_string ops reason)])) c"

definition send_dp_connection_confirmed :: "'j json_ops \<Rightarrow> link \<Rightarrow> int \<Rightarrow> 'j MGWCPConnection \<Rightarrow> 'j MGWCPConnection" where
  "send_dp_connection_confirmed ops lk now c =
     send_reliable_message ops lk now (mgw_message ops ''15:10'' 202 ''DP_CONNECTION_CONFIRMED'' (js_null ops)) c"

definition send_ack :: "'j json_ops \<Rightarrow> link \<Rightarrow> u64 \<Rightarrow> 'j MGWCPConnection \<Rightarrow> 'j MGWCPConnection" where
  "send_ack ops lk ack_sequence_number c =
     (if \<not> lk_connected lk (mc_transport_client_id c) \<or> \<not> lk_send_ok lk (mc_transport_client_id c) then c
      else c\<lparr>mc_sent := mc_sent c @ [js_dump ops (js_object ops
         [(''component_id'', js_of_string ops (mc_component_id c)), (''message_code'', js_of_int ops 900),
          (''message_type'', js_of_string ops ''ACK''), (''sequence_number'', js_of_int ops 0),
          (''payload'', js_object ops [(''ack_sequence_number'', js_of_int ops (uint ack_sequence_number))])])]\<rparr>)"

section \<open>Acknowledgements and retries\<close>

definition handle_ack :: "'j json_ops \<Rightarrow> 'j \<Rightarrow> 'j MGWCPConnection \<Rightarrow> 'j MGWCPConnection outcome" where
  "handle_ack ops payload c =
     (if \<not> js_contains ops payload ''ack_sequence_number'' then Returned c
      else (case js_int ops (js_get ops payload ''ack_sequence_number'') of
         None \<Rightarrow> Thrown c
       | Some n \<Rightarrow> Returned (c\<lparr>mc_pending_acks := aerase (of_int n) (mc_pending_acks c)\<rparr>)))"

definition ack_overdue :: "int \<Rightarrow> 'j PendingAck \<Rightarrow> bool" where
  "ack_overdue now p \<longleftrightarrow> now - pa_time_sent p > ACK_TIMEOUT"

text \<open>The first loop of \<open>check_for_timeouts\<close>, the removals, and the retransmissions in its order.\<close>

definition age_pending :: "int \<Rightarrow> 'j PendingAck \<Rightarrow> 'j PendingAck" where
  "age_pending now p =
     (if ack_overdue now p \<and> pa_retry_count p < MAX_RETRY_COUNT
      then p\<lparr>pa_retry_count := pa_retry_count p + 1, pa_time_sent := now\<rparr> else p)"

definition check_for_timeouts :: "'j json_ops \<Rightarrow> link \<Rightarrow> int \<Rightarrow> 'j MGWCPConnection \<Rightarrow> 'j MGWCPConnection" where
  "check_for_timeouts ops lk now c =
     (let pending = mc_pending_acks c;
          to_retry = map fst (filter (\<lambda>(_, p). ack_overdue now p \<and> pa_retry_count p < MAX_RETRY_COUNT) pending);
          to_remove = map fst (filter (\<lambda>(_, p). ack_overdue now p \<and> \<not> pa_retry_count p < MAX_RETRY_COUNT) pending);
          pending = map (\<lambda>(k, p). (k, age_pending now p)) pending;
          pending = fold aerase to_remove pending;
          resent = concat (map (\<lambda>k. case aget pending k of
              Some p \<Rightarrow> if lk_connected lk (mc_transport_client_id c) \<and> lk_send_ok lk (mc_transport_client_id c)
                        then [js_dump ops (pa_message p)] else []
            | None \<Rightarrow> []) to_retry)
      in c\<lparr>mc_pending_acks := pending, mc_sent := mc_sent c @ resent\<rparr>)"

section \<open>Checks\<close>

definition validate_message_structure :: "'j json_ops \<Rightarrow> 'j \<Rightarrow> bool" where
  "validate_message_structure ops message \<longleftrightarrow>
     js_contains ops message ''component_id'' \<and> js_contains ops message ''message_code''
     \<and> js_contains ops message ''message_type'' \<and> js_contains ops message ''sequence_number''
     \<and> js_contains ops message ''payload''"

definition is_valid_component_id :: "string \<Rightarrow> bool" where
  "is_valid_component_id component_id =
     (case find_char (CHR '':'') component_id of
        None \<Rightarrow> False
      | Some colon_pos \<Rightarrow>
          (case (stoi (take colon_pos component_id), stoi (drop (colon_pos + 1) component_id)) of
             (Some group_id, Some id_in_group) \<Rightarrow>
               group_id \<ge> 0 \<and> group_id \<le> 255 \<and> id_in_group \<ge> 0 \<and> id_in_group \<le> 255
           | _ \<Rightarrow> False))"

definition set_state :: "MGWCPConnectionState \<Rightarrow> 'j MGWCPConnection \<Rightarrow> 'j MGWCPConnection" where
  "set_state new_state c = c\<lparr>mc_state := new_state\<rparr>"

section \<open>The acknowledgement table\<close>

text \<open>Sequence numbers below the counter only, one entry each, no entry retried more often than allowed.\<close>

definition acks_inv :: "'j MGWCPConnection \<Rightarrow> bool" where
  "acks_inv c \<longleftrightarrow> awf (mc_pending_acks c)
     \<and> (\<forall>k p. aget (mc_pending_acks c) k = Some p \<longrightarrow>
          0 < unat k \<and> unat k < unat (mc_sequence_number c) \<and> 0 \<le> pa_retry_count p \<and> pa_retry_count p \<le> MAX_RETRY_COUNT)
     \<and> 0 < unat (mc_sequence_number c)"

lemma aget_map_values: "aget (map (\<lambda>(k, p). (k, f p)) m) j = map_option f (aget m j)"
  by (induction m) auto

lemma awf_map_values [simp]: "awf (map (\<lambda>(k, p). (k, f p)) m) = awf m"
  by (simp add: comp_def case_prod_beta)

lemma check_for_timeouts_get:
  assumes "awf (mc_pending_acks c)"
  shows "aget (mc_pending_acks (check_for_timeouts ops lk now c)) k =
     (case aget (mc_pending_acks c) k of
        None \<Rightarrow> None
      | Some p \<Rightarrow> if ack_overdue now p \<and> \<not> pa_retry_count p < MAX_RETRY_COUNT then None else Some (age_pending now p))"
proof -
  let ?rm = "map fst (filter (\<lambda>(_, p). ack_overdue now p \<and> \<not> pa_retry_count p < MAX_RETRY_COUNT) (mc_pending_acks c))"
  have mem: "k \<in> set ?rm \<longleftrightarrow> (\<exists>p. aget (mc_pending_acks c) k = Some p \<and> ack_overdue now p \<and> \<not> pa_retry_count p < MAX_RETRY_COUNT)"
    using aget_iff_mem [OF assms] by force
  have "aget (mc_pending_acks (check_for_timeouts ops lk now c)) k =
      (if k \<in> set ?rm then None else map_option (age_pending now) (aget (mc_pending_acks c) k))"
    using amap.look_fold_del [of ?rm "map (\<lambda>(k, p). (k, age_pending now p)) (mc_pending_acks c)" k]
    unfolding check_for_timeouts_def Let_def by (simp only: aget_map_values) simp
  then show ?thesis unfolding mem by (auto split: option.splits)
qed

text \<open>What one check sends again: every overdue message that has retries left, in the order of the table.\<close>

lemma check_for_timeouts_sent:
  assumes "awf (mc_pending_acks c)"
  shows "mc_sent (check_for_timeouts ops lk now c) = mc_sent c @
     (if lk_connected lk (mc_transport_client_id c) \<and> lk_send_ok lk (mc_transport_client_id c)
      then map (\<lambda>(k, p). js_dump ops (pa_message p))
             (filter (\<lambda>(k, p). ack_overdue now p \<and> pa_retry_count p < MAX_RETRY_COUNT) (mc_pending_acks c))
      else [])"
proof -
  let ?due = "filter (\<lambda>(k, p). ack_overdue now p \<and> pa_retry_count p < MAX_RETRY_COUNT) (mc_pending_acks c)"
  let ?pending = "mc_pending_acks (check_for_timeouts ops lk now c)"
  let ?send = "\<lambda>k. case aget ?pending k of
      Some p \<Rightarrow> if lk_connected lk (mc_transport_client_id c) \<and> lk_send_ok lk (mc_transport_client_id c)
                then [js_dump ops (pa_message p)] else []
    | None \<Rightarrow> []"
  have sent: "mc_sent (check_for_timeouts ops lk now c) = mc_sent c @ concat (map ?send (map fst ?due))"
    by (simp add: check_for_timeouts_def Let_def)
  have each: "?send (fst x) = (if lk_connected lk (mc_transport_client_id c) \<and> lk_send_ok lk (mc_transport_client_id c)
      then [js_dump ops (pa_message (snd x))] else [])" if "x \<in> set ?due" for x
  proof -
    have "aget (mc_pending_acks c) (fst x) = Some (snd x)" using that aget_iff_mem [OF assms] by auto
    with that show ?thesis
      by (auto simp: check_for_timeouts_get [OF assms] age_pending_def)
  qed
  have "concat (map ?send (map fst ?due)) = concat (map (\<lambda>x. if lk_connected lk (mc_transport_client_id c)
      \<and> lk_send_ok lk (mc_transport_client_id c) then [js_dump ops (pa_message (snd x))] else []) ?due)"
    unfolding map_map comp_def by (rule arg_cong [where f = concat], rule map_cong [OF refl each])
  then show ?thesis unfolding sent by (simp add: case_prod_beta concat_map_singleton)
qed

lemma acks_inv_init: "acks_inv (MGWCPConnection_init i t ip)"
  by (simp add: acks_inv_def MGWCPConnection_init_def)

lemma acks_inv_timeouts:
  assumes "acks_inv c"
  shows "acks_inv (check_for_timeouts ops lk now c)"
proof -
  have wf: "awf (mc_pending_acks c)" using assms by (simp add: acks_inv_def)
  have "awf (mc_pending_acks (check_for_timeouts ops lk now c))"
    using wf by (simp add: check_for_timeouts_def Let_def)
      (intro amap.wf_fold_del, simp add: comp_def case_prod_beta)
  moreover have "mc_sequence_number (check_for_timeouts ops lk now c) = mc_sequence_number c"
    by (simp add: check_for_timeouts_def Let_def)
  ultimately show ?thesis
    using assms unfolding acks_inv_def check_for_timeouts_get [OF wf]
    by (auto simp: age_pending_def MAX_RETRY_COUNT_def split: option.splits if_splits)
qed

lemma acks_inv_send:
  assumes inv: "acks_inv c" and more: "unat (mc_sequence_number c) < 2 ^ 64 - 1"
  shows "acks_inv (send_reliable_message ops lk now message c)"
proof -
  have bump: "unat (mc_sequence_number c + 1) = unat (mc_sequence_number c) + 1"
    using more by (simp add: unat_word_ariths)
  have wf: "awf (mc_pending_acks c)" using inv by (simp add: acks_inv_def)
  have old: "unat k < Suc (unat (mc_sequence_number c))" if "aget (mc_pending_acks c) k = Some p" for k p
    using inv that unfolding acks_inv_def by (meson less_SucI)
  show ?thesis
    using inv wf old unfolding acks_inv_def send_reliable_message_def Let_def
    by (auto simp: bump MAX_RETRY_COUNT_def split: if_splits)
qed

end
