(* ===== verification/Bridge_Control_Plane.thy ===== *)
theory Bridge_Control_Plane
  imports Mgwcp_Connection Transport_Handler
begin

text \<open>
  The control plane of the bridge (bridge/src/BridgeControlPlane.hpp, .cpp) together with the message
  handlers of a gateway connection that call into it (bridge/src/MGWCPConnection.cpp): forwarding of requests to the
  offloading manager, its answers, data plane handlers and routing rules. Each handler runs under the
  locks the code takes and is one step. The transports to the offloading manager and to the gateways are
  arguments (\<open>om_ok\<close>: whether a send to the offloading manager succeeds; \<open>link\<close>); what was sent to the
  offloading manager is recorded in \<open>br_om_sent\<close>. Queues are numbered in order of creation.
\<close>

record 'j Bridge =
  br_global_config :: GlobalConfig
  br_session_manager :: SessionManager
  br_routing_table :: RoutingTable
  br_om_connected :: bool
  br_connections :: "(int, 'j MGWCPConnection) amap"
  br_component_id_to_transport_id :: "(string, int) amap"
  br_next_connection_id :: u32
  br_transport_handlers :: "(string, TransportHandler) amap"
  br_next_queue :: nat
  br_running :: bool
  br_shutdown_requested :: bool
  br_discovery_connected :: bool
  br_om_host :: string
  br_om_port :: u16
  br_om_sent :: "'j list"

definition Bridge_init :: "'j Bridge" where
  "Bridge_init = \<lparr>br_global_config = GlobalConfig_init, br_session_manager = [],
     br_routing_table = RoutingTable_init 1000, br_om_connected = False, br_connections = [],
     br_component_id_to_transport_id = [], br_next_connection_id = 1, br_transport_handlers = [], br_next_queue = 0,
     br_running = False, br_shutdown_requested = False, br_discovery_connected = False, br_om_host = [], br_om_port = 0,
     br_om_sent = []\<rparr>"

section \<open>Messages to the offloading manager\<close>

definition send_om_message :: "bool \<Rightarrow> 'j \<Rightarrow> 'j Bridge \<Rightarrow> 'j Bridge" where
  "send_om_message om_ok message b =
     (if \<not> br_om_connected b then b
      else if \<not> om_ok then b\<lparr>br_om_connected := False\<rparr>
      else b\<lparr>br_om_sent := br_om_sent b @ [message]\<rparr>)"

definition BRIDGE_COMPONENT_ID :: string where "BRIDGE_COMPONENT_ID = ''15:10''"

text \<open>The session part of \<open>forward_message_to_om\<close>.\<close>

definition open_session :: "'j json_ops \<Rightarrow> int \<Rightarrow> string \<Rightarrow> 'j \<Rightarrow> 'j Bridge \<Rightarrow> 'j Bridge outcome" where
  "open_session ops now mgwcp_id message b =
     (if js_contains ops message ''message_code'' \<and> js_int ops (js_get ops message ''message_code'') = Some 100 then
        (case js_at ops message ''payload'' of
           Missing \<Rightarrow> Undefined
         | NotObject \<Rightarrow> Thrown b
         | Found payload \<Rightarrow>
             if js_contains ops payload ''request_id'' \<and> js_contains ops payload ''task_id'' \<and> js_contains ops payload ''task_name''
             then (case (js_string ops (js_get ops payload ''request_id''), js_int ops (js_get ops payload ''task_id''),
                         js_string ops (js_get ops payload ''task_name'')) of
                     (Some request_id, Some task_id, Some task_name) \<Rightarrow>
                       (case create_session now request_id mgwcp_id (of_int task_id) task_name (br_global_config b)
                               (br_session_manager b) of
                          None \<Rightarrow> Undefined
                        | Some (_, sm) \<Rightarrow> Returned (b\<lparr>br_session_manager := sm\<rparr>))
                   | _ \<Rightarrow> Thrown b)
             else Returned b)
      else Returned b)"

definition forward_message_to_om ::
  "'j json_ops \<Rightarrow> bool \<Rightarrow> int \<Rightarrow> string \<Rightarrow> 'j \<Rightarrow> 'j Bridge \<Rightarrow> 'j Bridge outcome" where
  "forward_message_to_om ops om_ok now mgwcp_id message b =
     run_then (open_session ops now mgwcp_id message b)
       (\<lambda>b. let forward = (if \<not> js_contains ops message ''bridge_component_id''
                           then js_set ops message ''bridge_component_id'' (js_of_string ops BRIDGE_COMPONENT_ID) else message)
            in if js_value ops forward ''component_id'' ''<missing>'' = None
                  \<or> js_value ops forward ''bridge_component_id'' ''<missing>'' = None
               then Thrown b else Returned (send_om_message om_ok forward b))"

section \<open>Data plane handlers\<close>

text \<open>\<open>create_transport_handler_for_mgwdp\<close> with the default parameters of the handler's constructor; an exception of the
  constructor passes through.\<close>

definition create_transport_handler_for_mgwdp ::
  "string \<Rightarrow> string \<Rightarrow> int \<Rightarrow> 'j Bridge \<Rightarrow> (bool \<times> 'j Bridge) outcome" where
  "create_transport_handler_for_mgwdp component_id host port b =
     (if aget (br_transport_handlers b) component_id \<noteq> None then Returned (True, b)
      else
        (case TransportHandler_init component_id host port (Some (br_next_queue b)) True 5 1000 8192 200 2 of
           Inl _ \<Rightarrow> Thrown (False, b\<lparr>br_next_queue := br_next_queue b + 1\<rparr>)
         | Inr handler \<Rightarrow>
             Returned (True, b\<lparr>br_next_queue := br_next_queue b + 1,
                br_transport_handlers := aput component_id (th_start handler) (br_transport_handlers b)\<rparr>)))"

definition create_transport_handler_for_mec ::
  "string \<Rightarrow> string \<Rightarrow> int \<Rightarrow> 'j Bridge \<Rightarrow> (bool \<times> 'j Bridge) outcome" where
  "create_transport_handler_for_mec mec_component_id host port b =
     (if aget (br_transport_handlers b) mec_component_id \<noteq> None then Returned (True, b)
      else
        (case TransportHandler_init mec_component_id host port (Some (br_next_queue b)) True 5 1000 8192 200 2 of
           Inl _ \<Rightarrow> Thrown (False, b\<lparr>br_next_queue := br_next_queue b + 1\<rparr>)
         | Inr handler \<Rightarrow>
             Returned (True, b\<lparr>br_next_queue := br_next_queue b + 1,
                br_transport_handlers := aput mec_component_id (th_start handler) (br_transport_handlers b)\<rparr>)))"

definition establish_mgwcp_data_plane_connection ::
  "string \<Rightarrow> string \<Rightarrow> int \<Rightarrow> 'j Bridge \<Rightarrow> (bool \<times> 'j Bridge) outcome" where
  "establish_mgwcp_data_plane_connection component_id dp_host dp_port b =
     create_transport_handler_for_mgwdp component_id dp_host dp_port b"

section \<open>Routing rules\<close>

text \<open>\<open>"group:id"\<close> as two bytes: no colon, an unreadable number, or the two values.\<close>

datatype parsed_id = NoColon | BadNumber | GroupId u8 u8

definition parse_group_id :: "string \<Rightarrow> parsed_id" where
  "parse_group_id s =
     (case find_char (CHR '':'') s of
        None \<Rightarrow> NoColon
      | Some p \<Rightarrow>
          (case (stoi (take p s), stoi (drop (p + 1) s)) of
             (Some g, Some i) \<Rightarrow> GroupId (of_int g) (of_int i)
           | _ \<Rightarrow> BadNumber))"

definition add_routes :: "u8 \<Rightarrow> u8 \<Rightarrow> u8 list \<Rightarrow> queue_ref \<Rightarrow> RoutingTable \<Rightarrow> RoutingTable" where
  "add_routes g i types q rt = fold (\<lambda>t. add_route (construct_routing_key g i t) q) types rt"

definition remove_routes :: "u8 \<Rightarrow> u8 \<Rightarrow> u8 list \<Rightarrow> RoutingTable \<Rightarrow> RoutingTable" where
  "remove_routes g i types rt = fold (\<lambda>t. remove_routes_for_key (construct_routing_key g i t)) types rt"

definition create_routing_rules_for_session :: "string \<Rightarrow> 'j Bridge \<Rightarrow> 'j Bridge" where
  "create_routing_rules_for_session request_id b =
     (case get_session (br_session_manager b) request_id of
        None \<Rightarrow> b
      | Some session \<Rightarrow>
          (case parse_group_id (se_mgwcp_component_id session) of
             NoColon \<Rightarrow> b
           | BadNumber \<Rightarrow> b
           | GroupId src_group src_id \<Rightarrow>
               (case (aget (br_transport_handlers b) (se_mgwcp_component_id session),
                      aget (br_transport_handlers b) (se_assigned_mec_id session)) of
                  (Some mgwcp_handler, Some mec_handler) \<Rightarrow>
                    (let b = b\<lparr>br_routing_table := add_routes src_group src_id (se_input_message_types session)
                                (input_queue mec_handler) (br_routing_table b)\<rparr>;
                         finish = (\<lambda>b. b\<lparr>br_session_manager :=
                                snd (set_routing_rules_created request_id True (br_session_manager b))\<rparr>)
                     in if se_assigned_mec_id session \<noteq> [] then
                          (case parse_group_id (se_assigned_mec_id session) of
                             NoColon \<Rightarrow> b
                           | BadNumber \<Rightarrow> b
                           | GroupId mec_group mec_id \<Rightarrow>
                               finish (b\<lparr>br_routing_table := add_routes mec_group mec_id (se_output_message_types session)
                                   (input_queue mgwcp_handler) (br_routing_table b)\<rparr>))
                        else finish b)
                | _ \<Rightarrow> b)))"

definition remove_routing_rules_for_session :: "string \<Rightarrow> 'j Bridge \<Rightarrow> 'j Bridge" where
  "remove_routing_rules_for_session request_id b =
     (case get_session (br_session_manager b) request_id of
        None \<Rightarrow> b
      | Some session \<Rightarrow>
          (case parse_group_id (se_mgwcp_component_id session) of
             NoColon \<Rightarrow> b
           | BadNumber \<Rightarrow> b
           | GroupId src_group src_id \<Rightarrow>
               (let b = b\<lparr>br_routing_table := remove_routes src_group src_id (se_input_message_types session)
                           (br_routing_table b)\<rparr>;
                    finish = (\<lambda>b. b\<lparr>br_session_manager :=
                           snd (set_routing_rules_created request_id False (br_session_manager b))\<rparr>)
                in if se_assigned_mec_id session \<noteq> [] then
                     (case parse_group_id (se_assigned_mec_id session) of
                        NoColon \<Rightarrow> finish b
                      | BadNumber \<Rightarrow> b
                      | GroupId mec_group mec_id \<Rightarrow>
                          finish (b\<lparr>br_routing_table := remove_routes mec_group mec_id (se_output_message_types session)
                              (br_routing_table b)\<rparr>))
                   else finish b)))"

section \<open>Answers of the offloading manager\<close>

text \<open>The connection of a component, found through the two maps, transformed in place.\<close>

definition with_connection ::
  "string \<Rightarrow> ('j MGWCPConnection \<Rightarrow> 'j MGWCPConnection) \<Rightarrow> 'j Bridge \<Rightarrow> 'j Bridge" where
  "with_connection component_id f b =
     (case aget (br_component_id_to_transport_id b) component_id of
        None \<Rightarrow> b
      | Some tid \<Rightarrow>
          (case aget (br_connections b) tid of
             None \<Rightarrow> b
           | Some c \<Rightarrow> b\<lparr>br_connections := aput tid (f c) (br_connections b)\<rparr>))"

text \<open>The \<open>request_id\<close> of a payload: a string, or an integer in decimal; \<open>None\<close> for any other type. \<open>get<long long>\<close>
  of an integer does not throw.\<close>

definition payload_request_id :: "'j json_ops \<Rightarrow> 'j \<Rightarrow> string option" where
  "payload_request_id ops payload =
     (let v = js_get ops payload ''request_id'' in
      case js_string ops v of
        Some s \<Rightarrow> Some s
      | None \<Rightarrow>
          if js_is_integer ops v
          then map_option (\<lambda>i. show_int (sint (of_int i :: u64))) (js_int ops v) else None)"

definition handle_session_approved :: "'j json_ops \<Rightarrow> link \<Rightarrow> int \<Rightarrow> 'j \<Rightarrow> 'j Bridge \<Rightarrow> 'j Bridge" where
  "handle_session_approved ops lk now om_response b =
     (if \<not> js_contains ops om_response ''payload''
         \<or> \<not> js_contains ops (js_get ops om_response ''payload'') ''request_id'' then b
      else
        (let payload = js_get ops om_response ''payload'' in
         case payload_request_id ops payload of
           None \<Rightarrow> b
         | Some request_id \<Rightarrow>
             (let b = (if js_contains ops payload ''assigned_mec_id'' then
                         (case js_string ops (js_get ops payload ''assigned_mec_id'') of
                            Some mec_id \<Rightarrow> b\<lparr>br_session_manager := snd (set_assigned_mec request_id mec_id (br_session_manager b))\<rparr>
                          | None \<Rightarrow> b)
                       else b);
                  b = create_routing_rules_for_session request_id b
              in case get_session (br_session_manager b) request_id of
                   None \<Rightarrow> b
                 | Some session \<Rightarrow>
                     (let b = with_connection (se_mgwcp_component_id session) (send_session_approved ops lk now payload) b
                      in if se_assigned_mec_id session \<noteq> []
                         then with_connection (se_assigned_mec_id session) (send_session_approved ops lk now payload) b
                         else b))))"

text \<open>\<open>payload.value("reason_description", ...)\<close> throws when the value is no string.\<close>

definition handle_session_denied :: "'j json_ops \<Rightarrow> link \<Rightarrow> int \<Rightarrow> 'j \<Rightarrow> 'j Bridge \<Rightarrow> 'j Bridge outcome" where
  "handle_session_denied ops lk now om_response b =
     (if \<not> js_contains ops om_response ''payload''
         \<or> \<not> js_contains ops (js_get ops om_response ''payload'') ''request_id'' then Returned b
      else
        (let payload = js_get ops om_response ''payload'' in
         case payload_request_id ops payload of
           None \<Rightarrow> Returned b
         | Some request_id \<Rightarrow>
             (case js_value ops payload ''reason_description'' ''No reason provided'' of
                None \<Rightarrow> Thrown b
              | Some reason \<Rightarrow>
                  (let b = b\<lparr>br_session_manager := snd (remove_session request_id (br_session_manager b))\<rparr>
                   in case get_session (br_session_manager b) request_id of
                        None \<Rightarrow> Returned b
                      | Some session \<Rightarrow>
                          Returned (with_connection (se_mgwcp_component_id session)
                            (send_session_denied ops lk now request_id reason) b)))))"

definition handle_om_message :: "'j json_ops \<Rightarrow> link \<Rightarrow> int \<Rightarrow> 'j \<Rightarrow> 'j Bridge \<Rightarrow> 'j Bridge outcome" where
  "handle_om_message ops lk now message b =
     (if \<not> js_contains ops message ''message_code'' \<or> \<not> js_contains ops message ''payload'' then Returned b
      else (case js_int ops (js_get ops message ''message_code'') of
         None \<Rightarrow> Thrown b
       | Some code \<Rightarrow>
           if to_int32 code = 200 then Returned (handle_session_approved ops lk now message b)
           else if to_int32 code = 201 then handle_session_denied ops lk now message b
           else Returned b))"

text \<open>One turn of the loop of \<open>om_connection_thread_func\<close> (and of the loops of the gateway connections below) reads
  nothing, some text, an answer of length 0 or an error. The flag of the result says whether the loop goes on;
  \<open>Thrown\<close> is an exception that leaves the thread function, which ends the program.\<close>

datatype cp_input = NoData | Bytes string | NothingRead | ReadError

definition om_iteration :: "'j json_ops \<Rightarrow> link \<Rightarrow> int \<Rightarrow> cp_input \<Rightarrow> 'j Bridge \<Rightarrow> (bool \<times> 'j Bridge) outcome" where
  "om_iteration ops lk now inp b =
     (if br_shutdown_requested b \<or> \<not> br_om_connected b then Returned (False, b)
      else (case inp of
         NoData \<Rightarrow> Returned (True, b)
       | NothingRead \<Rightarrow> Returned (True, b)
       | ReadError \<Rightarrow> Returned (False, b\<lparr>br_om_connected := False\<rparr>)
       | Bytes text \<Rightarrow>
           (case js_parse ops text of
              None \<Rightarrow> Returned (True, b)
            | Some message \<Rightarrow>
                (case handle_om_message ops lk now message b of
                   Returned b' \<Rightarrow> Returned (True, b')
                 | Thrown b' \<Rightarrow> Thrown (False, b')
                 | Undefined \<Rightarrow> Undefined))))"

section \<open>Maintenance\<close>

definition SESSION_TIMEOUT :: int where "SESSION_TIMEOUT = 20000"

definition check_session_timeouts :: "int \<Rightarrow> 'j Bridge \<Rightarrow> 'j Bridge" where
  "check_session_timeouts now b =
     fold (\<lambda>request_id b.
         let b = remove_routing_rules_for_session request_id b
         in b\<lparr>br_session_manager := snd (remove_session request_id (br_session_manager b))\<rparr>)
       (find_expired_sessions now SESSION_TIMEOUT (br_session_manager b)) b"

text \<open>\<open>maintenance_thread_func\<close> after its sleep; \<open>cleanup_expired_sessions\<close> is empty.\<close>

definition maintenance_iteration :: "int \<Rightarrow> 'j Bridge \<Rightarrow> 'j Bridge" where
  "maintenance_iteration now b = (if br_shutdown_requested b then b else check_session_timeouts now b)"

section \<open>Messages from gateways\<close>

text \<open>The handlers work on the connection that received the message and on the bridge behind its callbacks.\<close>

type_synonym 'j gw_state = "'j MGWCPConnection \<times> 'j Bridge"

definition handle_dp_info :: "'j json_ops \<Rightarrow> link \<Rightarrow> int \<Rightarrow> 'j \<Rightarrow> 'j gw_state \<Rightarrow> 'j gw_state outcome" where
  "handle_dp_info ops lk now payload st =
     (case st of (c, b) \<Rightarrow>
        if mc_state c \<noteq> CONNECTING then Returned (c, b)
        else if \<not> js_contains ops payload ''dp_host'' \<or> \<not> js_contains ops payload ''dp_port'' then Returned (c, b)
        else
          (case js_string ops (js_get ops payload ''dp_host'') of
             None \<Rightarrow> Thrown (c, b)
           | Some requested_host \<Rightarrow>
               (case js_int ops (js_get ops payload ''dp_port'') of
                  None \<Rightarrow> Thrown (c, b)
                | Some port \<Rightarrow>
                    (let c = c\<lparr>mc_dp_port := to_int32 port,
                               mc_dp_host := (if requested_host = ''0.0.0.0'' then mc_client_ip c else requested_host)\<rparr>
                     in case establish_mgwcp_data_plane_connection (mc_component_id c) (mc_dp_host c) (mc_dp_port c) b of
                          Undefined \<Rightarrow> Undefined
                        | Thrown (_, b) \<Rightarrow> Thrown (c, b)
                        | Returned (True, b) \<Rightarrow>
                            Returned (send_dp_connection_confirmed ops lk now (set_state OPERATIONAL c), b)
                        | Returned (False, b) \<Rightarrow> Returned (set_state WAITING_FOR_DP c, b)))))"

text \<open>\<open>message_forwarder_(component_id_, forward_message)\<close>.\<close>

definition forward_from ::
  "'j json_ops \<Rightarrow> bool \<Rightarrow> int \<Rightarrow> int \<Rightarrow> string \<Rightarrow> 'j \<Rightarrow> 'j gw_state \<Rightarrow> 'j gw_state outcome" where
  "forward_from ops om_ok now code type payload st =
     (case st of (c, b) \<Rightarrow>
        (case forward_message_to_om ops om_ok now (mc_component_id c) (mgw_message ops (mc_component_id c) code type payload) b of
           Undefined \<Rightarrow> Undefined
         | Thrown b \<Rightarrow> Thrown (c, b)
         | Returned b \<Rightarrow> Returned (c, b)))"

definition handle_offload_request :: "'j json_ops \<Rightarrow> bool \<Rightarrow> int \<Rightarrow> 'j \<Rightarrow> 'j gw_state \<Rightarrow> 'j gw_state outcome" where
  "handle_offload_request ops om_ok now payload st =
     (if mc_state (fst st) \<noteq> OPERATIONAL then Returned st
      else if \<not> js_contains ops payload ''request_id'' \<or> \<not> js_contains ops payload ''task_id''
              \<or> \<not> js_contains ops payload ''task_name'' then Returned st
      else (case (js_string ops (js_get ops payload ''request_id''), js_int ops (js_get ops payload ''task_id''),
                  js_string ops (js_get ops payload ''task_name'')) of
              (Some _, Some _, Some _) \<Rightarrow> forward_from ops om_ok now 100 ''OFFLOAD_REQUEST'' payload st
            | _ \<Rightarrow> Thrown st))"

definition handle_session_keepalive :: "'j json_ops \<Rightarrow> bool \<Rightarrow> int \<Rightarrow> 'j \<Rightarrow> 'j gw_state \<Rightarrow> 'j gw_state outcome" where
  "handle_session_keepalive ops om_ok now payload st =
     (if \<not> js_contains ops payload ''request_id'' then Returned st
      else (case js_string ops (js_get ops payload ''request_id'') of
         None \<Rightarrow> Thrown st
       | Some request_id \<Rightarrow>
           (case st of (c, b) \<Rightarrow>
              forward_from ops om_ok now 101 ''SESSION_KEEPALIVE'' payload
                (c, b\<lparr>br_session_manager := snd (sm_update_keepalive now request_id (br_session_manager b))\<rparr>))))"

definition handle_session_terminate_request ::
  "'j json_ops \<Rightarrow> bool \<Rightarrow> int \<Rightarrow> 'j \<Rightarrow> 'j gw_state \<Rightarrow> 'j gw_state outcome" where
  "handle_session_terminate_request ops om_ok now payload st =
     (if \<not> js_contains ops payload ''request_id'' then Returned st
      else (case js_string ops (js_get ops payload ''request_id'') of
         None \<Rightarrow> Thrown st
       | Some _ \<Rightarrow> forward_from ops om_ok now 102 ''SESSION_TERMINATE_REQUEST'' payload st))"

text \<open>The component id of the first message is bound to the connection; later messages must carry it.\<close>

definition bind_component_id :: "string \<Rightarrow> 'j gw_state \<Rightarrow> (bool \<times> 'j gw_state)" where
  "bind_component_id msg_component_id st =
     (case st of (c, b) \<Rightarrow>
        if mc_component_id c = [] then
          (if is_valid_component_id msg_component_id
           then (True, c\<lparr>mc_component_id := msg_component_id\<rparr>,
                 b\<lparr>br_component_id_to_transport_id :=
                    aput msg_component_id (mc_transport_client_id c) (br_component_id_to_transport_id b)\<rparr>)
           else (False, c, b))
        else (mc_component_id c = msg_component_id, c, b))"

definition handle_received_message ::
  "'j json_ops \<Rightarrow> link \<Rightarrow> bool \<Rightarrow> int \<Rightarrow> 'j \<Rightarrow> 'j gw_state \<Rightarrow> 'j gw_state outcome" where
  "handle_received_message ops lk om_ok now message st =
     (if \<not> validate_message_structure ops message then Returned st
      else
        (let payload = js_get ops message ''payload'' in
         case (js_int ops (js_get ops message ''message_code''), js_int ops (js_get ops message ''sequence_number'')) of
           (Some code, Some seq) \<Rightarrow>
             if to_int32 code = 900 then
               (case handle_ack ops payload (fst st) of
                  Returned c \<Rightarrow> Returned (c, snd st) | Thrown c \<Rightarrow> Thrown (c, snd st) | Undefined \<Rightarrow> Undefined)
             else (case js_string ops (js_get ops message ''component_id'') of
                None \<Rightarrow> Thrown st
              | Some msg_component_id \<Rightarrow>
                  (case bind_component_id msg_component_id st of
                     (False, st) \<Rightarrow> Returned st
                   | (True, c, b) \<Rightarrow>
                       (let st = (send_ack ops lk (of_int (to_int32 seq)) c, b) in
                        if to_int32 code = 103 then handle_dp_info ops lk now payload st
                        else if to_int32 code = 100 then handle_offload_request ops om_ok now payload st
                        else if to_int32 code = 101 then handle_session_keepalive ops om_ok now payload st
                        else if to_int32 code = 102 then handle_session_terminate_request ops om_ok now payload st
                        else Returned st)))
         | _ \<Rightarrow> Thrown st))"

text \<open>One turn of the loop of \<open>connection_thread_func\<close>: whether the loop goes on, and the state. Every exception ends it,
  without the check for timeouts; a text that is no JSON is dropped.\<close>

definition connection_iteration ::
  "'j json_ops \<Rightarrow> link \<Rightarrow> bool \<Rightarrow> int \<Rightarrow> cp_input \<Rightarrow> 'j gw_state \<Rightarrow> (bool \<times> 'j gw_state) option" where
  "connection_iteration ops lk om_ok now inp st =
     (let proceed = (\<lambda>(c, b). Some (True, check_for_timeouts ops lk now c, b)) in
      if \<not> mc_running (fst st) \<or> \<not> lk_connected lk (mc_transport_client_id (fst st)) then Some (False, st)
      else (case inp of
         NoData \<Rightarrow> proceed st
       | NothingRead \<Rightarrow> proceed st
       | ReadError \<Rightarrow> Some (False, st)
       | Bytes text \<Rightarrow>
           (case js_parse ops text of
              None \<Rightarrow> proceed st
            | Some message \<Rightarrow>
                (case handle_received_message ops lk om_ok now message st of
                   Returned st' \<Rightarrow> proceed st'
                 | Thrown st' \<Rightarrow> Some (False, st')
                 | Undefined \<Rightarrow> None))))"

section \<open>Connections of gateways\<close>

definition handle_new_mgwcp_connection :: "link \<Rightarrow> int \<Rightarrow> string \<Rightarrow> 'j Bridge \<Rightarrow> 'j Bridge" where
  "handle_new_mgwcp_connection lk tid client_ip b =
     b\<lparr>br_next_connection_id := br_next_connection_id b + 1,
       br_connections := aput tid (mc_start lk (MGWCPConnection_init (br_next_connection_id b) tid client_ip)) (br_connections b)\<rparr>"

end
