(* ===== verification/Bridge_Server.thy ===== *)
theory Bridge_Server
  imports Bridge_Control_Plane Tcp_Server
begin

text \<open>
  The gateway server of the bridge (bridge/src/BridgeControlPlane.cpp: \<open>start_mgwcp_server\<close>,
  \<open>handle_mgwcp_disconnection\<close>, \<open>stop\<close>; bridge/src/MGWCPConnection.cpp: \<open>stop\<close>). The state of the user of the server
  is the bridge together with the flag of \<open>mgwcp_connections_mutex_\<close>: a \<open>std::mutex\<close> is not recursive, so taking it
  while the same thread holds it never returns (\<open>SelfDeadlock\<close>).
\<close>

type_synonym 'j locked_bridge = "'j Bridge \<times> bool"

type_synonym 'j bridge_world = "'j locked_bridge server_world"

definition disconnecting_with ::
  "(int \<Rightarrow> 'j bridge_world \<Rightarrow> fault + 'j bridge_world) \<Rightarrow> 'j locked_bridge callbacks" where
  "disconnecting_with cb = \<lparr>connect_callback = None, disconnect_callback = Some cb, data_callback = None\<rparr>"

section \<open>Stopping a connection\<close>

text \<open>The end of \<open>MGWCPConnection::stop\<close>: the sessions of the gateway are removed.\<close>

definition mc_cleanup :: "string \<Rightarrow> 'j Bridge \<Rightarrow> 'j Bridge" where
  "mc_cleanup component_id b =
     (if component_id = [] then b
      else b\<lparr>br_session_manager := snd (cleanup_sessions_for_mgwcp component_id (br_session_manager b))\<rparr>)"

text \<open>\<open>MGWCPConnection::stop\<close>: the flag, the disconnection through the server with its callback, the wait of at most five
  seconds for the thread, the cleanup.\<close>

definition mc_stop ::
  "(int \<Rightarrow> 'j bridge_world \<Rightarrow> fault + 'j bridge_world) \<Rightarrow> 'j MGWCPConnection \<Rightarrow> 'j bridge_world \<Rightarrow> fault + 'j bridge_world" where
  "mc_stop cb c w =
     (case w of (s, b, held) \<Rightarrow>
        (let tid = mc_transport_client_id c;
             b = b\<lparr>br_connections := aput tid (c\<lparr>mc_running := False\<rparr>) (br_connections b)\<rparr>
         in case (if ts_is_client_connected s tid then ts_disconnect_client (disconnecting_with cb) tid (s, b, held)
                  else Inr (s, b, held)) of
              Inl e \<Rightarrow> Inl e
            | Inr (s, b, held) \<Rightarrow> Inr (s, mc_cleanup (mc_component_id c) b, held)))"

text \<open>The disconnect callback of the server. Its first argument bounds the depth of nested callbacks.\<close>

fun handle_mgwcp_disconnection :: "nat \<Rightarrow> int \<Rightarrow> 'j bridge_world \<Rightarrow> fault + 'j bridge_world" where
  "handle_mgwcp_disconnection 0 tid w = Inl CallDepthExceeded"
| "handle_mgwcp_disconnection (Suc n) tid (s, b, held) =
     (if held then Inl SelfDeadlock
      else (case aget (br_connections b) tid of
         None \<Rightarrow> Inr (s, b, False)
       | Some c \<Rightarrow>
           (case mc_stop (handle_mgwcp_disconnection n) c (s, b, True) of
              Inl e \<Rightarrow> Inl e
            | Inr (s, b, _) \<Rightarrow>
                Inr (s, b\<lparr>br_connections := aerase tid (br_connections b),
                          br_component_id_to_transport_id :=
                            (if mc_component_id c = [] then br_component_id_to_transport_id b
                             else aerase (mc_component_id c) (br_component_id_to_transport_id b))\<rparr>, False))))"

text \<open>A second callback can only find the lock taken: a nesting of two is enough.\<close>

definition mgwcp_on_disconnect :: "int \<Rightarrow> 'j bridge_world \<Rightarrow> fault + 'j bridge_world" where
  "mgwcp_on_disconnect = handle_mgwcp_disconnection 2"

text \<open>The callbacks \<open>start_mgwcp_server\<close> installs. The new connection is started after the server stored the client;
  \<open>send_ok\<close> answers sends to clients.\<close>

definition server_link :: "(int \<Rightarrow> bool) \<Rightarrow> TcpServerTransport \<Rightarrow> link" where
  "server_link send_ok s = \<lparr>lk_connected = ts_is_client_connected s, lk_send_ok = send_ok\<rparr>"

definition mgwcp_on_connect :: "(int \<Rightarrow> bool) \<Rightarrow> int \<Rightarrow> string \<Rightarrow> int \<Rightarrow> 'j bridge_world \<Rightarrow> fault + 'j bridge_world" where
  "mgwcp_on_connect send_ok client_id ip port w =
     (case w of (s, b, held) \<Rightarrow>
        if held then Inl SelfDeadlock
        else Inr (s, handle_new_mgwcp_connection (server_link send_ok s) client_id ip b, False))"

definition mgwcp_callbacks :: "(int \<Rightarrow> bool) \<Rightarrow> 'j locked_bridge callbacks" where
  "mgwcp_callbacks send_ok =
     \<lparr>connect_callback = Some (mgwcp_on_connect send_ok), disconnect_callback = Some mgwcp_on_disconnect,
      data_callback = None\<rparr>"

definition MGWCP_SERVER_PORT :: u16 where "MGWCP_SERVER_PORT = 7000"
definition MAX_MGWCP_CONNECTIONS :: int where "MAX_MGWCP_CONNECTIONS = 50"

definition start_mgwcp_server ::
  "(int \<Rightarrow> bool) \<Rightarrow> listen_answer \<Rightarrow> 'j locked_bridge \<Rightarrow> fault + bool \<times> 'j bridge_world" where
  "start_mgwcp_server send_ok l a =
     ts_connect (mgwcp_callbacks send_ok) l
       (TcpServerTransport_init (uint MGWCP_SERVER_PORT) True MAX_MGWCP_CONNECTIONS, a)"

text \<open>One turn of \<open>mgwcp_server_thread_func\<close>; \<open>None\<close> when its loop ends.\<close>

definition mgwcp_server_iteration ::
  "(int \<Rightarrow> bool) \<Rightarrow> server_events \<Rightarrow> 'j bridge_world \<Rightarrow> (fault + 'j bridge_world) option" where
  "mgwcp_server_iteration send_ok ev w =
     (case w of (s, b, held) \<Rightarrow>
        if br_shutdown_requested b \<or> \<not> ts_is_connected s then None
        else Some (map_sum id snd (ts_process_events (mgwcp_callbacks send_ok) ev w)))"

section \<open>Stopping the bridge\<close>

fun stop_connections :: "'j MGWCPConnection list \<Rightarrow> 'j bridge_world \<Rightarrow> fault + 'j bridge_world" where
  "stop_connections [] w = Inr w"
| "stop_connections (c # cs) w =
     (case mc_stop mgwcp_on_disconnect c w of Inl e \<Rightarrow> Inl e | Inr w' \<Rightarrow> stop_connections cs w')"

text \<open>\<open>stop\<close>: the server, the connections under the lock, the handlers, the two client transports, the threads.\<close>

definition br_stop :: "(int \<Rightarrow> bool) \<Rightarrow> 'j bridge_world \<Rightarrow> fault + 'j bridge_world" where
  "br_stop send_ok w =
     (case w of (s, b, held) \<Rightarrow>
        if \<not> br_running b then Inr (s, b, held)
        else
          (case ts_disconnect (mgwcp_callbacks send_ok)
                  (s, b\<lparr>br_shutdown_requested := True, br_running := False\<rparr>, held) of
             Inl e \<Rightarrow> Inl e
           | Inr (s, b, held) \<Rightarrow>
               if held then Inl SelfDeadlock
               else (case stop_connections (map snd (br_connections b)) (s, b, True) of
                       Inl e \<Rightarrow> Inl e
                     | Inr (s, b, _) \<Rightarrow>
                         Inr (s, b\<lparr>br_connections := [], br_component_id_to_transport_id := [],
                                   br_transport_handlers := []\<rparr>, False))))"

end
