(* ===== verification/Bridge_Startup.thy ===== *)
theory Bridge_Startup
  imports Bridge_Server Discovery_Protocol
begin

text \<open>
  The startup of the bridge (bridge/src/BridgeControlPlane.cpp: \<open>start\<close>, \<open>register_with_discovery_service\<close>,
  \<open>perform_discovery_registration\<close>, \<open>discovery_keepalive_thread_func\<close>, \<open>connect_to_om\<close>). The registration is retried as
  long as the discovery service answers WAIT. One exchange with the service is what the socket
  answers to one \<open>send_data\<close> and one \<open>receive_data\<close>; \<open>None\<close> says that the exchanges ran out before the call returned.
\<close>

definition DISCOVERY_SERVICE_HOST :: string where "DISCOVERY_SERVICE_HOST = ''192.168.50.114''"
definition DISCOVERY_SERVICE_PORT :: u16 where "DISCOVERY_SERVICE_PORT = 9090"

definition bridge_registration_request :: RegistrationRequest where
  "bridge_registration_request =
     \<lparr>componentType = BRIDGE, idRequestType = STATIC, groupId = 5, idInGroup = 1, componentName = ''BridgeControlPlane'',
      listenAddress = ''0.0.0.0'', listenPort = show_int (uint MGWCP_SERVER_PORT),
      rq_humanReadableMessage = ''Bridge Control Plane requesting registration''\<rparr>"

record exchange =
  xc_sends :: "send_answer list"
  xc_reconnects :: "connect_answer list"
  xc_recv :: recv_answer

section \<open>Registration\<close>

text \<open>The loop of \<open>perform_discovery_registration\<close>: the response that ended it (\<open>None\<close> inside: it returned false) and
  the transport.\<close>

fun registration_loop ::
  "exchange list \<Rightarrow> TcpClientTransport \<Rightarrow> (RegistrationResponse option \<times> TcpClientTransport) option" where
  "registration_loop [] c = None"
| "registration_loop (x # xs) c =
     (case tc_send_data c (bytes_of_text (encode_message (MsgRegistrationRequest bridge_registration_request)))
             (xc_sends x) (xc_reconnects x) of
        None \<Rightarrow> None
      | Some (False, c, _) \<Rightarrow> Some (None, c)
      | Some (True, c, _) \<Rightarrow>
          (case tc_receive_data c 2048 (xc_recv x) of
             (n, bytes, c) \<Rightarrow>
               if n \<le> 0 then Some (None, c)
               else (case decode_message (text_of_bytes bytes) of
                  Inr (MsgRegistrationResponse r) \<Rightarrow>
                    if responseCode r = SUCCESS then Some (Some r, c)
                    else if responseCode r = WAIT then registration_loop xs c
                    else Some (None, c)
                | _ \<Rightarrow> Some (None, c))))"

text \<open>What follows the loop: the address of the offloading manager and the task database. The inner \<open>None\<close> of
  \<open>parse_from_json\<close> is undefined behaviour on a configuration whose tasks lack required keys.\<close>

definition apply_registration ::
  "'j json_ops \<Rightarrow> RegistrationResponse \<Rightarrow> 'j Bridge \<Rightarrow> (bool \<times> 'j Bridge) option" where
  "apply_registration ops r b =
     (if connectionTargetAddress r = [] \<or> connectionTargetPort r = [] then Some (False, b)
      else
        (let b = b\<lparr>br_om_host := connectionTargetAddress r\<rparr> in
         case stoi (connectionTargetPort r) of
           None \<Rightarrow> Some (False, b)
         | Some p \<Rightarrow>
             (let b = b\<lparr>br_om_port := of_int p\<rparr> in
              if configJson r = [] then Some (True, b)
              else (case js_parse ops (configJson r) of
                 None \<Rightarrow> Some (False, b)
               | Some j \<Rightarrow>
                   map_option (\<lambda>(ok, gc). (ok, b\<lparr>br_global_config := gc\<rparr>)) (parse_from_json ops j (br_global_config b))))))"

definition perform_discovery_registration ::
  "'j json_ops \<Rightarrow> exchange list \<Rightarrow> TcpClientTransport \<Rightarrow> 'j Bridge \<Rightarrow> (bool \<times> TcpClientTransport \<times> 'j Bridge) option" where
  "perform_discovery_registration ops xs c b =
     (case registration_loop xs c of
        None \<Rightarrow> None
      | Some (None, c) \<Rightarrow> Some (False, c, b)
      | Some (Some r, c) \<Rightarrow> map_option (\<lambda>(ok, b). (ok, c, b)) (apply_registration ops r b))"

definition register_with_discovery_service ::
  "'j json_ops \<Rightarrow> connect_answer \<Rightarrow> exchange list \<Rightarrow> 'j Bridge \<Rightarrow> (bool \<times> TcpClientTransport \<times> 'j Bridge) option" where
  "register_with_discovery_service ops a xs b =
     (case tc_connect (TcpClientTransport_init DISCOVERY_SERVICE_HOST (uint DISCOVERY_SERVICE_PORT) 3) a of
        (False, c) \<Rightarrow> Some (False, c, b)
      | (True, c) \<Rightarrow>
          (case perform_discovery_registration ops xs c b of
             None \<Rightarrow> None
           | Some (False, c, b) \<Rightarrow> Some (False, c, b)
           | Some (True, c, b) \<Rightarrow> Some (True, c, b\<lparr>br_discovery_connected := True\<rparr>)))"

section \<open>The rest of the startup\<close>

definition connect_to_om :: "connect_answer \<Rightarrow> 'j Bridge \<Rightarrow> bool \<times> 'j Bridge" where
  "connect_to_om a b =
     (if br_om_host b = [] \<or> br_om_port b = 0 then (False, b)
      else (case tc_connect (TcpClientTransport_init (br_om_host b) (uint (br_om_port b)) 3) a of
         (False, _) \<Rightarrow> (False, b)
       | (True, _) \<Rightarrow> (True, b\<lparr>br_om_connected := True\<rparr>)))"

record startup_env =
  se_discovery_connect :: connect_answer
  se_exchanges :: "exchange list"
  se_om_connect :: connect_answer
  se_send_ok :: "int \<Rightarrow> bool"
  se_listen :: listen_answer

text \<open>\<open>start\<close>. The result: \<open>None\<close> when the registration does not return, otherwise whether it succeeded, the
  server if it was started, and the bridge.\<close>

definition br_start ::
  "'j json_ops \<Rightarrow> startup_env \<Rightarrow> 'j Bridge \<Rightarrow> (fault + bool \<times> TcpServerTransport option \<times> 'j Bridge) option" where
  "br_start ops env b =
     (if br_running b then Some (Inr (True, None, b))
      else (case register_with_discovery_service ops (se_discovery_connect env) (se_exchanges env) b of
         None \<Rightarrow> None
       | Some (False, _, b) \<Rightarrow> Some (Inr (False, None, b))
       | Some (True, _, b) \<Rightarrow>
           (case connect_to_om (se_om_connect env) b of
              (False, b) \<Rightarrow> Some (Inr (False, None, b))
            | (True, b) \<Rightarrow>
                Some (case start_mgwcp_server (se_send_ok env) (se_listen env) (b, False) of
                   Inl e \<Rightarrow> Inl e
                 | Inr (False, s, b, _) \<Rightarrow> Inr (False, Some s, b)
                 | Inr (True, s, b, _) \<Rightarrow> Inr (True, Some s, b\<lparr>br_running := True\<rparr>)))))"

text \<open>One turn of \<open>discovery_keepalive_thread_func\<close> after its sleep: whether the loop goes on.\<close>

definition bridge_keepalive :: KeepalivePing where
  "bridge_keepalive = \<lparr>kp_componentId = ''5.1'', kp_status = ''OK'', kp_humanReadableMessage = ''Bridge CP keepalive''\<rparr>"

definition discovery_keepalive_iteration ::
  "send_answer list \<Rightarrow> connect_answer list \<Rightarrow> TcpClientTransport \<Rightarrow> 'j Bridge \<Rightarrow>
   (bool \<times> TcpClientTransport \<times> 'j Bridge) option" where
  "discovery_keepalive_iteration sends reconnects c b =
     (if br_shutdown_requested b \<or> \<not> br_discovery_connected b then Some (False, c, b)
      else (case tc_send_data c (bytes_of_text (encode_message (MsgKeepalivePing bridge_keepalive))) sends reconnects of
         None \<Rightarrow> None
       | Some (True, c, _) \<Rightarrow> Some (True, c, b)
       | Some (False, c, _) \<Rightarrow> Some (False, c, b\<lparr>br_discovery_connected := False\<rparr>)))"

section \<open>Registration with a service that answers\<close>

text \<open>An exchange in which the request goes out and the response arrives in one piece, on an open connection.\<close>

definition answered :: "TcpClientTransport \<Rightarrow> exchange \<Rightarrow> RegistrationResponse \<Rightarrow> bool" where
  "answered c x r \<longleftrightarrow>
     (\<exists>taken. tc_send_data c (bytes_of_text (encode_message (MsgRegistrationRequest bridge_registration_request)))
        (xc_sends x) (xc_reconnects x) = Some (True, c, taken))
     \<and> xc_recv x = Received (bytes_of_text (encode_message (MsgRegistrationResponse r)))
     \<and> length (encode_message (MsgRegistrationResponse r)) \<le> 2048
     \<and> decode_message (encode_message (MsgRegistrationResponse r)) = Inr (MsgRegistrationResponse r)"

lemma answered_loop:
  assumes "answered c x r" "tc_is_connected c"
  shows "registration_loop (x # xs) c =
    (if responseCode r = SUCCESS then Some (Some r, c)
     else if responseCode r = WAIT then registration_loop xs c else Some (None, c))"
proof -
  let ?t = "encode_message (MsgRegistrationResponse r)"
  have dec: "decode_message ?t = Inr (MsgRegistrationResponse r)" using assms(1) by (simp add: answered_def)
  then have len: "0 < length ?t" by (auto simp: decode_message_def split: if_splits)
  have "tc_receive_data c 2048 (xc_recv x) = (int (length ?t), bytes_of_text ?t, c)"
    using assms len by (simp add: answered_def tc_receive_data_def del: encode_message.simps)
      (auto simp: bytes_of_text_def simp del: encode_message.simps)
  with assms(1) dec len show ?thesis by (auto simp: answered_def simp del: encode_message.simps)
qed

text \<open>The bridge keeps asking while the discovery service tells it to wait. However many WAIT responses come first, the
  registration goes on and has not returned; the first SUCCESS ends it with that response, and any other
  response code ends it without.\<close>

lemma registration_retries_while_waiting:
  assumes "tc_is_connected c" "list_all (\<lambda>(x, r). answered c x r \<and> responseCode r = WAIT) waits"
    and "answered c x r" "responseCode r \<noteq> WAIT"
  shows "registration_loop (map fst waits) c = None
     \<and> registration_loop (map fst waits @ [x]) c = Some (if responseCode r = SUCCESS then Some r else None, c)"
  using assms(2)
proof (induction waits)
  case Nil
  with assms answered_loop [OF assms(3,1), of "[]"] show ?case by simp
next
  case (Cons w waits)
  then show ?case
    using answered_loop [OF _ assms(1), of "fst w" "snd w"] by (cases w) auto
qed

definition example_transport :: TcpClientTransport where
  "example_transport = (TcpClientTransport_init DISCOVERY_SERVICE_HOST (uint DISCOVERY_SERVICE_PORT) 3)
     \<lparr>tc_socket_fd := 5, tc_connected := True\<rparr>"

definition example_response :: "ResponseCode \<Rightarrow> RegistrationResponse" where
  "example_response code = \<lparr>responseCode = code, assignedGroupId = 5, assignedIdInGroup = 1, connectionTargetType = ''O'',
     connectionTargetAddress = ''10.0.0.4'', connectionTargetPort = ''8100'', connectionTargetId = 257, configJson = [],
     detectedClientAddress = ''10.0.0.8'', rs_humanReadableMessage = ''m''\<rparr>"

definition example_exchange :: "ResponseCode \<Rightarrow> exchange" where
  "example_exchange code = \<lparr>xc_sends = [Sent (length (encode_message (MsgRegistrationRequest bridge_registration_request)))], xc_reconnects = [],
     xc_recv = Received (bytes_of_text (encode_message (MsgRegistrationResponse (example_response code))))\<rparr>"

lemma send_one_piece:
  assumes "tc_is_connected c" "data \<noteq> []" "length data \<le> n" "0 \<le> tc_max_retries c"
  shows "tc_send_data c data [Sent n] [] = Some (True, c, data)"
proof -
  have "send_loop data [Sent n] = Some (True, data, [], [])"
    using assms(2,3) by (cases data) auto
  with assms show ?thesis
    by (simp add: tc_send_data_def tc_is_connected_def send_retries.simps send_attempt_def)
qed

lemma example_answered:
  assumes "code = SUCCESS \<or> code = WAIT"
  shows "answered example_transport (example_exchange code) (example_response code)"
proof -
  let ?q = "bytes_of_text (encode_message (MsgRegistrationRequest bridge_registration_request))"
  have "decode_message (encode_message (MsgRegistrationResponse (example_response code))) = Inr (MsgRegistrationResponse (example_response code))"
    by (rule discovery_roundtrip) (use assms in \<open>auto simp: example_response_def clean_fields_def\<close>)
  moreover have "length (encode_message (MsgRegistrationResponse (example_response code))) \<le> 2048"
    using assms by (elim disjE; simp only:) code_simp+
  moreover have "?q \<noteq> []" by (simp add: bytes_of_text_def encode_registration_request_def)
  moreover have "tc_is_connected example_transport" "0 \<le> tc_max_retries example_transport"
    by (simp_all add: example_transport_def tc_is_connected_def TcpClientTransport_init_def)
  ultimately show ?thesis
    using send_one_piece [of example_transport ?q "length ?q"]
    by (simp add: answered_def example_exchange_def del: encode_message.simps)
qed

end
