(* ===== verification/Bridge_Invariant.thy ===== *)
theory Bridge_Invariant
  imports Bridge_Control_Plane
begin

text \<open>
  The invariant of the bridge control plane, as four predicates on its handlers, routes, sessions and
  connections, that every handler keeps it, and that it holds in every reachable state. One step is one turn of the thread of
  a gateway connection, of the thread of the offloading manager or of the maintenance thread, or a new connection.
  The properties that rest on it are at the end.
\<close>

declare map_of_eq_Some_iff [simp del]

type_synonym handlers = "(string, TransportHandler) amap"

definition handlers_ok :: "handlers \<Rightarrow> nat \<Rightarrow> bool" where
  "handlers_ok H n \<longleftrightarrow>
     (\<forall>i h. aget H i = Some h \<longrightarrow> (\<exists>q < n. input_queue h = Some q))
     \<and> (\<forall>i h j g. aget H i = Some h \<longrightarrow> aget H j = Some g \<longrightarrow> input_queue h = input_queue g \<longrightarrow> i = j)"

definition routes_ok :: "handlers \<Rightarrow> RoutingTable \<Rightarrow> bool" where
  "routes_ok H rt \<longleftrightarrow> routing_wf rt
     \<and> (\<forall>k q. q \<in> set (get_destinations rt k) \<longrightarrow> (\<exists>i h. aget H i = Some h \<and> input_queue h = q))"

definition attached :: "handlers \<Rightarrow> string \<Rightarrow> bool" where
  "attached H i \<longleftrightarrow> is_valid_component_id i \<and> aget H i \<noteq> None"

definition sessions_ok :: "handlers \<Rightarrow> SessionManager \<Rightarrow> bool" where
  "sessions_ok H sm \<longleftrightarrow> (\<forall>r s. aget sm r = Some s \<longrightarrow> attached H (se_mgwcp_component_id s))"

definition retries_ok :: "'j MGWCPConnection \<Rightarrow> bool" where
  "retries_ok c \<longleftrightarrow> awf (mc_pending_acks c)
     \<and> (\<forall>k p. aget (mc_pending_acks c) k = Some p \<longrightarrow> 0 \<le> pa_retry_count p \<and> pa_retry_count p \<le> MAX_RETRY_COUNT)"

definition connection_ok :: "handlers \<Rightarrow> 'j MGWCPConnection \<Rightarrow> bool" where
  "connection_ok H c \<longleftrightarrow> (mc_component_id c \<noteq> [] \<longrightarrow> is_valid_component_id (mc_component_id c))
     \<and> (mc_state c = OPERATIONAL \<longrightarrow> attached H (mc_component_id c)) \<and> retries_ok c"

definition connections_ok :: "handlers \<Rightarrow> (int, 'j MGWCPConnection) amap \<Rightarrow> bool" where
  "connections_ok H cs \<longleftrightarrow> (\<forall>t c. aget cs t = Some c \<longrightarrow> mc_transport_client_id c = t \<and> connection_ok H c)"

definition bridge_inv :: "'j Bridge \<Rightarrow> bool" where
  "bridge_inv b \<longleftrightarrow> handlers_ok (br_transport_handlers b) (br_next_queue b)
     \<and> routes_ok (br_transport_handlers b) (br_routing_table b)
     \<and> sessions_ok (br_transport_handlers b) (br_session_manager b)
     \<and> connections_ok (br_transport_handlers b) (br_connections b) \<and> gc_wf (br_global_config b)"

definition gw_inv :: "'j gw_state \<Rightarrow> bool" where
  "gw_inv st \<longleftrightarrow> bridge_inv (snd st) \<and> connection_ok (br_transport_handlers (snd st)) (fst st)"

section \<open>Handlers grow\<close>

definition grows :: "handlers \<Rightarrow> handlers \<Rightarrow> bool" where
  "grows H H' \<longleftrightarrow> (\<forall>i h. aget H i = Some h \<longrightarrow> aget H' i = Some h)"

lemma grows_refl [simp]: "grows H H"
  by (simp add: grows_def)

lemma grows_put: "aget H i = None \<Longrightarrow> grows H (aput i h H)"
  by (auto simp: grows_def)

lemma attached_grows: "attached H i \<Longrightarrow> grows H H' \<Longrightarrow> attached H' i"
  by (auto simp: attached_def grows_def)

lemma routes_ok_grows: "routes_ok H rt \<Longrightarrow> grows H H' \<Longrightarrow> routes_ok H' rt"
  unfolding routes_ok_def grows_def by blast

lemma sessions_ok_grows: "sessions_ok H sm \<Longrightarrow> grows H H' \<Longrightarrow> sessions_ok H' sm"
  unfolding sessions_ok_def using attached_grows by blast

lemma connection_ok_grows: "connection_ok H c \<Longrightarrow> grows H H' \<Longrightarrow> connection_ok H' c"
  unfolding connection_ok_def using attached_grows by blast

lemma connections_ok_grows: "connections_ok H cs \<Longrightarrow> grows H H' \<Longrightarrow> connections_ok H' cs"
  unfolding connections_ok_def using connection_ok_grows by blast

section \<open>Pieces of the state\<close>

lemma handlers_ok_put:
  assumes "handlers_ok H n" "input_queue h = Some n"
  shows "handlers_ok (aput i h H) (Suc n)"
proof -
  have old: "\<exists>q < n. input_queue g = Some q" if "aget H j = Some g" for j g
    using assms(1) that unfolding handlers_ok_def by blast
  then have fresh: "input_queue g \<noteq> Some n" if "aget H j = Some g" for j g
    using that by fastforce
  have "\<exists>q < Suc n. input_queue g = Some q" if "aget (aput i h H) j = Some g" for j g
    using assms(2) that old [of j g] by (cases "j = i") (auto intro: less_SucI)
  moreover have "j = k" if "aget (aput i h H) j = Some g" "aget (aput i h H) k = Some g'" "input_queue g = input_queue g'" for j k g g'
    using assms that fresh [of j g] fresh [of k g'] unfolding handlers_ok_def
    by (cases "j = i"; cases "k = i") auto
  ultimately show ?thesis unfolding handlers_ok_def by blast
qed

lemma handlers_ok_Suc: "handlers_ok H n \<Longrightarrow> handlers_ok H (Suc n)"
  unfolding handlers_ok_def by (metis less_SucI)

lemma add_routes_ok:
  assumes "routes_ok H rt" "aget H i = Some h"
  shows "routes_ok H (add_routes g j ts (input_queue h) rt)"
proof (cases "input_queue h")
  case None
  then have "add_routes g j ts (input_queue h) rt = rt"
    by (induction ts arbitrary: rt) (simp_all add: add_routes_def table.add_null)
  with assms show ?thesis by simp
next
  case (Some q)
  have "\<exists>i h. aget H i = Some h \<and> input_queue h = p" if "p \<in> set (get_destinations (add_routes g j ts (Some q) rt) k)" for k p
  proof -
    have "p \<in> set (get_destinations rt k) \<or> p = Some q"
      using that unfolding add_routes_def table.dests_fold_add by (auto simp: set_replicate_conv_if split: if_splits)
    then show ?thesis using assms Some unfolding routes_ok_def by metis
  qed
  moreover have "routing_wf (add_routes g j ts (Some q) rt)"
    using assms(1) unfolding add_routes_def routes_ok_def by (intro table.ok_fold_add) simp
  ultimately show ?thesis unfolding routes_ok_def Some by blast
qed

lemma remove_routes_ok: "routes_ok H rt \<Longrightarrow> routes_ok H (remove_routes g j ts rt)"
  by (auto simp: routes_ok_def remove_routes_def table.ok_fold_remove table.dests_fold_remove split: if_splits)

lemma sessions_ok_modify:
  assumes "sessions_ok H sm" "\<And>s. se_mgwcp_component_id (f s) = se_mgwcp_component_id s"
  shows "sessions_ok H (snd (modify_session r f sm))"
  using assms unfolding sessions_ok_def by (auto simp: modify_session_def split: option.splits)

lemmas session_setters = set_assigned_mec_def set_routing_rules_created_def sm_update_keepalive_def
  set_vhc_dp_connected_def set_mec_dp_connected_def

lemma sessions_ok_set:
  assumes "sessions_ok H sm"
  shows "sessions_ok H (snd (set_assigned_mec r i sm))" "sessions_ok H (snd (set_routing_rules_created r v sm))"
    "sessions_ok H (snd (sm_update_keepalive now r sm))"
  unfolding session_setters by (rule sessions_ok_modify [OF assms], simp)+

lemma sessions_ok_remove: "sessions_ok H sm \<Longrightarrow> sessions_ok H (snd (remove_session r sm))"
  unfolding sessions_ok_def by (auto simp: remove_session_def split: option.splits)

lemma sessions_ok_create:
  assumes "sessions_ok H sm" "attached H i" "create_session now r i t n gc sm = Some (ok, sm')"
  shows "sessions_ok H sm'"
  using assms unfolding sessions_ok_def create_session_def
  by (auto split: if_splits option.splits)

section \<open>Connections\<close>

lemma retries_ok_send: "retries_ok c \<Longrightarrow> retries_ok (send_reliable_message ops lk now m c)"
  by (auto simp: retries_ok_def send_reliable_message_def Let_def MAX_RETRY_COUNT_def)

lemma retries_ok_timeouts:
  assumes "retries_ok c"
  shows "retries_ok (check_for_timeouts ops lk now c)"
proof -
  have wf: "awf (mc_pending_acks c)" using assms by (simp add: retries_ok_def)
  have "awf (mc_pending_acks (check_for_timeouts ops lk now c))"
    using wf by (simp add: check_for_timeouts_def Let_def) (intro amap.wf_fold_del, simp add: comp_def case_prod_beta)
  with assms show ?thesis
    unfolding retries_ok_def check_for_timeouts_get [OF wf]
    by (auto simp: age_pending_def MAX_RETRY_COUNT_def split: option.splits if_splits)
qed

lemma send_reliable_fields [simp]:
  "mc_component_id (send_reliable_message ops lk now m c) = mc_component_id c"
  "mc_state (send_reliable_message ops lk now m c) = mc_state c"
  "mc_transport_client_id (send_reliable_message ops lk now m c) = mc_transport_client_id c"
  by (simp_all add: send_reliable_message_def Let_def)

lemma timeouts_fields [simp]:
  "mc_component_id (check_for_timeouts ops lk now c) = mc_component_id c"
  "mc_state (check_for_timeouts ops lk now c) = mc_state c"
  "mc_transport_client_id (check_for_timeouts ops lk now c) = mc_transport_client_id c"
  by (simp_all add: check_for_timeouts_def Let_def)

lemma connection_ok_send: "connection_ok H c \<Longrightarrow> connection_ok H (send_reliable_message ops lk now m c)"
  by (simp add: connection_ok_def retries_ok_send)

lemma connection_ok_timeouts: "connection_ok H c \<Longrightarrow> connection_ok H (check_for_timeouts ops lk now c)"
  by (simp add: connection_ok_def retries_ok_timeouts)

lemma connection_ok_send_ack: "connection_ok H c \<Longrightarrow> connection_ok H (send_ack ops lk n c)"
  by (simp add: connection_ok_def send_ack_def retries_ok_def)

lemma connection_ok_ack:
  "connection_ok H c \<Longrightarrow> outcome_state (handle_ack ops p c) = Some c' \<Longrightarrow> connection_ok H c' \<and> mc_transport_client_id c' = mc_transport_client_id c"
  by (auto simp: connection_ok_def handle_ack_def retries_ok_def split: if_splits option.splits)

lemma connection_ok_init: "connection_ok H (mc_start lk (MGWCPConnection_init i t ip))"
  by (simp add: connection_ok_def MGWCPConnection_init_def mc_start_def retries_ok_def)

lemma connections_ok_put:
  "connections_ok H cs \<Longrightarrow> connection_ok H c \<Longrightarrow> mc_transport_client_id c = t \<Longrightarrow> connections_ok H (aput t c cs)"
  by (auto simp: connections_ok_def)

section \<open>Handlers of the bridge\<close>

lemma bridge_invD:
  assumes "bridge_inv b"
  shows "handlers_ok (br_transport_handlers b) (br_next_queue b)"
    "routes_ok (br_transport_handlers b) (br_routing_table b)"
    "sessions_ok (br_transport_handlers b) (br_session_manager b)"
    "connections_ok (br_transport_handlers b) (br_connections b)" "gc_wf (br_global_config b)"
  using assms by (simp_all add: bridge_inv_def)

lemma inv_send_om: "bridge_inv b \<Longrightarrow> bridge_inv (send_om_message ok m b)"
  by (simp add: send_om_message_def bridge_inv_def)

lemma send_om_fields [simp]:
  "br_transport_handlers (send_om_message ok m b) = br_transport_handlers b"
  "br_connections (send_om_message ok m b) = br_connections b"
  "br_routing_table (send_om_message ok m b) = br_routing_table b"
  "br_session_manager (send_om_message ok m b) = br_session_manager b"
  by (simp_all add: send_om_message_def)

lemma inv_sessions:
  "bridge_inv b \<Longrightarrow> sessions_ok (br_transport_handlers b) sm \<Longrightarrow> bridge_inv (b\<lparr>br_session_manager := sm\<rparr>)"
  by (simp add: bridge_inv_def)

lemma inv_routes:
  "bridge_inv b \<Longrightarrow> routes_ok (br_transport_handlers b) rt \<Longrightarrow> bridge_inv (b\<lparr>br_routing_table := rt\<rparr>)"
  by (simp add: bridge_inv_def)

text \<open>What a handler of a gateway message may change of the bridge: the connection table stays, handlers are only added.\<close>

definition gw_frame :: "'j Bridge \<Rightarrow> 'j Bridge \<Rightarrow> bool" where
  "gw_frame b b' \<longleftrightarrow> br_connections b' = br_connections b \<and> br_routing_table b' = br_routing_table b
     \<and> grows (br_transport_handlers b) (br_transport_handlers b')"

lemma gw_frame_refl [simp]: "gw_frame b b"
  by (simp add: gw_frame_def)

lemma open_session_inv:
  assumes inv: "bridge_inv b" and run: "outcome_state (open_session ops now i m b) = Some b'"
    and src: "js_int ops (js_get ops m ''message_code'') = Some 100 \<Longrightarrow> attached (br_transport_handlers b) i"
  shows "bridge_inv b' \<and> gw_frame b b' \<and> br_transport_handlers b' = br_transport_handlers b"
proof -
  have created: "bridge_inv (b\<lparr>br_session_manager := sm\<rparr>)"
    if "create_session now r i t n (br_global_config b) (br_session_manager b) = Some (ok, sm)"
      "js_int ops (js_get ops m ''message_code'') = Some 100" for r t n ok sm
    using inv_sessions [OF inv sessions_ok_create [OF bridge_invD(3) [OF inv] src [OF that(2)] that(1)]] .
  show ?thesis
    using inv run created unfolding open_session_def
    by (auto simp: gw_frame_def split: if_splits lookup.splits option.splits prod.splits)
qed

lemma forward_inv:
  assumes inv: "bridge_inv b" and run: "outcome_state (forward_message_to_om ops ok now i m b) = Some b'"
    and src: "js_int ops (js_get ops m ''message_code'') = Some 100 \<Longrightarrow> attached (br_transport_handlers b) i"
  shows "bridge_inv b' \<and> gw_frame b b' \<and> br_transport_handlers b' = br_transport_handlers b"
proof -
  have opened: "bridge_inv b1 \<and> gw_frame b b1 \<and> br_transport_handlers b1 = br_transport_handlers b"
    if "outcome_state (open_session ops now i m b) = Some b1" for b1
    by (rule open_session_inv [OF inv that src])
  show ?thesis
    using opened run unfolding forward_message_to_om_def
    by (cases "open_session ops now i m b") (auto simp: Let_def inv_send_om gw_frame_def split: if_splits)
qed

lemma create_handler_inv:
  assumes "bridge_inv b" "outcome_state (create_transport_handler_for_mgwdp i host port b) = Some (ok, b')"
  shows "bridge_inv b' \<and> gw_frame b b' \<and>
    (create_transport_handler_for_mgwdp i host port b = Returned (True, b') \<longrightarrow> aget (br_transport_handlers b') i \<noteq> None)"
proof (cases "aget (br_transport_handlers b) i")
  case None
  show ?thesis
  proof (cases "TransportHandler_init i host port (Some (br_next_queue b)) True 5 1000 8192 200 2")
    case (Inl e)
    with None assms show ?thesis
      by (auto simp: create_transport_handler_for_mgwdp_def bridge_inv_def gw_frame_def handlers_ok_Suc)
  next
    case (Inr h)
    then have q: "input_queue (th_start h) = Some (br_next_queue b)"
      by (auto simp: TransportHandler_init_def th_start_def Let_def split: if_splits)
    note g = grows_put [OF None, of "th_start h"]
    from assms Inr None show ?thesis
      using handlers_ok_put [OF bridge_invD(1) [OF assms(1)] q, of i] routes_ok_grows [OF bridge_invD(2) [OF assms(1)] g]
        sessions_ok_grows [OF bridge_invD(3) [OF assms(1)] g] connections_ok_grows [OF bridge_invD(4) [OF assms(1)] g] g
      by (auto simp: create_transport_handler_for_mgwdp_def bridge_inv_def gw_frame_def)
  qed
next
  case (Some h)
  with assms show ?thesis by (auto simp: create_transport_handler_for_mgwdp_def)
qed

section \<open>Messages from gateways\<close>

definition gw_keeps :: "'j gw_state \<Rightarrow> 'j gw_state \<Rightarrow> bool" where
  "gw_keeps st st' \<longleftrightarrow> gw_inv st' \<and> gw_frame (snd st) (snd st')
     \<and> mc_transport_client_id (fst st') = mc_transport_client_id (fst st)"

lemma gw_keeps_refl: "gw_inv st \<Longrightarrow> gw_keeps st st"
  by (simp add: gw_keeps_def)

lemma gw_frame_trans: "gw_frame a b \<Longrightarrow> gw_frame b c \<Longrightarrow> gw_frame a c"
  by (auto simp: gw_frame_def grows_def)

lemma gw_keeps_trans: "gw_keeps s t \<Longrightarrow> gw_keeps t u \<Longrightarrow> gw_keeps s u"
  unfolding gw_keeps_def using gw_frame_trans by metis

lemma mgw_message_code: "json_laws ops \<Longrightarrow> js_int ops (js_get ops (mgw_message ops i code t p) ''message_code'') = Some code"
  by (simp add: mgw_message_def json_object_get json_scalars)

lemma forward_from_keeps:
  assumes "json_laws ops" and inv: "gw_inv (c, b)"
    and run: "outcome_state (forward_from ops ok now code t p (c, b)) = Some st'"
    and src: "code = 100 \<Longrightarrow> attached (br_transport_handlers b) (mc_component_id c)"
  shows "gw_keeps (c, b) st'"
proof -
  let ?m = "mgw_message ops (mc_component_id c) code t p"
  have fwd: "bridge_inv b' \<and> gw_frame b b' \<and> br_transport_handlers b' = br_transport_handlers b"
    if "outcome_state (forward_message_to_om ops ok now (mc_component_id c) ?m b) = Some b'" for b'
    by (rule forward_inv [OF _ that]) (use inv src mgw_message_code [OF assms(1)] in \<open>auto simp: gw_inv_def\<close>)
  show ?thesis
    using fwd run inv unfolding forward_from_def
    by (cases "forward_message_to_om ops ok now (mc_component_id c) ?m b") (auto simp: gw_keeps_def gw_inv_def)
qed

lemma dp_info_keeps:
  assumes inv: "gw_inv (c, b)" and id: "is_valid_component_id (mc_component_id c)"
    and run: "outcome_state (handle_dp_info ops lk now p (c, b)) = Some st'"
  shows "gw_keeps (c, b) st'"
proof -
  have made: "bridge_inv b' \<and> gw_frame b b' \<and>
      (create_transport_handler_for_mgwdp (mc_component_id c) h q b = Returned (True, b') \<longrightarrow>
         aget (br_transport_handlers b') (mc_component_id c) \<noteq> None)"
    if "outcome_state (create_transport_handler_for_mgwdp (mc_component_id c) h q b) = Some (ok, b')" for h q ok b'
    by (rule create_handler_inv [OF _ that]) (use inv in \<open>simp add: gw_inv_def\<close>)
  have conn: "connection_ok (br_transport_handlers b') c" if "gw_frame b b'" for b'
    using inv connection_ok_grows that by (auto simp: gw_inv_def gw_frame_def)
  show ?thesis
  proof (cases "mc_state c = CONNECTING")
    case True
    have "gw_keeps (c, b) (send_dp_connection_confirmed ops lk now (set_state OPERATIONAL (c\<lparr>mc_dp_port := q, mc_dp_host := h\<rparr>)), b')"
      if "create_transport_handler_for_mgwdp (mc_component_id c) h q b = Returned (True, b')" for h q b'
      using made [of h q True b'] that conn [of b'] id
      by (simp add: gw_keeps_def gw_inv_def send_dp_connection_confirmed_def)
        (intro conjI connection_ok_send, simp_all add: connection_ok_def set_state_def attached_def retries_ok_def)
    moreover have "gw_keeps (c, b) (set_state WAITING_FOR_DP (c\<lparr>mc_dp_port := q, mc_dp_host := h\<rparr>), b')"
      "gw_keeps (c, b) (c\<lparr>mc_dp_port := q, mc_dp_host := h\<rparr>, b')"
      if "outcome_state (create_transport_handler_for_mgwdp (mc_component_id c) h q b) = Some (ok, b')" for h q ok b'
      using made [OF that] conn [of b'] True
      by (simp_all add: gw_keeps_def gw_inv_def connection_ok_def set_state_def retries_ok_def)
    ultimately show ?thesis
      using run True gw_keeps_refl [OF inv]
      unfolding handle_dp_info_def establish_mgwcp_data_plane_connection_def
      by (auto simp: Let_def split: if_splits option.splits outcome.splits prod.splits bool.splits)
  next
    case False
    with run gw_keeps_refl [OF inv] show ?thesis by (simp add: handle_dp_info_def)
  qed
qed

lemma offload_keeps:
  assumes "json_laws ops" "gw_inv (c, b)" "outcome_state (handle_offload_request ops ok now p (c, b)) = Some st'"
  shows "gw_keeps (c, b) st'"
proof (cases "mc_state c = OPERATIONAL")
  case True
  have "attached (br_transport_handlers b) (mc_component_id c)"
    using assms(2) True by (simp add: gw_inv_def connection_ok_def)
  with assms forward_from_keeps [OF assms(1,2)] gw_keeps_refl [OF assms(2)] True show ?thesis
    by (auto simp: handle_offload_request_def split: if_splits option.splits)
next
  case False
  with assms gw_keeps_refl [OF assms(2)] show ?thesis by (simp add: handle_offload_request_def)
qed

lemma keepalive_keeps:
  assumes "json_laws ops" "gw_inv (c, b)" "outcome_state (handle_session_keepalive ops ok now p (c, b)) = Some st'"
  shows "gw_keeps (c, b) st'"
proof -
  let ?b = "\<lambda>r. b\<lparr>br_session_manager := snd (sm_update_keepalive now r (br_session_manager b))\<rparr>"
  have inv: "gw_inv (c, ?b r)" for r
    using assms(2) sessions_ok_set(3) by (simp add: gw_inv_def bridge_inv_def)
  have "gw_keeps (c, b) (c, ?b r)" for r using inv [of r] by (simp add: gw_keeps_def gw_frame_def)
  then have "gw_keeps (c, b) st'" if "outcome_state (forward_from ops ok now 101 t p (c, ?b r)) = Some st'" for r t
    using forward_from_keeps [OF assms(1) inv [of r] that] gw_keeps_trans by fastforce
  with assms gw_keeps_refl [OF assms(2)] show ?thesis
    by (auto simp: handle_session_keepalive_def split: if_splits option.splits)
qed

lemma terminate_keeps:
  assumes "json_laws ops" "gw_inv (c, b)" "outcome_state (handle_session_terminate_request ops ok now p (c, b)) = Some st'"
  shows "gw_keeps (c, b) st'"
  using assms forward_from_keeps [OF assms(1,2)] gw_keeps_refl [OF assms(2)]
  by (auto simp: handle_session_terminate_request_def split: if_splits option.splits)

lemma no_empty_id [simp]: "\<not> is_valid_component_id []"
  by (simp add: is_valid_component_id_def find_char_def)

lemma bind_keeps:
  assumes "gw_inv (c, b)" "bind_component_id i (c, b) = (ok, st')"
  shows "gw_keeps (c, b) st' \<and> (ok \<longrightarrow> is_valid_component_id (mc_component_id (fst st')) \<and> mc_component_id (fst st') = i)"
  using assms
  by (auto simp: bind_component_id_def gw_keeps_def gw_inv_def bridge_inv_def gw_frame_def connection_ok_def retries_ok_def
      attached_def split: if_splits)

text \<open>The ways a received message can be treated.\<close>

lemma received_cases:
  assumes run: "outcome_state (handle_received_message ops lk ok now m (c, b)) = Some st'"
  obtains (ignored) "st' = (c, b)"
  | (ack) p c' where "outcome_state (handle_ack ops p c) = Some c'" "st' = (c', b)"
  | (refused) i where "bind_component_id i (c, b) = (False, st')"
  | (handled) i c1 b1 n p where "bind_component_id i (c, b) = (True, c1, b1)"
      "st' = (send_ack ops lk n c1, b1) \<or> outcome_state (handle_dp_info ops lk now p (send_ack ops lk n c1, b1)) = Some st'
       \<or> outcome_state (handle_offload_request ops ok now p (send_ack ops lk n c1, b1)) = Some st'
       \<or> outcome_state (handle_session_keepalive ops ok now p (send_ack ops lk n c1, b1)) = Some st'
       \<or> outcome_state (handle_session_terminate_request ops ok now p (send_ack ops lk n c1, b1)) = Some st'"
proof -
  let ?p = "js_get ops m ''payload''"
  have acked: thesis if "handle_ack ops ?p c = Returned c' \<or> handle_ack ops ?p c = Thrown c'" "st' = (c', b)" for c'
    by (rule ack [of ?p c']) (use that in auto)
  show thesis
    using run unfolding handle_received_message_def Let_def
    by (auto split: if_splits option.splits outcome.splits prod.splits bool.splits
        intro: ignored acked refused handled)
qed

lemma received_keeps:
  assumes "json_laws ops" and inv: "gw_inv (c, b)"
    and run: "outcome_state (handle_received_message ops lk ok now m (c, b)) = Some st'"
  shows "gw_keeps (c, b) st'"
  using run
proof (cases rule: received_cases)
  case (handled i c1 b1 n p)
  let ?c = "send_ack ops lk n c1"
  note bk = bind_keeps [OF inv handled(1)]
  have step: "gw_keeps (c, b) (?c, b1)" and st: "gw_inv (?c, b1)"
    using bk connection_ok_send_ack [of "br_transport_handlers b1" c1]
    by (simp_all add: gw_keeps_def gw_inv_def) (simp add: send_ack_def)
  have id: "is_valid_component_id (mc_component_id ?c)" using bk by (auto simp: send_ack_def)
  have "gw_keeps (?c, b1) st'"
    using handled(2) dp_info_keeps [OF st id] offload_keeps [OF assms(1) st] keepalive_keeps [OF assms(1) st]
      terminate_keeps [OF assms(1) st] gw_keeps_refl [OF st] by blast
  with step show ?thesis by (rule gw_keeps_trans)
next
  case (ack p c')
  with inv connection_ok_ack [OF _ ack(1)] show ?thesis by (auto simp: gw_keeps_def gw_inv_def)
qed (use gw_keeps_refl [OF inv] bind_keeps [OF inv] in auto)

lemma iteration_keeps:
  assumes "json_laws ops" "gw_inv (c, b)" "connection_iteration ops lk ok now inp (c, b) = Some (go, st')"
  shows "gw_keeps (c, b) st'"
proof -
  have aged: "gw_keeps (c, b) (check_for_timeouts ops lk now c1, b1)" if "gw_keeps (c, b) (c1, b1)" for c1 b1
    using that by (simp add: gw_keeps_def gw_inv_def connection_ok_timeouts)
  have rcv: "gw_keeps (c, b) st1" if "handle_received_message ops lk ok now m (c, b) = Returned st1 \<or>
      handle_received_message ops lk ok now m (c, b) = Thrown st1" for m st1
    by (rule received_keeps [OF assms(1,2), of lk ok now m]) (use that in auto)
  show ?thesis
    using assms(3) gw_keeps_refl [OF assms(2)] unfolding connection_iteration_def Let_def
    by (auto intro: rcv intro!: aged split: if_splits cp_input.splits option.splits outcome.splits prod.splits)
qed

section \<open>Messages from the offloading manager\<close>

lemma inv_with_connection:
  assumes "bridge_inv b" "\<And>c. connection_ok (br_transport_handlers b) c \<Longrightarrow> connection_ok (br_transport_handlers b) (f c)"
    and "\<And>c. mc_transport_client_id (f c) = mc_transport_client_id c"
  shows "bridge_inv (with_connection i f b)"
proof -
  have "connections_ok (br_transport_handlers b) (aput t (f c) (br_connections b))" if "aget (br_connections b) t = Some c" for t c
    using assms bridge_invD(4) [OF assms(1)] that by (intro connections_ok_put) (auto simp: connections_ok_def)
  with assms(1) show ?thesis by (auto simp: with_connection_def bridge_inv_def split: option.splits)
qed

lemma inv_approved_to: "bridge_inv b \<Longrightarrow> bridge_inv (with_connection i (send_session_approved ops lk now p) b)"
  by (rule inv_with_connection) (simp_all add: send_session_approved_def connection_ok_send)

lemma inv_denied_to: "bridge_inv b \<Longrightarrow> bridge_inv (with_connection i (send_session_denied ops lk now r why) b)"
  by (rule inv_with_connection) (simp_all add: send_session_denied_def connection_ok_send)

lemma inv_create_rules:
  assumes inv: "bridge_inv b"
  shows "bridge_inv (create_routing_rules_for_session r b)"
proof -
  have add1: "routes_ok (br_transport_handlers b) (add_routes g i ts (input_queue h) rt)"
    if "aget (br_transport_handlers b) j = Some h" "routes_ok (br_transport_handlers b) rt" for g i ts h rt j
    by (rule add_routes_ok [OF that(2,1)])
  note D = bridge_invD [OF inv]
  show ?thesis
    using inv D sessions_ok_set(2) [OF D(3)] add1 unfolding create_routing_rules_for_session_def Let_def
    by (auto simp: bridge_inv_def split: option.splits parsed_id.splits if_splits)
qed

lemma inv_remove_rules:
  assumes inv: "bridge_inv b"
  shows "bridge_inv (remove_routing_rules_for_session r b)"
proof -
  note D = bridge_invD [OF inv]
  show ?thesis
    using inv D sessions_ok_set(2) [OF D(3)] remove_routes_ok unfolding remove_routing_rules_for_session_def Let_def
    by (auto simp: bridge_inv_def split: option.splits parsed_id.splits if_splits)
qed

lemma inv_assign: "bridge_inv b \<Longrightarrow> bridge_inv (b\<lparr>br_session_manager := snd (set_assigned_mec r i (br_session_manager b))\<rparr>)"
  by (simp add: inv_sessions sessions_ok_set bridge_invD)

lemma inv_approved: "bridge_inv b \<Longrightarrow> bridge_inv (handle_session_approved ops lk now m b)"
  unfolding handle_session_approved_def Let_def
  by (auto intro!: inv_approved_to inv_create_rules inv_assign split: option.split)

lemma inv_denied:
  assumes "bridge_inv b" "outcome_state (handle_session_denied ops lk now m b) = Some b'"
  shows "bridge_inv b'"
proof -
  have "bridge_inv (b\<lparr>br_session_manager := snd (remove_session r (br_session_manager b))\<rparr>)" for r
    using assms(1) by (simp add: inv_sessions sessions_ok_remove bridge_invD)
  then show ?thesis
    using assms unfolding handle_session_denied_def Let_def
    by (auto intro: inv_denied_to split: if_splits option.splits)
qed

lemma inv_om_message:
  "bridge_inv b \<Longrightarrow> outcome_state (handle_om_message ops lk now m b) = Some b' \<Longrightarrow> bridge_inv b'"
  using inv_approved inv_denied unfolding handle_om_message_def by (auto split: if_splits option.splits)

lemma inv_om_iteration:
  assumes "bridge_inv b" "om_iteration ops lk now inp b = Returned (go, b')"
  shows "bridge_inv b'"
proof -
  have "bridge_inv (b\<lparr>br_om_connected := False\<rparr>)" using assms(1) by (simp add: bridge_inv_def)
  moreover have "bridge_inv b1" if "handle_om_message ops lk now m b = Returned b1" for m b1
    by (rule inv_om_message [OF assms(1), of ops lk now m]) (simp add: that)
  ultimately show ?thesis
    using assms unfolding om_iteration_def by (auto split: if_splits cp_input.splits option.splits outcome.splits)
qed

lemma check_session_timeouts_id: "check_session_timeouts now b = b"
  by (simp add: check_session_timeouts_def find_expired_empty)

section \<open>Reachable states\<close>

text \<open>A step of the bridge. A gateway's thread works on the connection stored for it. When a gateway disconnects, its
  connection is told to stop; what follows is in the theory of the gateway server.\<close>

inductive br_step :: "'j json_ops \<Rightarrow> 'j Bridge \<Rightarrow> 'j Bridge \<Rightarrow> bool" for ops where
  new_connection: "br_step ops b (handle_new_mgwcp_connection lk tid ip b)"
| gateway: "aget (br_connections b) tid = Some c \<Longrightarrow> connection_iteration ops lk ok now inp (c, b) = Some (go, c', b') \<Longrightarrow>
    br_step ops b (b'\<lparr>br_connections := aput tid c' (br_connections b')\<rparr>)"
| manager: "om_iteration ops lk now inp b = Returned (go, b') \<Longrightarrow> br_step ops b b'"
| maintenance: "br_step ops b (maintenance_iteration now b)"
| stopping: "aget (br_connections b) tid = Some c \<Longrightarrow>
    br_step ops b (b\<lparr>br_connections := aput tid (c\<lparr>mc_running := False\<rparr>) (br_connections b)\<rparr>)"

inductive br_reachable :: "'j json_ops \<Rightarrow> GlobalConfig \<Rightarrow> 'j Bridge \<Rightarrow> bool" for ops gc where
  start: "br_reachable ops gc (Bridge_init\<lparr>br_global_config := gc, br_om_connected := True, br_running := True\<rparr>)"
| step: "br_reachable ops gc b \<Longrightarrow> br_step ops b b' \<Longrightarrow> br_reachable ops gc b'"

inductive_cases br_step_cases: "br_step ops b b'"

lemma inv_step:
  assumes "br_step ops b b'" "json_laws ops" "bridge_inv b"
  shows "bridge_inv b'"
  using assms(1)
proof cases
  case (new_connection lk tid ip)
  have "connections_ok (br_transport_handlers b)
     (aput tid (mc_start lk (MGWCPConnection_init (br_next_connection_id b) tid ip)) (br_connections b))"
    by (rule connections_ok_put [OF bridge_invD(4) [OF assms(3)] connection_ok_init])
      (simp add: mc_start_def MGWCPConnection_init_def)
  with assms(3) new_connection show ?thesis by (simp add: handle_new_mgwcp_connection_def bridge_inv_def)
next
  case (gateway tid c lk ok now inp go c' b1)
  have c: "mc_transport_client_id c = tid" "connection_ok (br_transport_handlers b) c"
    using bridge_invD(4) [OF assms(3)] gateway(2) by (simp_all add: connections_ok_def)
  have "gw_keeps (c, b) (c', b1)"
    by (rule iteration_keeps [OF assms(2) _ gateway(3)]) (simp add: gw_inv_def assms(3) c)
  then have "bridge_inv b1" "connection_ok (br_transport_handlers b1) c'" "mc_transport_client_id c' = tid"
    using c by (simp_all add: gw_keeps_def gw_inv_def)
  with gateway(1) connections_ok_put [OF bridge_invD(4) [of b1]] show ?thesis by (simp add: bridge_inv_def)
next
  case (stopping tid c)
  have "connections_ok (br_transport_handlers b) (aput tid (c\<lparr>mc_running := False\<rparr>) (br_connections b))"
    using bridge_invD(4) [OF assms(3)] stopping(2)
    by (intro connections_ok_put) (simp_all add: connections_ok_def connection_ok_def retries_ok_def)
  with assms(3) stopping(1) show ?thesis by (simp add: bridge_inv_def)
qed (use assms(3) inv_om_iteration in \<open>auto simp: maintenance_iteration_def check_session_timeouts_id\<close>)

lemma reachable_inv:
  assumes "br_reachable ops gc b" "json_laws ops" "gc_wf gc"
  shows "bridge_inv b"
  using assms(1)
proof induction
  case start
  show ?case using assms(3)
    by (simp add: bridge_inv_def Bridge_init_def handlers_ok_def routes_ok_def sessions_ok_def connections_ok_def
        routing_wf_def RoutingTable_init_def get_destinations_def)
qed (use inv_step assms(2) in blast)

end
