(* ===== verification/Bridge_Example.thy ===== *)
theory Bridge_Example
  imports Bridge_Invariant
begin

text \<open>
  A small session on the bridge, for the witnesses of its properties: the vehicle gateway 60:5 and the MEC gateway 70:1
  connect and announce their data planes, the vehicle asks for task 7 and the offloading manager assigns the MEC. The
  JSON instance parses the texts of the example only.
\<close>

section \<open>Turns of the threads as functions\<close>

definition gateway_turn :: "'j json_ops \<Rightarrow> link \<Rightarrow> bool \<Rightarrow> int \<Rightarrow> int \<Rightarrow> cp_input \<Rightarrow> 'j Bridge \<Rightarrow> 'j Bridge" where
  "gateway_turn ops lk ok now tid inp b =
     (case aget (br_connections b) tid of
        None \<Rightarrow> b
      | Some c \<Rightarrow>
          (case connection_iteration ops lk ok now inp (c, b) of
             None \<Rightarrow> b
           | Some (_, c', b') \<Rightarrow> b'\<lparr>br_connections := aput tid c' (br_connections b')\<rparr>))"

definition manager_turn :: "'j json_ops \<Rightarrow> link \<Rightarrow> int \<Rightarrow> cp_input \<Rightarrow> 'j Bridge \<Rightarrow> 'j Bridge" where
  "manager_turn ops lk now inp b = (case om_iteration ops lk now inp b of Returned (_, b') \<Rightarrow> b' | _ \<Rightarrow> b)"

lemma gateway_turn_reachable: "br_reachable ops gc b \<Longrightarrow> br_reachable ops gc (gateway_turn ops lk ok now tid inp b)"
  by (auto simp: gateway_turn_def split: option.splits intro: br_reachable.step br_step.gateway)

lemma manager_turn_reachable: "br_reachable ops gc b \<Longrightarrow> br_reachable ops gc (manager_turn ops lk now inp b)"
  by (auto simp: manager_turn_def split: outcome.splits intro: br_reachable.step br_step.manager)

section \<open>The messages\<close>

definition demo_message :: "string \<Rightarrow> int \<Rightarrow> int \<Rightarrow> (string \<times> json_tree) list \<Rightarrow> json_tree" where
  "demo_message i code seq p = JObject [(''component_id'', JString i), (''message_code'', JInt code),
     (''message_type'', JString ''T''), (''sequence_number'', JInt seq), (''payload'', JObject p)]"

definition demo_texts :: "(string \<times> json_tree) list" where
  "demo_texts =
     [(''dp5'', demo_message ''60:5'' 103 1 [(''dp_host'', JString ''0.0.0.0''), (''dp_port'', JInt 6000)]),
      (''dp1'', demo_message ''70:1'' 103 1 [(''dp_host'', JString ''10.0.0.7''), (''dp_port'', JInt 6000)]),
      (''rq'', demo_message ''60:5'' 100 2 [(''request_id'', JString ''r''), (''task_id'', JInt 7), (''task_name'', JString ''t'')]),
      (''ok'', demo_message ''1:1'' 200 3 [(''request_id'', JString ''r''), (''assigned_mec_id'', JString ''70:1'')])]"

definition demo_ops :: "json_tree json_ops" where "demo_ops = tree_ops\<lparr>js_parse := map_of demo_texts\<rparr>"

definition demo_link :: link where "demo_link = \<lparr>lk_connected = (\<lambda>i. True), lk_send_ok = (\<lambda>i. True)\<rparr>"

section \<open>The session\<close>

definition demo_gc :: GlobalConfig where
  "demo_gc = store_task \<lparr>tk_task_id = 7, tk_task_name = ''t'', tk_input_message_types = [11, 12],
     tk_output_message_types = [21]\<rparr> GlobalConfig_init"

definition demo_operational :: "json_tree Bridge" where
  "demo_operational =
     gateway_turn demo_ops demo_link True 0 5 (Bytes ''dp1'') (
     gateway_turn demo_ops demo_link True 0 4 (Bytes ''dp5'') (
     handle_new_mgwcp_connection demo_link 5 ''10.0.0.7'' (
     handle_new_mgwcp_connection demo_link 4 ''10.0.0.5''
       (Bridge_init\<lparr>br_global_config := demo_gc, br_om_connected := True, br_running := True\<rparr>))))"

definition demo_approved :: "json_tree Bridge" where
  "demo_approved = manager_turn demo_ops demo_link 0 (Bytes ''ok'')
     (gateway_turn demo_ops demo_link True 0 4 (Bytes ''rq'') demo_operational)"


lemma demo_ids:
  "is_valid_component_id ''60:5''" "is_valid_component_id ''70:1''"
  "parse_group_id ''60:5'' = GroupId 60 5" "parse_group_id ''70:1'' = GroupId 70 1"
  by code_simp+

lemma demo_numbers: "to_int32 900 = 900" "to_int32 103 = 103" "to_int32 6000 = 6000" "to_int32 1 = 1" "to_int32 100 = 100"
  "to_int32 200 = 200" "to_int32 2 = 2" "to_int32 3 = 3"
  by code_simp+

definition fresh_handler :: "string \<Rightarrow> string \<Rightarrow> int \<Rightarrow> nat \<Rightarrow> TransportHandler" where
  "fresh_handler i host port q = (case TransportHandler_init i host port (Some q) True 5 1000 8192 200 2 of Inr h \<Rightarrow> th_start h)"

lemma create_handler_fresh:
  assumes "aget (br_transport_handlers b) i = None" "i \<noteq> []" "host \<noteq> []" "0 < port" "port \<le> 65535"
  shows "create_transport_handler_for_mgwdp i host port b =
    Returned (True, b\<lparr>br_next_queue := br_next_queue b + 1,
       br_transport_handlers := aput i (fresh_handler i host port (br_next_queue b)) (br_transport_handlers b)\<rparr>)"
  using assms by (simp add: create_transport_handler_for_mgwdp_def fresh_handler_def TransportHandler_init_def)

lemma fresh_handler_queue: 
  assumes "i \<noteq> []" "host \<noteq> []" "0 < port" "port \<le> 65535"
  shows "input_queue (fresh_handler i host port q) = Some q"
  using assms by (simp add: fresh_handler_def TransportHandler_init_def th_start_def)

lemmas demo_eval = gateway_turn_def connection_iteration_def handle_received_message_def
  handle_new_mgwcp_connection_def demo_ops_def tree_ops_def demo_texts_def demo_message_def demo_link_def Bridge_init_def
  mc_start_def MGWCPConnection_init_def validate_message_structure_def js_contains_def js_get_def js_value_def demo_ids demo_numbers
  bind_component_id_def send_ack_def handle_dp_info_def establish_mgwcp_data_plane_connection_def create_handler_fresh
  set_state_def send_dp_connection_confirmed_def send_reliable_message_def mgw_message_def check_for_timeouts_def
  ack_overdue_def age_pending_def ACK_TIMEOUT_def MAX_RETRY_COUNT_def fresh_handler_queue

lemmas session_eval = manager_turn_def om_iteration_def handle_om_message_def handle_session_approved_def payload_request_id_def
  set_assigned_mec_def modify_session_def create_routing_rules_for_session_def get_session_def add_routes_def
  with_connection_def send_session_approved_def handle_offload_request_def forward_from_def forward_message_to_om_def
  open_session_def create_session_def get_task_config_def demo_gc_def store_task_def GlobalConfig_init_def BRIDGE_COMPONENT_ID_def
  send_om_message_def set_routing_rules_created_def RoutingTable_init_def

lemma demo_laws: "json_laws demo_ops"
  using tree_laws by (simp add: demo_ops_def json_laws_def)

lemma demo_gc_wf: "gc_wf demo_gc"
  unfolding demo_gc_def by (rule gc_wf_store) (simp add: gc_wf_def GlobalConfig_init_def)

lemma demo_operational_reachable: "br_reachable demo_ops demo_gc demo_operational"
  unfolding demo_operational_def
  by (intro gateway_turn_reachable br_reachable.step [OF _ br_step.new_connection] br_reachable.start)

lemma demo_approved_reachable: "br_reachable demo_ops demo_gc demo_approved"
  unfolding demo_approved_def by (intro manager_turn_reachable gateway_turn_reachable demo_operational_reachable)

lemma demo_routes:
  "get_destinations (br_routing_table demo_approved) (construct_routing_key 60 5 11) = [Some 1]"
  "get_destinations (br_routing_table demo_approved) (construct_routing_key 70 1 21) = [Some 0]"
  by (simp_all add: demo_approved_def demo_operational_def demo_eval session_eval Let_def get_destinations_def add_route_def
      construct_routing_key_def)

end
