(* ===== verification/Bridge_Guarantees.thy ===== *)
theory Bridge_Guarantees
  imports Bridge_Example
begin

text \<open>
  What the bridge control plane guarantees: consistency of its tables in every reachable state, what an approval adds to
  the routing table and that nothing ever removes it, the fate of a denial, forwarding of requests, the binding of component ids
  to connections, the retry schedule of unacknowledged messages, and what a type error of the offloading manager does.
\<close>

section \<open>Consistency\<close>

text \<open>C6: the tables of the bridge fit together in every reachable state. Whatever gateways and the offloading manager
  send, every destination in the routing table is the queue of exactly one data plane handler, every session belongs to a gateway with a
  valid id and a handler, and an operational connection has its handler.\<close>

theorem bridge_tables_consistent:
  assumes "br_reachable ops gc b" "json_laws ops" "gc_wf gc"
  shows "(\<forall>k q. q \<in> set (get_destinations (br_routing_table b) k) \<longrightarrow>
            (\<exists>!i. \<exists>h. aget (br_transport_handlers b) i = Some h \<and> input_queue h = q))
     \<and> (\<forall>r s. get_session (br_session_manager b) r = Some s \<longrightarrow>
            is_valid_component_id (se_mgwcp_component_id s) \<and> aget (br_transport_handlers b) (se_mgwcp_component_id s) \<noteq> None)
     \<and> (\<forall>t c. aget (br_connections b) t = Some c \<longrightarrow> mc_transport_client_id c = t
            \<and> (mc_state c = OPERATIONAL \<longrightarrow> aget (br_transport_handlers b) (mc_component_id c) \<noteq> None))"
proof -
  note D = bridge_invD [OF reachable_inv [OF assms]]
  have "\<exists>!i. \<exists>h. aget (br_transport_handlers b) i = Some h \<and> input_queue h = q"
    if mem: "q \<in> set (get_destinations (br_routing_table b) k)" for k q
  proof -
    obtain i h where ih: "aget (br_transport_handlers b) i = Some h" "input_queue h = q"
      using D(2) mem unfolding routes_ok_def by blast
    then show ?thesis using D(1) unfolding handlers_ok_def by blast
  qed
  with D(3,4) show ?thesis
    unfolding sessions_ok_def connections_ok_def connection_ok_def attached_def get_session_def by blast
qed

theorem bridge_tables_consistent_witness:
  "br_reachable demo_ops demo_gc demo_approved
   \<and> Some 1 \<in> set (get_destinations (br_routing_table demo_approved) (construct_routing_key 60 5 11))
   \<and> (\<exists>!i. \<exists>h. aget (br_transport_handlers demo_approved) i = Some h \<and> input_queue h = Some 1)"
proof -
  have mem: "Some 1 \<in> set (get_destinations (br_routing_table demo_approved) (construct_routing_key 60 5 11))"
    using demo_routes(1) by simp
  with bridge_tables_consistent [OF demo_approved_reachable demo_laws demo_gc_wf] demo_approved_reachable
  show ?thesis by blast
qed

section \<open>Routes\<close>

lemma dests_add_routes:
  "get_destinations (add_routes g i ts (Some q) rt) k =
     get_destinations rt k @ replicate (length (filter (\<lambda>t. construct_routing_key g i t = k) ts)) (Some q)"
  by (simp add: add_routes_def table.dests_fold_add)

lemma create_rules_table:
  assumes "get_session (br_session_manager b) r = Some s"
    and "parse_group_id (se_mgwcp_component_id s) = GroupId g i" "parse_group_id (se_assigned_mec_id s) = GroupId mg mi"
    and "aget (br_transport_handlers b) (se_mgwcp_component_id s) = Some gw"
    and "aget (br_transport_handlers b) (se_assigned_mec_id s) = Some mec"
  shows "br_routing_table (create_routing_rules_for_session r b) =
     add_routes mg mi (se_output_message_types s) (input_queue gw)
       (add_routes g i (se_input_message_types s) (input_queue mec) (br_routing_table b))"
proof -
  have "se_assigned_mec_id s \<noteq> []" using assms(3) by (auto simp: parse_group_id_def find_char_def)
  with assms show ?thesis by (simp add: create_routing_rules_for_session_def Let_def)
qed

text \<open>What an approval adds to the routing table. For an assigned session whose gateway and MEC have
  handlers, each input message type of the vehicle gets the queue of the MEC appended, each output type of
  the MEC gets the queue of the vehicle, and nothing else changes: earlier destinations stay in front, so approving the
  same session again delivers every message twice.\<close>

lemma approval_adds_session_routes:
  assumes "get_session (br_session_manager b) r = Some s"
    and "parse_group_id (se_mgwcp_component_id s) = GroupId g i" "parse_group_id (se_assigned_mec_id s) = GroupId mg mi"
    and "aget (br_transport_handlers b) (se_mgwcp_component_id s) = Some gw" "input_queue gw = Some q"
    and "aget (br_transport_handlers b) (se_assigned_mec_id s) = Some mec" "input_queue mec = Some p"
  shows "get_destinations (br_routing_table (create_routing_rules_for_session r b)) k =
     get_destinations (br_routing_table b) k
     @ replicate (length (filter (\<lambda>t. construct_routing_key g i t = k) (se_input_message_types s))) (Some p)
     @ replicate (length (filter (\<lambda>t. construct_routing_key mg mi t = k) (se_output_message_types s))) (Some q)"
  using assms by (simp add: create_rules_table dests_add_routes)

lemma demo_session:
  "\<exists>s gw mec. get_session (br_session_manager demo_approved) ''r'' = Some s \<and> se_mgwcp_component_id s = ''60:5''
     \<and> se_assigned_mec_id s = ''70:1'' \<and> se_input_message_types s = [11, 12] \<and> se_output_message_types s = [21]
     \<and> aget (br_transport_handlers demo_approved) ''60:5'' = Some gw \<and> input_queue gw = Some 0
     \<and> aget (br_transport_handlers demo_approved) ''70:1'' = Some mec \<and> input_queue mec = Some 1"
  by (simp add: demo_approved_def demo_operational_def demo_eval session_eval Let_def)

lemma with_connection_fields [simp]:
  "br_routing_table (with_connection i f b) = br_routing_table b"
  "br_transport_handlers (with_connection i f b) = br_transport_handlers b"
  "br_session_manager (with_connection i f b) = br_session_manager b"
  by (simp_all add: with_connection_def split: option.splits)

definition table_grows :: "RoutingTable \<Rightarrow> RoutingTable \<Rightarrow> bool" where
  "table_grows rt rt' \<longleftrightarrow> (\<forall>k. \<exists>qs. get_destinations rt' k = get_destinations rt k @ qs)"

lemma table_grows_refl [simp]: "table_grows rt rt"
  by (simp add: table_grows_def)

lemma table_grows_trans: "table_grows a b \<Longrightarrow> table_grows b c \<Longrightarrow> table_grows a c"
  unfolding table_grows_def by (metis append.assoc)

lemma table_grows_add: "table_grows rt (add_routes g i ts r rt)"
proof (induction ts arbitrary: rt)
  case (Cons t ts)
  have "table_grows rt (add_route (construct_routing_key g i t) r rt)" by (auto simp: table_grows_def)
  with Cons.IH show ?case unfolding add_routes_def by (auto intro: table_grows_trans)
qed (simp add: add_routes_def)

lemma table_grows_create: "table_grows (br_routing_table b) (br_routing_table (create_routing_rules_for_session r b))"
  unfolding create_routing_rules_for_session_def Let_def
  by (auto intro: table_grows_add table_grows_trans [OF table_grows_add table_grows_add]
      split: option.splits parsed_id.splits)

lemma table_grows_approved: "table_grows (br_routing_table b) (br_routing_table (handle_session_approved ops lk now m b))"
proof -
  have assigned: "table_grows (br_routing_table b) (br_routing_table (create_routing_rules_for_session r (b\<lparr>br_session_manager := sm\<rparr>)))" for r sm
    using table_grows_create [of "b\<lparr>br_session_manager := sm\<rparr>" r] by simp
  show ?thesis
    unfolding handle_session_approved_def Let_def
    by (auto intro: table_grows_create assigned split: option.split)
qed

lemma table_denied: "outcome_state (handle_session_denied ops lk now m b) = Some b' \<Longrightarrow> br_routing_table b' = br_routing_table b"
  by (auto simp: handle_session_denied_def Let_def split: if_splits option.splits)

lemma table_grows_om:
  assumes "om_iteration ops lk now inp b = Returned (go, b')"
  shows "table_grows (br_routing_table b) (br_routing_table b')"
proof -
  have "table_grows (br_routing_table b) (br_routing_table b1)" if "handle_om_message ops lk now m b = Returned b1" for m b1
    using that table_grows_approved [of b ops lk now m] table_denied [of ops lk now m b b1]
    by (auto simp: handle_om_message_def split: if_splits option.splits)
  then show ?thesis
    using assms unfolding om_iteration_def by (auto split: if_splits cp_input.splits option.splits outcome.splits)
qed

lemma table_grows_step:
  assumes "br_step ops b b'" "json_laws ops" "bridge_inv b"
  shows "table_grows (br_routing_table b) (br_routing_table b')"
  using assms(1)
proof cases
  case (gateway tid c lk ok now inp go c' b1)
  have "connection_ok (br_transport_handlers b) c"
    using bridge_invD(4) [OF assms(3)] gateway(2) by (simp add: connections_ok_def)
  then have "gw_keeps (c, b) (c', b1)"
    by (intro iteration_keeps [OF assms(2) _ gateway(3)]) (simp add: gw_inv_def assms(3))
  with gateway(1) show ?thesis by (simp add: gw_keeps_def gw_frame_def)
qed (auto simp: handle_new_mgwcp_connection_def maintenance_iteration_def check_session_timeouts_id intro: table_grows_om)

text \<open>C33: routes are never removed. From any reachable state on, whatever happens, the destinations of a key only grow at
  the end: the periodic check finds no expired session, so a terminated or abandoned session
  keeps forwarding its messages for the life of the bridge.\<close>

theorem routes_never_removed:
  assumes "br_reachable ops gc b" "json_laws ops" "gc_wf gc" "(br_step ops)\<^sup>*\<^sup>* b b'"
  shows "(\<exists>qs. get_destinations (br_routing_table b') k = get_destinations (br_routing_table b) k @ qs)
     \<and> maintenance_iteration now b = b"
proof -
  have "br_reachable ops gc b' \<and> table_grows (br_routing_table b) (br_routing_table b')"
    using assms(4)
  proof induction
    case (step b1 b2)
    with table_grows_step [OF step.hyps(2) assms(2) reachable_inv [OF _ assms(2,3)]]
    show ?case by (blast intro: table_grows_trans br_reachable.step)
  qed (simp add: assms(1))
  then show ?thesis by (simp add: table_grows_def maintenance_iteration_def check_session_timeouts_id)
qed

theorem routes_never_removed_witness:
  "\<exists>qs. get_destinations (br_routing_table (maintenance_iteration 1000000 demo_approved)) (construct_routing_key 60 5 11)
     = Some 1 # qs"
proof -
  have "(br_step demo_ops)\<^sup>*\<^sup>* demo_approved (maintenance_iteration 1000000 demo_approved)"
    by (intro r_into_rtranclp br_step.maintenance)
  from routes_never_removed [OF demo_approved_reachable demo_laws demo_gc_wf this, of "construct_routing_key 60 5 11" 0]
  show ?thesis using demo_routes(1) by auto
qed

end
