(* ===== verification/Bridge_Messages.thy ===== *)
theory Bridge_Messages
  imports Bridge_Invariant
begin

text \<open>
  Properties of single messages and tables of the bridge control plane: denials, forwarded requests, the binding of
  component ids, the retry schedule of unacknowledged messages, the reuse of data plane handlers, the task database and
  the table of sessions.
\<close>

section \<open>Answers of the offloading manager\<close>

text \<open>A denial never reaches the gateway. The handler removes the session first and then looks it up to find the
  gateway to tell, so no connection gets a message, whatever the denial says; the only effect is that the session is gone.\<close>

lemma denial_not_forwarded:
  assumes "outcome_state (handle_session_denied ops lk now m b) = Some b'"
  shows "br_connections b' = br_connections b \<and> br_routing_table b' = br_routing_table b
     \<and> (\<exists>r. b' = b\<lparr>br_session_manager := snd (remove_session r (br_session_manager b))\<rparr> \<or> b' = b)"
proof -
  have gone: "get_session (snd (remove_session r sm)) r = None" for r sm
    by (auto simp: get_session_def remove_session_def split: option.splits)
  show ?thesis
    using assms unfolding handle_session_denied_def Let_def
    by (auto simp: gone split: if_splits option.splits)
qed

definition denial :: json_tree where
  "denial = JObject [(''message_code'', JInt 201), (''payload'', JObject [(''request_id'', JString ''r'')])]"

definition demo_session_of :: "string \<Rightarrow> ActiveSession" where
  "demo_session_of gw = \<lparr>se_request_id = ''r'', se_mgwcp_component_id = gw, se_task_id = 7, se_task_name = ''t'',
     se_input_message_types = [11], se_output_message_types = [21], se_assigned_mec_id = [], se_last_keepalive = 0,
     se_created_at = 0, se_vhc_dp_connected = False, se_mec_dp_connected = False, se_routing_rules_created = False\<rparr>"

text \<open>A type error in a message of the offloading manager ends the bridge. The receiving thread catches parse errors
  only; a message whose code is no number, or a denial whose reason is no text, throws out of the thread function. A text that is no
  JSON at all is dropped.\<close>

lemma manager_type_error_escapes:
  assumes "br_om_connected b" "\<not> br_shutdown_requested b"
  shows "(js_parse ops text = Some m \<and> js_contains ops m ''message_code'' \<and> js_contains ops m ''payload''
            \<and> js_int ops (js_get ops m ''message_code'') = None \<longrightarrow>
          om_iteration ops lk now (Bytes text) b = Thrown (False, b))
     \<and> (js_parse ops text = Some m \<and> js_contains ops m ''message_code'' \<and> js_contains ops m ''payload''
            \<and> js_int ops (js_get ops m ''message_code'') = Some 201
            \<and> js_at ops (js_get ops m ''payload'') ''request_id'' = Found v \<and> js_string ops v = Some r
            \<and> js_at ops (js_get ops m ''payload'') ''reason_description'' = Found w \<and> js_string ops w = None \<longrightarrow>
          om_iteration ops lk now (Bytes text) b = Thrown (False, b))
     \<and> (js_parse ops text = None \<longrightarrow> om_iteration ops lk now (Bytes text) b = Returned (True, b))"
proof -
  have "to_int32 201 = 201" by (rule to_int32_id) simp_all
  with assms show ?thesis
    by (auto simp: om_iteration_def handle_om_message_def handle_session_denied_def payload_request_id_def js_value_def Let_def
        js_contains_def js_get_def split: lookup.splits)
qed

section \<open>Requests of gateways\<close>

lemma mgw_message_payload: "json_laws ops \<Longrightarrow> js_at ops (mgw_message ops i code t p) ''payload'' = Found p"
  by (simp add: mgw_message_def json_object_at)

lemma mgw_message_contains: "json_laws ops \<Longrightarrow> js_contains ops (mgw_message ops i code t p) ''message_code''"
  by (simp add: mgw_message_def json_object_contains)

lemma json_set_object:
  assumes "json_laws ops"
  obtains m' where "js_set ops (js_object ops m) k v = js_object ops m'" "map_of m' = (map_of m)(k \<mapsto> v)"
  using assms unfolding json_laws_def by blast

section \<open>Component ids\<close>

lemma binding_kept_handlers:
  "outcome_state (handle_dp_info ops lk now p (c, b)) = Some (c', b') \<Longrightarrow> mc_component_id c' = mc_component_id c"
  "outcome_state (handle_offload_request ops ok now p (c, b)) = Some (c', b') \<Longrightarrow> mc_component_id c' = mc_component_id c"
  "outcome_state (handle_session_keepalive ops ok now p (c, b)) = Some (c', b') \<Longrightarrow> mc_component_id c' = mc_component_id c"
  "outcome_state (handle_session_terminate_request ops ok now p (c, b)) = Some (c', b') \<Longrightarrow> mc_component_id c' = mc_component_id c"
  "outcome_state (handle_ack ops p c) = Some c' \<Longrightarrow> mc_component_id c' = mc_component_id c"
  by (auto simp: handle_dp_info_def handle_offload_request_def handle_session_keepalive_def handle_ack_def
      handle_session_terminate_request_def forward_from_def Let_def set_state_def send_dp_connection_confirmed_def
      split: if_splits option.splits outcome.splits bool.splits)

lemma binding_kept_received:
  assumes "mc_component_id c \<noteq> []" "outcome_state (handle_received_message ops lk ok now m (c, b)) = Some (c', b')"
  shows "mc_component_id c' = mc_component_id c"
  using assms(2)
proof (cases rule: received_cases)
  case (handled i c1 b1 n p)
  have "mc_component_id (send_ack ops lk n c1) = mc_component_id c"
    using handled(1) assms(1) by (auto simp: bind_component_id_def send_ack_def split: if_splits)
  with handled(2) show ?thesis by (auto dest: binding_kept_handlers)
qed (use assms(1) in \<open>auto simp: bind_component_id_def dest: binding_kept_handlers(5) split: if_splits\<close>)

text \<open>No handler touches the table from component ids to transport clients.\<close>

lemma registration_kept_forward:
  "outcome_state (forward_message_to_om ops ok now i m b) = Some b' \<Longrightarrow>
     br_component_id_to_transport_id b' = br_component_id_to_transport_id b"
proof -
  have opened: "br_component_id_to_transport_id b1 = br_component_id_to_transport_id b"
    if "outcome_state (open_session ops now i m b) = Some b1" for b1
    using that unfolding open_session_def by (auto split: if_splits lookup.splits option.splits prod.splits)
  show "outcome_state (forward_message_to_om ops ok now i m b) = Some b' \<Longrightarrow>
     br_component_id_to_transport_id b' = br_component_id_to_transport_id b"
    using opened unfolding forward_message_to_om_def
    by (cases "open_session ops now i m b") (auto simp: Let_def send_om_message_def split: if_splits)
qed

lemma registration_kept_from:
  assumes "outcome_state (forward_from ops ok now code t p (c, b)) = Some (c', b')"
  shows "br_component_id_to_transport_id b' = br_component_id_to_transport_id b"
  using assms unfolding forward_from_def
  by (auto split: outcome.splits intro!: registration_kept_forward [of ops ok now "mc_component_id c" "mgw_message ops (mc_component_id c) code t p"])

lemma registration_kept_handlers:
  "outcome_state (handle_offload_request ops ok now p (c, b)) = Some (c', b') \<Longrightarrow>
     br_component_id_to_transport_id b' = br_component_id_to_transport_id b"
  "outcome_state (handle_session_keepalive ops ok now p (c, b)) = Some (c', b') \<Longrightarrow>
     br_component_id_to_transport_id b' = br_component_id_to_transport_id b"
  "outcome_state (handle_session_terminate_request ops ok now p (c, b)) = Some (c', b') \<Longrightarrow>
     br_component_id_to_transport_id b' = br_component_id_to_transport_id b"
  by (auto simp: handle_offload_request_def handle_session_keepalive_def handle_session_terminate_request_def
      dest: registration_kept_from split: if_splits option.splits)

lemma registration_kept_dp_info:
  "outcome_state (handle_dp_info ops lk now p (c, b)) = Some (c', b') \<Longrightarrow>
     br_component_id_to_transport_id b' = br_component_id_to_transport_id b"
proof -
  have made: "create_transport_handler_for_mgwdp i h q b = Returned (r, b1) \<Longrightarrow>
        br_component_id_to_transport_id b1 = br_component_id_to_transport_id b"
      "create_transport_handler_for_mgwdp i h q b = Thrown (r, b1) \<Longrightarrow>
        br_component_id_to_transport_id b1 = br_component_id_to_transport_id b" for i h q r b1
    by (auto simp: create_transport_handler_for_mgwdp_def split: if_splits sum.splits)
  show "outcome_state (handle_dp_info ops lk now p (c, b)) = Some (c', b') \<Longrightarrow>
     br_component_id_to_transport_id b' = br_component_id_to_transport_id b"
    unfolding handle_dp_info_def establish_mgwcp_data_plane_connection_def Let_def
    by (auto dest: made split: if_splits option.splits outcome.splits bool.splits prod.splits)
qed

lemma valid_id_nonempty: "is_valid_component_id i \<Longrightarrow> i \<noteq> []"
  by (auto simp: is_valid_component_id_def find_char_def split: if_splits)

text \<open>The first valid id: from then on the message is treated as by a connection that had the id all along, and the connection is
  found under it.\<close>

lemma first_id_binds:
  assumes "mc_component_id c = []" "is_valid_component_id i" "js_string ops (js_get ops m ''component_id'') = Some i"
    and "js_int ops (js_get ops m ''message_code'') = Some code" "to_int32 code \<noteq> 900"
    and "js_int ops (js_get ops m ''sequence_number'') = Some seq" "validate_message_structure ops m"
  shows "handle_received_message ops lk ok now m (c, b) = handle_received_message ops lk ok now m
     (c\<lparr>mc_component_id := i\<rparr>,
      b\<lparr>br_component_id_to_transport_id := aput i (mc_transport_client_id c) (br_component_id_to_transport_id b)\<rparr>)"
  using assms valid_id_nonempty [OF assms(2)] by (simp add: handle_received_message_def bind_component_id_def)

lemma registration_kept_received:
  assumes "mc_component_id c \<noteq> []" "outcome_state (handle_received_message ops lk ok now m (c, b)) = Some (c', b')"
  shows "br_component_id_to_transport_id b' = br_component_id_to_transport_id b"
  using assms(2)
proof (cases rule: received_cases)
  case (handled i c1 b1 n p)
  have "b1 = b" using handled(1) assms(1) by (auto simp: bind_component_id_def split: if_splits)
  with handled(2) show ?thesis by (auto dest: registration_kept_handlers registration_kept_dp_info)
qed (use assms(1) in \<open>auto simp: bind_component_id_def split: if_splits\<close>)

text \<open>C26: a connection speaks for one component. A connection without an id is bound by the first message (acknowledgements
  apart) that carries a valid one: the connection has the id afterwards, is found under it, and the message is handled as if
  the connection had had it before; a message with an invalid id is ignored without effect. Once bound, no turn of the
  connection's loop changes the id, and a message that carries another one is ignored without effect and without
  acknowledgement. Acknowledgements (code 900) are not checked: they remove their entry whatever id they carry, and bind nothing.\<close>

theorem component_id_bound_once:
  "(mc_component_id c \<noteq> [] \<and> connection_iteration ops lk ok now inp (c, b) = Some (go, c', b') \<longrightarrow> mc_component_id c' = mc_component_id c)
   \<and> (validate_message_structure ops m \<and> js_int ops (js_get ops m ''message_code'') = Some code
        \<and> js_int ops (js_get ops m ''sequence_number'') = Some seq \<longrightarrow>
        (to_int32 code \<noteq> 900 \<and> js_string ops (js_get ops m ''component_id'') = Some i \<longrightarrow>
           (mc_component_id c = [] \<and> is_valid_component_id i \<longrightarrow>
              handle_received_message ops lk ok now m (c, b) = handle_received_message ops lk ok now m
                (c\<lparr>mc_component_id := i\<rparr>, b\<lparr>br_component_id_to_transport_id :=
                   aput i (mc_transport_client_id c) (br_component_id_to_transport_id b)\<rparr>)
              \<and> (outcome_state (handle_received_message ops lk ok now m (c, b)) = Some (c1, b1) \<longrightarrow>
                   mc_component_id c1 = i \<and> aget (br_component_id_to_transport_id b1) i = Some (mc_transport_client_id c)))
           \<and> (mc_component_id c = [] \<and> \<not> is_valid_component_id i \<longrightarrow> handle_received_message ops lk ok now m (c, b) = Returned (c, b))
           \<and> (mc_component_id c \<noteq> [] \<and> i \<noteq> mc_component_id c \<longrightarrow> handle_received_message ops lk ok now m (c, b) = Returned (c, b)))
      \<and> (to_int32 code = 900 \<and> js_contains ops (js_get ops m ''payload'') ''ack_sequence_number''
           \<and> js_int ops (js_get ops (js_get ops m ''payload'') ''ack_sequence_number'') = Some n \<longrightarrow>
           handle_received_message ops lk ok now m (c, b) = Returned (c\<lparr>mc_pending_acks := aerase (of_int n) (mc_pending_acks c)\<rparr>, b)))"
proof -
  have kept: "mc_component_id c2 = mc_component_id c"
    if "mc_component_id c \<noteq> []" "handle_received_message ops lk ok now m (c, b) = Returned (c2, b2)
      \<or> handle_received_message ops lk ok now m (c, b) = Thrown (c2, b2)" for m c2 b2
    using that(2) binding_kept_received [OF that(1), of ops lk ok now m b c2 b2] by auto
  have turn: "mc_component_id c' = mc_component_id c"
    if "mc_component_id c \<noteq> []" "connection_iteration ops lk ok now inp (c, b) = Some (go, c', b')"
    using that(2) unfolding connection_iteration_def Let_def
    by (auto intro: kept [OF that(1)] split: if_splits cp_input.splits option.splits outcome.splits prod.splits)
  have bound: "mc_component_id c1 = i \<and> aget (br_component_id_to_transport_id b1) i = Some (mc_transport_client_id c)"
    if "is_valid_component_id i" "outcome_state (handle_received_message ops lk ok now m (c\<lparr>mc_component_id := i\<rparr>,
      b\<lparr>br_component_id_to_transport_id := aput i (mc_transport_client_id c) (br_component_id_to_transport_id b)\<rparr>)) = Some (c1, b1)"
    using binding_kept_received [OF _ that(2)] registration_kept_received [OF _ that(2)] valid_id_nonempty [OF that(1)] by simp
  have unbound: "handle_received_message ops lk ok now m (c, b) = Returned (c, b)"
    if "validate_message_structure ops m" "js_int ops (js_get ops m ''message_code'') = Some code"
      "js_int ops (js_get ops m ''sequence_number'') = Some seq" "to_int32 code \<noteq> 900"
      "js_string ops (js_get ops m ''component_id'') = Some i"
      "mc_component_id c = [] \<and> \<not> is_valid_component_id i \<or> mc_component_id c \<noteq> [] \<and> i \<noteq> mc_component_id c"
    using that by (auto simp: handle_received_message_def bind_component_id_def)
  have acked: "handle_received_message ops lk ok now m (c, b) = Returned (c\<lparr>mc_pending_acks := aerase (of_int n) (mc_pending_acks c)\<rparr>, b)"
    if "validate_message_structure ops m" "js_int ops (js_get ops m ''message_code'') = Some code"
      "js_int ops (js_get ops m ''sequence_number'') = Some seq" "to_int32 code = 900"
      "js_contains ops (js_get ops m ''payload'') ''ack_sequence_number''"
      "js_int ops (js_get ops (js_get ops m ''payload'') ''ack_sequence_number'') = Some n"
    using that by (simp add: handle_received_message_def handle_ack_def)
  show ?thesis
    using turn first_id_binds [of c i ops m code seq lk ok now b] bound unbound acked by metis
qed

definition dp_info_example :: "string \<Rightarrow> json_tree" where
  "dp_info_example i = JObject [(''component_id'', JString i), (''message_code'', JInt 103), (''message_type'', JString ''DP_INFO''),
     (''sequence_number'', JInt 1), (''payload'', JNull)]"

lemma dp_info_example:
  "validate_message_structure tree_ops (dp_info_example i)"
  "js_int tree_ops (js_get tree_ops (dp_info_example i) ''message_code'') = Some 103"
  "js_int tree_ops (js_get tree_ops (dp_info_example i) ''sequence_number'') = Some 1"
  "js_string tree_ops (js_get tree_ops (dp_info_example i) ''component_id'') = Some i"
  "js_get tree_ops (dp_info_example i) ''payload'' = JNull" "\<not> js_contains tree_ops JNull k"
  by (simp_all add: dp_info_example_def tree_ops_def validate_message_structure_def js_contains_def js_get_def)

theorem component_id_bound_once_witness:
  "let lk = \<lparr>lk_connected = (\<lambda>i. True), lk_send_ok = (\<lambda>i. True)\<rparr>; c = MGWCPConnection_init 1 4 ''10.0.0.5'' in
     (\<exists>c1 b1. outcome_state (handle_received_message tree_ops lk True 0 (dp_info_example ''60:5'') (c, Bridge_init)) = Some (c1, b1)
        \<and> mc_component_id c1 = ''60:5'' \<and> aget (br_component_id_to_transport_id b1) ''60:5'' = Some 4)
     \<and> handle_received_message tree_ops lk True 0 (dp_info_example ''70:1'') (c\<lparr>mc_component_id := ''60:5''\<rparr>, Bridge_init)
         = Returned (c\<lparr>mc_component_id := ''60:5''\<rparr>, Bridge_init)"
proof -
  let ?lk = "\<lparr>lk_connected = (\<lambda>i. True), lk_send_ok = (\<lambda>i. True)\<rparr>"
  let ?c = "MGWCPConnection_init 1 4 ''10.0.0.5'' :: json_tree MGWCPConnection"
  have code: "to_int32 103 \<noteq> 900" "to_int32 103 = 103" using to_int32_id [of 103] by simp_all
  have valid: "is_valid_component_id ''60:5''" by code_simp
  obtain c1 b1 where run: "outcome_state (handle_received_message tree_ops ?lk True 0 (dp_info_example ''60:5'') (?c, Bridge_init)) = Some (c1, b1)"
    by (simp add: handle_received_message_def bind_component_id_def handle_dp_info_def dp_info_example code valid
        MGWCPConnection_init_def send_ack_def)
  have first: "mc_component_id c1 = ''60:5'' \<and> aget (br_component_id_to_transport_id b1) ''60:5'' = Some 4"
    using component_id_bound_once [of ?c tree_ops ?lk True 0 _ Bridge_init _ _ _ "dp_info_example ''60:5''" 103 1 "''60:5''" c1 b1]
      dp_info_example [of "''60:5''"] code valid run
    by (simp add: MGWCPConnection_init_def)
  have other: "handle_received_message tree_ops ?lk True 0 (dp_info_example ''70:1'') (?c\<lparr>mc_component_id := ''60:5''\<rparr>, Bridge_init)
      = Returned (?c\<lparr>mc_component_id := ''60:5''\<rparr>, Bridge_init)"
    using component_id_bound_once [of "?c\<lparr>mc_component_id := ''60:5''\<rparr>" tree_ops ?lk True 0 _ Bridge_init _ _ _ "dp_info_example ''70:1''" 103 1 "''70:1''"]
      dp_info_example [of "''70:1''"] code
    by simp
  from run first other show ?thesis by (auto simp: Let_def)
qed

section \<open>Acknowledgements\<close>

text \<open>Checks that come more than the timeout apart.\<close>

fun spaced :: "int \<Rightarrow> int list \<Rightarrow> bool" where
  "spaced t [] \<longleftrightarrow> True"
| "spaced t (u # us) \<longleftrightarrow> u - t > ACK_TIMEOUT \<and> spaced u us"

lemma check_overdue_get:
  assumes "retries_ok c" "aget (mc_pending_acks c) k = Some p" "now - pa_time_sent p > ACK_TIMEOUT"
  shows "aget (mc_pending_acks (check_for_timeouts ops lk now c)) k =
    (if pa_retry_count p < MAX_RETRY_COUNT
     then Some (p\<lparr>pa_retry_count := pa_retry_count p + 1, pa_time_sent := now\<rparr>) else None)"
  using assms by (simp add: check_for_timeouts_get retries_ok_def ack_overdue_def age_pending_def)

lemma check_absent:
  "retries_ok c \<Longrightarrow> aget (mc_pending_acks c) k = None \<Longrightarrow> aget (mc_pending_acks (check_for_timeouts ops lk now c)) k = None"
  by (simp add: check_for_timeouts_get retries_ok_def)

lemma checks_absent:
  "retries_ok c \<Longrightarrow> aget (mc_pending_acks c) k = None \<Longrightarrow>
     aget (mc_pending_acks (fold (\<lambda>t. check_for_timeouts ops lk t) ts c)) k = None"
  by (induction ts arbitrary: c) (simp_all add: check_absent retries_ok_timeouts)

text \<open>The messages that a connection could confuse with the one pending under a number: another pending message with the same
  text.\<close>

definition text_unique :: "'j json_ops \<Rightarrow> 'j MGWCPConnection \<Rightarrow> u64 \<Rightarrow> string \<Rightarrow> bool" where
  "text_unique ops c k t \<longleftrightarrow>
     (\<forall>j q. aget (mc_pending_acks c) j = Some q \<and> j \<noteq> k \<longrightarrow> js_dump ops (pa_message q) \<noteq> t)"

lemma text_unique_check:
  assumes "retries_ok c" "text_unique ops c k t"
  shows "text_unique ops (check_for_timeouts ops lk now c) k t"
proof -
  have wf: "awf (mc_pending_acks c)" using assms(1) by (simp add: retries_ok_def)
  show ?thesis
    using assms(2) unfolding text_unique_def check_for_timeouts_get [OF wf]
    by (fastforce simp: age_pending_def split: option.splits if_splits)
qed

lemma count_single_key:
  "distinct (map fst xs) \<Longrightarrow> (\<And>j q. (j, q) \<in> set xs \<Longrightarrow> f q = t \<Longrightarrow> j = k) \<Longrightarrow>
     count_list (map (\<lambda>(j, q). f q) (filter P xs)) t = (if \<exists>q. (k, q) \<in> set xs \<and> f q = t \<and> P (k, q) then 1 else 0)"
proof (induction xs)
  case (Cons x xs)
  obtain j q where x: "x = (j, q)" by (cases x)
  have IH: "count_list (map (\<lambda>(j, q). f q) (filter P xs)) t = (if \<exists>q. (k, q) \<in> set xs \<and> f q = t \<and> P (k, q) then 1 else 0)"
  proof (rule Cons.IH)
    show "distinct (map fst xs)" using Cons.prems(1) by simp
    show "j' = k" if "(j', r) \<in> set xs" "f r = t" for j' r by (rule Cons.prems(2) [OF _ that(2)]) (simp add: that(1))
  qed
  have here: "f q = t \<Longrightarrow> j = k" by (rule Cons.prems(2)) (simp_all add: x)
  have "(k, r) \<notin> set xs" if "j = k" for r using Cons.prems(1) x that by force
  with IH here x show ?case by (auto split: if_splits)
qed simp

text \<open>One check sends the message pending under \<open>k\<close> once, if it is overdue and has retries left.\<close>

lemma check_resends_once:
  assumes "retries_ok c" "text_unique ops c k t"
    and "\<And>p. aget (mc_pending_acks c) k = Some p \<Longrightarrow> js_dump ops (pa_message p) = t"
  shows "count_list (mc_sent (check_for_timeouts ops lk now c)) t = count_list (mc_sent c) t +
     (if lk_connected lk (mc_transport_client_id c) \<and> lk_send_ok lk (mc_transport_client_id c)
         \<and> (\<exists>p. aget (mc_pending_acks c) k = Some p \<and> ack_overdue now p \<and> pa_retry_count p < MAX_RETRY_COUNT) then 1 else 0)"
proof -
  have wf: "awf (mc_pending_acks c)" using assms(1) by (simp add: retries_ok_def)
  let ?due = "\<lambda>(k, p). ack_overdue now p \<and> pa_retry_count p < MAX_RETRY_COUNT"
  have other: "j = k" if "(j, q) \<in> set (mc_pending_acks c)" "js_dump ops (pa_message q) = t" for j q
    using that(2) assms(2) that(1) [unfolded aget_iff_mem [OF wf]] unfolding text_unique_def by metis
  have "count_list (map (\<lambda>(k, p). js_dump ops (pa_message p)) (filter ?due (mc_pending_acks c))) t =
     (if \<exists>q. (k, q) \<in> set (mc_pending_acks c) \<and> js_dump ops (pa_message q) = t \<and> ?due (k, q) then 1 else 0)"
    by (rule count_single_key [OF wf other])
  with assms(3) show ?thesis
    unfolding check_for_timeouts_sent [OF wf] aget_iff_mem [OF wf] by auto
qed

lemma checks_silent:
  assumes "retries_ok c" "text_unique ops c k t" "aget (mc_pending_acks c) k = None"
  shows "count_list (mc_sent (fold (\<lambda>t. check_for_timeouts ops lk t) ts c)) t = count_list (mc_sent c) t"
  using assms
proof (induction ts arbitrary: c)
  case (Cons u ts)
  let ?c = "check_for_timeouts ops lk u c"
  have "count_list (mc_sent (fold (\<lambda>t. check_for_timeouts ops lk t) ts ?c)) t = count_list (mc_sent ?c) t"
    by (rule Cons.IH) (use Cons.prems in \<open>simp_all add: retries_ok_timeouts text_unique_check check_absent\<close>)
  also have "\<dots> = count_list (mc_sent c) t"
    by (subst check_resends_once [OF Cons.prems(1,2)]) (use Cons.prems(3) in auto)
  finally show ?case by simp
qed simp

lemma retry_schedule:
  assumes "retries_ok c" "aget (mc_pending_acks c) k = Some q" "spaced (pa_time_sent q) ts"
    and "text_unique ops c k (js_dump ops (pa_message q))"
  shows "aget (mc_pending_acks (fold (\<lambda>t. check_for_timeouts ops lk t) ts c)) k =
     (if pa_retry_count q + int (length ts) \<le> 3
      then Some (q\<lparr>pa_retry_count := pa_retry_count q + int (length ts), pa_time_sent := last (pa_time_sent q # ts)\<rparr>) else None)
    \<and> count_list (mc_sent (fold (\<lambda>t. check_for_timeouts ops lk t) ts c)) (js_dump ops (pa_message q)) =
        count_list (mc_sent c) (js_dump ops (pa_message q)) +
        (if lk_connected lk (mc_transport_client_id c) \<and> lk_send_ok lk (mc_transport_client_id c)
         then min (nat (3 - pa_retry_count q)) (length ts) else 0)"
  using assms
proof (induction ts arbitrary: c q)
  case Nil
  then show ?case by (auto simp: retries_ok_def MAX_RETRY_COUNT_def)
next
  case (Cons t ts)
  let ?q = "q\<lparr>pa_retry_count := pa_retry_count q + 1, pa_time_sent := t\<rparr>" and ?c = "check_for_timeouts ops lk t c"
  have ok: "retries_ok ?c" by (rule retries_ok_timeouts [OF Cons.prems(1)])
  have uniq: "text_unique ops ?c k (js_dump ops (pa_message q))" by (rule text_unique_check [OF Cons.prems(1,4)])
  have get: "aget (mc_pending_acks ?c) k = (if pa_retry_count q < 3 then Some ?q else None)"
    using check_overdue_get [OF Cons.prems(1,2), of t ops lk] Cons.prems(3) by (simp add: MAX_RETRY_COUNT_def)
  have sent: "count_list (mc_sent ?c) (js_dump ops (pa_message q)) = count_list (mc_sent c) (js_dump ops (pa_message q)) +
     (if lk_connected lk (mc_transport_client_id c) \<and> lk_send_ok lk (mc_transport_client_id c) \<and> pa_retry_count q < 3 then 1 else 0)"
    using check_resends_once [OF Cons.prems(1,4), of lk t] Cons.prems(2,3) by (simp add: ack_overdue_def MAX_RETRY_COUNT_def)
  show ?case
  proof (cases "pa_retry_count q < 3")
    case True
    then have "nat (3 - pa_retry_count q) = Suc (nat (3 - pa_retry_count ?q))" by simp
    with True Cons.IH [OF ok, of ?q] get uniq sent Cons.prems(3) show ?thesis by (simp add: algebra_simps)
  next
    case False
    with get checks_absent [OF ok] checks_silent [OF ok uniq] sent show ?thesis by simp
  qed
qed

text \<open>C25: the retry schedule. A message that is never acknowledged and checked at times more than five seconds apart is retried three
  times and then given up: after n checks it is pending with n retries for n up to 3, and forgotten from the fourth check on. Its
  text is sent once more in each of the first three checks, while the client is connected and the transport accepts it, and never
  after; no other pending message has the same text.\<close>

theorem unacknowledged_message_retried_thrice:
  assumes "retries_ok c" "aget (mc_pending_acks c) k = Some p" "pa_retry_count p = 0" "spaced (pa_time_sent p) ts"
    and "\<forall>j q. aget (mc_pending_acks c) j = Some q \<and> j \<noteq> k \<longrightarrow> js_dump ops (pa_message q) \<noteq> js_dump ops (pa_message p)"
  shows "aget (mc_pending_acks (fold (\<lambda>t. check_for_timeouts ops lk t) ts c)) k =
     (if length ts \<le> 3
      then Some (p\<lparr>pa_retry_count := int (length ts), pa_time_sent := last (pa_time_sent p # ts)\<rparr>) else None)
    \<and> count_list (mc_sent (fold (\<lambda>t. check_for_timeouts ops lk t) ts c)) (js_dump ops (pa_message p)) =
        count_list (mc_sent c) (js_dump ops (pa_message p)) +
        (if lk_connected lk (mc_transport_client_id c) \<and> lk_send_ok lk (mc_transport_client_id c) then min 3 (length ts) else 0)"
  using retry_schedule [OF assms(1,2,4), of ops lk] assms(3,5) by (simp add: text_unique_def)

theorem unacknowledged_message_retried_thrice_witness:
  "let c = (MGWCPConnection_init 1 4 ''10.0.0.5'')\<lparr>mc_pending_acks := [(1, \<lparr>pa_message = JNull, pa_time_sent = 0, pa_retry_count = 0\<rparr>)],
         mc_sent := [js_dump tree_ops JNull]\<rparr>;
       run = fold (\<lambda>t. check_for_timeouts tree_ops \<lparr>lk_connected = (\<lambda>i. True), lk_send_ok = (\<lambda>i. True)\<rparr> t)
   in aget (mc_pending_acks (run [6000, 12000, 18000] c)) 1 = Some \<lparr>pa_message = JNull, pa_time_sent = 18000, pa_retry_count = 3\<rparr>
      \<and> aget (mc_pending_acks (run [6000, 12000, 18000, 24000] c)) 1 = None
      \<and> count_list (mc_sent (run [6000, 12000] c)) (js_dump tree_ops JNull) = 3
      \<and> count_list (mc_sent (run [6000, 12000, 18000, 24000] c)) (js_dump tree_ops JNull) = 4"
proof -
  let ?p = "\<lparr>pa_message = JNull, pa_time_sent = 0, pa_retry_count = 0\<rparr>"
  let ?c = "(MGWCPConnection_init 1 4 ''10.0.0.5'')\<lparr>mc_pending_acks := [(1, ?p)], mc_sent := [js_dump tree_ops JNull]\<rparr>"
  let ?lk = "\<lparr>lk_connected = (\<lambda>i. True), lk_send_ok = (\<lambda>i. True)\<rparr>"
  have ok: "retries_ok ?c" by (simp add: retries_ok_def MAX_RETRY_COUNT_def)
  have "aget (mc_pending_acks ?c) 1 = Some ?p" "pa_retry_count ?p = 0" by simp_all
  note sched = unacknowledged_message_retried_thrice [OF ok this, where ops = tree_ops and lk = ?lk]
  show ?thesis
    using sched [of "[6000, 12000]"] sched [of "[6000, 12000, 18000]"] sched [of "[6000, 12000, 18000, 24000]"]
    by (simp add: ACK_TIMEOUT_def Let_def)
qed

section \<open>Data plane handlers\<close>

text \<open>A handler is created once per component and never replaced. When a gateway comes back with another data plane
  address, its announcement is confirmed and the connection becomes operational, but the bridge keeps the
  handler for the old address, running or not.\<close>

lemma data_plane_handler_never_replaced:
  assumes "aget (br_transport_handlers b) (mc_component_id c) = Some h" "mc_state c = CONNECTING"
    and "js_at ops p ''dp_host'' = Found hv" "js_string ops hv = Some host"
    and "js_at ops p ''dp_port'' = Found pv" "js_int ops pv = Some port"
  shows "\<exists>c'. handle_dp_info ops lk now p (c, b) = Returned (c', b) \<and> mc_state c' = OPERATIONAL
     \<and> mc_dp_port c' = to_int32 port \<and> mc_dp_host c' = (if host = ''0.0.0.0'' then mc_client_ip c else host)"
  using assms
  by (simp add: handle_dp_info_def js_contains_def js_get_def establish_mgwcp_data_plane_connection_def Let_def
      create_transport_handler_for_mgwdp_def send_dp_connection_confirmed_def send_reliable_message_def set_state_def)

section \<open>Task database and sessions\<close>

text \<open>The task database is well formed after every attempt to load it. Whether or not the configuration could be parsed, a lookup stays
  inside the task vector and returns a task with the id that was asked for.\<close>

lemma task_lookup_well_formed:
  assumes "parse_from_json ops j gc = Some (ok, gc')"
  shows "\<exists>r. get_task_config gc' t = Some r \<and> (\<forall>task. r = Some task \<longrightarrow> tk_task_id task = t \<and> task \<in> set (gc_tasks gc'))"
proof -
  have "gc_wf gc'" by (rule parse_from_json_wf [OF assms])
  then show ?thesis by (auto simp: gc_wf_def get_task_config_def split: option.splits)
qed

text \<open>When a gateway goes away exactly its sessions go. The cleanup returns how many sessions the gateway had; sessions of
  other gateways are untouched, and none of its own is left.\<close>

lemma cleanup_removes_exactly_own_sessions:
  assumes "awf sm"
  shows "get_session (snd (cleanup_sessions_for_mgwcp gw sm)) r =
      (case get_session sm r of Some s \<Rightarrow> if se_mgwcp_component_id s = gw then None else Some s | None \<Rightarrow> None)
     \<and> fst (cleanup_sessions_for_mgwcp gw sm) = length (get_sessions_for_mgwcp sm gw)
     \<and> get_sessions_for_mgwcp (snd (cleanup_sessions_for_mgwcp gw sm)) gw = []"
proof -
  have "length (filter (\<lambda>(k, s). se_mgwcp_component_id s = gw) sm) = length (get_sessions_for_mgwcp sm gw)"
    by (induction sm) (auto simp: get_sessions_for_mgwcp_def)
  moreover have "get_sessions_for_mgwcp (filter (\<lambda>(k, s). se_mgwcp_component_id s \<noteq> gw) sm) gw = []"
    by (auto simp: get_sessions_for_mgwcp_def filter_empty_conv)
  moreover have "get_session (filter (\<lambda>(k, s). se_mgwcp_component_id s \<noteq> gw) sm) r =
      (case get_session sm r of Some s \<Rightarrow> if se_mgwcp_component_id s = gw then None else Some s | None \<Rightarrow> None)"
    using aget_filter [OF assms, of "\<lambda>s. se_mgwcp_component_id s \<noteq> gw" r] by (auto simp: get_session_def split: option.splits)
  ultimately show ?thesis by (simp add: cleanup_eq)
qed

end
