(* ===== verification/Bridge_Shutdown.thy ===== *)
theory Bridge_Shutdown
  imports Bridge_Server Bridge_Invariant
begin

text \<open>
  What happens when a gateway disconnects from the bridge or the bridge is stopped: the disconnect callback stops the connection
  while it holds the lock of the connection table, and stopping disconnects the client again.
\<close>

lemma on_disconnect_deadlock:
  assumes "aget (br_connections b) tid = Some c" "mc_transport_client_id c = tid" "aget (ts_clients s) tid = Some info"
  shows "mgwcp_on_disconnect tid (s, b, False) = Inl SelfDeadlock"
proof -
  have "mc_stop (handle_mgwcp_disconnection (Suc 0)) c (s, b, True) = Inl SelfDeadlock"
    using assms by (simp add: mc_stop_def Let_def ts_is_client_connected_def ts_disconnect_client_def drop_client_def
        disconnecting_with_def)
  with assms show ?thesis by (simp add: mgwcp_on_disconnect_def numeral_2_eq_2)
qed

lemma drop_client_deadlock:
  assumes "aget (br_connections b) tid = Some c" "mc_transport_client_id c = tid" "aget (ts_clients s) tid = Some info"
  shows "drop_client (mgwcp_callbacks ok) tid (s, b, False) = Inl SelfDeadlock"
  using on_disconnect_deadlock [OF assms] by (simp add: drop_client_def mgwcp_callbacks_def)

lemma unknown_client_dropped:
  "aget (br_connections b) tid = None \<Longrightarrow>
     ts_disconnect_client (mgwcp_callbacks ok) tid (s, b, False) = Inr (s\<lparr>ts_clients := aerase tid (ts_clients s)\<rparr>, b, False)"
  by (auto simp: ts_disconnect_client_def drop_client_def mgwcp_callbacks_def mgwcp_on_disconnect_def numeral_2_eq_2
      aerase_absent split: option.split)

lemma disconnect_all_deadlock:
  assumes own: "\<And>t c. aget (br_connections b) t = Some c \<Longrightarrow> mc_transport_client_id c = t"
    and conn: "aget (br_connections b) tid = Some c" and "tid \<in> set ids" "aget (ts_clients s) tid \<noteq> None"
  shows "disconnect_all (mgwcp_callbacks ok) ids (s, b, False) = Inl SelfDeadlock"
  using assms(3,4)
proof (induction ids arbitrary: s)
  case (Cons i ids)
  show ?case
  proof (cases "aget (br_connections b) i")
    case None
    with conn have "i \<noteq> tid" by auto
    with Cons None show ?thesis by (auto simp: unknown_client_dropped)
  next
    case (Some d)
    show ?thesis
    proof (cases "aget (ts_clients s) i")
      case None
      with Cons have "tid \<in> set ids" by auto
      with Cons None show ?thesis by (simp add: ts_disconnect_client_def)
    next
      case (Some info)
      with drop_client_deadlock [OF \<open>aget (br_connections b) i = Some d\<close> own [OF \<open>aget (br_connections b) i = Some d\<close>] Some]
      show ?thesis by (simp add: ts_disconnect_client_def)
    qed
  qed
qed simp

text \<open>C24: the disconnection of a gateway blocks the bridge. When a client with a connection object closes its socket, or is
  disconnected by the server, the callback takes the lock of the connection table and stops the connection, which disconnects the client again,
  whose callback waits for the same lock: the thread never returns. For the same reason stopping the bridge while a gateway is connected
  never ends.\<close>

theorem gateway_disconnect_deadlocks:
  assumes "aget (br_connections b) tid = Some c" "aget (ts_clients s) tid = Some info"
    and "\<And>t c. aget (br_connections b) t = Some c \<Longrightarrow> mc_transport_client_id c = t"
  shows "handle_client_data (mgwcp_callbacks ok) tid RecvClosed (s, b, False) = Inl SelfDeadlock
     \<and> ts_receive_from (mgwcp_callbacks ok) tid n RecvClosed (s, b, False) = Inl SelfDeadlock
     \<and> ts_disconnect_client (mgwcp_callbacks ok) tid (s, b, False) = Inl SelfDeadlock
     \<and> (br_running b \<and> ts_running s \<longrightarrow> br_stop ok (s, b, False) = Inl SelfDeadlock)"
proof -
  note drop = drop_client_deadlock [OF assms(1) assms(3) [OF assms(1)] assms(2), of ok]
  have "br_stop ok (s, b, False) = Inl SelfDeadlock" if run: "br_running b" "ts_running s"
  proof -
    let ?b = "b\<lparr>br_shutdown_requested := True, br_running := False\<rparr>"
    have "tid \<in> set (ts_get_client_ids s)" using assms(2) mem_akeys_iff [of tid "ts_clients s"] by (simp add: ts_get_client_ids_def)
    then have "disconnect_all (mgwcp_callbacks ok) (ts_get_client_ids s) (s\<lparr>ts_running := False\<rparr>, ?b, False) = Inl SelfDeadlock"
      using assms by (intro disconnect_all_deadlock [of ?b tid c]) auto
    with run show ?thesis by (simp add: br_stop_def ts_disconnect_def)
  qed
  with drop assms(2) show ?thesis
    by (simp add: handle_client_data_def ts_receive_from_def ts_disconnect_client_def)
qed

theorem gateway_disconnect_deadlocks_witness:
  "ts_disconnect_client (mgwcp_callbacks (\<lambda>i. True)) 4
     ((TcpServerTransport_init 7000 True 50)\<lparr>ts_clients := [(4, \<lparr>ci_socket_fd = 4, ci_ip_address = ''10.0.0.5'', ci_port = 50000\<rparr>)]\<rparr>,
      (Bridge_init :: json_tree Bridge)\<lparr>br_connections := [(4, MGWCPConnection_init 1 4 ''10.0.0.5'')]\<rparr>, False) = Inl SelfDeadlock"
proof -
  let ?b = "(Bridge_init :: json_tree Bridge)\<lparr>br_connections := [(4, MGWCPConnection_init 1 4 ''10.0.0.5'')]\<rparr>"
  have "aget (br_connections ?b) 4 = Some (MGWCPConnection_init 1 4 ''10.0.0.5'')" by simp
  moreover have "mc_transport_client_id c = t" if "aget (br_connections ?b) t = Some c" for t c
    using that by (auto simp: MGWCPConnection_init_def split: if_splits)
  ultimately show ?thesis
    using gateway_disconnect_deadlocks [of ?b 4 "MGWCPConnection_init 1 4 ''10.0.0.5''"] by simp
qed

end
