(* ===== verification/Gateway_Transport.thy ===== *)
theory Gateway_Transport
  imports Tcp_Client
begin

text \<open>
  The transports of the gateway (ros/src/ros_ws/src/modular_gateway_sender: transport_base.hpp,
  src/transport/tcp_client_transport.cpp, src/transport/tcp_server_transport.cpp). Other than the transports of cpplib they
  send asynchronously: \<open>async_send_data\<close> puts a message into a queue that a sender thread empties. The queue is a third-party
  lock-free queue: it is first-in first-out, and whether \<open>try_enqueue\<close> finds room is an argument. The bytes that the
  kernel accepted on the open connection are recorded in a field \<open>wire\<close>. One turn of the sender thread is one step.

  The answers to \<open>recv\<close> form a stream: a segment that is longer than the size asked for stays, in part, for the next call.
\<close>

datatype TransportAsyncSendResult = AsyncSuccess | AsyncQueueFull | AsyncNotConnected | AsyncInternalError

section \<open>Reading an exact number of bytes\<close>

text \<open>The loop of \<open>receive_exact\<close>, the same in both transports: whether it succeeded, the bytes stored, and what is left to
  receive. \<open>None\<close>: it still waits. A failure is followed by the disconnection of the transport.\<close>

fun exact_loop :: "nat \<Rightarrow> recv_answer list \<Rightarrow> (bool \<times> u8 list \<times> recv_answer list) option" where
  "exact_loop sz as =
     (if sz = 0 then Some (True, [], as)
      else (case as of
         [] \<Rightarrow> None
       | RecvWouldBlock # as' \<Rightarrow> exact_loop sz as'
       | RecvError # as' \<Rightarrow> Some (False, [], as')
       | RecvClosed # as' \<Rightarrow> Some (False, [], as')
       | Received bs # as' \<Rightarrow>
           if bs = [] then Some (False, [], as')
           else if sz \<le> length bs then Some (True, take sz bs, if sz = length bs then as' else Received (drop sz bs) # as')
           else map_option (\<lambda>(ok, got, rest). (ok, bs @ got, rest)) (exact_loop (sz - length bs) as')))"

declare exact_loop.simps [simp del]

lemma exact_loop_steps [simp]:
  "exact_loop 0 as = Some (True, [], as)"
  "exact_loop n (RecvWouldBlock # as) = (if n = 0 then Some (True, [], RecvWouldBlock # as) else exact_loop n as)"
  "n \<noteq> 0 \<Longrightarrow> exact_loop n [] = None"
  "n \<noteq> 0 \<Longrightarrow> exact_loop n (RecvError # as) = Some (False, [], as)"
  "n \<noteq> 0 \<Longrightarrow> exact_loop n (RecvClosed # as) = Some (False, [], as)"
  by (subst exact_loop.simps, simp)+

text \<open>The bytes that arrive before the connection ends.\<close>

fun stream_of :: "recv_answer list \<Rightarrow> u8 list" where
  "stream_of [] = []"
| "stream_of (Received bs # as) = (if bs = [] then [] else bs @ stream_of as)"
| "stream_of (RecvWouldBlock # as) = stream_of as"
| "stream_of (RecvClosed # as) = []"
| "stream_of (RecvError # as) = []"

lemma stream_of_drop: "sz < length bs \<Longrightarrow> stream_of (Received (drop sz bs) # as) = drop sz bs @ stream_of as"
  by simp

text \<open>How the bytes are cut into segments does not matter.\<close>

lemma exact_loop_stream:
  "n \<le> length (stream_of as) \<Longrightarrow>
   \<exists>as'. exact_loop n as = Some (True, take n (stream_of as), as') \<and> stream_of as' = drop n (stream_of as)"
proof (induction as arbitrary: n)
  case Nil
  then show ?case by simp
next
  case (Cons a as)
  show ?case
  proof (cases "n = 0")
    case True
    then show ?thesis by simp
  next
    case n: False
    show ?thesis
    proof (cases a)
      case (Received bs)
      with n Cons.prems have bs: "bs \<noteq> []" by (auto split: if_splits)
      show ?thesis
      proof (cases "n \<le> length bs")
        case True
        with n Received bs show ?thesis by (subst exact_loop.simps) (auto simp: stream_of_drop)
      next
        case False
        with Cons.prems Received bs have "n - length bs \<le> length (stream_of as)" by auto
        from Cons.IH [OF this] n Received bs False show ?thesis by (subst exact_loop.simps) auto
      qed
    qed (use n Cons in auto)
  qed
qed

lemma exact_loop_short:
  "length (stream_of as) < n \<Longrightarrow> exact_loop n as = Some (ok, got, as') \<Longrightarrow> \<not> ok"
proof (induction as arbitrary: n got)
  case Nil
  then show ?case by simp
next
  case (Cons a as)
  then have n: "n \<noteq> 0" by auto
  show ?case
  proof (cases a)
    case (Received bs)
    show ?thesis
    proof (cases "bs = []")
      case True
      with Cons.prems Received n show ?thesis by (simp add: exact_loop.simps)
    next
      case False
      with Cons.prems Received have less: "length bs < n" "length (stream_of as) < n - length bs" by auto
      with Cons.prems(2) Received n False obtain got' where
        "exact_loop (n - length bs) as = Some (ok, got', as')"
        by (subst (asm) exact_loop.simps) auto
      with Cons.IH less(2) show ?thesis by blast
    qed
  qed (use n Cons in auto)
qed

section \<open>The server transport\<close>

record GwServer =
  gws_port :: int
  gws_max_connections :: int
  gws_server_socket_fd :: int
  gws_client_socket_fd :: int
  gws_listening :: bool
  gws_client_connected :: bool
  gws_connection_timestamp :: int
  gws_outgoing_queue :: "u8 list list"
  gws_sender_thread_running :: bool
  gws_wire :: "u8 list"

definition GwServer_init :: "int \<Rightarrow> int \<Rightarrow> GwServer" where
  "GwServer_init port max_connections =
     \<lparr>gws_port = port, gws_max_connections = max_connections, gws_server_socket_fd = -1, gws_client_socket_fd = -1,
      gws_listening = False, gws_client_connected = False, gws_connection_timestamp = 0, gws_outgoing_queue = [],
      gws_sender_thread_running = False, gws_wire = []\<rparr>"

text \<open>Answers to \<open>socket\<close>, \<open>setsockopt\<close>, \<open>bind\<close> and \<open>listen\<close>.\<close>

record open_answer =
  oa_socket :: int
  oa_setsockopt :: bool
  oa_bind :: bool
  oa_listen :: bool

definition gws_connect :: "open_answer \<Rightarrow> GwServer \<Rightarrow> bool \<times> GwServer" where
  "gws_connect a s =
     (if gws_listening s then (True, s)
      else let s = s\<lparr>gws_server_socket_fd := oa_socket a\<rparr> in
        if oa_socket a < 0 then (False, s)
        else if \<not> oa_setsockopt a then (False, s\<lparr>gws_server_socket_fd := -1\<rparr>)
        else if \<not> oa_bind a then (False, s\<lparr>gws_server_socket_fd := -1\<rparr>)
        else if \<not> oa_listen a then (False, s\<lparr>gws_server_socket_fd := -1\<rparr>)
        else (True, s\<lparr>gws_listening := True\<rparr>))"

definition gws_disconnect :: "GwServer \<Rightarrow> GwServer" where
  "gws_disconnect s =
     (let s = s\<lparr>gws_sender_thread_running := False\<rparr>;
          s = (if gws_client_socket_fd s \<ge> 0 then s\<lparr>gws_client_socket_fd := -1\<rparr> else s);
          s = s\<lparr>gws_client_connected := False\<rparr>;
          s = (if gws_server_socket_fd s \<ge> 0 then s\<lparr>gws_server_socket_fd := -1\<rparr> else s)
      in s\<lparr>gws_listening := False\<rparr>)"

definition gws_is_connected :: "GwServer \<Rightarrow> bool" where
  "gws_is_connected s = gws_client_connected s"

definition gws_async_send_data :: "bool \<Rightarrow> u8 list \<Rightarrow> GwServer \<Rightarrow> TransportAsyncSendResult \<times> GwServer" where
  "gws_async_send_data room data s =
     (if \<not> gws_client_connected s then (AsyncNotConnected, s)
      else if \<not> room then (AsyncQueueFull, s)
      else (AsyncSuccess, s\<lparr>gws_outgoing_queue := gws_outgoing_queue s @ [data]\<rparr>))"

definition gws_handle_disconnect_detected :: "GwServer \<Rightarrow> GwServer" where
  "gws_handle_disconnect_detected s =
     (let s = (if gws_client_socket_fd s \<ge> 0 then s\<lparr>gws_client_socket_fd := -1\<rparr> else s)
      in s\<lparr>gws_client_connected := False\<rparr>)"

text \<open>Answers of \<open>send\<close>. \<open>BrokenPipe\<close> is the error \<open>EPIPE\<close>; without the flag \<open>MSG_NOSIGNAL\<close> the kernel
  raises \<open>SIGPIPE\<close> along with it, whose default action ends the process.\<close>

datatype gw_send_answer = Took nat | WouldBlock | BrokenPipe | SendFailed

text \<open>One turn of the loop of \<open>sender_thread_func\<close>. \<open>None\<close>: the process is ended by \<open>SIGPIPE\<close>, for which the gateway installs
  no handler. The data is handed to a single call of \<open>send\<close>. It is the body of the loop only: the guard \<open>sender_thread_running_\<close> is not
  tested; before the thread exists the queue is empty and the body changes nothing.\<close>

definition gws_sender_turn :: "gw_send_answer \<Rightarrow> GwServer \<Rightarrow> GwServer option" where
  "gws_sender_turn a s =
     (case gws_outgoing_queue s of
        [] \<Rightarrow> Some s
      | data # queue \<Rightarrow>
          let s = s\<lparr>gws_outgoing_queue := queue\<rparr> in
          if gws_client_connected s \<and> gws_client_socket_fd s \<ge> 0 then
            (case a of
               Took n \<Rightarrow> Some (s\<lparr>gws_wire := gws_wire s @ take n data\<rparr>)
             | BrokenPipe \<Rightarrow> None
             | _ \<Rightarrow> Some (gws_handle_disconnect_detected s))
          else Some s)"

text \<open>\<open>accept_connection\<close>: the answer of \<open>accept\<close> (negative for an error) and the clock. The queue is not emptied, so what the
  last client did not get is sent to the new one.\<close>

definition gws_accept_connection :: "int \<Rightarrow> int \<Rightarrow> GwServer \<Rightarrow> bool \<times> GwServer" where
  "gws_accept_connection now new_socket s =
     (if \<not> gws_listening s then (False, s)
      else if gws_client_connected s then (False, s)
      else if new_socket < 0 then (False, s)
      else let s = s\<lparr>gws_client_socket_fd := new_socket, gws_client_connected := True, gws_connection_timestamp := now,
                     gws_wire := []\<rparr>
        in (True, if \<not> gws_sender_thread_running s then s\<lparr>gws_sender_thread_running := True\<rparr> else s))"

definition gws_data_available :: "select_answer \<Rightarrow> GwServer \<Rightarrow> bool \<times> GwServer" where
  "gws_data_available a s =
     (if \<not> gws_client_connected s \<or> gws_client_socket_fd s < 0 then (False, s)
      else (case a of
         SelectReady \<Rightarrow> (True, s)
       | SelectTimeout \<Rightarrow> (False, s)
       | SelectBadFd \<Rightarrow> (False, gws_handle_disconnect_detected s)
       | _ \<Rightarrow> (False, s)))"

text \<open>\<open>receive_data\<close>: the returned count, the bytes stored, the transport.\<close>

definition gws_receive_data :: "nat \<Rightarrow> recv_answer \<Rightarrow> GwServer \<Rightarrow> int \<times> u8 list \<times> GwServer" where
  "gws_receive_data max_size a s =
     (if \<not> gws_client_connected s \<or> gws_client_socket_fd s < 0 then (-1, [], s)
      else (case a of
         RecvWouldBlock \<Rightarrow> (-1, [], s)
       | RecvError \<Rightarrow> (-1, [], gws_handle_disconnect_detected s)
       | RecvClosed \<Rightarrow> (0, [], gws_handle_disconnect_detected s)
       | Received bs \<Rightarrow>
           if take max_size bs = [] then (0, [], gws_handle_disconnect_detected s)
           else (int (length (take max_size bs)), take max_size bs, s)))"

definition gws_receive_exact ::
  "nat \<Rightarrow> recv_answer list \<Rightarrow> GwServer \<Rightarrow> (bool \<times> u8 list \<times> recv_answer list \<times> GwServer) option" where
  "gws_receive_exact sz as s =
     (if \<not> gws_client_connected s \<or> gws_client_socket_fd s < 0 then Some (False, [], as, s)
      else (case exact_loop sz as of
         None \<Rightarrow> None
       | Some (ok, got, as') \<Rightarrow> Some (ok, got, as', if ok then s else gws_handle_disconnect_detected s)))"

section \<open>The client transport\<close>

record GwClient =
  gwc_server_host :: string
  gwc_server_port :: int
  gwc_max_retries :: int
  gwc_socket_fd :: int
  gwc_connected :: bool
  gwc_connection_timestamp :: u64
  gwc_is_reconnecting :: bool
  gwc_outgoing_queue :: "u8 list list"
  gwc_sender_thread_running :: bool
  gwc_wire :: "u8 list"

definition GwClient_init :: "string \<Rightarrow> int \<Rightarrow> int \<Rightarrow> GwClient" where
  "GwClient_init host port max_retries =
     \<lparr>gwc_server_host = host, gwc_server_port = port, gwc_max_retries = max_retries, gwc_socket_fd = -1,
      gwc_connected = False, gwc_connection_timestamp = 0, gwc_is_reconnecting = False, gwc_outgoing_queue = [],
      gwc_sender_thread_running = True, gwc_wire = []\<rparr>"

definition gwc_is_connected :: "GwClient \<Rightarrow> bool" where
  "gwc_is_connected c = gwc_connected c"

text \<open>\<open>perform_connect_logic\<close>. On failure the new descriptor is not closed: the handler of the exception looks at
  \<open>socket_fd_\<close>, which is assigned only after success. The number of descriptors lost is the second result.\<close>

definition perform_connect_logic :: "connect_answer \<Rightarrow> GwClient \<Rightarrow> bool \<times> nat \<times> GwClient" where
  "perform_connect_logic a c =
     (if gwc_is_reconnecting c then (gwc_is_connected c, 0, c)
      else let c = c\<lparr>gwc_is_reconnecting := True\<rparr>;
               c = (if gwc_socket_fd c \<ge> 0 then c\<lparr>gwc_socket_fd := -1\<rparr> else c);
               c = c\<lparr>gwc_connected := False\<rparr>
        in if ca_socket a < 0 then (False, 0, c\<lparr>gwc_is_reconnecting := False\<rparr>)
           else if \<not> ca_inet_pton a then (False, 1, c\<lparr>gwc_is_reconnecting := False\<rparr>)
           else if \<not> ca_connect a then (False, 1, c\<lparr>gwc_is_reconnecting := False\<rparr>)
           else (True, 0, c\<lparr>gwc_socket_fd := ca_socket a, gwc_connected := True,
                     gwc_connection_timestamp := gwc_connection_timestamp c + 1, gwc_is_reconnecting := False,
                     gwc_wire := []\<rparr>))"

definition gwc_connect :: "connect_answer \<Rightarrow> GwClient \<Rightarrow> bool \<times> GwClient" where
  "gwc_connect a c = (case perform_connect_logic a c of (ok, _, c) \<Rightarrow> (ok, c))"

definition gwc_disconnect :: "GwClient \<Rightarrow> GwClient" where
  "gwc_disconnect c =
     (let c = (if gwc_socket_fd c \<noteq> -1 then c\<lparr>gwc_socket_fd := -1\<rparr> else c)
      in c\<lparr>gwc_connected := False, gwc_is_reconnecting := False\<rparr>)"

definition gwc_set_target :: "string \<Rightarrow> int \<Rightarrow> GwClient \<Rightarrow> GwClient" where
  "gwc_set_target host port c = c\<lparr>gwc_server_host := host, gwc_server_port := port\<rparr>"

definition gwc_async_send_data :: "bool \<Rightarrow> u8 list \<Rightarrow> GwClient \<Rightarrow> TransportAsyncSendResult \<times> GwClient" where
  "gwc_async_send_data room data c =
     (if \<not> gwc_is_connected c then (AsyncNotConnected, c)
      else if \<not> room then (AsyncQueueFull, c)
      else (AsyncSuccess, c\<lparr>gwc_outgoing_queue := gwc_outgoing_queue c @ [data]\<rparr>))"

definition gwc_handle_disconnect_detected :: "GwClient \<Rightarrow> GwClient" where
  "gwc_handle_disconnect_detected c = (if gwc_is_connected c then gwc_disconnect c else c)"

text \<open>The inner loop of \<open>sender_thread_func\<close>: the bytes the kernel took, and whether it ended with an error. A call that
  would block leaves the loop, and the rest of the message is dropped. The descriptor is read once, before the
  loop, so a send on a connection that was closed meanwhile is an error.\<close>

fun gwc_send_loop :: "u8 list \<Rightarrow> gw_send_answer list \<Rightarrow> (u8 list \<times> bool) option" where
  "gwc_send_loop [] as = Some ([], False)"
| "gwc_send_loop (b # bs) [] = None"
| "gwc_send_loop (b # bs) (WouldBlock # as) = Some ([], False)"
| "gwc_send_loop (b # bs) (BrokenPipe # as) = Some ([], True)"
| "gwc_send_loop (b # bs) (SendFailed # as) = Some ([], True)"
| "gwc_send_loop (b # bs) (Took n # as) =
     map_option (\<lambda>(taken, err). (take n (b # bs) @ taken, err)) (gwc_send_loop (drop n (b # bs)) as)"

text \<open>One turn of the loop of \<open>sender_thread_func\<close>, without the guard \<open>sender_thread_running_\<close>; \<open>None\<close>: \<open>send\<close> has not returned.\<close>

definition gwc_sender_turn :: "gw_send_answer list \<Rightarrow> GwClient \<Rightarrow> GwClient option" where
  "gwc_sender_turn as c =
     (if \<not> gwc_is_connected c then Some c
      else (case gwc_outgoing_queue c of
         [] \<Rightarrow> Some c
       | data # queue \<Rightarrow>
           let c = c\<lparr>gwc_outgoing_queue := queue\<rparr> in
           (case gwc_send_loop data as of
              None \<Rightarrow> None
            | Some (taken, err) \<Rightarrow>
                let c = c\<lparr>gwc_wire := gwc_wire c @ taken\<rparr>
                in Some (if err then gwc_handle_disconnect_detected c else c))))"

definition gwc_data_available :: "select_answer \<Rightarrow> GwClient \<Rightarrow> bool \<times> GwClient" where
  "gwc_data_available a c =
     (if \<not> gwc_is_connected c then (False, c)
      else if gwc_socket_fd c < 0 then (False, c)
      else (case a of
         SelectReady \<Rightarrow> (True, c)
       | SelectTimeout \<Rightarrow> (False, c)
       | SelectBadFd \<Rightarrow> (False, gwc_handle_disconnect_detected c)
       | _ \<Rightarrow> (False, c)))"

definition gwc_receive_data :: "nat \<Rightarrow> recv_answer \<Rightarrow> GwClient \<Rightarrow> int \<times> u8 list \<times> GwClient" where
  "gwc_receive_data sz a c =
     (if \<not> gwc_is_connected c then (-1, [], c)
      else if gwc_socket_fd c < 0 then (-1, [], c)
      else (case a of
         RecvWouldBlock \<Rightarrow> (-1, [], c)
       | RecvError \<Rightarrow> (-1, [], gwc_handle_disconnect_detected c)
       | RecvClosed \<Rightarrow> (-1, [], gwc_handle_disconnect_detected c)
       | Received bs \<Rightarrow>
           if take sz bs = [] then (-1, [], gwc_handle_disconnect_detected c)
           else (int (length (take sz bs)), take sz bs, c)))"

definition gwc_receive_exact ::
  "nat \<Rightarrow> recv_answer list \<Rightarrow> GwClient \<Rightarrow> (bool \<times> u8 list \<times> recv_answer list \<times> GwClient) option" where
  "gwc_receive_exact sz as c =
     (if \<not> gwc_is_connected c then Some (False, [], as, c)
      else if gwc_socket_fd c < 0 then Some (False, [], as, c)
      else (case exact_loop sz as of
         None \<Rightarrow> None
       | Some (ok, got, as') \<Rightarrow> Some (ok, got, as', if ok then c else gwc_handle_disconnect_detected c)))"

end
