(* ===== verification/Message_Handler.thy ===== *)
theory Message_Handler
  imports Wire_Header Json_Value
begin

text \<open>
  The message handlers of the gateway (message_handler_base.hpp, .cpp, src/handlers): a handler stands between a
  ROS topic and the data plane. ROS itself is third-party code: its operations are the fields of \<open>ros_ops\<close>, the
  node is an abstract value. Published messages are recorded in the handler. An exception that leaves a member function is
  \<open>Thrown\<close>. What a handler sends is returned as an argument list of \<open>MessageHandlerBase::send_message\<close>.
\<close>

text \<open>A class of handlers.\<close>

datatype HandlerKind = StringHandler | LaserScanHandler | StringTestInputHandler | StringTestResultHandler
  | SerialStringHandler | JointStateHandler | SerialFeedbackHandler

text \<open>A message of ROS: the contents of a \<open>std_msgs/String\<close> or a message that is serialised.\<close>

datatype 'm ros_msg = Text "u8 list" | Structured 'm

text \<open>The operations of ROS. \<open>ro_declare\<close> is \<open>declare_parameter\<close>, \<open>None\<close> when it throws; \<open>ro_topic_valid\<close>: whether
  \<open>create_publisher\<close> and \<open>create_subscription\<close> accept a topic name, otherwise they throw; \<open>ro_deserialize\<close> is
  \<open>None\<close> when it throws.\<close>

record ('n, 'm) ros_ops =
  ro_declare :: "'n \<Rightarrow> string \<Rightarrow> 'n option"
  ro_string :: "'n \<Rightarrow> string \<Rightarrow> u8 list"
  ro_bool :: "'n \<Rightarrow> string \<Rightarrow> bool"
  ro_topic_valid :: "u8 list \<Rightarrow> bool"
  ro_serialize :: "HandlerKind \<Rightarrow> 'm \<Rightarrow> u8 list"
  ro_deserialize :: "HandlerKind \<Rightarrow> u8 list \<Rightarrow> 'm option"
  ro_clear_intensities :: "'m \<Rightarrow> 'm"

text \<open>Documented behaviour of ROS: a parameter cannot be declared twice, and what was declared stays declared.\<close>

definition declare_once :: "('n, 'm) ros_ops \<Rightarrow> bool" where
  "declare_once ro \<longleftrightarrow>
     (\<forall>n p n'. ro_declare ro n p = Some n' \<longrightarrow>
        ro_declare ro n' p = None \<and> (\<forall>q. ro_declare ro n q = None \<longrightarrow> ro_declare ro n' q = None))"

text \<open>Documented behaviour of the serialisation: what it writes it can read.\<close>

definition serialization_ok :: "('n, 'm) ros_ops \<Rightarrow> bool" where
  "serialization_ok ro \<longleftrightarrow> (\<forall>k m. ro_deserialize ro k (ro_serialize ro k m) = Some m)"

record 'm MessageHandler =
  mh_kind :: HandlerKind
  mh_enabled :: bool
  mh_ros_publisher_enabled :: bool
  mh_ros_subscriber_enabled :: bool
  mh_subscription :: bool
  mh_topic_name :: "u8 list"
  mh_empty_intensities :: bool
  mh_publishers :: "u8 list list"
  mh_published :: "(u8 list \<times> 'm ros_msg) list"

definition MessageHandler_init :: "HandlerKind \<Rightarrow> 'm MessageHandler" where
  "MessageHandler_init k =
     \<lparr>mh_kind = k, mh_enabled = False, mh_ros_publisher_enabled = True, mh_ros_subscriber_enabled = True,
      mh_subscription = False, mh_topic_name = [], mh_empty_intensities = False, mh_publishers = [], mh_published = []\<rparr>"

fun handler_name :: "HandlerKind \<Rightarrow> string" where
  "handler_name StringHandler = ''string_handler''"
| "handler_name LaserScanHandler = ''laserscan_handler''"
| "handler_name StringTestInputHandler = ''string_test_input_handler''"
| "handler_name StringTestResultHandler = ''string_test_result_handler''"
| "handler_name SerialStringHandler = ''serial_string_handler''"
| "handler_name JointStateHandler = ''joint_state_handler''"
| "handler_name SerialFeedbackHandler = ''serial_feedback_handler''"

fun handler_type :: "HandlerKind \<Rightarrow> MessageType" where
  "handler_type StringHandler = STRING"
| "handler_type LaserScanHandler = smLASERSCAN"
| "handler_type StringTestInputHandler = STRING_TEST_INPUT"
| "handler_type StringTestResultHandler = STRING_TEST_RESULT"
| "handler_type SerialStringHandler = smSERIAL_STRING"
| "handler_type JointStateHandler = smJOINTSTATE"
| "handler_type SerialFeedbackHandler = smSERIAL_FEEDBACK"

definition can_process_message_type :: "'m MessageHandler \<Rightarrow> u8 \<Rightarrow> bool" where
  "can_process_message_type h type \<longleftrightarrow> type = message_type_code (handler_type (mh_kind h))"

definition is_ros_publisher_enabled :: "'m MessageHandler \<Rightarrow> bool" where
  "is_ros_publisher_enabled h \<longleftrightarrow> mh_enabled h \<and> mh_ros_publisher_enabled h"

definition is_ros_subscriber_enabled :: "'m MessageHandler \<Rightarrow> bool" where
  "is_ros_subscriber_enabled h \<longleftrightarrow> mh_enabled h \<and> mh_ros_subscriber_enabled h"

datatype HandlerMode = SUBSCRIBER_ONLY | PUBLISHER_ONLY | BOTH

definition configure_handler_mode :: "HandlerMode \<Rightarrow> 'm MessageHandler \<Rightarrow> 'm MessageHandler" where
  "configure_handler_mode mode h =
     (let h = h\<lparr>mh_enabled := True\<rparr> in
      case mode of
        SUBSCRIBER_ONLY \<Rightarrow> h\<lparr>mh_ros_subscriber_enabled := True, mh_ros_publisher_enabled := False\<rparr>
      | PUBLISHER_ONLY \<Rightarrow> h\<lparr>mh_ros_subscriber_enabled := False, mh_ros_publisher_enabled := True\<rparr>
      | BOTH \<Rightarrow> h\<lparr>mh_ros_subscriber_enabled := True, mh_ros_publisher_enabled := True\<rparr>)"

section \<open>Initialisation and shutdown\<close>

text \<open>A handler with a topic parameter: the parameter is declared and read, the subscription created.\<close>

definition subscribe_topic ::
  "('n, 'm) ros_ops \<Rightarrow> string \<Rightarrow> 'n \<Rightarrow> 'm MessageHandler \<Rightarrow> ('n \<times> 'm MessageHandler) outcome" where
  "subscribe_topic ro param n h =
     (let h = h\<lparr>mh_topic_name := ro_string ro n param\<rparr> in
      if ro_topic_valid ro (mh_topic_name h) then Returned (n, h\<lparr>mh_subscription := True\<rparr>) else Thrown (n, h))"

definition initialize_topic ::
  "('n, 'm) ros_ops \<Rightarrow> string \<Rightarrow> 'n \<Rightarrow> 'm MessageHandler \<Rightarrow> ('n \<times> 'm MessageHandler) outcome" where
  "initialize_topic ro param n h =
     (case ro_declare ro n param of
        None \<Rightarrow> Thrown (n, h)
      | Some n \<Rightarrow> subscribe_topic ro param n h)"

definition initialize_laserscan ::
  "('n, 'm) ros_ops \<Rightarrow> 'n \<Rightarrow> 'm MessageHandler \<Rightarrow> ('n \<times> 'm MessageHandler) outcome" where
  "initialize_laserscan ro n h =
     (case ro_declare ro n ''laserscan_handler.topic'' of
        None \<Rightarrow> Thrown (n, h)
      | Some n \<Rightarrow>
          (case ro_declare ro n ''laserscan_handler.empty_intensities'' of
             None \<Rightarrow> Thrown (n, h)
           | Some n \<Rightarrow> subscribe_topic ro ''laserscan_handler.topic'' n
                (h\<lparr>mh_empty_intensities := ro_bool ro n ''laserscan_handler.empty_intensities''\<rparr>)))"

text \<open>The virtual member \<open>initialize\<close>.\<close>

definition initialize_handler ::
  "('n, 'm) ros_ops \<Rightarrow> 'n \<Rightarrow> 'm MessageHandler \<Rightarrow> ('n \<times> 'm MessageHandler) outcome" where
  "initialize_handler ro n h =
     (case mh_kind h of
        LaserScanHandler \<Rightarrow> initialize_laserscan ro n h
      | k \<Rightarrow> initialize_topic ro (handler_name k @ ''.topic'') n h)"

text \<open>The handlers of laser scans and joint states leave the flag \<open>enabled_\<close> alone.\<close>

definition shutdown_handler :: "'m MessageHandler \<Rightarrow> 'm MessageHandler" where
  "shutdown_handler h =
     (let h = h\<lparr>mh_subscription := False, mh_publishers := []\<rparr> in
      if mh_kind h = LaserScanHandler \<or> mh_kind h = JointStateHandler then h else h\<lparr>mh_enabled := False\<rparr>)"

section \<open>From ROS to the data plane\<close>

text \<open>The arguments of \<open>MessageHandlerBase::send_message\<close>.\<close>

record send_args =
  sa_topic :: "u8 list"
  sa_type :: u8
  sa_data :: "u8 list"
  sa_options :: MessageOptions

definition raw_options :: MessageOptions where
  "raw_options = \<lparr>has_timestamp = False, fragmented = False, serialized = False, has_checksum = False,
     compressed = False, version = 0\<rparr>"

definition cdr_options :: MessageOptions where
  "cdr_options = raw_options\<lparr>serialized := True, has_timestamp := True\<rparr>"

text \<open>The callback of the subscription, \<open>handle_message\<close>: what it sends. A text handler receives texts, the others
  structured messages, as the types of their subscriptions say.\<close>

definition handle_text :: "'m MessageHandler \<Rightarrow> u8 list \<Rightarrow> send_args option" where
  "handle_text h text =
     (if \<not> mh_enabled h \<or> \<not> is_ros_subscriber_enabled h then None
      else Some \<lparr>sa_topic = mh_topic_name h, sa_type = message_type_code (handler_type (mh_kind h)), sa_data = text,
                 sa_options = raw_options\<rparr>)"

definition handle_laserscan :: "('n, 'm) ros_ops \<Rightarrow> 'm MessageHandler \<Rightarrow> 'm \<Rightarrow> send_args option" where
  "handle_laserscan ro h msg =
     (if \<not> mh_enabled h \<or> \<not> is_ros_subscriber_enabled h then None
      else let scan_msg = (if mh_empty_intensities h then ro_clear_intensities ro msg else msg) in
        Some \<lparr>sa_topic = mh_topic_name h, sa_type = message_type_code smLASERSCAN,
              sa_data = ro_serialize ro LaserScanHandler scan_msg, sa_options = cdr_options\<rparr>)"

definition handle_joint_state :: "('n, 'm) ros_ops \<Rightarrow> 'm MessageHandler \<Rightarrow> 'm \<Rightarrow> send_args option" where
  "handle_joint_state ro h msg =
     (if \<not> mh_enabled h \<or> \<not> is_ros_subscriber_enabled h then None
      else Some \<lparr>sa_topic = mh_topic_name h, sa_type = message_type_code smJOINTSTATE,
                 sa_data = ro_serialize ro JointStateHandler msg, sa_options = cdr_options\<rparr>)"

fun handle_message :: "('n, 'm) ros_ops \<Rightarrow> 'm MessageHandler \<Rightarrow> 'm ros_msg \<Rightarrow> send_args option" where
  "handle_message ro h (Text text) =
     (if mh_kind h = LaserScanHandler \<or> mh_kind h = JointStateHandler then None else handle_text h text)"
| "handle_message ro h (Structured m) =
     (case mh_kind h of
        LaserScanHandler \<Rightarrow> handle_laserscan ro h m
      | JointStateHandler \<Rightarrow> handle_joint_state ro h m
      | _ \<Rightarrow> None)"

section \<open>From the data plane to ROS\<close>

text \<open>The publisher of a topic, created on first use: \<open>None\<close> when \<open>create_publisher\<close> throws.\<close>

definition ensure_publisher :: "('n, 'm) ros_ops \<Rightarrow> u8 list \<Rightarrow> 'm MessageHandler \<Rightarrow> 'm MessageHandler option" where
  "ensure_publisher ro topic h =
     (if topic \<in> set (mh_publishers h) then Some h
      else if ro_topic_valid ro topic then Some (h\<lparr>mh_publishers := topic # mh_publishers h\<rparr>)
      else None)"

definition publish :: "u8 list \<Rightarrow> 'm ros_msg \<Rightarrow> 'm MessageHandler \<Rightarrow> 'm MessageHandler" where
  "publish topic msg h = h\<lparr>mh_published := mh_published h @ [(topic, msg)]\<rparr>"

text \<open>\<open>process_and_publish_received_msg\<close> of the string handlers: an exception of \<open>create_publisher\<close> is not
  caught, and a message with the wrong flag counts as processed.\<close>

definition process_string ::
  "('n, 'm) ros_ops \<Rightarrow> u8 list \<Rightarrow> u8 \<Rightarrow> u8 list \<Rightarrow> MessageOptions \<Rightarrow> 'm MessageHandler \<Rightarrow> (bool \<times> 'm MessageHandler) outcome" where
  "process_string ro topic type data options h =
     (if \<not> mh_enabled h \<or> \<not> can_process_message_type h type then Returned (False, h)
      else (case ensure_publisher ro topic h of
         None \<Rightarrow> Thrown (False, h)
       | Some h \<Rightarrow> Returned (True, if serialized options then h else publish topic (Text data) h)))"

text \<open>The test handlers look at the publisher mode as well.\<close>

definition process_string_test ::
  "('n, 'm) ros_ops \<Rightarrow> u8 list \<Rightarrow> u8 \<Rightarrow> u8 list \<Rightarrow> MessageOptions \<Rightarrow> 'm MessageHandler \<Rightarrow> (bool \<times> 'm MessageHandler) outcome" where
  "process_string_test ro topic type data options h =
     (if \<not> mh_enabled h \<or> \<not> is_ros_publisher_enabled h \<or> \<not> can_process_message_type h type then Returned (False, h)
      else (case ensure_publisher ro topic h of
         None \<Rightarrow> Thrown (False, h)
       | Some h \<Rightarrow> Returned (True, if serialized options then h else publish topic (Text data) h)))"

text \<open>The handlers of the robot arm's texts catch every exception.\<close>

definition process_serial ::
  "('n, 'm) ros_ops \<Rightarrow> u8 list \<Rightarrow> u8 \<Rightarrow> u8 list \<Rightarrow> MessageOptions \<Rightarrow> 'm MessageHandler \<Rightarrow> (bool \<times> 'm MessageHandler) outcome" where
  "process_serial ro topic type data options h =
     (if \<not> mh_enabled h \<or> \<not> is_ros_publisher_enabled h \<or> \<not> can_process_message_type h type then Returned (False, h)
      else (case ensure_publisher ro topic h of
         None \<Rightarrow> Returned (False, h)
       | Some h \<Rightarrow> if serialized options then Returned (False, h) else Returned (True, publish topic (Text data) h)))"

definition process_laserscan ::
  "('n, 'm) ros_ops \<Rightarrow> u8 list \<Rightarrow> u8 \<Rightarrow> u8 list \<Rightarrow> MessageOptions \<Rightarrow> 'm MessageHandler \<Rightarrow> (bool \<times> 'm MessageHandler) outcome" where
  "process_laserscan ro topic type data options h =
     (if \<not> mh_enabled h \<or> \<not> is_ros_publisher_enabled h \<or> \<not> can_process_message_type h type then Returned (False, h)
      else (case ensure_publisher ro topic h of
         None \<Rightarrow> Returned (False, h)
       | Some h \<Rightarrow>
           if \<not> serialized options then Returned (False, h)
           else (case ro_deserialize ro LaserScanHandler data of
              None \<Rightarrow> Returned (False, h)
            | Some m \<Rightarrow> Returned (True, publish topic (Structured m) h))))"

definition process_joint_state ::
  "('n, 'm) ros_ops \<Rightarrow> u8 list \<Rightarrow> u8 \<Rightarrow> u8 list \<Rightarrow> MessageOptions \<Rightarrow> 'm MessageHandler \<Rightarrow> (bool \<times> 'm MessageHandler) outcome" where
  "process_joint_state ro topic type data options h =
     (if \<not> mh_enabled h \<or> \<not> is_ros_publisher_enabled h \<or> \<not> can_process_message_type h type then Returned (False, h)
      else (case ensure_publisher ro topic h of
         None \<Rightarrow> Returned (False, h)
       | Some h \<Rightarrow>
           if \<not> serialized options then Returned (False, h)
           else (case ro_deserialize ro JointStateHandler data of
              None \<Rightarrow> Returned (False, h)
            | Some m \<Rightarrow> Returned (True, publish topic (Structured m) h))))"

text \<open>The virtual member.\<close>

definition process_and_publish ::
  "('n, 'm) ros_ops \<Rightarrow> u8 list \<Rightarrow> u8 \<Rightarrow> u8 list \<Rightarrow> MessageOptions \<Rightarrow> 'm MessageHandler \<Rightarrow> (bool \<times> 'm MessageHandler) outcome" where
  "process_and_publish ro topic type data options h =
     (case mh_kind h of
        StringHandler \<Rightarrow> process_string ro topic type data options h
      | StringTestInputHandler \<Rightarrow> process_string_test ro topic type data options h
      | StringTestResultHandler \<Rightarrow> process_string_test ro topic type data options h
      | SerialStringHandler \<Rightarrow> process_serial ro topic type data options h
      | SerialFeedbackHandler \<Rightarrow> process_serial ro topic type data options h
      | LaserScanHandler \<Rightarrow> process_laserscan ro topic type data options h
      | JointStateHandler \<Rightarrow> process_joint_state ro topic type data options h)"

lemmas process_defs = process_and_publish_def process_string_def process_string_test_def process_serial_def
  process_laserscan_def process_joint_state_def

lemma process_frame: "process_and_publish ro topic type data options h = Returned (ok, h') \<Longrightarrow>
    mh_kind h' = mh_kind h \<and> mh_enabled h' = mh_enabled h
    \<and> mh_ros_publisher_enabled h' = mh_ros_publisher_enabled h \<and> mh_ros_subscriber_enabled h' = mh_ros_subscriber_enabled h"
  by (auto simp: process_defs ensure_publisher_def publish_def
      split: HandlerKind.splits option.splits if_splits)

text \<open>What a handler of one gateway sends, a handler of the same class publishes at another.\<close>

lemma sent_is_published:
  assumes send: "handle_message ro h m = Some a" and ser: "serialization_ok ro"
    and k: "mh_kind g = mh_kind h" and on: "is_ros_publisher_enabled g" and valid: "ro_topic_valid ro topic"
  defines "m' \<equiv> (case m of Text t \<Rightarrow> Text t
     | Structured x \<Rightarrow> Structured (if mh_kind h = LaserScanHandler \<and> mh_empty_intensities h then ro_clear_intensities ro x else x))"
  shows "\<exists>g'. process_and_publish ro topic (sa_type a) (sa_data a) (sa_options a) g = Returned (True, g')
     \<and> mh_published g' = mh_published g @ [(topic, m')]"
proof -
  have pub: "\<exists>g'. ensure_publisher ro topic g = Some g' \<and> mh_published g' = mh_published g"
    using valid by (auto simp: ensure_publisher_def)
  have "can_process_message_type g (sa_type a)"
    using send k by (cases m)
      (auto simp: can_process_message_type_def handle_text_def handle_laserscan_def handle_joint_state_def Let_def
        split: if_splits HandlerKind.splits)
  then show ?thesis
    using pub on send k ser
    by (cases m; cases "mh_kind h")
      (auto simp: process_defs is_ros_publisher_enabled_def publish_def m'_def handle_text_def handle_laserscan_def
        handle_joint_state_def raw_options_def cdr_options_def serialization_ok_def Let_def split: if_splits)
qed

end
