(* ===== verification/Ros_Gateway.thy ===== *)
theory Ros_Gateway
  imports Gateway_Transport Message_Handler Framing
begin

text \<open>
  The data plane of a gateway: \<open>RosGateway\<close> (ros_gateway.hpp, .cpp) and \<open>HandlerFactory\<close> (handler_factory.hpp, .cpp). Handlers
  are shared objects: \<open>rg_objects\<close> holds them by address, the table of registered handlers and the cache of
  the factory hold addresses. The interface \<open>TransportBase\<close> is the datatype of its two implementations with
  a function for each virtual member; the locale \<open>byte_transport\<close> states what the gateway relies on, and the lemmas on framing
  follow from its laws for both.
\<close>

section \<open>The transport interface\<close>

datatype DataTransport = ServerTransport GwServer | ClientTransport GwClient

fun tr_is_connected :: "DataTransport \<Rightarrow> bool" where
  "tr_is_connected (ServerTransport s) = gws_is_connected s"
| "tr_is_connected (ClientTransport c) = gwc_is_connected c"

fun tr_async_send_data :: "bool \<Rightarrow> u8 list \<Rightarrow> DataTransport \<Rightarrow> TransportAsyncSendResult \<times> DataTransport" where
  "tr_async_send_data room data (ServerTransport s) = map_prod id ServerTransport (gws_async_send_data room data s)"
| "tr_async_send_data room data (ClientTransport c) = map_prod id ClientTransport (gwc_async_send_data room data c)"

fun tr_data_available :: "select_answer \<Rightarrow> DataTransport \<Rightarrow> bool \<times> DataTransport" where
  "tr_data_available a (ServerTransport s) = map_prod id ServerTransport (gws_data_available a s)"
| "tr_data_available a (ClientTransport c) = map_prod id ClientTransport (gwc_data_available a c)"

fun tr_receive_exact ::
  "nat \<Rightarrow> recv_answer list \<Rightarrow> DataTransport \<Rightarrow> (bool \<times> u8 list \<times> recv_answer list \<times> DataTransport) option" where
  "tr_receive_exact n as (ServerTransport s) =
     map_option (\<lambda>(ok, got, as', s). (ok, got, as', ServerTransport s)) (gws_receive_exact n as s)"
| "tr_receive_exact n as (ClientTransport c) =
     map_option (\<lambda>(ok, got, as', c). (ok, got, as', ClientTransport c)) (gwc_receive_exact n as c)"

text \<open>Messages that wait for the sender thread, and whether the transport has an open socket.\<close>

fun tr_queue :: "DataTransport \<Rightarrow> u8 list list" where
  "tr_queue (ServerTransport s) = gws_outgoing_queue s"
| "tr_queue (ClientTransport c) = gwc_outgoing_queue c"

fun tr_open :: "DataTransport \<Rightarrow> bool" where
  "tr_open (ServerTransport s) \<longleftrightarrow> gws_client_connected s \<and> gws_client_socket_fd s \<ge> 0"
| "tr_open (ClientTransport c) \<longleftrightarrow> gwc_connected c \<and> gwc_socket_fd c \<ge> 0"

locale byte_transport =
  fixes up :: "'t \<Rightarrow> bool"
    and opened :: "'t \<Rightarrow> bool"
    and enqueue :: "bool \<Rightarrow> u8 list \<Rightarrow> 't \<Rightarrow> TransportAsyncSendResult \<times> 't"
    and exact :: "nat \<Rightarrow> recv_answer list \<Rightarrow> 't \<Rightarrow> (bool \<times> u8 list \<times> recv_answer list \<times> 't) option"
    and queued :: "'t \<Rightarrow> u8 list list"
  assumes enqueue_result: "fst (enqueue room d t) = AsyncSuccess \<longleftrightarrow> up t \<and> room"
    and enqueue_queue: "queued (snd (enqueue room d t)) = (if up t \<and> room then queued t @ [d] else queued t)"
    and enqueue_up: "up (snd (enqueue room d t)) = up t"
    and exact_success: "opened t \<Longrightarrow> exact_loop n as = Some (True, got, as') \<Longrightarrow> exact n as t = Some (True, got, as', t)"
    and exact_loops: "opened t \<Longrightarrow> exact n as t = Some (ok, got, as', t') \<Longrightarrow> exact_loop n as = Some (ok, got, as')"
    and exact_fails: "exact n as t = Some (False, got, as', t') \<Longrightarrow> \<not> opened t'"
begin

lemma enqueue_two:
  "queued (snd (enqueue r' e (snd (enqueue r d t)))) =
     (if up t then queued t @ (if r then [d] else []) @ (if r' then [e] else []) else queued t)"
  by (simp add: enqueue_queue enqueue_up)

lemma exact_stream:
  assumes "opened t" "n \<le> length (stream_of as)"
  shows "\<exists>as'. exact n as t = Some (True, take n (stream_of as), as', t) \<and> stream_of as' = drop n (stream_of as)"
  using exact_loop_stream [OF assms(2)] exact_success [OF assms(1)] by blast

lemma exact_short:
  assumes "opened t" "length (stream_of as) < n" "exact n as t = Some (ok, got, as', t')"
  shows "\<not> ok \<and> \<not> opened t'"
proof -
  have "\<not> ok" using exact_loop_short [OF assms(2) exact_loops [OF assms(1,3)]] .
  with assms(3) exact_fails show ?thesis by (cases ok) auto
qed

end

lemma tr_exact_fails: "tr_receive_exact n as t = Some (False, got, as', t') \<Longrightarrow> \<not> tr_open t'"
  by (cases t) (auto simp: gws_receive_exact_def gwc_receive_exact_def gws_handle_disconnect_detected_def
      gwc_handle_disconnect_detected_def gwc_disconnect_def gwc_is_connected_def split: if_splits option.splits)

interpretation tr: byte_transport tr_is_connected tr_open tr_async_send_data tr_receive_exact tr_queue
proof
  fix room d t
  show "(fst (tr_async_send_data room d t) = AsyncSuccess) = (tr_is_connected t \<and> room)"
    "tr_queue (snd (tr_async_send_data room d t)) = (if tr_is_connected t \<and> room then tr_queue t @ [d] else tr_queue t)"
    "tr_is_connected (snd (tr_async_send_data room d t)) = tr_is_connected t"
    by (cases t; simp add: gws_async_send_data_def gwc_async_send_data_def gws_is_connected_def gwc_is_connected_def)+
next
  fix t n as got as' assume "tr_open t" "exact_loop n as = Some (True, got, as')"
  then show "tr_receive_exact n as t = Some (True, got, as', t)"
    by (cases t) (auto simp: gws_receive_exact_def gwc_receive_exact_def gwc_is_connected_def)
next
  fix t n as ok got as' t' assume "tr_open t" "tr_receive_exact n as t = Some (ok, got, as', t')"
  then show "exact_loop n as = Some (ok, got, as')"
    by (cases t) (auto simp: gws_receive_exact_def gwc_receive_exact_def gwc_is_connected_def split: option.splits)
qed (rule tr_exact_fails)

section \<open>The sender threads\<close>

text \<open>What the kernel has taken on the open connection, and one turn of the sender thread with the answers to its calls of \<open>send\<close>. \<open>None\<close>: the
  call has not returned, or \<open>SIGPIPE\<close> has ended the process.\<close>

fun tr_wire :: "DataTransport \<Rightarrow> u8 list" where
  "tr_wire (ServerTransport s) = gws_wire s"
| "tr_wire (ClientTransport c) = gwc_wire c"

fun tr_sender_turn :: "gw_send_answer list \<Rightarrow> DataTransport \<Rightarrow> DataTransport option" where
  "tr_sender_turn as (ServerTransport s) =
     (case as of [] \<Rightarrow> None | a # _ \<Rightarrow> map_option ServerTransport (gws_sender_turn a s))"
| "tr_sender_turn as (ClientTransport c) = map_option ClientTransport (gwc_sender_turn as c)"

text \<open>The kernel takes a message in one call.\<close>

fun takes_whole :: "gw_send_answer list \<Rightarrow> u8 list \<Rightarrow> bool" where
  "takes_whole (Took n # _) d \<longleftrightarrow> length d \<le> n"
| "takes_whole _ d \<longleftrightarrow> False"

text \<open>Histories of a transport: messages are queued while the sender thread takes its turns. The specification is a byte stream, which every queued
  message extends and no turn changes. An event fits the bound \<open>n\<close> if it queues at most \<open>n\<close> bytes, or sends up to \<open>n\<close> bytes in one call.\<close>

datatype transport_event = Enqueue bool "u8 list" | SenderTurn "gw_send_answer list"

fun history_step ::
  "(bool \<Rightarrow> u8 list \<Rightarrow> 't \<Rightarrow> 'r \<times> 't) \<Rightarrow> (gw_send_answer list \<Rightarrow> 't \<Rightarrow> 't option) \<Rightarrow> transport_event \<Rightarrow> 't \<Rightarrow> 't option" where
  "history_step enqueue turn (Enqueue room d) t = Some (snd (enqueue room d t))"
| "history_step enqueue turn (SenderTurn as) t = turn as t"

fun stream_step :: "transport_event \<Rightarrow> u8 list \<Rightarrow> u8 list" where
  "stream_step (Enqueue room d) s = (if room then s @ d else s)"
| "stream_step (SenderTurn as) s = s"

fun event_fits :: "nat \<Rightarrow> transport_event \<Rightarrow> bool" where
  "event_fits n (Enqueue room d) \<longleftrightarrow> length d \<le> n"
| "event_fits n (SenderTurn (Took k # _)) \<longleftrightarrow> n \<le> k"
| "event_fits n (SenderTurn _) \<longleftrightarrow> False"

text \<open>A transport as a byte stream to the peer: what is on the wire followed by what is queued. Queueing appends to the stream, a turn that
  sends a whole message only moves bytes from the queue to the wire, and no turn puts anything else on the wire.\<close>

locale stream_transport = byte_transport up opened enqueue exact queued
  for up :: "'t \<Rightarrow> bool"
    and opened :: "'t \<Rightarrow> bool"
    and enqueue :: "bool \<Rightarrow> u8 list \<Rightarrow> 't \<Rightarrow> TransportAsyncSendResult \<times> 't"
    and exact :: "nat \<Rightarrow> recv_answer list \<Rightarrow> 't \<Rightarrow> (bool \<times> u8 list \<times> recv_answer list \<times> 't) option"
    and queued :: "'t \<Rightarrow> u8 list list" +
  fixes wire :: "'t \<Rightarrow> u8 list"
    and turn :: "gw_send_answer list \<Rightarrow> 't \<Rightarrow> 't option"
  assumes enqueue_wire: "wire (snd (enqueue room d t)) = wire t"
    and turn_whole: "opened t \<Longrightarrow> queued t = d # q \<Longrightarrow> takes_whole as d \<Longrightarrow>
       \<exists>t'. turn as t = Some t' \<and> queued t' = q \<and> wire t' = wire t @ d \<and> opened t'"
    and turn_prefix: "turn as t = Some t' \<Longrightarrow> \<exists>k. wire t' = wire t @ take k (concat (queued t))"
    and turn_queue: "turn as t = Some t' \<Longrightarrow> queued t' = queued t \<or> queued t' = tl (queued t)"
    and opened_up: "opened t \<Longrightarrow> up t"
    and enqueue_opened: "opened (snd (enqueue room d t)) = opened t"
    and turn_idle: "queued t = [] \<Longrightarrow> as \<noteq> [] \<Longrightarrow> turn as t = Some t"
begin

lemma enqueue_stream:
  "wire (snd (enqueue room d t)) @ concat (queued (snd (enqueue room d t)))
     = (wire t @ concat (queued t)) @ (if up t \<and> room then d else [])"
  by (simp add: enqueue_wire enqueue_queue)

lemma drained:
  assumes "opened t" "list_all2 takes_whole ass (queued t)"
  shows "\<exists>t'. run_turns turn ass t = Some t' \<and> queued t' = [] \<and> wire t' = wire t @ concat (queued t) \<and> opened t'"
  using assms
proof (induction ass arbitrary: t)
  case (Cons as ass)
  then obtain d q where q: "queued t = d # q" "takes_whole as d" "list_all2 takes_whole ass q" by (auto simp: list_all2_Cons1)
  from turn_whole [OF Cons.prems(1) q(1,2)] obtain t' where
    t': "turn as t = Some t'" "queued t' = q" "wire t' = wire t @ d" "opened t'" by blast
  with Cons.IH [of t'] q show ?case by auto
qed simp

lemma fitting_step:
  assumes "opened t" "\<forall>d\<in>set (queued t). length d \<le> n" "event_fits n e"
  shows "\<exists>t'. history_step enqueue turn e t = Some t' \<and> opened t' \<and> (\<forall>d\<in>set (queued t'). length d \<le> n)
     \<and> wire t' @ concat (queued t') = stream_step e (wire t @ concat (queued t))"
proof (cases e)
  case (Enqueue room d)
  with assms show ?thesis using enqueue_stream [of room d t] opened_up [of t] by (auto simp: enqueue_opened enqueue_queue)
next
  case (SenderTurn as)
  with assms(3) obtain k rest where as: "as = Took k # rest" "n \<le> k" by (auto elim: event_fits.elims)
  show ?thesis
  proof (cases "queued t")
    case Nil
    then show ?thesis using turn_idle [of t as] SenderTurn as assms(1) by simp
  next
    case (Cons d q)
    with assms(2) as have "takes_whole as d" by auto
    from turn_whole [OF assms(1) Cons this] show ?thesis using SenderTurn Cons assms(2) by auto
  qed
qed

lemma history_stream:
  assumes "opened t" "\<forall>d\<in>set (queued t). length d \<le> n" "\<forall>e\<in>set es. event_fits n e"
  shows "\<exists>t'. run_turns (history_step enqueue turn) es t = Some t' \<and> opened t' \<and> (\<forall>d\<in>set (queued t'). length d \<le> n)
     \<and> wire t' @ concat (queued t') = fold stream_step es (wire t @ concat (queued t))"
  using assms
proof (induction es arbitrary: t)
  case (Cons e es)
  from fitting_step [OF Cons.prems(1,2), of e] Cons.prems(3) obtain t' where
    t': "history_step enqueue turn e t = Some t'" "opened t'" "\<forall>d\<in>set (queued t'). length d \<le> n"
    "wire t' @ concat (queued t') = stream_step e (wire t @ concat (queued t))" by auto
  with Cons.IH [OF t'(2,3)] Cons.prems(3) show ?case by simp
qed simp

lemma drained_by:
  assumes "opened t" "\<forall>d\<in>set (queued t). length d \<le> n"
  shows "\<exists>t'. run_turns turn (replicate (length (queued t)) [Took n]) t = Some t' \<and> queued t' = [] \<and> wire t' = wire t @ concat (queued t)"
proof -
  have "list_all2 takes_whole (replicate (length (queued t)) [Took n]) (queued t)"
    using assms(2) by (auto simp: list_all2_conv_all_nth)
  from drained [OF assms(1) this] show ?thesis by blast
qed

end

lemma send_loop_prefix: "gwc_send_loop data as = Some (taken, err) \<Longrightarrow> \<exists>k. taken = take k data"
proof (induction data as arbitrary: taken rule: gwc_send_loop.induct)
  case (6 b bs n as)
  then obtain rest where "taken = take n (b # bs) @ rest" "gwc_send_loop (drop n (b # bs)) as = Some (rest, err)" by auto
  moreover from 6 this(2) obtain k where "rest = take k (drop n (b # bs))" by blast
  ultimately show ?case by (metis take_add)
qed (auto intro: exI [of _ 0])

lemma tr_turn_prefix: "tr_sender_turn as t = Some t' \<Longrightarrow> \<exists>k. tr_wire t' = tr_wire t @ take k (concat (tr_queue t))"
proof (cases t)
  case (ServerTransport s)
  assume "tr_sender_turn as t = Some t'"
  with ServerTransport obtain a s' where s': "t' = ServerTransport s'" "gws_sender_turn a s = Some s'" by (auto split: list.splits)
  show ?thesis
  proof (cases "gws_outgoing_queue s")
    case (Cons d q)
    have "\<exists>k. take n d = take k (d @ concat q)" for n by (rule exI [of _ "min n (length d)"]) (simp add: min_def)
    then show ?thesis using s' ServerTransport Cons
      by (auto simp: gws_sender_turn_def gws_handle_disconnect_detected_def Let_def intro: exI [of _ 0] split: if_splits gw_send_answer.splits)
  qed (use s' ServerTransport in \<open>auto simp: gws_sender_turn_def\<close>)
next
  case (ClientTransport c)
  assume "tr_sender_turn as t = Some t'"
  with ClientTransport obtain c' where c': "t' = ClientTransport c'" "gwc_sender_turn as c = Some c'" by auto
  show ?thesis
  proof (cases "gwc_is_connected c \<and> gwc_outgoing_queue c \<noteq> []")
    case True
    then obtain d q where q: "gwc_outgoing_queue c = d # q" by (cases "gwc_outgoing_queue c") auto
    with c' True obtain taken err where sent: "gwc_send_loop d as = Some (taken, err)" "gwc_wire c' = gwc_wire c @ taken"
      by (auto simp: gwc_sender_turn_def gwc_handle_disconnect_detected_def gwc_disconnect_def Let_def split: option.splits if_splits)
    from send_loop_prefix [OF this(1)] obtain k where "taken = take k d" by blast
    then have "taken = take (min k (length d)) (d @ concat q)" by (simp add: min_def)
    with sent(2) q c'(1) ClientTransport show ?thesis by (intro exI [of _ "min k (length d)"]) simp
  qed (use c' ClientTransport in \<open>auto simp: gwc_sender_turn_def split: list.splits\<close>)
qed

interpretation tr: stream_transport tr_is_connected tr_open tr_async_send_data tr_receive_exact tr_queue tr_wire tr_sender_turn
proof unfold_locales
  fix room d t
  show "tr_wire (snd (tr_async_send_data room d t)) = tr_wire t"
    by (cases t) (simp_all add: gws_async_send_data_def gwc_async_send_data_def)
next
  fix t d q as assume "tr_open t" "tr_queue t = d # q" "takes_whole as d"
  then show "\<exists>t'. tr_sender_turn as t = Some t' \<and> tr_queue t' = q \<and> tr_wire t' = tr_wire t @ d \<and> tr_open t'"
    by (cases t; cases d; auto simp: gws_sender_turn_def gwc_sender_turn_def gwc_is_connected_def Let_def elim!: takes_whole.elims(2))
next
  fix as t t' assume "tr_sender_turn as t = Some t'"
  then show "tr_queue t' = tr_queue t \<or> tr_queue t' = tl (tr_queue t)"
    by (cases t) (auto simp: gws_sender_turn_def gwc_sender_turn_def gws_handle_disconnect_detected_def gwc_handle_disconnect_detected_def
        gwc_disconnect_def Let_def split: list.splits if_splits gw_send_answer.splits option.splits)
next
  fix t assume "tr_open t" then show "tr_is_connected t" by (cases t) (auto simp: gws_is_connected_def gwc_is_connected_def)
next
  fix room d t show "tr_open (snd (tr_async_send_data room d t)) = tr_open t"
    by (cases t) (simp_all add: gws_async_send_data_def gwc_async_send_data_def)
next
  fix t and as :: "gw_send_answer list" assume "tr_queue t = []" "as \<noteq> []"
  then show "tr_sender_turn as t = Some t"
    by (cases t) (auto simp: gws_sender_turn_def gwc_sender_turn_def split: list.splits)
qed (rule tr_turn_prefix)

section \<open>The gateway object\<close>

record ('n, 'm) RosGateway =
  rg_node :: 'n
  rg_id_group :: u8
  rg_identifier_in_group :: u8
  rg_handlers :: "(string, nat) amap"
  rg_transport :: "DataTransport option"
  rg_header_buffer :: "u8 list"
  rg_receiver_running :: bool
  rg_objects :: "'m MessageHandler list"

definition RosGateway_init :: "'n \<Rightarrow> DataTransport option \<Rightarrow> ('n, 'm) RosGateway" where
  "RosGateway_init node transport =
     \<lparr>rg_node = node, rg_id_group = 0, rg_identifier_in_group = 0, rg_handlers = [], rg_transport = transport,
      rg_header_buffer = [], rg_receiver_running = False, rg_objects = []\<rparr>"

definition rg_set_identity :: "u8 \<Rightarrow> u8 \<Rightarrow> ('n, 'm) RosGateway \<Rightarrow> ('n, 'm) RosGateway" where
  "rg_set_identity g i rg = rg\<lparr>rg_id_group := g, rg_identifier_in_group := i\<rparr>"

text \<open>\<open>send_message\<close>: whether the queue has room for the header and then for the payload are arguments. Sizes are
  narrowed to 32 bits by the call of \<open>create_header_in_buffer\<close>.\<close>

definition rg_send_message ::
  "bool \<Rightarrow> bool \<Rightarrow> u8 list \<Rightarrow> u8 \<Rightarrow> u8 list \<Rightarrow> MessageOptions \<Rightarrow> ('n, 'm) RosGateway \<Rightarrow> bool \<times> ('n, 'm) RosGateway" where
  "rg_send_message room1 room2 topic type data options rg =
     (case rg_transport rg of
        None \<Rightarrow> (False, rg)
      | Some t \<Rightarrow>
          if \<not> tr_is_connected t then (False, rg)
          else let header = fst (create_header_in_buffer (rg_header_buffer rg) topic type (rg_id_group rg)
                               (rg_identifier_in_group rg) (of_nat (length data)) options);
                   rg = rg\<lparr>rg_header_buffer := header\<rparr> in
            (case tr_async_send_data room1 header t of
               (r, t) \<Rightarrow>
                 if r \<noteq> AsyncSuccess then (False, rg\<lparr>rg_transport := Some t\<rparr>)
                 else (case tr_async_send_data room2 data t of
                    (r, t) \<Rightarrow> (r = AsyncSuccess, rg\<lparr>rg_transport := Some t\<rparr>))))"

text \<open>\<open>MessageHandlerBase::send_message\<close> of the handler at an address, and the subscription callback that leads to it.\<close>

definition mh_send_message ::
  "bool \<Rightarrow> bool \<Rightarrow> 'm MessageHandler \<Rightarrow> send_args \<Rightarrow> ('n, 'm) RosGateway \<Rightarrow> bool \<times> ('n, 'm) RosGateway" where
  "mh_send_message room1 room2 h a rg =
     (if \<not> is_ros_subscriber_enabled h then (False, rg)
      else rg_send_message room1 room2 (sa_topic a) (sa_type a) (sa_data a) (sa_options a) rg)"

definition ros_callback ::
  "('n, 'm) ros_ops \<Rightarrow> bool \<Rightarrow> bool \<Rightarrow> nat \<Rightarrow> 'm ros_msg \<Rightarrow> ('n, 'm) RosGateway \<Rightarrow> ('n, 'm) RosGateway" where
  "ros_callback ro room1 room2 p msg rg =
     (case handle_message ro (rg_objects rg ! p) msg of
        None \<Rightarrow> rg
      | Some a \<Rightarrow> snd (mh_send_message room1 room2 (rg_objects rg ! p) a rg))"

definition rg_start_receiver :: "('n, 'm) RosGateway \<Rightarrow> ('n, 'm) RosGateway" where
  "rg_start_receiver rg =
     (if rg_receiver_running rg then rg
      else if rg_transport rg = None then rg
      else rg\<lparr>rg_receiver_running := True\<rparr>)"

definition rg_stop_receiver :: "('n, 'm) RosGateway \<Rightarrow> ('n, 'm) RosGateway" where
  "rg_stop_receiver rg = (if \<not> rg_receiver_running rg then rg else rg\<lparr>rg_receiver_running := False\<rparr>)"

section \<open>Handlers of the gateway\<close>

definition register_handler :: "('n, 'm) ros_ops \<Rightarrow> nat \<Rightarrow> ('n, 'm) RosGateway \<Rightarrow> (bool \<times> ('n, 'm) RosGateway) outcome" where
  "register_handler ro p rg =
     (let h = rg_objects rg ! p; name = handler_name (mh_kind h) in
      if aget (rg_handlers rg) name \<noteq> None then Returned (False, rg)
      else let rg = rg\<lparr>rg_handlers := aput name p (rg_handlers rg)\<rparr> in
        (case initialize_handler ro (rg_node rg) h of
           Returned (n, h) \<Rightarrow> Returned (True, rg\<lparr>rg_node := n, rg_objects := (rg_objects rg)[p := h\<lparr>mh_enabled := True\<rparr>]\<rparr>)
         | Thrown (n, h) \<Rightarrow> Thrown (False, rg\<lparr>rg_node := n, rg_objects := (rg_objects rg)[p := h]\<rparr>)
         | Undefined \<Rightarrow> Undefined))"

definition unregister_handler :: "string \<Rightarrow> ('n, 'm) RosGateway \<Rightarrow> bool \<times> ('n, 'm) RosGateway" where
  "unregister_handler name rg =
     (case aget (rg_handlers rg) name of
        None \<Rightarrow> (False, rg)
      | Some p \<Rightarrow> (True, rg\<lparr>rg_objects := (rg_objects rg)[p := shutdown_handler (rg_objects rg ! p)],
                           rg_handlers := aerase name (rg_handlers rg)\<rparr>))"

definition set_handler_enabled :: "bool \<Rightarrow> string \<Rightarrow> ('n, 'm) RosGateway \<Rightarrow> ('n, 'm) RosGateway" where
  "set_handler_enabled b name rg =
     (case aget (rg_handlers rg) name of
        None \<Rightarrow> rg
      | Some p \<Rightarrow> rg\<lparr>rg_objects := (rg_objects rg)[p := (rg_objects rg ! p)\<lparr>mh_enabled := b\<rparr>]\<rparr>)"

definition enable_handler :: "string \<Rightarrow> ('n, 'm) RosGateway \<Rightarrow> ('n, 'm) RosGateway" where
  "enable_handler name rg = set_handler_enabled True name rg"

definition disable_handler :: "string \<Rightarrow> ('n, 'm) RosGateway \<Rightarrow> ('n, 'm) RosGateway" where
  "disable_handler name rg = set_handler_enabled False name rg"

section \<open>Receiving\<close>

text \<open>The loop over the registered handlers.\<close>

fun dispatch ::
  "('n, 'm) ros_ops \<Rightarrow> u8 list \<Rightarrow> u8 \<Rightarrow> u8 list \<Rightarrow> MessageOptions \<Rightarrow> nat list \<Rightarrow> 'm MessageHandler list \<Rightarrow>
   'm MessageHandler list outcome" where
  "dispatch ro topic type data options [] objs = Returned objs"
| "dispatch ro topic type data options (p # ps) objs =
     (if is_ros_publisher_enabled (objs ! p) \<and> can_process_message_type (objs ! p) type then
        (case process_and_publish ro topic type data options (objs ! p) of
           Returned (_, h) \<Rightarrow> dispatch ro topic type data options ps (objs[p := h])
         | Thrown (_, h) \<Rightarrow> Thrown (objs[p := h])
         | Undefined \<Rightarrow> Undefined)
      else dispatch ro topic type data options ps objs)"

text \<open>\<open>receive_and_process_message\<close>: the result, what is left to receive, the gateway. \<open>None\<close>: it waits for more bytes.
  \<open>fits\<close>: whether the payload buffer can be resized to a size. An exception of a handler ends the thread.\<close>

definition receive_payload ::
  "('n, 'm) ros_ops \<Rightarrow> (nat \<Rightarrow> bool) \<Rightarrow> u8 list \<Rightarrow> u8 list \<Rightarrow> recv_answer list \<Rightarrow> DataTransport \<Rightarrow> ('n, 'm) RosGateway \<Rightarrow>
   (bool \<times> recv_answer list \<times> ('n, 'm) RosGateway) outcome option" where
  "receive_payload ro fits hs topic as t rg =
     (let data_size = be32 (hs ! 6) (hs ! 7) (hs ! 8) (hs ! 9) in
      if \<not> fits (unat data_size) then Some (Returned (False, as, rg\<lparr>rg_transport := Some t\<rparr>))
      else (case tr_receive_exact (unat data_size) as t of
         None \<Rightarrow> None
       | Some (False, _, as, t) \<Rightarrow> Some (Returned (False, as, rg\<lparr>rg_transport := Some t\<rparr>))
       | Some (True, data, as, t) \<Rightarrow>
           (let rg = rg\<lparr>rg_transport := Some t\<rparr> in
            case dispatch ro topic (hs ! 3) data (MessageOptions_of_flags (hs ! 2)) (map snd (rg_handlers rg)) (rg_objects rg) of
              Returned objs \<Rightarrow> Some (Returned (True, as, rg\<lparr>rg_objects := objs\<rparr>))
            | Thrown objs \<Rightarrow> Some (Thrown (False, as, rg\<lparr>rg_objects := objs\<rparr>))
            | Undefined \<Rightarrow> Some Undefined)))"

definition receive_and_process_message ::
  "('n, 'm) ros_ops \<Rightarrow> (nat \<Rightarrow> bool) \<Rightarrow> recv_answer list \<Rightarrow> DataTransport \<Rightarrow> ('n, 'm) RosGateway \<Rightarrow>
   (bool \<times> recv_answer list \<times> ('n, 'm) RosGateway) outcome option" where
  "receive_and_process_message ro fits as t rg =
     (case tr_receive_exact 11 as t of
        None \<Rightarrow> None
      | Some (False, _, as, t) \<Rightarrow> Some (Returned (False, as, rg\<lparr>rg_transport := Some t\<rparr>))
      | Some (True, hs, as, t) \<Rightarrow>
          if be16 (hs ! 0) (hs ! 1) \<noteq> HEADER_MAGIC then Some (Returned (False, as, rg\<lparr>rg_transport := Some t\<rparr>))
          else (case tr_receive_exact (unat (hs ! 10)) as t of
             None \<Rightarrow> None
           | Some (False, _, as, t) \<Rightarrow> Some (Returned (False, as, rg\<lparr>rg_transport := Some t\<rparr>))
           | Some (True, topic, as, t) \<Rightarrow> receive_payload ro fits hs topic as t rg))"

text \<open>One turn of \<open>receiver_thread_func\<close>: the answer of \<open>select\<close> and what arrives.\<close>

definition receiver_turn ::
  "('n, 'm) ros_ops \<Rightarrow> (nat \<Rightarrow> bool) \<Rightarrow> select_answer \<Rightarrow> recv_answer list \<Rightarrow> ('n, 'm) RosGateway \<Rightarrow>
   (recv_answer list \<times> ('n, 'm) RosGateway) outcome option" where
  "receiver_turn ro fits a as rg =
     (case rg_transport rg of
        None \<Rightarrow> Some (Returned (as, rg))
      | Some t \<Rightarrow>
          if \<not> rg_receiver_running rg \<or> \<not> tr_is_connected t then Some (Returned (as, rg))
          else (case tr_data_available a t of
             (False, t) \<Rightarrow> Some (Returned (as, rg\<lparr>rg_transport := Some t\<rparr>))
           | (True, t) \<Rightarrow>
               (case receive_and_process_message ro fits as t (rg\<lparr>rg_transport := Some t\<rparr>) of
                  None \<Rightarrow> None
                | Some (Returned (_, as, rg)) \<Rightarrow> Some (Returned (as, rg))
                | Some (Thrown (_, as, rg)) \<Rightarrow> Some (Thrown (as, rg))
                | Some Undefined \<Rightarrow> Some Undefined)))"

section \<open>The handler factory\<close>

fun mt_creator :: "MessageType \<Rightarrow> HandlerKind option" where
  "mt_creator STRING = Some StringHandler"
| "mt_creator smLASERSCAN = Some LaserScanHandler"
| "mt_creator STRING_TEST_INPUT = Some StringTestInputHandler"
| "mt_creator STRING_TEST_RESULT = Some StringTestResultHandler"
| "mt_creator smSERIAL_STRING = Some SerialStringHandler"
| "mt_creator smJOINTSTATE = Some JointStateHandler"
| "mt_creator smSERIAL_FEEDBACK = Some SerialFeedbackHandler"
| "mt_creator _ = None"

definition creator_map :: "(string, HandlerKind) amap" where
  "creator_map =
     [(''std_msgs/msg/String'', StringHandler), (''sensor_msgs/msg/LaserScan'', LaserScanHandler),
      (''test/string_input'', StringTestInputHandler), (''test/string_result'', StringTestResultHandler),
      (''std_msgs/msg/String/serial'', SerialStringHandler), (''sensor_msgs/msg/JointState'', JointStateHandler),
      (''std_msgs/msg/String/feedback'', SerialFeedbackHandler)]"

type_synonym instances = "(MessageType, nat) amap"

text \<open>A new object on the heap.\<close>

definition new_handler :: "HandlerKind \<Rightarrow> ('n, 'm) RosGateway \<Rightarrow> nat \<times> ('n, 'm) RosGateway" where
  "new_handler k rg = (length (rg_objects rg), rg\<lparr>rg_objects := rg_objects rg @ [MessageHandler_init k]\<rparr>)"

definition hf_create_handler :: "string \<Rightarrow> ('n, 'm) RosGateway \<Rightarrow> nat option \<times> ('n, 'm) RosGateway" where
  "hf_create_handler name rg =
     (case aget creator_map name of
        None \<Rightarrow> (None, rg)
      | Some k \<Rightarrow> (case new_handler k rg of (p, rg) \<Rightarrow> (Some p, rg)))"

definition get_or_create ::
  "MessageType \<Rightarrow> instances \<times> ('n, 'm) RosGateway \<Rightarrow> nat option \<times> instances \<times> ('n, 'm) RosGateway" where
  "get_or_create type s =
     (case s of (inst, rg) \<Rightarrow>
        (case aget inst type of
           Some p \<Rightarrow> (Some p, inst, rg)
         | None \<Rightarrow>
             (case mt_creator type of
                None \<Rightarrow> (None, inst, rg)
              | Some k \<Rightarrow> (case new_handler k rg of (p, rg) \<Rightarrow> (Some p, aput type p inst, rg)))))"

end
