(* ===== verification/Bridge_Cp_Client.thy ===== *)
theory Bridge_Cp_Client
  imports Gateway_Transport Json_Value Cpp_Text
begin

text \<open>
  The gateway's end of the control connection to the bridge (bridge_cp_client.hpp, .cpp): reliable sending with
  acknowledgements, the messages a gateway sends, and the messages it receives. A received message leads to at most one call
  of a callback of the controller, always as the last action of its branch: \<open>gw_event\<close> says which, and the theory of the
  controller runs it. The clock does not move during a call.
\<close>

record 'j CpPendingAck =
  cpa_message :: 'j
  cpa_time_sent :: int

record 'j BridgeCpClient =
  cp_transport :: "GwClient option"
  cp_running :: bool
  cp_sequence_number :: u64
  cp_pending_acks :: "(u64, 'j CpPendingAck) amap"

definition BridgeCpClient_init :: "'j BridgeCpClient" where
  "BridgeCpClient_init = \<lparr>cp_transport = None, cp_running = False, cp_sequence_number = 1, cp_pending_acks = []\<rparr>"

definition CP_ACK_TIMEOUT :: int where "CP_ACK_TIMEOUT = 5000"

definition cp_start :: "connect_answer \<Rightarrow> string \<Rightarrow> int \<Rightarrow> 'j BridgeCpClient \<Rightarrow> bool \<times> 'j BridgeCpClient" where
  "cp_start a host port c =
     (if cp_running c then (True, c)
      else (case gwc_connect a (GwClient_init host port 3) of
         (False, t) \<Rightarrow> (False, c\<lparr>cp_transport := Some t\<rparr>)
       | (True, t) \<Rightarrow> (True, c\<lparr>cp_transport := Some t, cp_running := True\<rparr>)))"

definition cp_stop :: "'j BridgeCpClient \<Rightarrow> 'j BridgeCpClient" where
  "cp_stop c = c\<lparr>cp_running := False, cp_transport := map_option gwc_disconnect (cp_transport c)\<rparr>"

section \<open>Sending\<close>

text \<open>\<open>send_reliable_message\<close>; \<open>room\<close>: whether the queue of the transport has room.\<close>

definition cp_send_reliable_message :: "'j json_ops \<Rightarrow> bool \<Rightarrow> int \<Rightarrow> 'j \<Rightarrow> 'j BridgeCpClient \<Rightarrow> 'j BridgeCpClient" where
  "cp_send_reliable_message ops room now msg c =
     (case cp_transport c of
        None \<Rightarrow> c
      | Some t \<Rightarrow>
          if \<not> cp_running c \<or> \<not> gwc_is_connected t then c
          else
            (let seq_num = cp_sequence_number c;
                 c = c\<lparr>cp_sequence_number := seq_num + 1\<rparr>;
                 msg = js_set ops msg ''sequence_number'' (js_of_int ops (uint seq_num)) in
             case gwc_async_send_data room (bytes_of_text (js_dump ops msg)) t of
               (r, t) \<Rightarrow>
                 (let c = c\<lparr>cp_transport := Some t\<rparr> in
                  if r = AsyncSuccess
                  then c\<lparr>cp_pending_acks := aput seq_num \<lparr>cpa_message = msg, cpa_time_sent = now\<rparr> (cp_pending_acks c)\<rparr>
                  else c)))"

definition cp_ack_message :: "'j json_ops \<Rightarrow> int \<Rightarrow> string \<Rightarrow> 'j" where
  "cp_ack_message ops ack_sequence_number component_id =
     js_object ops [(''component_id'', js_of_string ops component_id), (''message_code'', js_of_int ops 900),
       (''message_type'', js_of_string ops ''ACK''), (''sequence_number'', js_of_int ops 0),
       (''payload'', js_object ops [(''ack_sequence_number'', js_of_int ops ack_sequence_number)])]"

definition cp_send_ack :: "'j json_ops \<Rightarrow> bool \<Rightarrow> int \<Rightarrow> string \<Rightarrow> 'j BridgeCpClient \<Rightarrow> 'j BridgeCpClient" where
  "cp_send_ack ops room ack_sequence_number component_id c =
     c\<lparr>cp_transport := map_option (\<lambda>t. snd (gwc_async_send_data room
         (bytes_of_text (js_dump ops (cp_ack_message ops ack_sequence_number component_id))) t)) (cp_transport c)\<rparr>"

definition cp_message :: "'j json_ops \<Rightarrow> string \<Rightarrow> int \<Rightarrow> string \<Rightarrow> 'j \<Rightarrow> 'j" where
  "cp_message ops component_id code type payload =
     js_object ops [(''component_id'', js_of_string ops component_id), (''message_code'', js_of_int ops code),
       (''message_type'', js_of_string ops type), (''payload'', payload)]"

definition cp_send_dp_info ::
  "'j json_ops \<Rightarrow> bool \<Rightarrow> int \<Rightarrow> string \<Rightarrow> string \<Rightarrow> int \<Rightarrow> 'j BridgeCpClient \<Rightarrow> 'j BridgeCpClient" where
  "cp_send_dp_info ops room now component_id dp_host dp_port c =
     cp_send_reliable_message ops room now (cp_message ops component_id 103 ''DP_INFO''
       (js_object ops [(''dp_host'', js_of_string ops dp_host), (''dp_port'', js_of_int ops dp_port)])) c"

definition offload_payload :: "'j json_ops \<Rightarrow> string \<Rightarrow> int \<Rightarrow> string \<Rightarrow> string \<Rightarrow> 'j" where
  "offload_payload ops request_id task task_name vhc_data =
     (let payload = js_object ops [(''request_id'', js_of_string ops request_id), (''task_id'', js_of_int ops task),
            (''task_name'', js_of_string ops task_name)]
      in if vhc_data \<noteq> [] then js_set ops payload ''vhc_data'' (js_of_string ops vhc_data) else payload)"

text \<open>\<open>std::stoi\<close> of the task id throws when it is no number.\<close>

definition cp_send_offload_request ::
  "'j json_ops \<Rightarrow> bool \<Rightarrow> int \<Rightarrow> string \<Rightarrow> string \<Rightarrow> string \<Rightarrow> string \<Rightarrow> string \<Rightarrow> 'j BridgeCpClient \<Rightarrow> 'j BridgeCpClient outcome" where
  "cp_send_offload_request ops room now component_id request_id task_id task_name vhc_data c =
     (case stoi task_id of
        None \<Rightarrow> Thrown c
      | Some task \<Rightarrow>
          Returned (cp_send_reliable_message ops room now (cp_message ops component_id 100 ''OFFLOAD_REQUEST''
            (offload_payload ops request_id task task_name vhc_data)) c))"

definition cp_send_session_keepalive ::
  "'j json_ops \<Rightarrow> bool \<Rightarrow> int \<Rightarrow> string \<Rightarrow> string \<Rightarrow> 'j BridgeCpClient \<Rightarrow> 'j BridgeCpClient" where
  "cp_send_session_keepalive ops room now component_id request_id c =
     cp_send_reliable_message ops room now (cp_message ops component_id 101 ''SESSION_KEEPALIVE''
       (js_object ops [(''request_id'', js_of_string ops request_id)])) c"

definition cp_send_session_terminate_request ::
  "'j json_ops \<Rightarrow> bool \<Rightarrow> int \<Rightarrow> string \<Rightarrow> string \<Rightarrow> 'j BridgeCpClient \<Rightarrow> 'j BridgeCpClient" where
  "cp_send_session_terminate_request ops room now component_id request_id c =
     cp_send_reliable_message ops room now (cp_message ops component_id 102 ''SESSION_TERMINATE_REQUEST''
       (js_object ops [(''request_id'', js_of_string ops request_id)])) c"

section \<open>Retransmission\<close>

definition cp_overdue :: "int \<Rightarrow> 'j CpPendingAck \<Rightarrow> bool" where
  "cp_overdue now p \<longleftrightarrow> now - cpa_time_sent p > CP_ACK_TIMEOUT"

text \<open>One message of the second loop of \<open>check_for_timeouts\<close>.\<close>

definition cp_resend ::
  "'j json_ops \<Rightarrow> (u64 \<Rightarrow> bool) \<Rightarrow> int \<Rightarrow> u64 \<times> 'j CpPendingAck \<Rightarrow> 'j BridgeCpClient \<Rightarrow> 'j BridgeCpClient" where
  "cp_resend ops room now x c =
     (case (x, cp_transport c) of
        ((seq_num, p), Some t) \<Rightarrow>
          (case gwc_async_send_data (room seq_num) (bytes_of_text (js_dump ops (cpa_message p))) t of
             (r, t) \<Rightarrow>
               (let c = c\<lparr>cp_transport := Some t\<rparr> in
                if r = AsyncSuccess
                then (case aget (cp_pending_acks c) seq_num of
                        Some q \<Rightarrow> c\<lparr>cp_pending_acks := aput seq_num (q\<lparr>cpa_time_sent := now\<rparr>) (cp_pending_acks c)\<rparr>
                      | None \<Rightarrow> c)
                else c))
      | _ \<Rightarrow> c)"

definition cp_check_for_timeouts ::
  "'j json_ops \<Rightarrow> (u64 \<Rightarrow> bool) \<Rightarrow> int \<Rightarrow> 'j BridgeCpClient \<Rightarrow> 'j BridgeCpClient" where
  "cp_check_for_timeouts ops room now c =
     fold (cp_resend ops room now) (filter (\<lambda>(_, p). cp_overdue now p) (cp_pending_acks c)) c"

section \<open>Receiving\<close>

datatype 'j gw_event = NoEvent | SessionApproved 'j | SessionDenied string string | DpConfirmed

definition to_int64 :: "int \<Rightarrow> int" where
  "to_int64 v = sint (of_int v :: u64)"

text \<open>A field that may be a number becomes a text.\<close>

definition normalize_field :: "'j json_ops \<Rightarrow> string \<Rightarrow> 'j \<Rightarrow> 'j" where
  "normalize_field ops k payload =
     (if \<not> js_contains ops payload k then payload
      else let v = js_get ops payload k in
        if js_is_integer ops v then
          (case js_int ops v of
             Some i \<Rightarrow> js_set ops payload k (js_of_string ops (show_int (to_int64 i)))
           | None \<Rightarrow> payload)
        else payload)"

definition cp_session_approved :: "'j json_ops \<Rightarrow> 'j \<Rightarrow> 'j gw_event" where
  "cp_session_approved ops msg =
     (if js_contains ops msg ''payload''
      then SessionApproved (normalize_field ops ''task_id'' (normalize_field ops ''request_id'' (js_get ops msg ''payload'')))
      else NoEvent)"

definition cp_session_denied :: "'j json_ops \<Rightarrow> 'j \<Rightarrow> 'j gw_event" where
  "cp_session_denied ops msg =
     (let payload = js_get ops msg ''payload'' in
      if js_contains ops msg ''payload'' \<and> js_contains ops payload ''request_id'' \<and> js_contains ops payload ''reason_description'' then
        (let rid = js_get ops payload ''request_id'';
             request_id = (case js_string ops rid of
                 Some s \<Rightarrow> s
               | None \<Rightarrow> if js_is_integer ops rid then (case js_int ops rid of Some i \<Rightarrow> show_int (to_int64 i) | None \<Rightarrow> []) else [])
         in case js_string ops (js_get ops payload ''reason_description'') of
              Some reason \<Rightarrow> SessionDenied request_id reason
            | None \<Rightarrow> NoEvent)
      else NoEvent)"

definition cp_handle_ack :: "'j json_ops \<Rightarrow> 'j \<Rightarrow> 'j BridgeCpClient \<Rightarrow> ('j BridgeCpClient \<times> 'j gw_event) outcome" where
  "cp_handle_ack ops msg c =
     (let payload = js_get ops msg ''payload'' in
      if js_contains ops msg ''payload'' \<and> js_contains ops payload ''ack_sequence_number'' then
        (case js_int ops (js_get ops payload ''ack_sequence_number'') of
           None \<Rightarrow> Thrown (c, NoEvent)
         | Some n \<Rightarrow> Returned (c\<lparr>cp_pending_acks := aerase (of_int (to_int32 n)) (cp_pending_acks c)\<rparr>, NoEvent))
      else Returned (c, NoEvent))"

text \<open>\<open>msg.value("sequence_number", 0)\<close>; \<open>None\<close> when it throws.\<close>

definition cp_sequence_of :: "'j json_ops \<Rightarrow> 'j \<Rightarrow> int option" where
  "cp_sequence_of ops msg =
     (case js_at ops msg ''sequence_number'' of
        Found v \<Rightarrow> map_option to_int32 (js_int ops v) | Missing \<Rightarrow> Some 0 | NotObject \<Rightarrow> None)"

definition cp_handle_received_message ::
  "'j json_ops \<Rightarrow> bool \<Rightarrow> 'j \<Rightarrow> 'j BridgeCpClient \<Rightarrow> ('j BridgeCpClient \<times> 'j gw_event) outcome" where
  "cp_handle_received_message ops room msg c =
     (if \<not> js_contains ops msg ''message_code'' \<or> \<not> js_contains ops msg ''component_id'' then Returned (c, NoEvent)
      else (case (js_int ops (js_get ops msg ''message_code''), js_string ops (js_get ops msg ''component_id''), cp_sequence_of ops msg) of
         (Some code, Some component_id, Some seq_num) \<Rightarrow>
           (let code = to_int32 code;
                c = (if code \<noteq> 900 then cp_send_ack ops room seq_num component_id c else c) in
            if code = 200 then Returned (c, cp_session_approved ops msg)
            else if code = 201 then Returned (c, cp_session_denied ops msg)
            else if code = 202 then Returned (c, DpConfirmed)
            else if code = 900 then cp_handle_ack ops msg c
            else Returned (c, NoEvent))
       | _ \<Rightarrow> Thrown (c, NoEvent)))"

text \<open>The receiving half of one turn of \<open>client_thread_func\<close>: the answers of \<open>select\<close> and \<open>recv\<close>. A text that is no JSON is
  dropped; every other exception leaves the thread function. The turn ends with \<open>check_for_timeouts\<close>.\<close>

definition cp_receive ::
  "'j json_ops \<Rightarrow> bool \<Rightarrow> select_answer \<Rightarrow> recv_answer \<Rightarrow> 'j BridgeCpClient \<Rightarrow> ('j BridgeCpClient \<times> 'j gw_event) outcome" where
  "cp_receive ops room sel rec c =
     (case cp_transport c of
        None \<Rightarrow> Returned (c, NoEvent)
      | Some t \<Rightarrow>
          if \<not> gwc_is_connected t then Returned (c, NoEvent)
          else (case gwc_data_available sel t of
             (False, t) \<Rightarrow> Returned (c\<lparr>cp_transport := Some t\<rparr>, NoEvent)
           | (True, t) \<Rightarrow>
               (case gwc_receive_data 4095 rec t of
                  (n, bs, t) \<Rightarrow>
                    (let c = c\<lparr>cp_transport := Some t\<rparr> in
                     if n > 0 then
                       (case js_parse ops (c_text bs) of
                          None \<Rightarrow> Returned (c, NoEvent)
                        | Some msg \<Rightarrow> cp_handle_received_message ops room msg c)
                     else Returned (c, NoEvent)))))"

end
