(* ===== verification/Discovery_Client.thy ===== *)
theory Discovery_Client
  imports Gateway_Transport Discovery_Protocol
begin

text \<open>
  The gateway's registration with the discovery service (discovery_client.hpp, .cpp). The thread function has two loops, one that
  registers and one that sends keepalives; \<open>dc_phase\<close> is its program counter, and one turn of a loop is one step. A callback of the
  controller is an event. \<open>dc_exchange\<close> holds what the environment answers in one turn.
\<close>

datatype dc_phase = Registering | KeepingAlive | Exited

record DiscoveryClient =
  dc_transport :: GwClient
  dc_running :: bool
  dc_registered :: bool
  dc_host :: string
  dc_port :: int
  dc_component_type :: ComponentType
  dc_component_name :: string
  dc_group_id :: u8
  dc_id_in_group :: u8
  dc_data_plane_port :: int
  dc_keepalive_interval_ms :: int
  dc_phase :: dc_phase

datatype dc_event = DcNothing | DcSuccess string int string | DcFailure string

record dc_exchange =
  dx_connect :: connect_answer
  dx_room :: bool
  dx_select :: select_answer
  dx_recv :: recv_answer

text \<open>The constructor with \<open>start\<close>; the thread creates its transport first.\<close>

definition dc_start :: "string \<Rightarrow> int \<Rightarrow> ComponentType \<Rightarrow> string \<Rightarrow> u8 \<Rightarrow> u8 \<Rightarrow> int \<Rightarrow> DiscoveryClient" where
  "dc_start host port ctype cname gid iid dp_port =
     \<lparr>dc_transport = GwClient_init host port 3, dc_running = True, dc_registered = False, dc_host = host, dc_port = port,
      dc_component_type = ctype, dc_component_name = cname, dc_group_id = gid,
      dc_id_in_group = iid, dc_data_plane_port = dp_port, dc_keepalive_interval_ms = 5000,
      dc_phase = Registering\<rparr>"

definition dc_stop :: "DiscoveryClient \<Rightarrow> DiscoveryClient" where
  "dc_stop d = d\<lparr>dc_running := False, dc_transport := gwc_disconnect (dc_transport d)\<rparr>"

definition dc_request :: "DiscoveryClient \<Rightarrow> RegistrationRequest" where
  "dc_request d = \<lparr>componentType = dc_component_type d, idRequestType = STATIC, groupId = dc_group_id d,
     idInGroup = dc_id_in_group d, componentName = dc_component_name d, listenAddress = ''0.0.0.0'',
     listenPort = show_int (dc_data_plane_port d), rq_humanReadableMessage = ''registration request from MGW''\<rparr>"

text \<open>What a received response does.\<close>

definition dc_handle_response :: "RegistrationResponse \<Rightarrow> DiscoveryClient \<Rightarrow> DiscoveryClient \<times> dc_event" where
  "dc_handle_response r d =
     (if responseCode r = SUCCESS then
        (case (if connectionTargetPort r = [] then Some 0 else stoi (connectionTargetPort r)) of
           None \<Rightarrow> (d\<lparr>dc_phase := Exited\<rparr>, DcFailure ''Invalid port from DiscoveryService.'')
         | Some port \<Rightarrow> (d\<lparr>dc_registered := True\<rparr>, DcSuccess (connectionTargetAddress r) port (configJson r)))
      else if responseCode r = WAIT then (d, DcNothing)
      else (d\<lparr>dc_phase := Exited\<rparr>, DcFailure (''Registration denied: '' @ rs_humanReadableMessage r)))"

text \<open>A text received during registration; anything that is no response is ignored.\<close>

definition dc_handle_text :: "string \<Rightarrow> DiscoveryClient \<Rightarrow> DiscoveryClient \<times> dc_event" where
  "dc_handle_text s d =
     (case decode_message s of
        Inr (MsgRegistrationResponse r) \<Rightarrow> dc_handle_response r d
      | _ \<Rightarrow> (d, DcNothing))"

text \<open>From the request to the response, on a connected transport.\<close>

definition dc_exchange_turn :: "dc_exchange \<Rightarrow> DiscoveryClient \<Rightarrow> DiscoveryClient \<times> dc_event" where
  "dc_exchange_turn x d =
     (let t = snd (gwc_async_send_data (dx_room x)
                (bytes_of_text (encode_message (MsgRegistrationRequest (dc_request d)))) (dc_transport d)) in
      case gwc_data_available (dx_select x) t of
        (False, t) \<Rightarrow> (d\<lparr>dc_transport := t, dc_phase := Exited\<rparr>, DcFailure ''Timeout waiting for response.'')
      | (True, t) \<Rightarrow>
          (case gwc_receive_data 8191 (dx_recv x) t of
             (n, bs, t) \<Rightarrow>
               (let d = d\<lparr>dc_transport := t\<rparr> in
                if n > 0 then dc_handle_text (c_text bs) d else (d, DcNothing))))"

definition dc_registration_turn :: "dc_exchange \<Rightarrow> DiscoveryClient \<Rightarrow> DiscoveryClient \<times> dc_event" where
  "dc_registration_turn x d =
     (if \<not> dc_running d \<or> dc_registered d then (d\<lparr>dc_phase := KeepingAlive\<rparr>, DcNothing)
      else if gwc_is_connected (dc_transport d) then dc_exchange_turn x d
      else (case gwc_connect (dx_connect x) (dc_transport d) of
         (False, t) \<Rightarrow> (d\<lparr>dc_transport := t, dc_phase := Exited\<rparr>, DcFailure ''Could not connect to DiscoveryService.'')
       | (True, t) \<Rightarrow> dc_exchange_turn x (d\<lparr>dc_transport := t\<rparr>)))"

definition dc_ping :: "DiscoveryClient \<Rightarrow> KeepalivePing" where
  "dc_ping d = \<lparr>kp_componentId = show_int (uint (dc_group_id d)) @ ''.'' @ show_int (uint (dc_id_in_group d)),
     kp_status = ''OK'', kp_humanReadableMessage = ''keepalive ping''\<rparr>"

definition dc_keepalive_turn :: "dc_exchange \<Rightarrow> DiscoveryClient \<Rightarrow> DiscoveryClient" where
  "dc_keepalive_turn x d =
     (if \<not> dc_running d \<or> \<not> dc_registered d then d\<lparr>dc_phase := Exited\<rparr>
      else (case gwc_data_available (dx_select x) (dc_transport d) of
         (True, t) \<Rightarrow>
           (case gwc_receive_data 4095 (dx_recv x) t of
              (n, bs, t) \<Rightarrow>
                (let d = d\<lparr>dc_transport := t\<rparr> in
                 if n > 0 then
                   (case decode_message (c_text bs) of
                      Inr (MsgKeepaliveResponse pong) \<Rightarrow>
                        if nextIntervalMs pong > 0 then d\<lparr>dc_keepalive_interval_ms := nextIntervalMs pong\<rparr> else d
                    | _ \<Rightarrow> d)
                 else d))
       | (False, t) \<Rightarrow>
           (case gwc_async_send_data (dx_room x) (bytes_of_text (encode_message (MsgKeepalivePing (dc_ping d)))) t of
              (r, t) \<Rightarrow>
                (let d = d\<lparr>dc_transport := t\<rparr> in
                 if r = AsyncNotConnected then d\<lparr>dc_phase := Exited\<rparr> else d))))"

text \<open>One turn of the thread.\<close>

definition dc_turn :: "dc_exchange \<Rightarrow> DiscoveryClient \<Rightarrow> DiscoveryClient \<times> dc_event" where
  "dc_turn x d =
     (case dc_phase d of
        Registering \<Rightarrow> dc_registration_turn x d
      | KeepingAlive \<Rightarrow> (dc_keepalive_turn x d, DcNothing)
      | Exited \<Rightarrow> (d, DcNothing))"

end
