(* ===== verification/Gateway_Controller.thy ===== *)
theory Gateway_Controller
  imports Ros_Gateway Bridge_Cp_Client Discovery_Client
begin

text \<open>
  The controller of a gateway (gateway_controller.hpp, .cpp): a state machine in a thread of its own, two ROS services, the
  callbacks of the clients of the discovery service and of the bridge, and the thread that accepts data plane connections.
  Each function below runs under the mutex its source takes. \<open>Thrown\<close> is an exception that leaves the function; in a
  thread function it ends the program. \<open>ct_dp_info_sent\<close> is the program point of the control thread between sending
  \<open>DP_INFO\<close> and the assignment of the next state, where callbacks can run.
\<close>

datatype GwState = INITIALIZING | DISCOVERING | CONNECTING_TO_BRIDGE | WAITING_FOR_DP_CONNECTION | GW_OPERATIONAL | GW_FAILED

record OffloadingRequestData =
  or_task_id :: string
  or_vhc_data :: string

record TaskDetails =
  td_task_name :: string
  td_input_types :: "MessageType list"
  td_output_types :: "MessageType list"
  td_required_handlers :: "string list"

record SessionState =
  ss_request_id :: string
  ss_task_id :: string
  ss_last_keepalive_sent :: int

record ('j, 'n, 'm) GatewayController =
  ct_running :: bool
  ct_state :: GwState
  ct_offloading_request_queue :: "OffloadingRequestData list"
  ct_termination_request_queue :: "string list"
  ct_gateway :: "('n, 'm) RosGateway"
  ct_instances :: instances
  ct_discovery_client :: "DiscoveryClient option"
  ct_bridge_cp_client :: "'j BridgeCpClient option"
  ct_request_id_counter :: u64
  ct_task_database :: "(string, TaskDetails) amap"
  ct_active_sessions :: "(string, SessionState) amap"
  ct_default_session_timeout :: int
  ct_max_concurrent_sessions :: int
  ct_component_id :: string
  ct_component_type :: string
  ct_component_name :: string
  ct_operation_mode :: string
  ct_id_group :: int
  ct_identifier_in_group :: int
  ct_data_plane_listen_port :: int
  ct_local_config_path :: string
  ct_discovery_host :: string
  ct_discovery_port :: int
  ct_bridge_cp_host :: string
  ct_bridge_cp_port :: int
  ct_dp_info_sent :: bool
  ct_accepting :: bool

text \<open>The parameters of the node, as the constructor reads them.\<close>

record gw_params =
  gp_discovery_host :: string
  gp_discovery_port :: int
  gp_component_type :: string
  gp_component_name :: string
  gp_group_id :: int
  gp_id_in_group :: int
  gp_listen_port :: int
  gp_operation_mode :: string
  gp_peer_host :: string
  gp_peer_port :: int
  gp_local_config_path :: string

section \<open>Construction\<close>

text \<open>The choice of the transport in \<open>initialize\<close>.\<close>

definition data_plane_transport :: "gw_params \<Rightarrow> DataTransport" where
  "data_plane_transport g =
     (if gp_operation_mode g = ''networked'' then ServerTransport (GwServer_init (gp_listen_port g) 1)
      else if gp_component_type g = ''M'' then ServerTransport (GwServer_init (gp_listen_port g) 1)
      else if gp_operation_mode g = ''p2p'' then ClientTransport (GwClient_init (gp_peer_host g) (gp_peer_port g) 3)
      else ClientTransport (GwClient_init ''0.0.0.0'' 0 3))"

definition GatewayController_init :: "'n \<Rightarrow> gw_params \<Rightarrow> ('j, 'n, 'm) GatewayController" where
  "GatewayController_init node g =
     \<lparr>ct_running = True, ct_state = INITIALIZING, ct_offloading_request_queue = [], ct_termination_request_queue = [],
      ct_gateway = rg_set_identity (of_int (gp_group_id g)) (of_int (gp_id_in_group g))
        (RosGateway_init node (Some (data_plane_transport g))),
      ct_instances = [], ct_discovery_client = None, ct_bridge_cp_client = None, ct_request_id_counter = 1,
      ct_task_database = [], ct_active_sessions = [], ct_default_session_timeout = 300, ct_max_concurrent_sessions = 100,
      ct_component_id = show_int (gp_group_id g) @ '':'' @ show_int (gp_id_in_group g), ct_component_type = gp_component_type g,
      ct_component_name = gp_component_name g, ct_operation_mode = gp_operation_mode g, ct_id_group = gp_group_id g,
      ct_identifier_in_group = gp_id_in_group g, ct_data_plane_listen_port = gp_listen_port g,
      ct_local_config_path = gp_local_config_path g, ct_discovery_host = gp_discovery_host g,
      ct_discovery_port = gp_discovery_port g, ct_bridge_cp_host = [], ct_bridge_cp_port = 0, ct_dp_info_sent = False,
      ct_accepting = False\<rparr>"

section \<open>Configuration\<close>

definition message_type_from_id :: "u32 \<Rightarrow> MessageType option" where
  "message_type_from_id i =
     (if i = 1 then Some STRING else if i = 2 then Some INT32 else if i = 3 then Some FLOAT32 else if i = 4 then Some BOOL
      else if i = 11 then Some smLASERSCAN else if i = 12 then Some smSERIAL_STRING else if i = 13 then Some smJOINTSTATE
      else if i = 14 then Some smSERIAL_FEEDBACK else if i = 201 then Some STRING_TEST_INPUT
      else if i = 202 then Some STRING_TEST_RESULT else None)"

text \<open>The lambda \<open>parse_types\<close>: unknown ids are skipped; \<open>None\<close> when an element is no number.\<close>

fun load_types :: "'j json_ops \<Rightarrow> 'j list \<Rightarrow> MessageType list option" where
  "load_types ops [] = Some []"
| "load_types ops (v # vs) =
     (case js_int ops v of
        None \<Rightarrow> None
      | Some i \<Rightarrow>
          map_option (\<lambda>ts. case message_type_from_id (of_int i) of Some t \<Rightarrow> t # ts | None \<Rightarrow> ts) (load_types ops vs))"

definition load_type_field :: "'j json_ops \<Rightarrow> 'j \<Rightarrow> string \<Rightarrow> MessageType list option" where
  "load_type_field ops t field =
     (if \<not> js_contains ops t field then Some [] else load_types ops (js_items ops (js_get ops t field)))"

text \<open>One task with id and name: its key and details; \<open>None\<close> when a conversion throws.\<close>

definition load_task :: "'j json_ops \<Rightarrow> 'j \<Rightarrow> (string \<times> TaskDetails) option" where
  "load_task ops t =
     (case (js_int ops (js_get ops t ''task_id''), js_string ops (js_get ops t ''task_name''),
            load_type_field ops t ''input_message_types'', load_type_field ops t ''output_message_types'') of
        (Some i, Some name, Some ins, Some outs) \<Rightarrow>
          Some (show_int (to_int32 i), \<lparr>td_task_name = name, td_input_types = ins, td_output_types = outs, td_required_handlers = []\<rparr>)
      | _ \<Rightarrow> None)"

text \<open>The loop over the tasks: the number of loaded tasks and the database.\<close>

fun load_tasks :: "'j json_ops \<Rightarrow> 'j list \<Rightarrow> nat \<times> (string, TaskDetails) amap \<Rightarrow> (nat \<times> (string, TaskDetails) amap) outcome" where
  "load_tasks ops [] s = Returned s"
| "load_tasks ops (t # ts) s =
     (if \<not> js_contains ops t ''task_id'' \<or> \<not> js_contains ops t ''task_name'' then load_tasks ops ts s
      else (case load_task ops t of
         None \<Rightarrow> Thrown s
       | Some (k, td) \<Rightarrow> load_tasks ops ts (Suc (fst s), aput k td (snd s))))"

text \<open>An optional number of the configuration.\<close>

definition optional_int :: "'j json_ops \<Rightarrow> 'j \<Rightarrow> string \<Rightarrow> int \<Rightarrow> int option" where
  "optional_int ops doc k dflt =
     (if js_contains ops doc k then map_option to_int32 (js_int ops (js_get ops doc k)) else Some dflt)"

definition load_global_config_from_json ::
  "'j json_ops \<Rightarrow> string \<Rightarrow> ('j, 'n, 'm) GatewayController \<Rightarrow> (bool \<times> ('j, 'n, 'm) GatewayController) outcome" where
  "load_global_config_from_json ops config_json c =
     (case js_parse ops config_json of
        None \<Rightarrow> Returned (False, c)
      | Some doc \<Rightarrow>
          (let c = c\<lparr>ct_task_database := []\<rparr> in
           case optional_int ops doc ''default_session_timeout'' (ct_default_session_timeout c) of
             None \<Rightarrow> Thrown (False, c)
           | Some timeout \<Rightarrow>
               (let c = c\<lparr>ct_default_session_timeout := timeout\<rparr> in
                case optional_int ops doc ''max_concurrent_sessions'' (ct_max_concurrent_sessions c) of
                  None \<Rightarrow> Thrown (False, c)
                | Some m \<Rightarrow>
                    (let c = c\<lparr>ct_max_concurrent_sessions := m\<rparr> in
                     case (if js_contains ops doc ''available_tasks'' then js_array ops (js_get ops doc ''available_tasks'') else None) of
                       None \<Rightarrow> Returned (False, c)
                     | Some ts \<Rightarrow>
                         (case load_tasks ops ts (0, []) of
                            Returned (n, db) \<Rightarrow> Returned (n > 0, c\<lparr>ct_task_database := db\<rparr>)
                          | Thrown (n, db) \<Rightarrow> Thrown (False, c\<lparr>ct_task_database := db\<rparr>)
                          | Undefined \<Rightarrow> Undefined)))))"

text \<open>\<open>load_local_config\<close>; the contents of the file are an argument, \<open>None\<close> when it cannot be opened.\<close>

definition load_local_config ::
  "'j json_ops \<Rightarrow> string option \<Rightarrow> ('j, 'n, 'm) GatewayController \<Rightarrow> (bool \<times> ('j, 'n, 'm) GatewayController) outcome" where
  "load_local_config ops contents c =
     (case contents of None \<Rightarrow> Returned (False, c) | Some text \<Rightarrow> load_global_config_from_json ops text c)"

section \<open>Sessions\<close>

type_synonym ('n, 'm) dp_state = "instances \<times> ('n, 'm) RosGateway"

definition configure_object :: "HandlerMode \<Rightarrow> nat \<Rightarrow> ('n, 'm) RosGateway \<Rightarrow> ('n, 'm) RosGateway" where
  "configure_object mode p rg = rg\<lparr>rg_objects := (rg_objects rg)[p := configure_handler_mode mode (rg_objects rg ! p)]\<rparr>"

text \<open>The lambda \<open>activate\<close>.\<close>

fun activate :: "('n, 'm) ros_ops \<Rightarrow> HandlerMode \<Rightarrow> MessageType list \<Rightarrow> ('n, 'm) dp_state \<Rightarrow> ('n, 'm) dp_state outcome" where
  "activate ro mode [] s = Returned s"
| "activate ro mode (mt # mts) s =
     (case get_or_create mt s of
        (None, s) \<Rightarrow> activate ro mode mts s
      | (Some p, inst, rg) \<Rightarrow>
          (case register_handler ro p (configure_object mode p rg) of
             Returned (_, rg) \<Rightarrow> activate ro mode mts (inst, rg)
           | Thrown (_, rg) \<Rightarrow> Thrown (inst, rg)
           | Undefined \<Rightarrow> Undefined))"

text \<open>The loop of the legacy path, on handlers named by text.\<close>

fun activate_legacy :: "('n, 'm) ros_ops \<Rightarrow> HandlerMode \<Rightarrow> string list \<Rightarrow> ('n, 'm) RosGateway \<Rightarrow> ('n, 'm) RosGateway outcome" where
  "activate_legacy ro mode [] rg = Returned rg"
| "activate_legacy ro mode (name # names) rg =
     (case hf_create_handler name rg of
        (None, rg) \<Rightarrow> activate_legacy ro mode names rg
      | (Some p, rg) \<Rightarrow>
          (case register_handler ro p (configure_object mode p rg) of
             Returned (_, rg) \<Rightarrow> activate_legacy ro mode names rg
           | Thrown (_, rg) \<Rightarrow> Thrown rg
           | Undefined \<Rightarrow> Undefined))"

definition input_mode :: "string \<Rightarrow> HandlerMode" where
  "input_mode ctype = (if ctype = ''V'' then SUBSCRIBER_ONLY else if ctype = ''M'' then PUBLISHER_ONLY else BOTH)"

definition output_mode :: "string \<Rightarrow> HandlerMode" where
  "output_mode ctype = (if ctype = ''V'' then PUBLISHER_ONLY else if ctype = ''M'' then SUBSCRIBER_ONLY else BOTH)"

definition activate_task ::
  "('n, 'm) ros_ops \<Rightarrow> string \<Rightarrow> TaskDetails \<Rightarrow> ('n, 'm) dp_state \<Rightarrow> ('n, 'm) dp_state outcome" where
  "activate_task ro ctype td s =
     (if td_input_types td \<noteq> [] \<or> td_output_types td \<noteq> []
      then run_then (activate ro (input_mode ctype) (td_input_types td) s) (activate ro (output_mode ctype) (td_output_types td))
      else (case activate_legacy ro (input_mode ctype) (td_required_handlers td) (snd s) of
         Returned rg \<Rightarrow> Returned (fst s, rg) | Thrown rg \<Rightarrow> Thrown (fst s, rg) | Undefined \<Rightarrow> Undefined))"

definition set_data_plane :: "('n, 'm) dp_state \<Rightarrow> ('j, 'n, 'm) GatewayController \<Rightarrow> ('j, 'n, 'm) GatewayController" where
  "set_data_plane s c = c\<lparr>ct_instances := fst s, ct_gateway := snd s\<rparr>"

text \<open>From the task id on.\<close>

definition approve_task ::
  "('n, 'm) ros_ops \<Rightarrow> string \<Rightarrow> ('j, 'n, 'm) GatewayController \<Rightarrow> ('j, 'n, 'm) GatewayController outcome" where
  "approve_task ro task_id c =
     (case aget (ct_task_database c) task_id of
        None \<Rightarrow> Returned c
      | Some td \<Rightarrow>
          (case activate_task ro (ct_component_type c) td (ct_instances c, ct_gateway c) of
             Returned s \<Rightarrow> Returned (set_data_plane s c) | Thrown s \<Rightarrow> Thrown (set_data_plane s c) | Undefined \<Rightarrow> Undefined))"

definition on_session_approved ::
  "'j json_ops \<Rightarrow> ('n, 'm) ros_ops \<Rightarrow> int \<Rightarrow> 'j \<Rightarrow> ('j, 'n, 'm) GatewayController \<Rightarrow> ('j, 'n, 'm) GatewayController outcome" where
  "on_session_approved ops ro now payload c =
     (case (if js_contains ops payload ''request_id'' then js_string ops (js_get ops payload ''request_id'') else Some ''unknown'') of
        None \<Rightarrow> Thrown c
      | Some request_id \<Rightarrow>
          (case aget (ct_active_sessions c) request_id of
             Some s \<Rightarrow> approve_task ro (ss_task_id s)
               (c\<lparr>ct_active_sessions := aput request_id (s\<lparr>ss_last_keepalive_sent := now\<rparr>) (ct_active_sessions c)\<rparr>)
           | None \<Rightarrow>
               if js_contains ops payload ''task_id'' then
                 (case js_string ops (js_get ops payload ''task_id'') of
                    None \<Rightarrow> Thrown c | Some task_id \<Rightarrow> approve_task ro task_id c)
               else Returned c))"

text \<open>The lambda \<open>deactivate\<close>, and the loop of the legacy path, which makes a new handler to learn its name.\<close>

fun deactivate :: "MessageType list \<Rightarrow> ('n, 'm) dp_state \<Rightarrow> ('n, 'm) dp_state" where
  "deactivate [] s = s"
| "deactivate (mt # mts) s =
     (case get_or_create mt s of
        (None, s) \<Rightarrow> deactivate mts s
      | (Some p, inst, rg) \<Rightarrow> deactivate mts (inst, snd (unregister_handler (handler_name (mh_kind (rg_objects rg ! p))) rg)))"

fun deactivate_legacy :: "string list \<Rightarrow> ('n, 'm) RosGateway \<Rightarrow> ('n, 'm) RosGateway" where
  "deactivate_legacy [] rg = rg"
| "deactivate_legacy (name # names) rg =
     (case hf_create_handler name rg of
        (None, rg) \<Rightarrow> deactivate_legacy names rg
      | (Some p, rg) \<Rightarrow> deactivate_legacy names (snd (unregister_handler (handler_name (mh_kind (rg_objects rg ! p))) rg)))"

definition deactivate_task :: "TaskDetails \<Rightarrow> ('n, 'm) dp_state \<Rightarrow> ('n, 'm) dp_state" where
  "deactivate_task td s =
     (if td_input_types td \<noteq> [] \<or> td_output_types td \<noteq> []
      then deactivate (td_output_types td) (deactivate (td_input_types td) s)
      else (fst s, deactivate_legacy (td_required_handlers td) (snd s)))"

definition handle_session_teardown :: "string \<Rightarrow> ('j, 'n, 'm) GatewayController \<Rightarrow> ('j, 'n, 'm) GatewayController" where
  "handle_session_teardown request_id c =
     (case aget (ct_active_sessions c) request_id of
        None \<Rightarrow> c
      | Some s \<Rightarrow>
          (let c = (case aget (ct_task_database c) (ss_task_id s) of
                      Some td \<Rightarrow> set_data_plane (deactivate_task td (ct_instances c, ct_gateway c)) c
                    | None \<Rightarrow> c)
           in c\<lparr>ct_active_sessions := aerase request_id (ct_active_sessions c)\<rparr>))"

definition on_session_denied :: "string \<Rightarrow> string \<Rightarrow> ('j, 'n, 'm) GatewayController \<Rightarrow> ('j, 'n, 'm) GatewayController" where
  "on_session_denied request_id reason c = handle_session_teardown request_id c"

text \<open>The loop of \<open>activate_all_p2p_sessions\<close> over the keys of the task database.\<close>

fun activate_p2p ::
  "'j json_ops \<Rightarrow> ('n, 'm) ros_ops \<Rightarrow> int \<Rightarrow> string list \<Rightarrow> ('j, 'n, 'm) GatewayController \<Rightarrow> ('j, 'n, 'm) GatewayController outcome" where
  "activate_p2p ops ro now [] c = Returned c"
| "activate_p2p ops ro now (task_id # ks) c =
     (let request_id = ''p2p_session_'' @ task_id;
          c = c\<lparr>ct_active_sessions := aput request_id \<lparr>ss_request_id = request_id, ss_task_id = task_id, ss_last_keepalive_sent = now\<rparr>
                 (ct_active_sessions c)\<rparr>
      in run_then (on_session_approved ops ro now
           (js_object ops [(''request_id'', js_of_string ops request_id), (''task_id'', js_of_string ops task_id)]) c)
         (activate_p2p ops ro now ks))"

definition activate_all_p2p_sessions ::
  "'j json_ops \<Rightarrow> ('n, 'm) ros_ops \<Rightarrow> int \<Rightarrow> ('j, 'n, 'm) GatewayController \<Rightarrow> ('j, 'n, 'm) GatewayController outcome" where
  "activate_all_p2p_sessions ops ro now c = activate_p2p ops ro now (akeys (ct_task_database c)) c"

section \<open>Callbacks\<close>

definition on_dp_confirmed ::
  "'j json_ops \<Rightarrow> ('n, 'm) ros_ops \<Rightarrow> int \<Rightarrow> ('j, 'n, 'm) GatewayController \<Rightarrow> ('j, 'n, 'm) GatewayController outcome" where
  "on_dp_confirmed ops ro now c =
     (if ct_state c = WAITING_FOR_DP_CONNECTION then
        (let c = c\<lparr>ct_gateway := rg_start_receiver (ct_gateway c), ct_state := GW_OPERATIONAL\<rparr> in
         if ct_operation_mode c \<noteq> ''networked'' then activate_all_p2p_sessions ops ro now c else Returned c)
      else Returned c)"

definition retarget :: "string \<Rightarrow> int \<Rightarrow> ('n, 'm) RosGateway \<Rightarrow> ('n, 'm) RosGateway" where
  "retarget host port rg =
     (case rg_transport rg of
        Some (ClientTransport t) \<Rightarrow> rg\<lparr>rg_transport := Some (ClientTransport (gwc_set_target host port t))\<rparr>
      | _ \<Rightarrow> rg)"

definition on_discovery_success ::
  "'j json_ops \<Rightarrow> string \<Rightarrow> int \<Rightarrow> string \<Rightarrow> ('j, 'n, 'm) GatewayController \<Rightarrow> ('j, 'n, 'm) GatewayController outcome" where
  "on_discovery_success ops bridge_host bridge_port config_json c =
     (if ct_state c \<noteq> DISCOVERING then Returned c
      else if ct_operation_mode c = ''p2p_ds'' then
        Returned (c\<lparr>ct_gateway := retarget bridge_host bridge_port (ct_gateway c), ct_state := WAITING_FOR_DP_CONNECTION\<rparr>)
      else
        (let c = c\<lparr>ct_bridge_cp_host := bridge_host, ct_bridge_cp_port := bridge_port\<rparr> in
         if config_json = [] then Returned (c\<lparr>ct_state := GW_FAILED\<rparr>)
         else (case load_global_config_from_json ops config_json c of
            Returned (True, c) \<Rightarrow> Returned (c\<lparr>ct_state := CONNECTING_TO_BRIDGE\<rparr>)
          | Returned (False, c) \<Rightarrow> Returned (c\<lparr>ct_state := GW_FAILED\<rparr>)
          | Thrown (_, c) \<Rightarrow> Thrown c
          | Undefined \<Rightarrow> Undefined)))"

section \<open>Services\<close>

record service_response =
  sr_success :: bool
  sr_request_id :: string
  sr_message :: string

definition offloading_request_service_handler ::
  "string \<Rightarrow> string \<Rightarrow> ('j, 'n, 'm) GatewayController \<Rightarrow> service_response \<times> ('j, 'n, 'm) GatewayController" where
  "offloading_request_service_handler task_id vhc_data c =
     (if ct_state c \<noteq> GW_OPERATIONAL then
        (\<lparr>sr_success = False, sr_request_id = [], sr_message = ''Gateway is not in OPERATIONAL state.''\<rparr>, c)
      else if aget (ct_task_database c) task_id = None then
        (\<lparr>sr_success = False, sr_request_id = [], sr_message = ''Unknown task_id: '' @ task_id\<rparr>, c)
      else
        (let c = c\<lparr>ct_offloading_request_queue := ct_offloading_request_queue c @ [\<lparr>or_task_id = task_id, or_vhc_data = vhc_data\<rparr>]\<rparr>;
             new_request_id = show_int (uint (ct_request_id_counter c));
             c = c\<lparr>ct_request_id_counter := ct_request_id_counter c + 1\<rparr>
         in (\<lparr>sr_success = True, sr_request_id = new_request_id, sr_message = ''Request queued for processing by the bridge.''\<rparr>, c)))"

definition terminate_offloading_service_handler ::
  "string \<Rightarrow> ('j, 'n, 'm) GatewayController \<Rightarrow> service_response \<times> ('j, 'n, 'm) GatewayController" where
  "terminate_offloading_service_handler request_id c =
     (if ct_state c \<noteq> GW_OPERATIONAL then
        (\<lparr>sr_success = False, sr_request_id = [], sr_message = ''Gateway is not in OPERATIONAL state.''\<rparr>, c)
      else
        (\<lparr>sr_success = True, sr_request_id = [], sr_message = ''Termination request queued.''\<rparr>,
         c\<lparr>ct_termination_request_queue := ct_termination_request_queue c @ [request_id]\<rparr>))"

end
