(* ===== verification/Gateway_Control.thy ===== *)
theory Gateway_Control
  imports Gateway_Controller
begin

text \<open>
  The threads of a gateway, one turn of a loop at a time: the control thread (\<open>control_thread_func\<close>), the thread
  that accepts data plane connections, the threads of the clients of the bridge and of the discovery service, and
  \<open>gw_step\<close>, the steps of the whole gateway.
\<close>

text \<open>What the environment answers in one turn: system calls, the file system, the queue of the transport, the clock.\<close>

record gw_env =
  ge_open :: open_answer
  ge_connect :: connect_answer
  ge_file :: "string option"
  ge_room :: bool
  ge_now :: int

section \<open>The control thread\<close>

definition open_data_plane :: "open_answer \<Rightarrow> ('j, 'n, 'm) GatewayController \<Rightarrow> ('j, 'n, 'm) GatewayController" where
  "open_data_plane a c =
     (if ct_operation_mode c = ''networked'' \<or> ct_component_type c = ''M'' then
        (case rg_transport (ct_gateway c) of
           Some (ServerTransport s) \<Rightarrow>
             (case gws_connect a s of
                (ok, s) \<Rightarrow>
                  (let c = c\<lparr>ct_gateway := (ct_gateway c)\<lparr>rg_transport := Some (ServerTransport s)\<rparr>\<rparr> in
                   if \<not> ok then c
                   else c\<lparr>ct_accepting := True,
                     ct_state := (if ct_operation_mode c = ''networked'' \<or> ct_operation_mode c = ''p2p_ds'' then DISCOVERING
                                  else WAITING_FOR_DP_CONNECTION)\<rparr>))
         | _ \<Rightarrow> c)
      else c\<lparr>ct_state := (if ct_operation_mode c = ''p2p_ds'' then DISCOVERING else WAITING_FOR_DP_CONNECTION)\<rparr>)"

definition initializing_turn ::
  "'j json_ops \<Rightarrow> gw_env \<Rightarrow> ('j, 'n, 'm) GatewayController \<Rightarrow> ('j, 'n, 'm) GatewayController outcome" where
  "initializing_turn ops env c =
     (if ct_operation_mode c = ''networked'' then Returned (open_data_plane (ge_open env) c)
      else if ct_local_config_path c = [] then Returned (c\<lparr>ct_state := GW_FAILED\<rparr>)
      else (case load_local_config ops (ge_file env) c of
         Returned (True, c) \<Rightarrow> Returned (open_data_plane (ge_open env) c)
       | Returned (False, c) \<Rightarrow> Returned (c\<lparr>ct_state := GW_FAILED\<rparr>)
       | Thrown (_, c) \<Rightarrow> Thrown c
       | Undefined \<Rightarrow> Undefined))"

text \<open>A new discovery client replaces the old one. \<open>string_to_component_type\<close> never throws.\<close>

definition discovering_turn :: "('j, 'n, 'm) GatewayController \<Rightarrow> ('j, 'n, 'm) GatewayController" where
  "discovering_turn c =
     c\<lparr>ct_discovery_client := Some (dc_start (ct_discovery_host c) (ct_discovery_port c)
         (string_to_component_type (ct_component_type c)) (ct_component_name c) (of_int (ct_id_group c))
         (of_int (ct_identifier_in_group c)) (ct_data_plane_listen_port c))\<rparr>"

text \<open>The case \<open>CONNECTING_TO_BRIDGE\<close>, up to the message and then the assignment of the state.\<close>

definition connecting_turn :: "'j json_ops \<Rightarrow> gw_env \<Rightarrow> ('j, 'n, 'm) GatewayController \<Rightarrow> ('j, 'n, 'm) GatewayController" where
  "connecting_turn ops env c =
     (if ct_dp_info_sent c then c\<lparr>ct_state := WAITING_FOR_DP_CONNECTION, ct_dp_info_sent := False\<rparr>
      else (case cp_start (ge_connect env) (ct_bridge_cp_host c) (ct_bridge_cp_port c) BridgeCpClient_init of
         (False, cp) \<Rightarrow> c\<lparr>ct_bridge_cp_client := Some cp\<rparr>
       | (True, cp) \<Rightarrow>
           c\<lparr>ct_bridge_cp_client := Some (cp_send_dp_info ops (ge_room env) (ge_now env) (ct_component_id c) ''0.0.0.0''
               (ct_data_plane_listen_port c) cp), ct_dp_info_sent := True\<rparr>))"

text \<open>The case \<open>WAITING_FOR_DP_CONNECTION\<close>: in a peer-to-peer mode a vehicle connects; the wait that follows changes nothing.\<close>

definition waiting_turn ::
  "'j json_ops \<Rightarrow> ('n, 'm) ros_ops \<Rightarrow> gw_env \<Rightarrow> ('j, 'n, 'm) GatewayController \<Rightarrow> ('j, 'n, 'm) GatewayController outcome" where
  "waiting_turn ops ro env c =
     (if ct_operation_mode c \<noteq> ''networked'' \<and> ct_component_type c = ''V'' then
        (case rg_transport (ct_gateway c) of
           Some (ClientTransport t) \<Rightarrow>
             (case gwc_connect (ge_connect env) t of
                (ok, t) \<Rightarrow>
                  (let c = c\<lparr>ct_gateway := (ct_gateway c)\<lparr>rg_transport := Some (ClientTransport t)\<rparr>\<rparr> in
                   if ok then on_dp_confirmed ops ro (ge_now env) c else Returned c))
         | _ \<Rightarrow> Returned c)
      else Returned c)"

text \<open>One request of the loops of the case \<open>OPERATIONAL\<close>.\<close>

definition process_offload ::
  "'j json_ops \<Rightarrow> gw_env \<Rightarrow> OffloadingRequestData \<Rightarrow> ('j, 'n, 'm) GatewayController \<Rightarrow> ('j, 'n, 'm) GatewayController outcome" where
  "process_offload ops env req c =
     (let request_id = show_int (uint (ct_request_id_counter c));
          c = c\<lparr>ct_request_id_counter := ct_request_id_counter c + 1\<rparr>;
          c = c\<lparr>ct_active_sessions := aput request_id
                 \<lparr>ss_request_id = request_id, ss_task_id = or_task_id req, ss_last_keepalive_sent = ge_now env\<rparr> (ct_active_sessions c)\<rparr> in
      if ct_operation_mode c \<noteq> ''networked'' then Returned c
      else (case (ct_bridge_cp_client c, aget (ct_task_database c) (or_task_id req)) of
         (Some cp, Some td) \<Rightarrow>
           (case cp_send_offload_request ops (ge_room env) (ge_now env) (ct_component_id c) request_id (or_task_id req)
                   (td_task_name td) (or_vhc_data req) cp of
              Returned cp \<Rightarrow> Returned (c\<lparr>ct_bridge_cp_client := Some cp\<rparr>)
            | Thrown cp \<Rightarrow> Thrown (c\<lparr>ct_bridge_cp_client := Some cp\<rparr>)
            | Undefined \<Rightarrow> Undefined)
       | _ \<Rightarrow> Returned c))"

definition process_termination ::
  "'j json_ops \<Rightarrow> gw_env \<Rightarrow> string \<Rightarrow> ('j, 'n, 'm) GatewayController \<Rightarrow> ('j, 'n, 'm) GatewayController" where
  "process_termination ops env req_id c =
     handle_session_teardown req_id
       (if ct_operation_mode c = ''networked''
        then c\<lparr>ct_bridge_cp_client := map_option (cp_send_session_terminate_request ops (ge_room env) (ge_now env)
                 (ct_component_id c) req_id) (ct_bridge_cp_client c)\<rparr>
        else c)"

definition KEEPALIVE_INTERVAL :: int where "KEEPALIVE_INTERVAL = 15000"

text \<open>One session of the keepalive loop, on the client of the bridge and the table.\<close>

definition keepalive_session ::
  "'j json_ops \<Rightarrow> gw_env \<Rightarrow> string \<Rightarrow> string \<times> SessionState \<Rightarrow>
   'j BridgeCpClient \<times> (string, SessionState) amap \<Rightarrow> 'j BridgeCpClient \<times> (string, SessionState) amap" where
  "keepalive_session ops env component_id x st =
     (case (x, st) of ((req_id, s), cp, tab) \<Rightarrow>
        if ge_now env - ss_last_keepalive_sent s \<ge> KEEPALIVE_INTERVAL
        then (cp_send_session_keepalive ops (ge_room env) (ge_now env) component_id req_id cp,
              aput req_id (s\<lparr>ss_last_keepalive_sent := ge_now env\<rparr>) tab)
        else (cp, tab))"

definition keepalive_sessions :: "'j json_ops \<Rightarrow> gw_env \<Rightarrow> ('j, 'n, 'm) GatewayController \<Rightarrow> ('j, 'n, 'm) GatewayController" where
  "keepalive_sessions ops env c =
     (if ct_operation_mode c \<noteq> ''networked'' then c
      else (case ct_bridge_cp_client c of
         None \<Rightarrow> c
       | Some cp \<Rightarrow>
           (case fold (keepalive_session ops env (ct_component_id c)) (ct_active_sessions c) (cp, ct_active_sessions c) of
              (cp, tab) \<Rightarrow> c\<lparr>ct_bridge_cp_client := Some cp, ct_active_sessions := tab\<rparr>)))"

text \<open>The case \<open>OPERATIONAL\<close>, one request at a time: requests of a vehicle first, then terminations, and keepalives
  when the wait ended without work.\<close>

definition operational_turn ::
  "'j json_ops \<Rightarrow> gw_env \<Rightarrow> ('j, 'n, 'm) GatewayController \<Rightarrow> ('j, 'n, 'm) GatewayController outcome" where
  "operational_turn ops env c =
     (case (if ct_component_type c = ''V'' then ct_offloading_request_queue c else [], ct_termination_request_queue c) of
        (req # reqs, _) \<Rightarrow> process_offload ops env req (c\<lparr>ct_offloading_request_queue := reqs\<rparr>)
      | ([], req_id # ids) \<Rightarrow> Returned (process_termination ops env req_id (c\<lparr>ct_termination_request_queue := ids\<rparr>))
      | ([], []) \<Rightarrow> Returned (keepalive_sessions ops env c))"

definition control_turn ::
  "'j json_ops \<Rightarrow> ('n, 'm) ros_ops \<Rightarrow> gw_env \<Rightarrow> ('j, 'n, 'm) GatewayController \<Rightarrow> ('j, 'n, 'm) GatewayController outcome" where
  "control_turn ops ro env c =
     (if \<not> ct_running c then Returned c
      else (case ct_state c of
         INITIALIZING \<Rightarrow> initializing_turn ops env c
       | DISCOVERING \<Rightarrow> Returned (discovering_turn c)
       | CONNECTING_TO_BRIDGE \<Rightarrow> Returned (connecting_turn ops env c)
       | WAITING_FOR_DP_CONNECTION \<Rightarrow> waiting_turn ops ro env c
       | GW_OPERATIONAL \<Rightarrow> operational_turn ops env c
       | GW_FAILED \<Rightarrow> Returned (c\<lparr>ct_running := False\<rparr>)))"

section \<open>The other threads\<close>

text \<open>One turn of \<open>data_plane_connection_thread_func\<close>, with the answer of \<open>accept\<close>: the body of the loop, and the loop.\<close>

definition accept_body ::
  "'j json_ops \<Rightarrow> ('n, 'm) ros_ops \<Rightarrow> int \<Rightarrow> int \<Rightarrow> ('j, 'n, 'm) GatewayController \<Rightarrow> ('j, 'n, 'm) GatewayController outcome" where
  "accept_body ops ro now new_socket c =
     (case rg_transport (ct_gateway c) of
         Some (ServerTransport s) \<Rightarrow>
           (case gws_accept_connection now new_socket s of
              (ok, s) \<Rightarrow>
                (let c = c\<lparr>ct_gateway := (ct_gateway c)\<lparr>rg_transport := Some (ServerTransport s)\<rparr>\<rparr> in
                 if ok \<and> ct_operation_mode c \<noteq> ''networked'' then on_dp_confirmed ops ro now c else Returned c))
       | _ \<Rightarrow> Returned c)"

definition accept_turn ::
  "'j json_ops \<Rightarrow> ('n, 'm) ros_ops \<Rightarrow> int \<Rightarrow> int \<Rightarrow> ('j, 'n, 'm) GatewayController \<Rightarrow> ('j, 'n, 'm) GatewayController outcome" where
  "accept_turn ops ro now new_socket c =
     (if \<not> ct_running c \<or> \<not> ct_accepting c then Returned c else accept_body ops ro now new_socket c)"

text \<open>The callback that a message of the bridge leads to. An exception in a denial is caught.\<close>

fun run_event ::
  "'j json_ops \<Rightarrow> ('n, 'm) ros_ops \<Rightarrow> int \<Rightarrow> 'j gw_event \<Rightarrow> ('j, 'n, 'm) GatewayController \<Rightarrow> ('j, 'n, 'm) GatewayController outcome" where
  "run_event ops ro now NoEvent c = Returned c"
| "run_event ops ro now (SessionApproved payload) c = on_session_approved ops ro now payload c"
| "run_event ops ro now (SessionDenied request_id reason) c = Returned (on_session_denied request_id reason c)"
| "run_event ops ro now DpConfirmed c = on_dp_confirmed ops ro now c"

text \<open>One turn of \<open>BridgeCpClient::client_thread_func\<close>.\<close>

definition client_turn ::
  "'j json_ops \<Rightarrow> ('n, 'm) ros_ops \<Rightarrow> int \<Rightarrow> (u64 \<Rightarrow> bool) \<Rightarrow> bool \<Rightarrow> select_answer \<Rightarrow> recv_answer \<Rightarrow>
   ('j, 'n, 'm) GatewayController \<Rightarrow> ('j, 'n, 'm) GatewayController outcome" where
  "client_turn ops ro now rooms room sel rec c =
     (case ct_bridge_cp_client c of
        None \<Rightarrow> Returned c
      | Some cp \<Rightarrow>
          if \<not> cp_running cp then Returned c
          else (case cp_receive ops room sel rec cp of
             Returned (cp, ev) \<Rightarrow>
               run_then (run_event ops ro now ev (c\<lparr>ct_bridge_cp_client := Some cp\<rparr>))
                 (\<lambda>c. Returned (c\<lparr>ct_bridge_cp_client := map_option (cp_check_for_timeouts ops rooms now) (ct_bridge_cp_client c)\<rparr>))
           | Thrown (cp, ev) \<Rightarrow> Thrown (c\<lparr>ct_bridge_cp_client := Some cp\<rparr>)
           | Undefined \<Rightarrow> Undefined))"

text \<open>One turn of \<open>DiscoveryClient::client_thread_func\<close>. \<open>on_discovery_failure\<close> only wakes the control thread.\<close>

definition discovery_turn ::
  "'j json_ops \<Rightarrow> dc_exchange \<Rightarrow> ('j, 'n, 'm) GatewayController \<Rightarrow> ('j, 'n, 'm) GatewayController outcome" where
  "discovery_turn ops x c =
     (case ct_discovery_client c of
        None \<Rightarrow> Returned c
      | Some d \<Rightarrow>
          (case dc_turn x d of
             (d, ev) \<Rightarrow>
               (let c = c\<lparr>ct_discovery_client := Some d\<rparr> in
                case ev of
                  DcSuccess host port config \<Rightarrow> on_discovery_success ops host port config c
                | _ \<Rightarrow> Returned c)))"

text \<open>One turn of the receiver thread of the data plane, and a message on a subscribed ROS topic.\<close>

definition receive_turn ::
  "('n, 'm) ros_ops \<Rightarrow> (nat \<Rightarrow> bool) \<Rightarrow> select_answer \<Rightarrow> recv_answer list \<Rightarrow>
   ('j, 'n, 'm) GatewayController \<Rightarrow> ('j, 'n, 'm) GatewayController outcome option" where
  "receive_turn ro fits sel as c =
     map_option (\<lambda>r. case r of
         Returned (_, rg) \<Rightarrow> Returned (c\<lparr>ct_gateway := rg\<rparr>) | Thrown (_, rg) \<Rightarrow> Thrown (c\<lparr>ct_gateway := rg\<rparr>) | Undefined \<Rightarrow> Undefined)
       (receiver_turn ro fits sel as (ct_gateway c))"

section \<open>Steps of a gateway\<close>

text \<open>A step is a turn of one thread that returns, or a call of a service; a thread function left by an exception ends the
  process.\<close>

inductive gw_step :: "'j json_ops \<Rightarrow> ('n, 'm) ros_ops \<Rightarrow> ('j, 'n, 'm) GatewayController \<Rightarrow> ('j, 'n, 'm) GatewayController \<Rightarrow> bool"
  for ops ro where
  control: "control_turn ops ro env c = Returned c' \<Longrightarrow> gw_step ops ro c c'"
| accept: "accept_turn ops ro now s c = Returned c' \<Longrightarrow> gw_step ops ro c c'"
| client: "client_turn ops ro now rooms room sel rec c = Returned c' \<Longrightarrow> gw_step ops ro c c'"
| discovery: "discovery_turn ops x c = Returned c' \<Longrightarrow> gw_step ops ro c c'"
| receive: "receive_turn ro fits sel as c = Some (Returned c') \<Longrightarrow> gw_step ops ro c c'"
| topic: "p < length (rg_objects (ct_gateway c)) \<Longrightarrow> gw_step ops ro c (c\<lparr>ct_gateway := ros_callback ro r1 r2 p m (ct_gateway c)\<rparr>)"
| data_sender: "rg_transport (ct_gateway c) = Some t \<Longrightarrow> tr_sender_turn as t = Some t' \<Longrightarrow>
    gw_step ops ro c (c\<lparr>ct_gateway := (ct_gateway c)\<lparr>rg_transport := Some t'\<rparr>\<rparr>)"
| control_sender: "ct_bridge_cp_client c = Some cp \<Longrightarrow> cp_transport cp = Some t \<Longrightarrow> gwc_sender_turn as t = Some t' \<Longrightarrow>
    gw_step ops ro c (c\<lparr>ct_bridge_cp_client := Some (cp\<lparr>cp_transport := Some t'\<rparr>)\<rparr>)"
| request: "gw_step ops ro c (snd (offloading_request_service_handler task_id vhc_data c))"
| terminate: "gw_step ops ro c (snd (terminate_offloading_service_handler request_id c))"

inductive gw_reachable ::
  "'j json_ops \<Rightarrow> ('n, 'm) ros_ops \<Rightarrow> 'n \<Rightarrow> gw_params \<Rightarrow> ('j, 'n, 'm) GatewayController \<Rightarrow> bool"
  for ops ro node g where
  start: "gw_reachable ops ro node g (GatewayController_init node g)"
| step: "gw_reachable ops ro node g c \<Longrightarrow> gw_step ops ro c c' \<Longrightarrow> gw_reachable ops ro node g c'"

end
