(* ===== verification/Gateway_Data_Plane.thy ===== *)
theory Gateway_Data_Plane
  imports Ros_Gateway
begin

text \<open>
  What the data plane of a gateway guarantees: typing of the handler tables, the round trip of a message between two
  gateways, and what a full queue does to the stream.
\<close>

section \<open>Handler tables\<close>

lemma handler_name_inject: "handler_name k = handler_name l \<longleftrightarrow> k = l"
  by (cases k; cases l; simp)

lemma handler_type_inject: "handler_type k = handler_type l \<longleftrightarrow> k = l"
  by (cases k; cases l; simp)

lemma message_type_code_inject: "message_type_code s = message_type_code t \<longleftrightarrow> s = t"
  by (cases s; cases t; simp)

lemma mt_creator_type: "mt_creator t = Some k \<Longrightarrow> handler_type k = t"
  by (cases t) auto

definition objects_typed :: "(string, nat) amap \<Rightarrow> 'm MessageHandler list \<Rightarrow> bool" where
  "objects_typed hs objs \<longleftrightarrow> awf hs \<and> list_all (\<lambda>(name, p). p < length objs \<and> handler_name (mh_kind (objs ! p)) = name) hs"

definition instances_typed :: "instances \<Rightarrow> 'm MessageHandler list \<Rightarrow> bool" where
  "instances_typed inst objs \<longleftrightarrow> list_all (\<lambda>(t, p). p < length objs \<and> handler_type (mh_kind (objs ! p)) = t) inst"

definition handlers_typed :: "instances \<times> ('n, 'm) RosGateway \<Rightarrow> bool" where
  "handlers_typed s \<longleftrightarrow> objects_typed (rg_handlers (snd s)) (rg_objects (snd s)) \<and> instances_typed (fst s) (rg_objects (snd s))"

text \<open>Objects are never replaced by objects of another class, and never deleted.\<close>

definition same_kinds :: "'m MessageHandler list \<Rightarrow> 'm MessageHandler list \<Rightarrow> bool" where
  "same_kinds objs objs' \<longleftrightarrow> map mh_kind objs' = map mh_kind objs"

lemma same_kinds_refl [simp]: "same_kinds objs objs" by (simp add: same_kinds_def)

lemma same_kinds_trans: "same_kinds a b \<Longrightarrow> same_kinds b c \<Longrightarrow> same_kinds a c" by (simp add: same_kinds_def)

lemma same_kinds_update: "p < length objs \<Longrightarrow> mh_kind h = mh_kind (objs ! p) \<Longrightarrow> same_kinds objs (objs[p := h])"
  by (simp add: same_kinds_def map_update list_update_same_conv)

lemma same_kinds_nth: "same_kinds objs objs' \<Longrightarrow> p < length objs \<Longrightarrow> mh_kind (objs' ! p) = mh_kind (objs ! p) \<and> p < length objs'"
  unfolding same_kinds_def by (metis length_map nth_map)

lemma typed_same_kinds:
  "same_kinds objs objs' \<Longrightarrow> objects_typed hs objs \<Longrightarrow> objects_typed hs objs'"
  "same_kinds objs objs' \<Longrightarrow> instances_typed inst objs \<Longrightarrow> instances_typed inst objs'"
  by (auto simp: objects_typed_def instances_typed_def list_all_iff dest!: same_kinds_nth)

lemma objects_typed_get: "objects_typed hs objs \<Longrightarrow> aget hs name = Some p \<Longrightarrow> p < length objs \<and> handler_name (mh_kind (objs ! p)) = name"
  by (auto simp: objects_typed_def list_all_iff dest!: aget_in_set)

lemma instances_typed_get: "instances_typed inst objs \<Longrightarrow> aget inst t = Some p \<Longrightarrow> p < length objs \<and> handler_type (mh_kind (objs ! p)) = t"
  by (auto simp: instances_typed_def list_all_iff dest!: aget_in_set)

lemma set_aput_subset: "set (aput k v m) \<subseteq> insert (k, v) (set m)"
  by (induction m) auto

lemma set_aerase_subset: "set (aerase k m) \<subseteq> set m"
  by (auto simp: AList.delete_eq)

lemma objects_typed_put:
  "objects_typed hs objs \<Longrightarrow> p < length objs \<Longrightarrow> objects_typed (aput (handler_name (mh_kind (objs ! p))) p hs) objs"
  using set_aput_subset [of "handler_name (mh_kind (objs ! p))" p hs] by (auto simp: objects_typed_def list_all_iff)

lemma objects_typed_erase: "objects_typed hs objs \<Longrightarrow> objects_typed (aerase name hs) objs"
  using set_aerase_subset [of name hs] by (auto simp: objects_typed_def list_all_iff)

lemma typed_append:
  "objects_typed hs objs \<Longrightarrow> objects_typed hs (objs @ [h])"
  "instances_typed inst objs \<Longrightarrow> instances_typed inst (objs @ [h])"
  by (auto simp: objects_typed_def instances_typed_def list_all_iff nth_append)

lemma get_or_create_typed:
  assumes "handlers_typed (inst, rg)" "get_or_create t (inst, rg) = (r, inst', rg')"
  shows "handlers_typed (inst', rg') \<and> (case r of Some p \<Rightarrow> p < length (rg_objects rg') \<and> handler_type (mh_kind (rg_objects rg' ! p)) = t
     | None \<Rightarrow> mt_creator t = None)"
proof (cases "aget inst t")
  case (Some p)
  then have eq: "r = Some p" "inst' = inst" "rg' = rg" using assms(2) by (simp_all add: get_or_create_def)
  have "instances_typed inst (rg_objects rg)" using assms(1) by (simp add: handlers_typed_def)
  from instances_typed_get [OF this Some] assms(1) show ?thesis by (simp add: eq)
next
  case None
  show ?thesis
  proof (cases "mt_creator t")
    case None
    with assms \<open>aget inst t = None\<close> show ?thesis by (auto simp: get_or_create_def)
  next
    case (Some k)
    let ?p = "length (rg_objects rg)"
    have "instances_typed (aput t ?p inst) (rg_objects rg @ [MessageHandler_init k])"
      using assms(1) typed_append(2) [of inst "rg_objects rg" "MessageHandler_init k"] set_aput_subset [of t ?p inst]
        mt_creator_type [OF Some]
      by (auto simp: handlers_typed_def instances_typed_def list_all_iff MessageHandler_init_def)
    with assms None Some mt_creator_type [OF Some] typed_append(1) show ?thesis
      by (auto simp: get_or_create_def new_handler_def handlers_typed_def MessageHandler_init_def)
  qed
qed

lemma initialize_kind:
  "initialize_handler ro n h = Returned (n', h') \<Longrightarrow> mh_kind h' = mh_kind h"
  "initialize_handler ro n h = Thrown (n', h') \<Longrightarrow> mh_kind h' = mh_kind h"
  by (auto simp: initialize_handler_def initialize_laserscan_def initialize_topic_def subscribe_topic_def Let_def
      split: HandlerKind.splits option.splits if_splits)

lemma register_handler_typed:
  assumes t: "handlers_typed (inst, rg)" and p: "p < length (rg_objects rg)"
    and r: "register_handler ro p rg = Returned (ok, rg') \<or> register_handler ro p rg = Thrown (ok, rg')"
  shows "handlers_typed (inst, rg') \<and> same_kinds (rg_objects rg) (rg_objects rg')"
proof (cases "aget (rg_handlers rg) (handler_name (mh_kind (rg_objects rg ! p)))")
  case (Some q)
  with t r show ?thesis by (auto simp: register_handler_def Let_def)
next
  case None
  have "\<exists>h. mh_kind h = mh_kind (rg_objects rg ! p) \<and> rg_objects rg' = (rg_objects rg)[p := h]
    \<and> rg_handlers rg' = aput (handler_name (mh_kind (rg_objects rg ! p))) p (rg_handlers rg)"
  proof (cases "initialize_handler ro (rg_node rg) (rg_objects rg ! p)")
    case (Returned x)
    then obtain n h where x: "x = (n, h)" by (cases x)
    with initialize_kind(1) Returned r None show ?thesis
      by (intro exI [of _ "h\<lparr>mh_enabled := True\<rparr>"]) (auto simp: register_handler_def Let_def)
  next
    case (Thrown x)
    then obtain n h where x: "x = (n, h)" by (cases x)
    with initialize_kind(2) Thrown r None show ?thesis
      by (intro exI [of _ h]) (auto simp: register_handler_def Let_def)
  next
    case Undefined
    with r None show ?thesis by (simp add: register_handler_def Let_def)
  qed
  then obtain h where nh: "mh_kind h = mh_kind (rg_objects rg ! p)" "rg_objects rg' = (rg_objects rg)[p := h]"
    "rg_handlers rg' = aput (handler_name (mh_kind (rg_objects rg ! p))) p (rg_handlers rg)" by blast
  have s: "same_kinds (rg_objects rg) (rg_objects rg')" using p nh by (simp add: same_kinds_update)
  with t p nh show ?thesis
    by (auto simp: handlers_typed_def intro: typed_same_kinds objects_typed_put)
qed

lemma unregister_handler_typed:
  assumes "handlers_typed (inst, rg)"
  shows "handlers_typed (inst, snd (unregister_handler name rg))
     \<and> same_kinds (rg_objects rg) (rg_objects (snd (unregister_handler name rg)))"
proof (cases "aget (rg_handlers rg) name")
  case None
  with assms show ?thesis by (simp add: unregister_handler_def)
next
  case (Some p)
  then have "p < length (rg_objects rg)" using assms objects_typed_get by (auto simp: handlers_typed_def)
  then have "same_kinds (rg_objects rg) ((rg_objects rg)[p := shutdown_handler (rg_objects rg ! p)])"
    by (rule same_kinds_update) (simp add: shutdown_handler_def Let_def)
  with assms Some show ?thesis
    by (auto simp: unregister_handler_def handlers_typed_def intro: typed_same_kinds objects_typed_erase)
qed

section \<open>Dispatching and reading a frame\<close>

lemma dispatch_none:
  "(\<And>q. q \<in> set ps \<Longrightarrow> \<not> can_process_message_type (objs ! q) type) \<Longrightarrow>
   dispatch ro topic type data options ps objs = Returned objs"
  by (induction ps) auto

lemma dispatch_append_none:
  "(\<And>q. q \<in> set ps \<Longrightarrow> \<not> can_process_message_type (objs ! q) type) \<Longrightarrow>
   dispatch ro topic type data options (ps @ qs) objs = dispatch ro topic type data options qs objs"
  by (induction ps) auto

text \<open>In well-typed tables a message meets at most one handler.\<close>

lemma dispatch_registered:
  assumes typed: "objects_typed hs objs" and reg: "aget hs (handler_name k) = Some p"
    and on: "is_ros_publisher_enabled (objs ! p)" and type: "type = message_type_code (handler_type k)"
    and pr: "process_and_publish ro topic type data options (objs ! p) = Returned (ok, h)"
  shows "dispatch ro topic type data options (map snd hs) objs = Returned (objs[p := h])"
proof -
  have p: "p < length objs" "mh_kind (objs ! p) = k"
    using objects_typed_get [OF typed reg] by (simp_all add: handler_name_inject)
  obtain xs ys where hs: "hs = xs @ (handler_name k, p) # ys"
    using aget_in_set [OF reg] by (meson split_list)
  have other: "q \<noteq> p \<and> \<not> can_process_message_type (objs ! q) type" if "(name, q) \<in> set xs \<union> set ys" for name q
  proof -
    have "(name, q) \<in> set hs" using that hs by auto
    then have "name = handler_name (mh_kind (objs ! q))" using typed by (auto simp: objects_typed_def list_all_iff)
    moreover have "distinct (map fst hs)" using typed by (simp add: objects_typed_def)
    then have "handler_name k \<notin> fst ` (set xs \<union> set ys)" unfolding hs by auto
    with that have "name \<noteq> handler_name k" using image_eqI [of name fst "(name, q)"] by fastforce
    ultimately have "mh_kind (objs ! q) \<noteq> k" by auto
    then show ?thesis using p(2)
      by (auto simp: can_process_message_type_def type message_type_code_inject handler_type_inject)
  qed
  have can: "can_process_message_type (objs ! p) type" using p type by (simp add: can_process_message_type_def)
  have "dispatch ro topic type data options (map snd ys) (objs[p := h]) = Returned (objs[p := h])"
    by (rule dispatch_none) (use other in \<open>fastforce\<close>)
  then have "dispatch ro topic type data options (p # map snd ys) objs = Returned (objs[p := h])"
    using on can pr by simp
  moreover have "dispatch ro topic type data options (map snd hs) objs = dispatch ro topic type data options (p # map snd ys) objs"
    unfolding hs map_append list.map snd_conv by (rule dispatch_append_none) (use other in fastforce)
  ultimately show ?thesis by simp
qed

text \<open>A gateway that finds a frame at the front of its stream, however the stream is cut into segments, hands exactly its
  topic, type, payload and options to the handlers, and the stream continues behind it.\<close>

lemma receive_frame:
  assumes str: "stream_of as = make_frame topic type g i flags payload @ rest" and op: "tr_open t"
    and len: "length payload < 2 ^ 32" and fits: "fits (length payload)"
  shows "\<exists>as'. stream_of as' = rest \<and> receive_and_process_message ro fits as t rg =
     (let rg = rg\<lparr>rg_transport := Some t\<rparr> in
      case dispatch ro (take 255 topic) type payload (MessageOptions_of_flags flags) (map snd (rg_handlers rg)) (rg_objects rg) of
        Returned objs \<Rightarrow> Some (Returned (True, as', rg\<lparr>rg_objects := objs\<rparr>))
      | Thrown objs \<Rightarrow> Some (Thrown (False, as', rg\<lparr>rg_objects := objs\<rparr>))
      | Undefined \<Rightarrow> Some Undefined)"
proof -
  let ?n = "of_nat (length payload) :: u32"
  let ?hs = "[0xA5, 0xC3, flags, type, g, i, ucast (drop_bit 24 ?n), ucast (drop_bit 16 ?n), ucast (drop_bit 8 ?n),
      ucast ?n, of_nat (min (length topic) 255)] :: u8 list"
  have tk: "take (min (length topic) 255) topic = take 255 topic" by (simp add: min_def)
  have s0: "stream_of as = ?hs @ take 255 topic @ payload @ rest"
    using str by (simp add: make_frame_def create_header_bytes tk)
  have l11: "length ?hs = 11" by simp
  obtain as1 where r1: "tr_receive_exact 11 as t = Some (True, ?hs, as1, t)"
    and s1: "stream_of as1 = take 255 topic @ payload @ rest"
    using tr.exact_stream [OF op, of 11 as] unfolding s0 l11 [symmetric] by auto
  have tl: "unat (of_nat (min (length topic) 255) :: u8) = length (take 255 topic)"
    using unat_of_nat_min_255 by simp
  obtain as2 where r2: "tr_receive_exact (length (take 255 topic)) as1 t = Some (True, take 255 topic, as2, t)"
    and s2: "stream_of as2 = payload @ rest"
    using tr.exact_stream [OF op, of "length (take 255 topic)" as1] unfolding s1
    by (metis append_eq_conv_conj length_append le_add1)
  have n: "unat ?n = length payload" using len by (simp add: unat_of_nat)
  obtain as3 where r3: "tr_receive_exact (length payload) as2 t = Some (True, payload, as3, t)"
    and s3: "stream_of as3 = rest"
    using tr.exact_stream [OF op, of "length payload" as2] unfolding s2 by auto
  have m: "be16 0xA5 0xC3 = HEADER_MAGIC" by (simp add: be16_def wire_simps)
  have nth: "?hs ! 0 = 0xA5" "?hs ! 1 = 0xC3" "?hs ! 2 = flags" "?hs ! 3 = type"
    "be32 (?hs ! 6) (?hs ! 7) (?hs ! 8) (?hs ! 9) = ?n" "?hs ! 10 = of_nat (min (length topic) 255)"
    by (simp_all add: be32_bytes)
  show ?thesis
    by (rule exI [of _ as3])
      (simp only: receive_and_process_message_def receive_payload_def r1 option.case prod.case bool.case nth m n tl r2 r3
        fits s3 Let_def not_True_eq_False if_False HOL.simp_thms)
qed

section \<open>Sending\<close>

lemma rg_send_message_cases:
  fixes topic type data options and rg :: "('n, 'm) RosGateway"
  assumes "rg_transport rg = Some t" "tr_is_connected t"
  defines "header \<equiv> create_header topic type (rg_id_group rg) (rg_identifier_in_group rg) (of_nat (length data)) (to_flags options)"
  shows "\<exists>t'. rg_send_message r1 r2 topic type data options rg = (r1 \<and> r2, rg\<lparr>rg_header_buffer := header, rg_transport := Some t'\<rparr>)
     \<and> tr_is_connected t' \<and> tr_queue t' = tr_queue t @ (if r1 then header # (if r2 then [data] else []) else [])"
proof -
  have h: "fst (create_header_in_buffer b topic type (rg_id_group rg) (rg_identifier_in_group rg) (of_nat (length data)) options) = header" for b
    by (simp add: header_def create_header_in_buffer_def create_header_def Let_def u8_mask)
  obtain e1 t1 where t1: "tr_async_send_data r1 header t = (e1, t1)" by (cases "tr_async_send_data r1 header t")
  obtain e2 t2 where t2: "tr_async_send_data r2 data t1 = (e2, t2)" by (cases "tr_async_send_data r2 data t1")
  have u1: "tr_is_connected t1" "(e1 = AsyncSuccess) = r1" "tr_queue t1 = (if r1 then tr_queue t @ [header] else tr_queue t)"
    using tr.enqueue_up [of r1 header t] tr.enqueue_result [of r1 header t] tr.enqueue_queue [of r1 header t] assms(2) t1 by simp_all
  have u2: "tr_is_connected t2" "(e2 = AsyncSuccess) = r2" "tr_queue t2 = (if r2 then tr_queue t1 @ [data] else tr_queue t1)"
    using tr.enqueue_up [of r2 data t1] tr.enqueue_result [of r2 data t1] tr.enqueue_queue [of r2 data t1] u1(1) t2 by simp_all
  show ?thesis
    by (cases r1; cases r2)
      (use assms(1,2) t1 t2 u1 u2 in \<open>auto simp: rg_send_message_def h Let_def\<close>)
qed

section \<open>An example\<close>

text \<open>An instance of the ROS operations: the node is the list of its declared parameters, every topic but the empty one is
  valid, the serialisation is the identity.\<close>

definition demo_ros :: "(string list, u8 list) ros_ops" where
  "demo_ros = \<lparr>ro_declare = (\<lambda>n p. if p \<in> set n then None else Some (p # n)), ro_string = (\<lambda>n p. [47, 116]),
     ro_bool = (\<lambda>n p. True), ro_topic_valid = (\<lambda>t. t \<noteq> []), ro_serialize = (\<lambda>k m. m), ro_deserialize = (\<lambda>k d. Some d),
     ro_clear_intensities = id\<rparr>"

lemma demo_ros_laws: "declare_once demo_ros" "serialization_ok demo_ros"
  by (simp_all add: demo_ros_def declare_once_def serialization_ok_def)

definition demo_server :: DataTransport where
  "demo_server = ServerTransport ((GwServer_init 7401 1)\<lparr>gws_client_socket_fd := 5, gws_client_connected := True\<rparr>)"

definition demo_gateway :: "HandlerMode \<Rightarrow> (string list, u8 list) RosGateway" where
  "demo_gateway mode = (RosGateway_init [] (Some demo_server))\<lparr>rg_id_group := 60, rg_identifier_in_group := 5,
     rg_handlers := [(''string_test_input_handler'', 0)],
     rg_objects := [configure_handler_mode mode (MessageHandler_init StringTestInputHandler)\<lparr>mh_topic_name := [47, 116]\<rparr>]\<rparr>"

section \<open>From callback to publication\<close>

text \<open>The two halves of the way of a message: what a subscription callback queues, and what a gateway that reads a frame of these
  bytes publishes, whoever sent it on.\<close>

lemma callback_queues_frame:
  assumes "rg_transport a = Some ta" "tr_is_connected ta" "handle_message ro (rg_objects a ! p) m = Some x"
  shows "\<exists>header ta'. rg_transport (ros_callback ro True True p m a) = Some ta' \<and> tr_queue ta' = tr_queue ta @ [header, sa_data x]
     \<and> header @ sa_data x = make_frame (sa_topic x) (sa_type x) (rg_id_group a) (rg_identifier_in_group a) (to_flags (sa_options x)) (sa_data x)"
proof -
  have on: "is_ros_subscriber_enabled (rg_objects a ! p)"
    using assms(3) by (cases m; auto simp: handle_text_def handle_laserscan_def handle_joint_state_def Let_def
        split: if_splits HandlerKind.splits)
  show ?thesis
    using rg_send_message_cases [OF assms(1,2), of True True "sa_topic x" "sa_type x" "sa_data x" "sa_options x"] on assms(3)
    by (auto simp: ros_callback_def mh_send_message_def make_frame_def Let_def)
qed

definition published_message :: "('n, 'm) ros_ops \<Rightarrow> 'm MessageHandler \<Rightarrow> 'm ros_msg \<Rightarrow> 'm ros_msg" where
  "published_message ro h m = (case m of Text s \<Rightarrow> Text s
     | Structured y \<Rightarrow> Structured (if mh_kind h = LaserScanHandler \<and> mh_empty_intensities h then ro_clear_intensities ro y else y))"

lemma gateway_publishes_frame:
  assumes sent: "handle_message ro h0 m = Some x" "length (sa_data x) < 2 ^ 32"
    and receiver: "objects_typed (rg_handlers b) (rg_objects b)" "rg_transport b = Some tb" "tr_open tb"
      "aget (rg_handlers b) (handler_name (mh_kind h0)) = Some q" "is_ros_publisher_enabled (rg_objects b ! q)"
    and ros: "serialization_ok ro" "ro_topic_valid ro (take 255 (sa_topic x))" "fits (length (sa_data x))"
    and str: "stream_of as = make_frame (sa_topic x) (sa_type x) g i (to_flags (sa_options x)) (sa_data x) @ rest"
  shows "\<exists>as' h. stream_of as' = rest
     \<and> receive_and_process_message ro fits as tb b = Some (Returned (True, as', b\<lparr>rg_objects := (rg_objects b)[q := h]\<rparr>))
     \<and> mh_published h = mh_published (rg_objects b ! q) @ [(take 255 (sa_topic x), published_message ro h0 m)]"
proof -
  have type: "sa_type x = message_type_code (handler_type (mh_kind h0))" and opts: "version (sa_options x) = 0"
    using sent(1) by (cases m; auto simp: handle_text_def handle_laserscan_def handle_joint_state_def raw_options_def
        cdr_options_def Let_def split: if_splits HandlerKind.splits)+
  have k: "mh_kind (rg_objects b ! q) = mh_kind h0"
    using objects_typed_get [OF receiver(1,4)] by (simp add: handler_name_inject)
  have o: "MessageOptions_of_flags (to_flags (sa_options x)) = sa_options x"
    using opts by (simp add: message_options_roundtrip)
  from sent_is_published [OF sent(1) ros(1) k receiver(5) ros(2)] obtain h where
    h: "process_and_publish ro (take 255 (sa_topic x)) (sa_type x) (sa_data x) (sa_options x) (rg_objects b ! q) = Returned (True, h)"
    "mh_published h = mh_published (rg_objects b ! q) @ [(take 255 (sa_topic x), published_message ro h0 m)]"
    unfolding published_message_def by blast
  have d: "dispatch ro (take 255 (sa_topic x)) (sa_type x) (sa_data x) (sa_options x) (map snd (rg_handlers b)) (rg_objects b)
      = Returned ((rg_objects b)[q := h])"
    by (rule dispatch_registered [OF receiver(1,4,5) type h(1)])
  have "b\<lparr>rg_transport := Some tb\<rparr> = b" using receiver(2) by simp
  with receive_frame [where fits = fits and ro = ro and rg = b, of as "sa_topic x" "sa_type x" g i "to_flags (sa_options x)"
      "sa_data x" rest tb] str receiver(3) sent(2) ros(3) d h(2) o
  show ?thesis by (auto simp: make_frame_def Let_def)
qed

section \<open>Properties\<close>

text \<open>A ROS message crosses two gateways unchanged. When the subscription callback of an enabled handler finds room in the
  queue, it queues a header and the payload; a gateway that reads these bytes, in whatever segments they arrive, and has an
  enabled handler of the same class registered publishes exactly this message (a laser scan without intensities if the
  sender is so configured) on the first 255 bytes of the topic, once, and goes on reading behind it.\<close>

lemma ros_message_reaches_peer:
  assumes sender: "rg_transport a = Some ta" "tr_is_connected ta" "handle_message ro (rg_objects a ! p) m = Some x"
      "length (sa_data x) < 2 ^ 32"
    and receiver: "objects_typed (rg_handlers b) (rg_objects b)" "rg_transport b = Some tb" "tr_open tb"
      "aget (rg_handlers b) (handler_name (mh_kind (rg_objects a ! p))) = Some q" "is_ros_publisher_enabled (rg_objects b ! q)"
    and ros: "serialization_ok ro" "ro_topic_valid ro (take 255 (sa_topic x))" "fits (length (sa_data x))"
  shows "\<exists>header ta'. rg_transport (ros_callback ro True True p m a) = Some ta' \<and> tr_queue ta' = tr_queue ta @ [header, sa_data x]
     \<and> (\<forall>as rest. stream_of as = header @ sa_data x @ rest \<longrightarrow>
          (\<exists>as' h. stream_of as' = rest \<and> receive_and_process_message ro fits as tb b = Some (Returned (True, as', b\<lparr>rg_objects := (rg_objects b)[q := h]\<rparr>))
             \<and> mh_published h = mh_published (rg_objects b ! q) @ [(take 255 (sa_topic x),
                 case m of Text s \<Rightarrow> Text s | Structured y \<Rightarrow> Structured (if mh_kind (rg_objects a ! p) = LaserScanHandler
                   \<and> mh_empty_intensities (rg_objects a ! p) then ro_clear_intensities ro y else y))]))"
proof -
  obtain header ta' where q: "rg_transport (ros_callback ro True True p m a) = Some ta'" "tr_queue ta' = tr_queue ta @ [header, sa_data x]"
    "header @ sa_data x = make_frame (sa_topic x) (sa_type x) (rg_id_group a) (rg_identifier_in_group a) (to_flags (sa_options x)) (sa_data x)"
    using callback_queues_frame [OF sender(1-3)] by blast
  have "stream_of as = make_frame (sa_topic x) (sa_type x) (rg_id_group a) (rg_identifier_in_group a) (to_flags (sa_options x)) (sa_data x) @ rest"
    if "stream_of as = header @ sa_data x @ rest" for as rest
    using that by (simp flip: q(3))
  note publish = gateway_publishes_frame [where fits = fits, OF sender(3,4) receiver ros this, unfolded published_message_def]
  show ?thesis using q(1,2) publish by (intro exI [of _ header] exI [of _ ta'] conjI allI impI) blast+
qed

text \<open>C13: a data transport is a byte stream. In every history of messages queued by the gateway and turns of the sender thread, in any order, in which the
  kernel takes whole messages, nothing is lost, duplicated or reordered: what is on the wire and in the queue is exactly what the history has queued, and as many further turns as
  messages wait put all of it on the wire. Whatever the kernel answers, a turn adds nothing but a prefix of what is queued to the wire.\<close>

theorem transport_refines_byte_stream:
  assumes "tr_open t" "\<forall>d\<in>set (tr_queue t). length d \<le> n" "\<forall>e\<in>set es. event_fits n e"
  shows "\<exists>t' t''. run_turns (history_step tr_async_send_data tr_sender_turn) es t = Some t' \<and> tr_open t'
     \<and> tr_wire t' @ concat (tr_queue t') = fold stream_step es (tr_wire t @ concat (tr_queue t))
     \<and> run_turns tr_sender_turn (replicate (length (tr_queue t')) [Took n]) t' = Some t'' \<and> tr_queue t'' = []
     \<and> tr_wire t'' = fold stream_step es (tr_wire t @ concat (tr_queue t))
     \<and> (\<forall>as u. tr_sender_turn as t' = Some u \<longrightarrow> (\<exists>k. tr_wire u = tr_wire t' @ take k (concat (tr_queue t'))))"
proof -
  from tr.history_stream [OF assms] obtain t' where
    t': "run_turns (history_step tr_async_send_data tr_sender_turn) es t = Some t'" "tr_open t'" "\<forall>d\<in>set (tr_queue t'). length d \<le> n"
    "tr_wire t' @ concat (tr_queue t') = fold stream_step es (tr_wire t @ concat (tr_queue t))" by blast
  with tr.drained_by [OF t'(2,3)] show ?thesis using tr.turn_prefix by force
qed

theorem transport_refines_byte_stream_witness:
  "\<exists>t' t''. run_turns (history_step tr_async_send_data tr_sender_turn)
       [Enqueue True [1, 2], SenderTurn [Took 9], Enqueue False [3], Enqueue True [4]] demo_server = Some t'
     \<and> run_turns tr_sender_turn (replicate (length (tr_queue t')) [Took 2]) t' = Some t'' \<and> tr_wire t'' = [1, 2, 4]"
proof -
  have d: "tr_open demo_server" "\<forall>d\<in>set (tr_queue demo_server). length d \<le> 2" "tr_wire demo_server = []" "tr_queue demo_server = []"
    by (simp_all add: demo_server_def GwServer_init_def)
  have "\<forall>e\<in>set [Enqueue True [1, 2], SenderTurn [Took 9], Enqueue False [3], Enqueue True [4]]. event_fits 2 e" by simp
  from transport_refines_byte_stream [OF d(1,2) this] show ?thesis unfolding d(3,4) by auto
qed

text \<open>C34: a payload that finds no room corrupts the message after it. The header is queued, the payload is not, and the caller is told that
  the message was not sent; the next message is queued whole. Whoever reads the stream takes the header of the first message,
  and the beginning of the second one as its payload, for a message of the first topic.\<close>

theorem refused_payload_corrupts_stream:
  assumes up: "rg_transport rg = Some t" "tr_is_connected t"
    and first: "rg_send_message True False topic type data options rg = (ok, rg')"
    and second: "rg_send_message True True topic2 type2 data2 options2 rg' = (ok2, rg'')"
    and len: "0 < length data" "length data \<le> 11 + min (length topic2) 255 + length data2" "length data < 2 ^ 32"
  shows "\<not> ok \<and> ok2 \<and> (\<exists>t'' msgs payload rest. rg_transport rg'' = Some t'' \<and> tr_queue t'' = tr_queue t @ msgs
     \<and> concat msgs = make_frame topic type (rg_id_group rg) (rg_identifier_in_group rg) (to_flags options) payload @ rest
     \<and> length payload = length data \<and> payload @ rest = make_frame topic2 type2 (rg_id_group rg) (rg_identifier_in_group rg)
         (to_flags options2) data2)"
proof -
  let ?h = "create_header topic type (rg_id_group rg) (rg_identifier_in_group rg) (of_nat (length data)) (to_flags options)"
  let ?f = "make_frame topic2 type2 (rg_id_group rg) (rg_identifier_in_group rg) (to_flags options2) data2"
  obtain t' where 1: "\<not> ok" "rg' = rg\<lparr>rg_header_buffer := ?h, rg_transport := Some t'\<rparr>" "tr_is_connected t'"
    "tr_queue t' = tr_queue t @ [?h]"
    using rg_send_message_cases [OF up, of True False topic type data options] first by auto
  then have "rg_transport rg' = Some t'" by simp
  from rg_send_message_cases [OF this 1(3), of True True topic2 type2 data2 options2] second 1(2,4) obtain t'' h2 where
    2: "ok2" "rg_transport rg'' = Some t''" "tr_queue t'' = tr_queue t @ [?h, h2, data2]" "h2 @ data2 = ?f"
    by (auto simp: make_frame_def)
  let ?p = "take (length data) ?f"
  have "length ?f = 11 + min (length topic2) 255 + length data2" by (simp add: make_frame_def length_create_header)
  with len(2) have p: "length ?p = length data" by (simp only: length_take min.absorb2)
  have "concat [?h, h2, data2] = make_frame topic type (rg_id_group rg) (rg_identifier_in_group rg) (to_flags options) ?p @ drop (length data) ?f"
    using 2(4) unfolding make_frame_def [of topic] p by simp
  with 1(1) 2 p show ?thesis by (metis append_take_drop_id)
qed

theorem refused_payload_corrupts_stream_witness:
  "\<exists>rg' rg''. rg_send_message True False [47, 116] 201 [1, 2, 3] raw_options (demo_gateway BOTH) = (False, rg')
     \<and> rg_send_message True True [47, 116] 201 [7] raw_options rg' = (True, rg'')
     \<and> (\<exists>t'' msgs payload rest. rg_transport rg'' = Some t'' \<and> tr_queue t'' = tr_queue demo_server @ msgs
          \<and> concat msgs = make_frame [47, 116] 201 60 5 (to_flags raw_options) payload @ rest \<and> length payload = 3
          \<and> payload @ rest = make_frame [47, 116] 201 60 5 (to_flags raw_options) [7])"
proof -
  have up: "rg_transport (demo_gateway BOTH) = Some demo_server" "tr_is_connected demo_server"
    "rg_id_group (demo_gateway BOTH) = 60" "rg_identifier_in_group (demo_gateway BOTH) = 5"
    by (simp_all add: demo_gateway_def RosGateway_init_def demo_server_def gws_is_connected_def)
  obtain ok rg' where r1: "rg_send_message True False [47, 116] 201 [1, 2, 3] raw_options (demo_gateway BOTH) = (ok, rg')" by fastforce
  obtain ok2 rg'' where r2: "rg_send_message True True [47, 116] 201 [7] raw_options rg' = (ok2, rg'')" by fastforce
  show ?thesis using refused_payload_corrupts_stream [OF up(1,2) r1 r2] r1 r2 unfolding up(3,4) by (simp add: numeral_3_eq_3)
qed

end
