(* ===== verification/Gateway_Invariant.thy ===== *)
theory Gateway_Invariant
  imports Gateway_Control Gateway_Data_Plane
begin

text \<open>
  The invariant of a gateway: its handler tables are well typed, a registered handler is the instance its factory
  caches, and the parameters of a registered handler are declared. Every operation keeps it, and it holds in
  every reachable state.
\<close>

section \<open>The data plane part\<close>

definition registered_cached :: "('n, 'm) dp_state \<Rightarrow> bool" where
  "registered_cached s \<longleftrightarrow>
     (\<forall>k p. aget (rg_handlers (snd s)) (handler_name k) = Some p \<longrightarrow> aget (fst s) (handler_type k) = Some p)"

definition topic_param :: "HandlerKind \<Rightarrow> string" where
  "topic_param k = handler_name k @ ''.topic''"

definition registered_declared :: "('n, 'm) ros_ops \<Rightarrow> ('n, 'm) dp_state \<Rightarrow> bool" where
  "registered_declared ro s \<longleftrightarrow>
     (\<forall>k p. aget (rg_handlers (snd s)) (handler_name k) = Some p \<longrightarrow> ro_declare ro (rg_node (snd s)) (topic_param k) = None)"

definition dp_inv :: "('n, 'm) ros_ops \<Rightarrow> ('n, 'm) dp_state \<Rightarrow> bool" where
  "dp_inv ro s \<longleftrightarrow> handlers_typed s \<and> registered_cached s \<and> (declare_once ro \<longrightarrow> registered_declared ro s)"

text \<open>What only changes the contents of handlers, or the transport, keeps it.\<close>

lemma dp_inv_objects:
  assumes "dp_inv ro (inst, rg)" "same_kinds (rg_objects rg) (rg_objects rg')" "rg_handlers rg' = rg_handlers rg"
    "rg_node rg' = rg_node rg"
  shows "dp_inv ro (inst, rg')"
  using assms typed_same_kinds [OF assms(2)]
  by (simp add: dp_inv_def handlers_typed_def registered_cached_def registered_declared_def)

lemma get_or_create_frame:
  assumes "get_or_create t (inst, rg) = (r, inst', rg')"
  shows "rg_handlers rg' = rg_handlers rg" "rg_node rg' = rg_node rg" "rg_transport rg' = rg_transport rg"
    "aget inst' t = r" "u \<noteq> t \<Longrightarrow> aget inst' u = aget inst u" "\<And>p. aget inst t = Some p \<Longrightarrow> r = Some p"
    "rg_objects rg' = rg_objects rg @ (case (aget inst t, mt_creator t) of (None, Some k) \<Rightarrow> [MessageHandler_init k] | _ \<Rightarrow> [])"
proof -
  consider q where "aget inst t = Some q" | "aget inst t = None" "mt_creator t = None"
    | k where "aget inst t = None" "mt_creator t = Some k" by (cases "aget inst t"; cases "mt_creator t") auto
  then have "rg_handlers rg' = rg_handlers rg \<and> rg_node rg' = rg_node rg \<and> rg_transport rg' = rg_transport rg
    \<and> aget inst' t = r \<and> (\<forall>u. u \<noteq> t \<longrightarrow> aget inst' u = aget inst u) \<and> (\<forall>p. aget inst t = Some p \<longrightarrow> r = Some p)
    \<and> rg_objects rg' = rg_objects rg @ (case (aget inst t, mt_creator t) of (None, Some k) \<Rightarrow> [MessageHandler_init k] | _ \<Rightarrow> [])"
  proof cases
    case 1
    with assms have "r = Some q" "inst' = inst" "rg' = rg" by (simp_all add: get_or_create_def)
    with 1 show ?thesis by simp
  qed (use assms in \<open>auto simp: get_or_create_def new_handler_def\<close>)
  then show "rg_handlers rg' = rg_handlers rg" "rg_node rg' = rg_node rg" "rg_transport rg' = rg_transport rg"
    "aget inst' t = r" "u \<noteq> t \<Longrightarrow> aget inst' u = aget inst u" "\<And>p. aget inst t = Some p \<Longrightarrow> r = Some p"
    "rg_objects rg' = rg_objects rg @ (case (aget inst t, mt_creator t) of (None, Some k) \<Rightarrow> [MessageHandler_init k] | _ \<Rightarrow> [])"
    by blast+
qed

lemma get_or_create_inv:
  assumes inv: "dp_inv ro (inst, rg)" and g: "get_or_create t (inst, rg) = (r, inst', rg')"
  shows "dp_inv ro (inst', rg')"
proof -
  note fr = get_or_create_frame [OF g]
  have "handlers_typed (inst', rg')" using get_or_create_typed [OF _ g] inv by (auto simp: dp_inv_def)
  moreover have "aget inst' (handler_type k) = Some p" if "aget (rg_handlers rg') (handler_name k) = Some p" for k p
  proof -
    have old: "aget inst (handler_type k) = Some p" using inv that fr(1) by (simp add: dp_inv_def registered_cached_def)
    show ?thesis
    proof (cases "handler_type k = t")
      case True
      with old have "r = Some p" using fr(6) by blast
      with True show ?thesis using fr(4) by simp
    next
      case False
      with old show ?thesis using fr(5) by simp
    qed
  qed
  ultimately show ?thesis
    using inv fr(1,2) by (simp add: dp_inv_def registered_cached_def registered_declared_def)
qed

lemma configure_object_inv:
  assumes "dp_inv ro (inst, rg)" "p < length (rg_objects rg)"
  shows "dp_inv ro (inst, configure_object mode p rg)"
  by (rule dp_inv_objects [OF assms(1)])
    (use assms(2) in \<open>auto simp: configure_object_def configure_handler_mode_def Let_def
       intro!: same_kinds_update split: HandlerMode.splits\<close>)

text \<open>A successful initialisation declares the topic parameter, and nothing is ever undeclared.\<close>

lemma initialize_declares:
  assumes once: "declare_once ro" and init: "initialize_handler ro n h = Returned (n', h')"
  shows "ro_declare ro n (topic_param (mh_kind h)) \<noteq> None" "ro_declare ro n' (topic_param (mh_kind h)) = None"
    "ro_declare ro n q = None \<Longrightarrow> ro_declare ro n' q = None"
proof -
  have D: "ro_declare ro m' p = None" "ro_declare ro m q = None \<Longrightarrow> ro_declare ro m' q = None"
    if "ro_declare ro m p = Some m'" for m m' p q
    using once that unfolding declare_once_def by blast+
  show "ro_declare ro n (topic_param (mh_kind h)) \<noteq> None"
    using init by (auto simp: initialize_handler_def initialize_topic_def initialize_laserscan_def topic_param_def
        split: HandlerKind.splits option.splits)
  show "ro_declare ro n' (topic_param (mh_kind h)) = None"
    using init by (auto simp: initialize_handler_def initialize_topic_def initialize_laserscan_def subscribe_topic_def
        topic_param_def Let_def split: HandlerKind.splits option.splits if_splits dest: D)
  show "ro_declare ro n' q = None" if "ro_declare ro n q = None"
    using init that by (auto simp: initialize_handler_def initialize_topic_def initialize_laserscan_def subscribe_topic_def
        Let_def split: HandlerKind.splits option.splits if_splits dest: D)
qed

lemma register_handler_cases:
  assumes "register_handler ro p rg = Returned (ok, rg')"
  defines "k \<equiv> mh_kind (rg_objects rg ! p)"
  shows "aget (rg_handlers rg) (handler_name k) \<noteq> None \<and> rg' = rg
     \<or> aget (rg_handlers rg) (handler_name k) = None \<and> (\<exists>n h. initialize_handler ro (rg_node rg) (rg_objects rg ! p) = Returned (n, h)
         \<and> rg' = rg\<lparr>rg_handlers := aput (handler_name k) p (rg_handlers rg), rg_node := n,
                    rg_objects := (rg_objects rg)[p := h\<lparr>mh_enabled := True\<rparr>]\<rparr>)"
  using assms(1) unfolding register_handler_def Let_def k_def
  by (auto split: if_splits outcome.splits)

lemma register_handler_inv:
  assumes inv: "dp_inv ro (inst, rg)" and p: "p < length (rg_objects rg)"
    and cached: "aget inst (handler_type (mh_kind (rg_objects rg ! p))) = Some p"
    and r: "register_handler ro p rg = Returned (ok, rg')"
  shows "dp_inv ro (inst, rg')"
proof -
  let ?k = "mh_kind (rg_objects rg ! p)"
  consider "rg' = rg" | n h where "initialize_handler ro (rg_node rg) (rg_objects rg ! p) = Returned (n, h)"
    "rg' = rg\<lparr>rg_handlers := aput (handler_name ?k) p (rg_handlers rg), rg_node := n,
              rg_objects := (rg_objects rg)[p := h\<lparr>mh_enabled := True\<rparr>]\<rparr>"
    using register_handler_cases [OF r] by blast
  then show ?thesis
  proof cases
    case 1
    with inv show ?thesis by simp
  next
    case 2
    have "handlers_typed (inst, rg')"
      using register_handler_typed [OF _ p, of inst ro ok rg'] r inv by (auto simp: dp_inv_def)
    moreover have "registered_cached (inst, rg')"
      using inv cached 2(2) by (auto simp: dp_inv_def registered_cached_def handler_name_inject)
    moreover have "registered_declared ro (inst, rg')" if once: "declare_once ro"
    proof -
      have old: "registered_declared ro (inst, rg)" using inv once by (simp add: dp_inv_def)
      show ?thesis using old 2(2) initialize_declares(2,3) [OF once 2(1)]
        by (auto simp: registered_declared_def handler_name_inject)
    qed
    ultimately show ?thesis by (simp add: dp_inv_def)
  qed
qed

lemma unregister_handler_inv:
  assumes inv: "dp_inv ro (inst, rg)"
  shows "dp_inv ro (inst, snd (unregister_handler name rg))"
proof -
  have "handlers_typed (inst, snd (unregister_handler name rg))"
    using unregister_handler_typed inv by (auto simp: dp_inv_def)
  then show ?thesis using inv
    by (auto simp: dp_inv_def registered_cached_def registered_declared_def unregister_handler_def split: option.splits)
qed

lemma get_or_create_Some:
  assumes inv: "dp_inv ro (inst, rg)" and g: "get_or_create t (inst, rg) = (Some p, inst', rg')"
  shows "p < length (rg_objects rg')" "handler_type (mh_kind (rg_objects rg' ! p)) = t" "aget inst' t = Some p"
  using get_or_create_typed [OF _ g] inv get_or_create_frame(4) [OF g] by (auto simp: dp_inv_def)

lemma configure_object_kind: "p < length (rg_objects rg) \<Longrightarrow> mh_kind (rg_objects (configure_object mode p rg) ! p) = mh_kind (rg_objects rg ! p)"
  "length (rg_objects (configure_object mode p rg)) = length (rg_objects rg)"
  by (auto simp: configure_object_def configure_handler_mode_def Let_def split: HandlerMode.splits)

lemma activate_inv: "dp_inv ro s \<Longrightarrow> activate ro mode mts s = Returned s' \<Longrightarrow> dp_inv ro s'"
proof (induction mts arbitrary: s)
  case (Cons mt mts)
  obtain inst rg where s: "s = (inst, rg)" by (cases s)
  obtain r inst1 rg1 where g: "get_or_create mt (inst, rg) = (r, inst1, rg1)" by (cases "get_or_create mt (inst, rg)")
  have inv: "dp_inv ro (inst, rg)" using Cons.prems(1) s by simp
  have inv1: "dp_inv ro (inst1, rg1)" by (rule get_or_create_inv [OF inv g])
  show ?case
  proof (cases r)
    case None
    with Cons inv1 s g show ?thesis by simp
  next
    case (Some p)
    note q = get_or_create_Some [OF inv g [unfolded Some]]
    from Cons.prems(2) s g Some obtain ok rg2 where r2: "register_handler ro p (configure_object mode p rg1) = Returned (ok, rg2)"
      "activate ro mode mts (inst1, rg2) = Returned s'"
      by (auto split: outcome.splits)
    have "dp_inv ro (inst1, rg2)"
      by (rule register_handler_inv [OF configure_object_inv [OF inv1 q(1)] _ _ r2(1)])
        (simp_all add: configure_object_kind q)
    with r2(2) Cons.IH show ?thesis by blast
  qed
qed simp

lemma deactivate_inv: "dp_inv ro s \<Longrightarrow> dp_inv ro (deactivate mts s)"
proof (induction mts arbitrary: s)
  case (Cons mt mts)
  obtain inst rg where s: "s = (inst, rg)" by (cases s)
  obtain r inst1 rg1 where g: "get_or_create mt (inst, rg) = (r, inst1, rg1)" by (cases "get_or_create mt (inst, rg)")
  have "dp_inv ro (inst1, rg1)" using get_or_create_inv [OF _ g] Cons.prems s by blast
  then show ?case using s g Cons.IH by (auto intro: unregister_handler_inv split: option.splits)
qed simp

lemma dispatch_kinds:
  "(\<And>p. p \<in> set ps \<Longrightarrow> p < length objs) \<Longrightarrow> dispatch ro topic type data options ps objs = Returned objs' \<Longrightarrow> same_kinds objs objs'"
proof (induction ps arbitrary: objs)
  case (Cons p ps)
  then have p: "p < length objs" by simp
  show ?case
  proof (cases "is_ros_publisher_enabled (objs ! p) \<and> can_process_message_type (objs ! p) type")
    case True
    with Cons.prems(2) obtain ok h where h: "process_and_publish ro topic type data options (objs ! p) = Returned (ok, h)"
      "dispatch ro topic type data options ps (objs[p := h]) = Returned objs'" by (auto split: outcome.splits)
    have k: "same_kinds objs (objs[p := h])" using process_frame [OF h(1)] p by (auto intro: same_kinds_update)
    have "same_kinds (objs[p := h]) objs'" by (rule Cons.IH [OF _ h(2)]) (use Cons.prems(1) in simp)
    with k show ?thesis by (rule same_kinds_trans)
  next
    case False
    with Cons show ?thesis by simp
  qed
qed simp

lemma receive_and_process_inv:
  assumes inv: "dp_inv ro (inst, rg)" and r: "receive_and_process_message ro fits as t rg = Some (Returned (ok, as', rg'))"
  shows "dp_inv ro (inst, rg')"
proof -
  have ps: "p < length (rg_objects rg)" if "p \<in> set (map snd (rg_handlers rg))" for p
    using inv that by (auto simp: dp_inv_def handlers_typed_def objects_typed_def list_all_iff)
  have kinds: "same_kinds (rg_objects rg) objs'"
    if "dispatch ro topic type data options (map snd (rg_handlers rg)) (rg_objects rg) = Returned objs'" for topic type data options objs'
    by (rule dispatch_kinds [OF _ that]) (rule ps)
  have "same_kinds (rg_objects rg) (rg_objects rg') \<and> rg_handlers rg' = rg_handlers rg \<and> rg_node rg' = rg_node rg"
    using r
    by (auto dest!: kinds simp: receive_and_process_message_def receive_payload_def Let_def
        split: option.splits bool.splits if_splits outcome.splits)
  with inv show ?thesis by (blast intro: dp_inv_objects)
qed

lemma receiver_turn_inv:
  assumes inv: "dp_inv ro (inst, rg)" and r: "receiver_turn ro fits a as rg = Some (Returned (as', rg'))"
  shows "dp_inv ro (inst, rg')"
proof -
  have tr: "dp_inv ro (inst, rg\<lparr>rg_transport := t\<rparr>)" for t by (rule dp_inv_objects [OF inv]) simp_all
  consider t where "rg' = rg\<lparr>rg_transport := t\<rparr>"
    | t ok where "receive_and_process_message ro fits as t (rg\<lparr>rg_transport := Some t\<rparr>) = Some (Returned (ok, as', rg'))"
  proof (cases "rg_transport rg")
    case None
    with r that(1) [of None] show ?thesis by (simp add: receiver_turn_def)
  next
    case (Some t)
    show ?thesis
    proof (cases "\<not> rg_receiver_running rg \<or> \<not> tr_is_connected t")
      case True
      with Some r that(1) [of "Some t"] show ?thesis by (simp add: receiver_turn_def)
    next
      case False
      obtain b t' where b: "tr_data_available a t = (b, t')" by (cases "tr_data_available a t")
      from Some False b r that show ?thesis
        by (cases b) (auto simp: receiver_turn_def split: option.splits outcome.splits)
    qed
  qed
  then show ?thesis by cases (use tr receive_and_process_inv in blast)+
qed

lemma ros_callback_inv:
  assumes "dp_inv ro (inst, rg)"
  shows "dp_inv ro (inst, ros_callback ro r1 r2 p m rg)"
  by (rule dp_inv_objects [OF assms])
    (auto simp: ros_callback_def mh_send_message_def rg_send_message_def Let_def split: option.splits prod.splits)

section \<open>The controller\<close>

definition gateway_inv :: "('n, 'm) ros_ops \<Rightarrow> ('j, 'n, 'm) GatewayController \<Rightarrow> bool" where
  "gateway_inv ro c \<longleftrightarrow> dp_inv ro (ct_instances c, ct_gateway c) \<and> list_all (\<lambda>(_, td). td_required_handlers td = []) (ct_task_database c)"

text \<open>The lists of legacy handlers are empty, so the legacy path does nothing.\<close>

lemma gw_inv_task: "gateway_inv ro c \<Longrightarrow> aget (ct_task_database c) k = Some td \<Longrightarrow> td_required_handlers td = []"
  by (auto simp: gateway_inv_def list_all_iff dest!: aget_in_set)

lemma gw_inv_frame:
  assumes "gateway_inv ro c" "ct_instances c' = ct_instances c" "ct_task_database c' = ct_task_database c"
    "rg_objects (ct_gateway c') = rg_objects (ct_gateway c)" "rg_handlers (ct_gateway c') = rg_handlers (ct_gateway c)"
    "rg_node (ct_gateway c') = rg_node (ct_gateway c)"
  shows "gateway_inv ro c'"
proof -
  have "dp_inv ro (ct_instances c, ct_gateway c')"
    by (rule dp_inv_objects [of ro _ "ct_gateway c"]) (use assms in \<open>simp_all add: gateway_inv_def\<close>)
  with assms show ?thesis by (simp add: gateway_inv_def)
qed

lemma activate_task_inv:
  assumes "dp_inv ro s" "td_required_handlers td = []" "activate_task ro ctype td s = Returned s'"
  shows "dp_inv ro s'"
proof (cases "td_input_types td \<noteq> [] \<or> td_output_types td \<noteq> []")
  case True
  with assms(3) obtain s1 where s1: "activate ro (input_mode ctype) (td_input_types td) s = Returned s1"
    "activate ro (output_mode ctype) (td_output_types td) s1 = Returned s'"
    by (cases "activate ro (input_mode ctype) (td_input_types td) s") (auto simp: activate_task_def)
  then show ?thesis using activate_inv [OF activate_inv [OF assms(1) s1(1)] s1(2)] by simp
next
  case False
  with assms show ?thesis by (simp add: activate_task_def)
qed

lemma approve_task_inv:
  assumes inv: "gateway_inv ro c" and r: "approve_task ro task_id c = Returned c'"
  shows "gateway_inv ro c'"
proof (cases "aget (ct_task_database c) task_id")
  case None
  with inv r show ?thesis by (simp add: approve_task_def)
next
  case (Some td)
  with r obtain s where s: "activate_task ro (ct_component_type c) td (ct_instances c, ct_gateway c) = Returned s"
    "c' = set_data_plane s c"
    by (auto simp: approve_task_def split: outcome.splits)
  with inv activate_task_inv [OF _ gw_inv_task [OF inv Some] s(1)] show ?thesis
    by (simp add: gateway_inv_def set_data_plane_def)
qed

lemma on_session_approved_inv:
  assumes inv: "gateway_inv ro c" and r: "on_session_approved ops ro now payload c = Returned c'"
  shows "gateway_inv ro c'"
proof -
  have "gateway_inv ro (c\<lparr>ct_active_sessions := tab\<rparr>)" for tab by (rule gw_inv_frame [OF inv]) simp_all
  with r inv show ?thesis
    by (auto simp: on_session_approved_def intro: approve_task_inv split: option.splits if_splits)
qed

lemma activate_p2p_inv: "gateway_inv ro c \<Longrightarrow> activate_p2p ops ro now ks c = Returned c' \<Longrightarrow> gateway_inv ro c'"
proof (induction ks arbitrary: c)
  case (Cons k ks)
  let ?c = "c\<lparr>ct_active_sessions := aput (''p2p_session_'' @ k)
      \<lparr>ss_request_id = ''p2p_session_'' @ k, ss_task_id = k, ss_last_keepalive_sent = now\<rparr> (ct_active_sessions c)\<rparr>"
  let ?j = "js_object ops [(''request_id'', js_of_string ops (''p2p_session_'' @ k)), (''task_id'', js_of_string ops k)]"
  have inv: "gateway_inv ro ?c" by (rule gw_inv_frame [OF Cons.prems(1)]) simp_all
  from Cons.prems(2) obtain c1 where "on_session_approved ops ro now ?j ?c = Returned c1" "activate_p2p ops ro now ks c1 = Returned c'"
    by (cases "on_session_approved ops ro now ?j ?c") (simp_all add: Let_def)
  with Cons.IH on_session_approved_inv [OF inv] show ?case by blast
qed simp

lemma on_dp_confirmed_inv:
  assumes inv: "gateway_inv ro c" and r: "on_dp_confirmed ops ro now c = Returned c'"
  shows "gateway_inv ro c'"
proof -
  have "gateway_inv ro (c\<lparr>ct_gateway := rg_start_receiver (ct_gateway c), ct_state := s\<rparr>)" for s
    by (rule gw_inv_frame [OF inv]) (simp_all add: rg_start_receiver_def)
  with r inv show ?thesis
    by (auto simp: on_dp_confirmed_def activate_all_p2p_sessions_def Let_def intro: activate_p2p_inv split: if_splits)
qed

lemma teardown_inv:
  assumes inv: "gateway_inv ro c"
  shows "gateway_inv ro (handle_session_teardown request_id c)"
proof (cases "aget (ct_active_sessions c) request_id")
  case None
  with inv show ?thesis by (simp add: handle_session_teardown_def)
next
  case (Some s)
  have fr: "gateway_inv ro (x\<lparr>ct_active_sessions := tab\<rparr>)" if "gateway_inv ro x" for x tab
    by (rule gw_inv_frame [OF that]) simp_all
  show ?thesis
  proof (cases "aget (ct_task_database c) (ss_task_id s)")
    case None
    with Some inv fr show ?thesis by (simp add: handle_session_teardown_def)
  next
    case (Some td)
    have "dp_inv ro (deactivate_task td (ct_instances c, ct_gateway c))"
      using inv gw_inv_task [OF inv Some] by (auto simp: deactivate_task_def gateway_inv_def deactivate_inv)
    with inv have "gateway_inv ro (set_data_plane (deactivate_task td (ct_instances c, ct_gateway c)) c)"
      by (simp add: gateway_inv_def set_data_plane_def)
    with Some \<open>aget (ct_active_sessions c) request_id = Some s\<close> fr show ?thesis
      by (simp add: handle_session_teardown_def Let_def)
  qed
qed

lemma load_tasks_plain:
  "list_all (\<lambda>(_, td). td_required_handlers td = []) db \<Longrightarrow> load_tasks ops ts (n, db) = Returned (n', db') \<Longrightarrow>
   list_all (\<lambda>(_, td). td_required_handlers td = []) db'"
proof (induction ts arbitrary: n db)
  case (Cons t ts)
  show ?case
  proof (cases "js_contains ops t ''task_id'' \<and> js_contains ops t ''task_name''")
    case True
    with Cons.prems(2) obtain k td where l: "load_task ops t = Some (k, td)"
      "load_tasks ops ts (Suc n, aput k td db) = Returned (n', db')"
      by (auto split: option.splits)
    have "td_required_handlers td = []" using l(1) by (auto simp: load_task_def split: option.splits)
    then have "list_all (\<lambda>(_, td). td_required_handlers td = []) (aput k td db)"
      using Cons.prems(1) set_aput_subset [of k td db] by (auto simp: list_all_iff)
    from Cons.IH [OF this l(2)] show ?thesis .
  next
    case False
    with Cons show ?thesis by auto
  qed
qed simp

lemma load_global_config_inv:
  assumes inv: "gateway_inv ro c" and r: "load_global_config_from_json ops text c = Returned (ok, c')"
  shows "gateway_inv ro c'"
proof (cases "js_parse ops text")
  case None
  with inv r show ?thesis by (simp add: load_global_config_from_json_def)
next
  case (Some doc)
  then have "ct_instances c' = ct_instances c \<and> ct_gateway c' = ct_gateway c
    \<and> list_all (\<lambda>(_, td). td_required_handlers td = []) (ct_task_database c')"
    using r load_tasks_plain [of "[]" ops _ 0]
    by (auto simp: load_global_config_from_json_def Let_def split: option.splits outcome.splits if_splits)
  with inv show ?thesis by (simp add: gateway_inv_def)
qed

section \<open>Steps\<close>

lemma on_discovery_success_inv:
  assumes inv: "gateway_inv ro c" and r: "on_discovery_success ops host port config c = Returned c'"
  shows "gateway_inv ro c'"
proof -
  have fr: "gateway_inv ro (x\<lparr>ct_state := s\<rparr>)" if "gateway_inv ro x" for x s by (rule gw_inv_frame [OF that]) simp_all
  have h: "gateway_inv ro (c\<lparr>ct_bridge_cp_host := host, ct_bridge_cp_port := port\<rparr>)" by (rule gw_inv_frame [OF inv]) simp_all
  have "gateway_inv ro (c\<lparr>ct_gateway := retarget host port (ct_gateway c)\<rparr>)"
    by (rule gw_inv_frame [OF inv]) (auto simp: retarget_def split: option.splits DataTransport.splits)
  then have g: "gateway_inv ro (c\<lparr>ct_gateway := retarget host port (ct_gateway c), ct_state := s\<rparr>)" for s
    using fr by fastforce
  show ?thesis
    using r inv g fr [OF h] fr [OF load_global_config_inv [OF h]]
    by (auto simp: on_discovery_success_def Let_def split: if_splits outcome.splits bool.splits)
qed

lemma open_data_plane_inv: "gateway_inv ro c \<Longrightarrow> gateway_inv ro (open_data_plane a c)"
  by (erule gw_inv_frame)
    (auto simp: open_data_plane_def Let_def split: option.splits DataTransport.splits prod.splits)

lemma keepalive_sessions_inv: "gateway_inv ro c \<Longrightarrow> gateway_inv ro (keepalive_sessions ops env c)"
  by (erule gw_inv_frame) (auto simp: keepalive_sessions_def split: option.splits prod.splits)

lemma connecting_turn_inv: "gateway_inv ro c \<Longrightarrow> gateway_inv ro (connecting_turn ops env c)"
  by (erule gw_inv_frame) (auto simp: connecting_turn_def split: prod.splits bool.splits)

lemma initializing_turn_inv:
  assumes inv: "gateway_inv ro c" and r: "initializing_turn ops env c = Returned c'"
  shows "gateway_inv ro c'"
proof -
  have fr: "gateway_inv ro (x\<lparr>ct_state := s\<rparr>)" if "gateway_inv ro x" for x s by (rule gw_inv_frame [OF that]) simp_all
  have local: "gateway_inv ro x" if "load_local_config ops contents c = Returned (ok, x)" for contents ok x
    using that inv by (auto simp: load_local_config_def intro: load_global_config_inv split: option.splits)
  show ?thesis
    using r inv
    by (auto simp: initializing_turn_def dest!: local intro: open_data_plane_inv fr
        split: if_splits outcome.splits bool.splits)
qed

lemma waiting_turn_inv:
  assumes inv: "gateway_inv ro c" and r: "waiting_turn ops ro env c = Returned c'"
  shows "gateway_inv ro c'"
proof -
  have fr: "gateway_inv ro (c\<lparr>ct_gateway := (ct_gateway c)\<lparr>rg_transport := t\<rparr>\<rparr>)" for t by (rule gw_inv_frame [OF inv]) simp_all
  show ?thesis
    using r inv fr on_dp_confirmed_inv [OF fr]
    by (auto simp: waiting_turn_def Let_def split: if_splits option.splits DataTransport.splits prod.splits)
qed

lemma operational_turn_inv:
  assumes inv: "gateway_inv ro c" and r: "operational_turn ops env c = Returned c'"
  shows "gateway_inv ro c'"
proof -
  have q: "gateway_inv ro (c\<lparr>ct_offloading_request_queue := rs\<rparr>)" "gateway_inv ro (c\<lparr>ct_termination_request_queue := ts\<rparr>)" for rs ts
    by (rule gw_inv_frame [OF inv]; simp)+
  have off: "gateway_inv ro y" if "gateway_inv ro x" "process_offload ops env req x = Returned y" for x y req
    by (rule gw_inv_frame [OF that(1)])
      (use that(2) in \<open>auto simp: process_offload_def Let_def split: if_splits option.splits outcome.splits\<close>)
  have ter: "gateway_inv ro (process_termination ops env i x)" if "gateway_inv ro x" for x i
    unfolding process_termination_def by (rule teardown_inv, rule gw_inv_frame [OF that]) simp_all
  show ?thesis
    using r off [OF q(1)] ter [OF q(2)] keepalive_sessions_inv [OF inv]
    by (auto simp: operational_turn_def split: list.splits if_splits)
qed

lemma control_turn_inv:
  assumes inv: "gateway_inv ro c" and r: "control_turn ops ro env c = Returned c'"
  shows "gateway_inv ro c'"
proof -
  have "gateway_inv ro (discovering_turn c)" "gateway_inv ro (c\<lparr>ct_running := b\<rparr>)" for b
    by (rule gw_inv_frame [OF inv]; simp add: discovering_turn_def)+
  with r inv show ?thesis
    by (auto simp: control_turn_def intro: connecting_turn_inv initializing_turn_inv waiting_turn_inv operational_turn_inv
        split: if_splits GwState.splits)
qed

lemma accept_turn_inv:
  assumes inv: "gateway_inv ro c" and r: "accept_turn ops ro now s c = Returned c'"
  shows "gateway_inv ro c'"
proof -
  have fr: "gateway_inv ro (c\<lparr>ct_gateway := (ct_gateway c)\<lparr>rg_transport := t\<rparr>\<rparr>)" for t by (rule gw_inv_frame [OF inv]) simp_all
  show ?thesis
    using r inv fr on_dp_confirmed_inv [OF fr]
    by (auto simp: accept_turn_def accept_body_def Let_def split: if_splits option.splits DataTransport.splits prod.splits)
qed

lemma run_event_inv: "gateway_inv ro c \<Longrightarrow> run_event ops ro now ev c = Returned c' \<Longrightarrow> gateway_inv ro c'"
  by (cases ev) (auto intro: on_session_approved_inv on_dp_confirmed_inv simp: on_session_denied_def teardown_inv)

lemma client_turn_inv:
  assumes inv: "gateway_inv ro c" and r: "client_turn ops ro now rooms room sel rec c = Returned c'"
  shows "gateway_inv ro c'"
proof (cases "ct_bridge_cp_client c")
  case None
  with inv r show ?thesis by (simp add: client_turn_def)
next
  case (Some cp)
  have fr: "gateway_inv ro (x\<lparr>ct_bridge_cp_client := y\<rparr>)" if "gateway_inv ro x" for x y by (rule gw_inv_frame [OF that]) simp_all
  show ?thesis
  proof (cases "cp_running cp")
    case False
    with Some inv r show ?thesis by (simp add: client_turn_def)
  next
    case True
    with Some r obtain cp' ev c1 where "run_event ops ro now ev (c\<lparr>ct_bridge_cp_client := Some cp'\<rparr>) = Returned c1"
      "c' = c1\<lparr>ct_bridge_cp_client := map_option (cp_check_for_timeouts ops rooms now) (ct_bridge_cp_client c1)\<rparr>"
      by (auto simp: client_turn_def split: outcome.splits elim!: run_then.elims)
    with fr run_event_inv [OF fr [OF inv]] show ?thesis by blast
  qed
qed

lemma gw_step_inv: "gw_step ops ro c c' \<Longrightarrow> gateway_inv ro c \<Longrightarrow> gateway_inv ro c'"
proof (induction rule: gw_step.induct)
  case (discovery x c c')
  have fr: "gateway_inv ro (c\<lparr>ct_discovery_client := d\<rparr>)" for d by (rule gw_inv_frame [OF discovery(2)]) simp_all
  show ?case
    using discovery fr on_discovery_success_inv [OF fr]
    by (auto simp: discovery_turn_def Let_def split: option.splits prod.splits dc_event.splits)
next
  case (receive fits sel as c c')
  then obtain z where z: "receiver_turn ro fits sel as (ct_gateway c) = Some z"
    "(case z of Returned (_, rg) \<Rightarrow> Returned (c\<lparr>ct_gateway := rg\<rparr>) | Thrown (_, rg) \<Rightarrow> Thrown (c\<lparr>ct_gateway := rg\<rparr>)
      | Undefined \<Rightarrow> Undefined) = Returned c'"
    unfolding receive_turn_def by blast
  then obtain as' rg where "receiver_turn ro fits sel as (ct_gateway c) = Some (Returned (as', rg))" "c' = c\<lparr>ct_gateway := rg\<rparr>"
    by (cases z) auto
  with receive(2) show ?case by (auto simp: gateway_inv_def intro: receiver_turn_inv)
next
  case (topic p c r1 r2 m)
  then show ?case by (auto simp: gateway_inv_def intro: ros_callback_inv)
next
  case (data_sender c t as t')
  show ?case by (rule gw_inv_frame [OF data_sender(3)]) simp_all
next
  case (control_sender c cp t as t')
  show ?case by (rule gw_inv_frame [OF control_sender(4)]) simp_all
next
  case (request c task_id vhc_data)
  show ?case by (rule gw_inv_frame [OF request]) (simp_all add: offloading_request_service_handler_def Let_def)
next
  case (terminate c request_id)
  show ?case by (rule gw_inv_frame [OF terminate]) (simp_all add: terminate_offloading_service_handler_def)
qed (blast intro: control_turn_inv accept_turn_inv client_turn_inv)+

lemma gw_inv_init: "gateway_inv ro (GatewayController_init node g)"
  by (simp add: gateway_inv_def GatewayController_init_def rg_set_identity_def RosGateway_init_def dp_inv_def handlers_typed_def
      objects_typed_def instances_typed_def registered_cached_def registered_declared_def)

lemma gw_reachable_inv: "gw_reachable ops ro node g c \<Longrightarrow> gateway_inv ro c"
  by (induction rule: gw_reachable.induct) (auto intro: gw_inv_init gw_step_inv)

end
