(* ===== verification/Gateway_Guarantees.thy ===== *)
theory Gateway_Guarantees
  imports Gateway_Invariant
begin

text \<open>
  What a gateway guarantees about its sessions: the handlers an approval activates, what the end of a session does to other
  sessions and to the next one, the ids its services hand out, and what happens to a confirmation that comes early.
\<close>

section \<open>Activation\<close>

definition in_mode :: "HandlerMode \<Rightarrow> 'm MessageHandler \<Rightarrow> bool" where
  "in_mode mode h \<longleftrightarrow> mh_enabled h \<and> mh_ros_subscriber_enabled h = (mode \<noteq> PUBLISHER_ONLY)
     \<and> mh_ros_publisher_enabled h = (mode \<noteq> SUBSCRIBER_ONLY)"

definition active :: "HandlerMode \<Rightarrow> HandlerKind \<Rightarrow> ('n, 'm) dp_state \<Rightarrow> bool" where
  "active mode k s \<longleftrightarrow>
     (\<exists>p. aget (rg_handlers (snd s)) (handler_name k) = Some p \<and> in_mode mode (rg_objects (snd s) ! p))"

lemma configure_in_mode: "in_mode mode (configure_handler_mode mode h)"
  by (cases mode) (simp_all add: in_mode_def configure_handler_mode_def)

lemma initialize_in_mode:
  "initialize_handler ro n h = Returned (n', h') \<Longrightarrow> in_mode mode h \<Longrightarrow> in_mode mode (h'\<lparr>mh_enabled := True\<rparr>)"
  by (auto simp: initialize_handler_def initialize_laserscan_def initialize_topic_def subscribe_topic_def in_mode_def Let_def
      split: HandlerKind.splits option.splits if_splits)

lemma mt_creator_iff: "mt_creator t = Some k \<longleftrightarrow> t = handler_type k"
  by (cases t; cases k) auto

text \<open>One turn of the loop of \<open>activate\<close>.\<close>

lemma activate_one:
  assumes inv: "dp_inv ro (inst, rg)" and g: "get_or_create t (inst, rg) = (Some p, inst', rg')"
    and r: "register_handler ro p (configure_object mode p rg') = Returned (ok, rg'')" and k: "t = handler_type k"
  shows "active mode k (inst', rg'')" and "l \<noteq> k \<Longrightarrow> active m l (inst, rg) \<Longrightarrow> active m l (inst', rg'')"
proof -
  note q = get_or_create_Some [OF inv g] and fr = get_or_create_frame [OF g]
  have inv': "dp_inv ro (inst', rg')" by (rule get_or_create_inv [OF inv g])
  let ?c = "configure_object mode p rg'"
  have kp: "mh_kind (rg_objects rg' ! p) = k" using q(2) k by (simp add: handler_type_inject)
  have cp: "rg_objects ?c ! p = configure_handler_mode mode (rg_objects rg' ! p)" using q(1) by (simp add: configure_object_def)
  have hs: "rg_handlers ?c = rg_handlers rg'" "rg_node ?c = rg_node rg'" by (simp_all add: configure_object_def)
  have ck: "mh_kind (rg_objects ?c ! p) = k" using configure_object_kind(1) [OF q(1)] kp by simp
  from register_handler_cases [OF r] have cases: "aget (rg_handlers rg') (handler_name k) \<noteq> None \<and> rg'' = ?c
     \<or> (\<exists>n h. initialize_handler ro (rg_node ?c) (rg_objects ?c ! p) = Returned (n, h)
          \<and> rg'' = ?c\<lparr>rg_handlers := aput (handler_name k) p (rg_handlers ?c), rg_node := n,
                     rg_objects := (rg_objects ?c)[p := h\<lparr>mh_enabled := True\<rparr>]\<rparr>)"
    unfolding ck hs by blast
  have cached: "p' = p" if "aget (rg_handlers rg') (handler_name k) = Some p'" for p'
    using inv' that q(3) k by (auto simp: dp_inv_def registered_cached_def)
  show "active mode k (inst', rg'')"
    using cases
  proof
    assume "aget (rg_handlers rg') (handler_name k) \<noteq> None \<and> rg'' = ?c"
    then show ?thesis using cached configure_in_mode [of mode "rg_objects rg' ! p"]
      by (auto simp: active_def hs cp)
  next
    assume "\<exists>n h. initialize_handler ro (rg_node ?c) (rg_objects ?c ! p) = Returned (n, h)
          \<and> rg'' = ?c\<lparr>rg_handlers := aput (handler_name k) p (rg_handlers ?c), rg_node := n,
                     rg_objects := (rg_objects ?c)[p := h\<lparr>mh_enabled := True\<rparr>]\<rparr>"
    then show ?thesis
      using initialize_in_mode [of ro _ "rg_objects ?c ! p"] configure_in_mode [of mode "rg_objects rg' ! p"] q(1)
      by (auto simp: active_def cp configure_object_kind)
  qed
  show "active m l (inst', rg'')" if other: "l \<noteq> k" "active m l (inst, rg)"
  proof -
    obtain p' where p': "aget (rg_handlers rg) (handler_name l) = Some p'" "in_mode m (rg_objects rg ! p')"
      using other(2) by (auto simp: active_def)
    have len: "p' < length (rg_objects rg)" "mh_kind (rg_objects rg ! p') = l"
      using inv objects_typed_get [OF _ p'(1)] by (auto simp: dp_inv_def handlers_typed_def handler_name_inject)
    then have obj: "rg_objects rg' ! p' = rg_objects rg ! p'" using fr(7) by (simp add: nth_append)
    then have "p' \<noteq> p" using len kp other(1) by auto
    then have "rg_objects ?c ! p' = rg_objects rg ! p'" using obj by (simp add: configure_object_def)
    then show ?thesis using cases p' \<open>p' \<noteq> p\<close> other(1) fr(1)
      by (auto simp: active_def hs handler_name_inject)
  qed
qed

lemma activate_active:
  assumes "dp_inv ro s" "activate ro mode mts s = Returned s'"
  shows "\<forall>k. handler_type k \<in> set mts \<longrightarrow> active mode k s'"
    and "\<forall>k m. handler_type k \<notin> set mts \<longrightarrow> active m k s \<longrightarrow> active m k s'"
proof -
  have "(\<forall>k. handler_type k \<in> set mts \<longrightarrow> active mode k s')
     \<and> (\<forall>k m. handler_type k \<notin> set mts \<longrightarrow> active m k s \<longrightarrow> active m k s')
     \<and> (\<forall>k. active mode k s \<longrightarrow> active mode k s')"
    using assms
  proof (induction mts arbitrary: s)
    case (Cons t mts)
    obtain inst rg where s: "s = (inst, rg)" by (cases s)
    obtain r inst1 rg1 where g: "get_or_create t (inst, rg) = (r, inst1, rg1)" by (cases "get_or_create t (inst, rg)")
    have inv: "dp_inv ro (inst, rg)" using Cons.prems(1) s by simp
    have inv1: "dp_inv ro (inst1, rg1)" by (rule get_or_create_inv [OF inv g])
    show ?case
    proof (cases r)
      case None
      then have none: "mt_creator t = None" using get_or_create_typed [OF _ g] inv by (simp add: dp_inv_def)
      then have nt: "handler_type k \<noteq> t" for k using mt_creator_iff [of t k] by auto
      have same: "rg_handlers rg1 = rg_handlers rg" "rg_objects rg1 = rg_objects rg"
        using get_or_create_frame(1,7) [OF g] none by (simp_all split: option.splits)
      have "active m k (inst, rg) = active m k (inst1, rg1)" for m k by (simp add: active_def same)
      with Cons.IH [OF inv1] Cons.prems(2) s g None nt show ?thesis by simp
    next
      case (Some p)
      from Cons.prems(2) s g Some obtain ok rg2 where r2: "register_handler ro p (configure_object mode p rg1) = Returned (ok, rg2)"
        "activate ro mode mts (inst1, rg2) = Returned s'"
        by (auto split: outcome.splits)
      note q = get_or_create_Some [OF inv g [unfolded Some]]
      have inv2: "dp_inv ro (inst1, rg2)"
        by (rule register_handler_inv [OF configure_object_inv [OF inv1 q(1)] _ _ r2(1)]) (simp_all add: configure_object_kind q)
      define k0 where "k0 = mh_kind (rg_objects rg1 ! p)"
      have k0: "t = handler_type k0" using q(2) by (simp add: k0_def)
      note one = activate_one [OF inv g [unfolded Some] r2(1) k0]
      note ih = Cons.IH [OF inv2 r2(2)]
      have "active mode k s'" if "handler_type k \<in> set (t # mts)" for k
        using that ih one(1) k0 by (cases "k = k0") (auto simp: handler_type_inject)
      moreover have "active m k s'" if "handler_type k \<notin> set (t # mts)" "active m k s" for k m
        using that ih one(2) [of k m] k0 s by (auto simp: handler_type_inject)
      moreover have "active mode k s'" if "active mode k s" for k
        using that ih one(1) one(2) [of k mode] s by (cases "k = k0") auto
      ultimately show ?thesis by blast
    qed
  qed simp
  then show "\<forall>k. handler_type k \<in> set mts \<longrightarrow> active mode k s'"
    "\<forall>k m. handler_type k \<notin> set mts \<longrightarrow> active m k s \<longrightarrow> active m k s'" by blast+
qed

section \<open>Deactivation\<close>

lemma unregister_handler_get:
  "aget (rg_handlers (snd (unregister_handler name rg))) n = (if n = name then None else aget (rg_handlers rg) n)"
  by (auto simp: unregister_handler_def split: option.splits)

lemma unregister_handler_node: "rg_node (snd (unregister_handler name rg)) = rg_node rg"
  by (auto simp: unregister_handler_def split: option.splits)

lemma deactivate_result:
  assumes "dp_inv ro s"
  shows "(\<forall>k. handler_type k \<in> set mts \<longrightarrow> aget (rg_handlers (snd (deactivate mts s))) (handler_name k) = None)
     \<and> (\<forall>n. aget (rg_handlers (snd s)) n = None \<longrightarrow> aget (rg_handlers (snd (deactivate mts s))) n = None)
     \<and> rg_node (snd (deactivate mts s)) = rg_node (snd s)"
  using assms
proof (induction mts arbitrary: s)
  case (Cons t mts)
  obtain inst rg where s: "s = (inst, rg)" by (cases s)
  obtain r inst1 rg1 where g: "get_or_create t (inst, rg) = (r, inst1, rg1)" by (cases "get_or_create t (inst, rg)")
  have inv: "dp_inv ro (inst, rg)" using Cons.prems s by simp
  have inv1: "dp_inv ro (inst1, rg1)" by (rule get_or_create_inv [OF inv g])
  note fr = get_or_create_frame(1,2) [OF g]
  show ?case
  proof (cases r)
    case None
    then have "mt_creator t = None" using get_or_create_typed [OF _ g] inv by (simp add: dp_inv_def)
    then have "handler_type k \<noteq> t" for k using mt_creator_iff [of t k] by auto
    with Cons.IH [OF inv1] fr s g None show ?thesis by simp
  next
    case (Some p)
    define name where "name = handler_name (mh_kind (rg_objects rg1 ! p))"
    have t: "handler_type k = t \<Longrightarrow> handler_name k = name" for k
      using get_or_create_Some(2) [OF inv g [unfolded Some]] by (simp add: name_def) (metis handler_type_inject)
    let ?rg2 = "snd (unregister_handler name rg1)"
    have step: "deactivate (t # mts) s = deactivate mts (inst1, ?rg2)" using s g Some by (simp add: name_def)
    note ih = Cons.IH [OF unregister_handler_inv [OF inv1, of name]]
    show ?thesis
      unfolding step using ih t fr s by (auto simp: unregister_handler_get unregister_handler_node)
  qed
qed simp

lemma deactivate_task_result:
  assumes inv: "dp_inv ro s" and types: "handler_type k \<in> set (td_input_types td) \<union> set (td_output_types td)"
  shows "aget (rg_handlers (snd (deactivate_task td s))) (handler_name k) = None"
    "rg_node (snd (deactivate_task td s)) = rg_node (snd s)"
proof -
  have "td_input_types td \<noteq> [] \<or> td_output_types td \<noteq> []" using types by auto
  then have eq: "deactivate_task td s = deactivate (td_output_types td) (deactivate (td_input_types td) s)"
    by (simp add: deactivate_task_def)
  have inv': "dp_inv ro (deactivate (td_input_types td) s)" by (rule deactivate_inv [OF inv])
  show "aget (rg_handlers (snd (deactivate_task td s))) (handler_name k) = None"
    "rg_node (snd (deactivate_task td s)) = rg_node (snd s)"
    unfolding eq using deactivate_result [OF inv, of "td_input_types td"] deactivate_result [OF inv', of "td_output_types td"] types
    by auto
qed

section \<open>Registering a second time\<close>

lemma register_declared_throws:
  assumes "aget (rg_handlers rg) (handler_name (mh_kind (rg_objects rg ! p))) = None"
    "ro_declare ro (rg_node rg) (topic_param (mh_kind (rg_objects rg ! p))) = None"
  shows "\<exists>rg'. register_handler ro p rg = Thrown (False, rg')"
proof -
  have "initialize_handler ro (rg_node rg) (rg_objects rg ! p) = Thrown (rg_node rg, rg_objects rg ! p)"
    using assms(2) by (cases "mh_kind (rg_objects rg ! p)")
      (simp_all add: initialize_handler_def initialize_topic_def initialize_laserscan_def topic_param_def)
  with assms(1) show ?thesis by (auto simp: register_handler_def Let_def)
qed

lemma activate_declared_throws:
  assumes "dp_inv ro s" "\<And>k. handler_type k \<in> set mts \<Longrightarrow>
      aget (rg_handlers (snd s)) (handler_name k) = None \<and> ro_declare ro (rg_node (snd s)) (topic_param k) = None"
  shows "if (\<exists>k. handler_type k \<in> set mts) then (\<exists>s'. activate ro mode mts s = Thrown s') else activate ro mode mts s = Returned s"
  using assms
proof (induction mts arbitrary: s)
  case (Cons t mts)
  obtain inst rg where s: "s = (inst, rg)" by (cases s)
  obtain r inst1 rg1 where g: "get_or_create t (inst, rg) = (r, inst1, rg1)" by (cases "get_or_create t (inst, rg)")
  have inv: "dp_inv ro (inst, rg)" using Cons.prems s by simp
  show ?case
  proof (cases r)
    case None
    then have none: "mt_creator t = None" using get_or_create_typed [OF _ g] inv by (simp add: dp_inv_def)
    have "aget inst t = None" using get_or_create_frame(6) [OF g] None by (cases "aget inst t") auto
    then have "(inst1, rg1) = s" using g none s by (simp add: get_or_create_def)
    moreover have "handler_type k \<noteq> t" for k using none mt_creator_iff [of t k] by auto
    ultimately show ?thesis using Cons.IH [OF Cons.prems(1)] Cons.prems(2) s g None by (auto split: if_splits)
  next
    case (Some p)
    note q = get_or_create_Some [OF inv g [unfolded Some]] and fr = get_or_create_frame(1,2) [OF g]
    let ?c = "configure_object mode p rg1"
    have k: "mh_kind (rg_objects ?c ! p) = mh_kind (rg_objects rg1 ! p)" using configure_object_kind(1) [OF q(1)] .
    have "\<exists>rg'. register_handler ro p ?c = Thrown (False, rg')"
      by (rule register_declared_throws) (use Cons.prems(2) [of "mh_kind (rg_objects rg1 ! p)"] q(2) s k fr in \<open>simp_all add: configure_object_def\<close>)
    moreover have "\<exists>k. handler_type k \<in> set (t # mts)" using q(2) by auto
    ultimately show ?thesis using s g Some by auto
  qed
qed simp

lemma activate_task_result:
  assumes inv: "dp_inv ro s" and a: "activate_task ro ctype td s = Returned s'"
    and ne: "td_input_types td \<noteq> [] \<or> td_output_types td \<noteq> []"
  shows "(\<forall>k. handler_type k \<in> set (td_output_types td) \<longrightarrow> active (output_mode ctype) k s')
     \<and> (\<forall>k. handler_type k \<in> set (td_input_types td) - set (td_output_types td) \<longrightarrow> active (input_mode ctype) k s')
     \<and> (\<forall>k m. handler_type k \<notin> set (td_input_types td) \<union> set (td_output_types td) \<longrightarrow> active m k s \<longrightarrow> active m k s')"
proof -
  obtain s1 where s1: "activate ro (input_mode ctype) (td_input_types td) s = Returned s1"
    "activate ro (output_mode ctype) (td_output_types td) s1 = Returned s'"
    using a ne by (cases "activate ro (input_mode ctype) (td_input_types td) s") (auto simp: activate_task_def)
  note r1 = activate_active [OF inv s1(1)] and r2 = activate_active [OF activate_inv [OF inv s1(1)] s1(2)]
  show ?thesis using r1 r2 by (auto; blast)
qed

lemma activated_declared:
  assumes inv: "dp_inv ro s" and a: "activate_task ro ctype td s = Returned s'" and once: "declare_once ro"
    and plain: "td_required_handlers td = []" and k: "handler_type k \<in> set (td_input_types td) \<union> set (td_output_types td)"
  shows "ro_declare ro (rg_node (snd s')) (topic_param k) = None"
proof -
  have ne: "td_input_types td \<noteq> [] \<or> td_output_types td \<noteq> []" using k by auto
  have "\<exists>mode. active mode k s'" using activate_task_result [OF inv a ne] k by blast
  then obtain p where "aget (rg_handlers (snd s')) (handler_name k) = Some p" by (auto simp: active_def)
  with activate_task_inv [OF inv plain a] once show ?thesis by (auto simp: dp_inv_def registered_declared_def)
qed

lemma activate_task_again_throws:
  assumes inv: "dp_inv ro s" and k: "handler_type k \<in> set (td_input_types td) \<union> set (td_output_types td)"
    and gone: "\<And>l. handler_type l \<in> set (td_input_types td) \<union> set (td_output_types td) \<Longrightarrow>
       aget (rg_handlers (snd s)) (handler_name l) = None \<and> ro_declare ro (rg_node (snd s)) (topic_param l) = None"
  shows "\<exists>s'. activate_task ro ctype td s = Thrown s'"
proof -
  have ne: "td_input_types td \<noteq> [] \<or> td_output_types td \<noteq> []" using k by auto
  have i: "if (\<exists>l. handler_type l \<in> set (td_input_types td)) then (\<exists>s'. activate ro (input_mode ctype) (td_input_types td) s = Thrown s')
      else activate ro (input_mode ctype) (td_input_types td) s = Returned s"
    by (rule activate_declared_throws [OF inv]) (use gone in blast)
  have o: "if (\<exists>l. handler_type l \<in> set (td_output_types td)) then (\<exists>s'. activate ro (output_mode ctype) (td_output_types td) s = Thrown s')
      else activate ro (output_mode ctype) (td_output_types td) s = Returned s"
    by (rule activate_declared_throws [OF inv]) (use gone in blast)
  show ?thesis using i o k ne unfolding activate_task_def by (auto split: if_splits)
qed

section \<open>An example\<close>

definition demo_params :: gw_params where
  "demo_params = \<lparr>gp_discovery_host = ''10.0.0.1'', gp_discovery_port = 9090, gp_component_type = ''V'', gp_component_name = ''car'',
     gp_group_id = 60, gp_id_in_group = 5, gp_listen_port = 7401, gp_operation_mode = ''networked'', gp_peer_host = [],
     gp_peer_port = 0, gp_local_config_path = []\<rparr>"

definition demo_task :: TaskDetails where
  "demo_task = \<lparr>td_task_name = ''echo'', td_input_types = [STRING_TEST_INPUT], td_output_types = [STRING_TEST_RESULT],
     td_required_handlers = []\<rparr>"

definition gateway_session :: "string \<Rightarrow> SessionState" where
  "gateway_session r = \<lparr>ss_request_id = r, ss_task_id = ''7'', ss_last_keepalive_sent = 0\<rparr>"

definition demo_controller :: "(json_tree, string list, u8 list) GatewayController" where
  "demo_controller = (GatewayController_init [] demo_params)\<lparr>ct_state := GW_OPERATIONAL, ct_request_id_counter := 3,
     ct_task_database := [(''7'', demo_task)], ct_active_sessions := [(''1'', gateway_session ''1''), (''2'', gateway_session ''2'')]\<rparr>"

definition approval :: "string \<Rightarrow> json_tree" where
  "approval r = JObject [(''request_id'', JString r), (''task_id'', JString ''7'')]"

lemma demo_inv: "gateway_inv demo_ros demo_controller"
  by (simp add: demo_controller_def GatewayController_init_def gateway_inv_def dp_inv_def handlers_typed_def objects_typed_def
      instances_typed_def registered_cached_def registered_declared_def rg_set_identity_def RosGateway_init_def demo_task_def)

lemma demo_tables:
  "aget (ct_active_sessions demo_controller) ''1'' = Some (gateway_session ''1'')"
  "aget (ct_active_sessions demo_controller) ''2'' = Some (gateway_session ''2'')"
  "aget (ct_task_database demo_controller) ''7'' = Some demo_task" "ct_component_type demo_controller = ''V''"
  "ct_state demo_controller = GW_OPERATIONAL" "ct_request_id_counter demo_controller = 3"
  "ct_running demo_controller" "ct_operation_mode demo_controller = ''networked''" "ct_bridge_cp_client demo_controller = None"
  "ct_offloading_request_queue demo_controller = []" "ct_termination_request_queue demo_controller = []"
  "ct_component_id demo_controller = show_int 60 @ '':'' @ show_int 5"
  by (simp_all add: demo_controller_def demo_params_def GatewayController_init_def)

lemma approval_fields:
  "js_contains tree_ops (approval r) ''request_id''" "js_string tree_ops (js_get tree_ops (approval r) ''request_id'') = Some r"
  by (simp_all add: approval_def js_contains_def js_get_def tree_ops_def)

text \<open>The approval of the example goes through.\<close>

lemma first_approval:
  "\<exists>c'. on_session_approved tree_ops demo_ros 9 (approval ''1'') demo_controller = Returned c'
     \<and> aget (ct_active_sessions c') ''2'' = Some (gateway_session ''2'') \<and> aget (ct_task_database c') ''7'' = Some demo_task
     \<and> aget (ct_active_sessions c') ''1'' = Some ((gateway_session ''1'')\<lparr>ss_last_keepalive_sent := 9\<rparr>)"
proof -
  have dp: "(ct_instances demo_controller, ct_gateway demo_controller) =
      ([], rg_set_identity 60 5 (RosGateway_init [] (Some (ServerTransport (GwServer_init 7401 1)))))"
    by (simp add: demo_controller_def GatewayController_init_def demo_params_def data_plane_transport_def)
  have "\<exists>s'. activate_task demo_ros ''V'' demo_task (ct_instances demo_controller, ct_gateway demo_controller) = Returned s'"
    unfolding dp
    by (simp add: activate_task_def demo_task_def get_or_create_def new_handler_def register_handler_def configure_object_def
        configure_handler_mode_def initialize_handler_def initialize_topic_def subscribe_topic_def demo_ros_def
        rg_set_identity_def RosGateway_init_def MessageHandler_init_def input_mode_def output_mode_def Let_def)
  then show ?thesis
    by (auto simp: on_session_approved_def approval_fields demo_tables approve_task_def set_data_plane_def
        gateway_session_def)
qed

text \<open>A peer-to-peer MEC that has loaded its tasks from a file and accepted its vehicle: the handlers of its task are registered.\<close>

definition p2p_params :: gw_params where
  "p2p_params = demo_params\<lparr>gp_component_type := ''M'', gp_operation_mode := ''p2p'', gp_local_config_path := ''tasks.json''\<rparr>"

definition p2p_ops :: "json_tree json_ops" where
  "p2p_ops = tree_ops\<lparr>js_parse := (\<lambda>s. Some (JObject [(''available_tasks'', JArray [JObject [(''task_id'', JInt 7), (''task_name'', JString ''echo''),
     (''input_message_types'', JArray [JInt 201]), (''output_message_types'', JArray [JInt 202])]])]))\<rparr>"

definition p2p_env :: gw_env where
  "p2p_env = \<lparr>ge_open = \<lparr>oa_socket = 4, oa_setsockopt = True, oa_bind = True, oa_listen = True\<rparr>,
     ge_connect = \<lparr>ca_socket = 6, ca_inet_pton = True, ca_connect = True\<rparr>, ge_file = Some ''tasks'', ge_room = True, ge_now = 0\<rparr>"

definition p2p_waiting :: "(json_tree, string list, u8 list) GatewayController" where
  "p2p_waiting = (GatewayController_init [] p2p_params)\<lparr>ct_task_database := [(''7'', demo_task)], ct_accepting := True,
     ct_state := WAITING_FOR_DP_CONNECTION,
     ct_gateway := rg_set_identity 60 5 (RosGateway_init [] (Some (ServerTransport ((GwServer_init 7401 1)\<lparr>gws_server_socket_fd := 4, gws_listening := True\<rparr>))))\<rparr>"

lemma p2p_loaded:
  "load_global_config_from_json p2p_ops s (GatewayController_init [] p2p_params :: (json_tree, string list, u8 list) GatewayController) =
   Returned (True, (GatewayController_init [] p2p_params)\<lparr>ct_task_database := [(''7'', demo_task)]\<rparr>)"
proof -
  have "show_int 7 = ''7''" by code_simp
  then show ?thesis
    using to_int32_id [of 7]
    by (simp add: load_global_config_from_json_def p2p_ops_def tree_ops_def optional_int_def js_contains_def js_get_def load_task_def
     load_type_field_def message_type_from_id_def demo_task_def GatewayController_init_def)
qed

lemma p2p_open:
  "control_turn p2p_ops demo_ros p2p_env (GatewayController_init [] p2p_params) = Returned p2p_waiting"
proof -
  let ?c = "GatewayController_init [] p2p_params :: (json_tree, string list, u8 list) GatewayController"
  have f: "ct_running ?c" "ct_state ?c = INITIALIZING" "ct_operation_mode ?c = ''p2p''" "ct_local_config_path ?c \<noteq> []" "ct_component_type ?c = ''M''"
    "ct_gateway ?c = rg_set_identity 60 5 (RosGateway_init [] (Some (ServerTransport (GwServer_init 7401 1))))"
    by (simp_all add: GatewayController_init_def p2p_params_def demo_params_def data_plane_transport_def)
  show ?thesis
    by (simp add: control_turn_def initializing_turn_def f load_local_config_def p2p_env_def p2p_loaded open_data_plane_def
       rg_set_identity_def RosGateway_init_def gws_connect_def GwServer_init_def p2p_waiting_def)
qed

lemma p2p_accept:
  "\<exists>c. accept_turn p2p_ops demo_ros 0 5 p2p_waiting = Returned c \<and> aget (rg_handlers (ct_gateway c)) ''string_test_input_handler'' \<noteq> None"
  by (simp add: accept_turn_def accept_body_def p2p_waiting_def GatewayController_init_def p2p_params_def demo_params_def rg_set_identity_def
     RosGateway_init_def GwServer_init_def gws_accept_connection_def on_dp_confirmed_def rg_start_receiver_def activate_all_p2p_sessions_def
     on_session_approved_def p2p_ops_def tree_ops_def js_contains_def js_get_def approve_task_def set_data_plane_def
     activate_task_def demo_task_def get_or_create_def new_handler_def register_handler_def configure_object_def
        configure_handler_mode_def initialize_handler_def initialize_topic_def subscribe_topic_def demo_ros_def
         MessageHandler_init_def input_mode_def output_mode_def Let_def)

section \<open>Properties\<close>

text \<open>C20: the handler tables of a gateway are well typed in every reachable state. Every address in the table of registered handlers and in the
  cache of the factory is that of a handler of the class its name or message type stands for, and a registered handler is the one the factory
  caches; so a message of the data plane meets at most one handler.\<close>

theorem gateway_tables_well_typed:
  "gw_reachable ops ro node g c \<Longrightarrow>
     handlers_typed (ct_instances c, ct_gateway c) \<and> registered_cached (ct_instances c, ct_gateway c)"
  using gw_reachable_inv [of ops ro node g c] by (simp add: gateway_inv_def dp_inv_def)

theorem gateway_tables_well_typed_witness:
  "\<exists>c. gw_reachable p2p_ops demo_ros [] p2p_params c \<and> aget (rg_handlers (ct_gateway c)) ''string_test_input_handler'' \<noteq> None
     \<and> handlers_typed (ct_instances c, ct_gateway c) \<and> registered_cached (ct_instances c, ct_gateway c)"
proof -
  obtain c where c: "accept_turn p2p_ops demo_ros 0 5 p2p_waiting = Returned c"
    "aget (rg_handlers (ct_gateway c)) ''string_test_input_handler'' \<noteq> None" using p2p_accept by blast
  have "gw_reachable p2p_ops demo_ros [] p2p_params p2p_waiting"
    by (rule gw_reachable.step [OF gw_reachable.start gw_step.control [OF p2p_open]])
  then have "gw_reachable p2p_ops demo_ros [] p2p_params c" by (rule gw_reachable.step [OF _ gw_step.accept [OF c(1)]])
  with gateway_tables_well_typed [OF this] c(2) show ?thesis by blast
qed

text \<open>The task an approval is about: that of the session the gateway asked for, else the one named in the payload, as for the
  approval that a MEC gets without having asked.\<close>

definition approved_task :: "'j json_ops \<Rightarrow> 'j \<Rightarrow> string \<Rightarrow> ('j, 'n, 'm) GatewayController \<Rightarrow> string option" where
  "approved_task ops payload r c =
     (case aget (ct_active_sessions c) r of
        Some s \<Rightarrow> Some (ss_task_id s)
      | None \<Rightarrow> if js_contains ops payload ''task_id'' then js_string ops (js_get ops payload ''task_id'') else None)"

lemma approval_activates:
  assumes inv: "gateway_inv ro c"
    and task: "approved_task ops payload r c = Some tid" "aget (ct_task_database c) tid = Some td"
    and payload: "js_contains ops payload ''request_id''" "js_string ops (js_get ops payload ''request_id'') = Some r"
    and run: "on_session_approved ops ro now payload c = Returned c'"
  defines "dp \<equiv> (ct_instances c, ct_gateway c)" and "dp' \<equiv> (ct_instances c', ct_gateway c')"
  shows "(\<forall>k. handler_type k \<in> set (td_output_types td) \<longrightarrow> active (output_mode (ct_component_type c)) k dp')
     \<and> (\<forall>k. handler_type k \<in> set (td_input_types td) - set (td_output_types td) \<longrightarrow> active (input_mode (ct_component_type c)) k dp')
     \<and> (\<forall>k m. handler_type k \<notin> set (td_input_types td) \<union> set (td_output_types td) \<longrightarrow> active m k dp \<longrightarrow> active m k dp')
     \<and> ct_active_sessions c' = (case aget (ct_active_sessions c) r of
          Some s \<Rightarrow> aput r (s\<lparr>ss_last_keepalive_sent := now\<rparr>) (ct_active_sessions c) | None \<Rightarrow> ct_active_sessions c)"
proof -
  obtain s' where a: "activate_task ro (ct_component_type c) td dp = Returned s'" "dp' = s'"
    and sess: "ct_active_sessions c' = (case aget (ct_active_sessions c) r of
          Some s \<Rightarrow> aput r (s\<lparr>ss_last_keepalive_sent := now\<rparr>) (ct_active_sessions c) | None \<Rightarrow> ct_active_sessions c)"
    using run task payload
    by (auto simp: on_session_approved_def approve_task_def approved_task_def set_data_plane_def dp_def dp'_def
        split: outcome.splits option.splits if_splits)
  have dp: "dp_inv ro dp" using inv by (simp add: gateway_inv_def dp_def)
  show ?thesis
  proof (cases "td_input_types td \<noteq> [] \<or> td_output_types td \<noteq> []")
    case True
    then show ?thesis using activate_task_result [OF dp a(1)] a(2) sess by blast
  next
    case False
    with a sess gw_inv_task [OF inv task(2)] show ?thesis by (simp add: activate_task_def)
  qed
qed

text \<open>C21: what an approval activates, whether the gateway asked for the session or gets the approval unasked, with the task named in the
  payload. Of the message types that have a handler class, every output type of the task gets, on a vehicle, an enabled handler that only
  publishes, every input type that is no output type one that only subscribes; on a MEC it is the other way round, and on any other
  component the handlers work in both directions. The handlers of all other types stay as they are; types without a handler class are
  skipped. A session the gateway asked for is kept with a new time of the last keepalive, an unasked approval stores none.\<close>

theorem approval_activates_handlers:
  assumes inv: "gateway_inv ro c"
    and task: "approved_task ops payload r c = Some tid" "aget (ct_task_database c) tid = Some td"
    and payload: "js_contains ops payload ''request_id''" "js_string ops (js_get ops payload ''request_id'') = Some r"
    and run: "on_session_approved ops ro now payload c = Returned c'"
  defines "dp \<equiv> (ct_instances c, ct_gateway c)" and "dp' \<equiv> (ct_instances c', ct_gateway c')"
  shows "(\<forall>k. handler_type k \<in> set (td_output_types td) \<longrightarrow> active (output_mode (ct_component_type c)) k dp')
     \<and> (\<forall>k. handler_type k \<in> set (td_input_types td) - set (td_output_types td) \<longrightarrow> active (input_mode (ct_component_type c)) k dp')
     \<and> (\<forall>k m. handler_type k \<notin> set (td_input_types td) \<union> set (td_output_types td) \<longrightarrow> active m k dp \<longrightarrow> active m k dp')
     \<and> ct_active_sessions c' = (case aget (ct_active_sessions c) r of
          Some s \<Rightarrow> aput r (s\<lparr>ss_last_keepalive_sent := now\<rparr>) (ct_active_sessions c) | None \<Rightarrow> ct_active_sessions c)"
  unfolding dp_def dp'_def by (rule approval_activates [OF inv task payload run])

text \<open>A MEC with the task of the example, which gets an approval it did not ask for.\<close>

definition mec_controller :: "(json_tree, string list, u8 list) GatewayController" where
  "mec_controller = demo_controller\<lparr>ct_component_type := ''M'', ct_active_sessions := []\<rparr>"

lemma mec_inv: "gateway_inv demo_ros mec_controller"
  using demo_inv by (simp add: mec_controller_def gateway_inv_def)

lemma unasked_approval:
  "\<exists>c'. on_session_approved tree_ops demo_ros 9 (approval ''1'') mec_controller = Returned c'"
proof -
  have dp: "(ct_instances mec_controller, ct_gateway mec_controller) =
      ([], rg_set_identity 60 5 (RosGateway_init [] (Some (ServerTransport (GwServer_init 7401 1)))))"
    by (simp add: mec_controller_def demo_controller_def GatewayController_init_def demo_params_def data_plane_transport_def)
  have "\<exists>s'. activate_task demo_ros ''M'' demo_task (ct_instances mec_controller, ct_gateway mec_controller) = Returned s'"
    unfolding dp
    by (simp add: activate_task_def demo_task_def get_or_create_def new_handler_def register_handler_def configure_object_def
        configure_handler_mode_def initialize_handler_def initialize_topic_def subscribe_topic_def demo_ros_def
        rg_set_identity_def RosGateway_init_def MessageHandler_init_def input_mode_def output_mode_def Let_def)
  moreover have "js_contains tree_ops (approval ''1'') ''task_id''" "js_string tree_ops (js_get tree_ops (approval ''1'') ''task_id'') = Some ''7''"
    by (simp_all add: approval_def js_contains_def js_get_def tree_ops_def)
  moreover have "ct_active_sessions mec_controller = []" "aget (ct_task_database mec_controller) ''7'' = Some demo_task"
    "ct_component_type mec_controller = ''M''" by (simp_all add: mec_controller_def demo_tables)
  ultimately show ?thesis by (auto simp: on_session_approved_def approval_fields approve_task_def)
qed

theorem approval_activates_handlers_witness:
  "(\<exists>c'. on_session_approved tree_ops demo_ros 9 (approval ''1'') demo_controller = Returned c'
     \<and> active SUBSCRIBER_ONLY StringTestInputHandler (ct_instances c', ct_gateway c')
     \<and> active PUBLISHER_ONLY StringTestResultHandler (ct_instances c', ct_gateway c'))
   \<and> (\<exists>c'. on_session_approved tree_ops demo_ros 9 (approval ''1'') mec_controller = Returned c' \<and> ct_active_sessions c' = []
     \<and> active PUBLISHER_ONLY StringTestInputHandler (ct_instances c', ct_gateway c')
     \<and> active SUBSCRIBER_ONLY StringTestResultHandler (ct_instances c', ct_gateway c'))"
proof -
  obtain c1 c2 where run: "on_session_approved tree_ops demo_ros 9 (approval ''1'') demo_controller = Returned c1"
    "on_session_approved tree_ops demo_ros 9 (approval ''1'') mec_controller = Returned c2"
    using first_approval unasked_approval by blast
  have task: "approved_task tree_ops (approval ''1'') ''1'' demo_controller = Some ''7''"
    "approved_task tree_ops (approval ''1'') ''1'' mec_controller = Some ''7''"
    by (simp_all add: approved_task_def demo_tables gateway_session_def mec_controller_def approval_def js_contains_def js_get_def tree_ops_def)
  have td: "aget (ct_task_database mec_controller) ''7'' = Some demo_task" by (simp add: mec_controller_def demo_tables)
  have mec: "ct_component_type mec_controller = ''M''" "ct_active_sessions mec_controller = []" by (simp_all add: mec_controller_def)
  have "active (output_mode ''V'') StringTestResultHandler (ct_instances c1, ct_gateway c1)"
    "active (input_mode ''V'') StringTestInputHandler (ct_instances c1, ct_gateway c1)"
    using approval_activates_handlers [OF demo_inv task(1) demo_tables(3) approval_fields run(1)]
    by (simp_all add: demo_tables demo_task_def)
  moreover have "active (output_mode ''M'') StringTestResultHandler (ct_instances c2, ct_gateway c2)"
    "active (input_mode ''M'') StringTestInputHandler (ct_instances c2, ct_gateway c2)" "ct_active_sessions c2 = []"
    using approval_activates_handlers [OF mec_inv task(2) td approval_fields run(2)]
    by (simp_all add: mec demo_task_def)
  ultimately show ?thesis using run by (auto simp: input_mode_def output_mode_def)
qed

text \<open>C35: the end of one session takes the handlers away from all others. A session's end unregisters the handlers of every
  message type of its task, whatever other sessions need them; these sessions stay in the table.\<close>

theorem teardown_strips_shared_handlers:
  assumes "gateway_inv ro c" "aget (ct_active_sessions c) r = Some s" "aget (ct_task_database c) (ss_task_id s) = Some td"
    "handler_type k \<in> set (td_input_types td) \<union> set (td_output_types td)" "r2 \<noteq> r"
  shows "aget (rg_handlers (ct_gateway (handle_session_teardown r c))) (handler_name k) = None
     \<and> aget (ct_active_sessions (handle_session_teardown r c)) r2 = aget (ct_active_sessions c) r2"
  using assms deactivate_task_result(1) [of ro "(ct_instances c, ct_gateway c)" k td]
  by (simp add: handle_session_teardown_def set_data_plane_def gateway_inv_def Let_def)

theorem teardown_strips_shared_handlers_witness:
  "\<exists>c'. on_session_approved tree_ops demo_ros 9 (approval ''1'') demo_controller = Returned c'
     \<and> aget (rg_handlers (ct_gateway c')) ''string_test_input_handler'' \<noteq> None
     \<and> aget (rg_handlers (ct_gateway (handle_session_teardown ''1'' c'))) ''string_test_input_handler'' = None
     \<and> aget (ct_active_sessions (handle_session_teardown ''1'' c')) ''2'' = Some (gateway_session ''2'')"
proof -
  obtain c' where run: "on_session_approved tree_ops demo_ros 9 (approval ''1'') demo_controller = Returned c'"
      "aget (ct_active_sessions c') ''2'' = Some (gateway_session ''2'')" "aget (ct_task_database c') ''7'' = Some demo_task"
      "aget (ct_active_sessions c') ''1'' = Some ((gateway_session ''1'')\<lparr>ss_last_keepalive_sent := 9\<rparr>)"
    using first_approval by blast
  have task: "approved_task tree_ops (approval ''1'') ''1'' demo_controller = Some ''7''"
    by (simp add: approved_task_def demo_tables gateway_session_def)
  have "active (input_mode ''V'') StringTestInputHandler (ct_instances c', ct_gateway c')"
    using approval_activates [OF demo_inv task demo_tables(3) approval_fields run(1)] by (simp add: demo_tables demo_task_def)
  then have "aget (rg_handlers (ct_gateway c')) ''string_test_input_handler'' \<noteq> None" by (auto simp: active_def)
  with run teardown_strips_shared_handlers [OF on_session_approved_inv [OF demo_inv run(1)] run(4), of demo_task StringTestInputHandler "''2''"]
  show ?thesis by (simp add: gateway_session_def demo_task_def)
qed

lemma approved_then_ended:
  assumes inv: "gateway_inv ro c" and once: "declare_once ro"
    and first: "aget (ct_active_sessions c) r = Some s" "aget (ct_task_database c) (ss_task_id s) = Some td"
      "js_contains ops payload ''request_id''" "js_string ops (js_get ops payload ''request_id'') = Some r"
      "on_session_approved ops ro now payload c = Returned c1"
    and types: "handler_type k \<in> set (td_input_types td) \<union> set (td_output_types td)"
    and d: "handle_session_teardown r c1 = d"
  shows "aget (ct_active_sessions d) r = None" "aget (ct_task_database d) (ss_task_id s) = Some td"
    "\<exists>s'. activate_task ro (ct_component_type d) td (ct_instances d, ct_gateway d) = Thrown s'"
proof -
  let ?types = "set (td_input_types td) \<union> set (td_output_types td)"
  let ?dp = "(ct_instances c, ct_gateway c)"
  obtain s' where a: "activate_task ro (ct_component_type c) td ?dp = Returned s'"
    and c1: "c1 = set_data_plane s' (c\<lparr>ct_active_sessions := aput r (s\<lparr>ss_last_keepalive_sent := now\<rparr>) (ct_active_sessions c)\<rparr>)"
    using first by (auto simp: on_session_approved_def approve_task_def split: outcome.splits)
  have dp: "dp_inv ro ?dp" "dp_inv ro s'" and plain: "td_required_handlers td = []"
    using inv gw_inv_task [OF inv first(2)] activate_task_inv [OF _ _ a] by (auto simp: gateway_inv_def)
  define e where "e = deactivate_task td s'"
  have d: "d = set_data_plane e (c1\<lparr>ct_active_sessions := aerase r (ct_active_sessions c1)\<rparr>)"
    using c1 first(2) d by (auto simp: handle_session_teardown_def set_data_plane_def Let_def e_def)
  have ne: "td_input_types td \<noteq> [] \<or> td_output_types td \<noteq> []" using types by auto
  have inv_e: "dp_inv ro e" unfolding e_def deactivate_task_def using ne dp(2) by (simp add: deactivate_inv)
  have "aget (rg_handlers (snd e)) (handler_name l) = None \<and> ro_declare ro (rg_node (snd e)) (topic_param l) = None"
    if "handler_type l \<in> ?types" for l
    using deactivate_task_result [OF dp(2) that] activated_declared [OF dp(1) a once plain that] by (simp add: e_def)
  from activate_task_again_throws [OF inv_e types this]
  show "\<exists>s'. activate_task ro (ct_component_type d) td (ct_instances d, ct_gateway d) = Thrown s'"
    using d c1 by (simp add: set_data_plane_def)
  show "aget (ct_active_sessions d) r = None" "aget (ct_task_database d) (ss_task_id s) = Some td"
    using d c1 first(2) by (simp_all add: set_data_plane_def)
qed

text \<open>C22: a task cannot be offloaded twice. ROS refuses to declare a parameter again, and a handler declares its parameters each time it is
  registered. So after a session was approved and ended, the approval of another session of the same task throws, out of
  the thread that received it, which ends the gateway.\<close>

theorem second_session_ends_gateway:
  assumes inv: "gateway_inv ro c" and once: "declare_once ro"
    and first: "aget (ct_active_sessions c) r = Some s" "aget (ct_task_database c) (ss_task_id s) = Some td"
      "js_contains ops payload ''request_id''" "js_string ops (js_get ops payload ''request_id'') = Some r"
      "on_session_approved ops ro now payload c = Returned c1"
    and types: "handler_type k \<in> set (td_input_types td) \<union> set (td_output_types td)"
    and second: "aget (ct_active_sessions (handle_session_teardown r c1)) r2 = Some s2" "ss_task_id s2 = ss_task_id s"
      "js_contains ops payload2 ''request_id''" "js_string ops (js_get ops payload2 ''request_id'') = Some r2"
  shows "\<exists>c2. on_session_approved ops ro now2 payload2 (handle_session_teardown r c1) = Thrown c2"
  using approved_then_ended [OF inv once first types refl] second by (auto simp: on_session_approved_def approve_task_def)

theorem second_session_ends_gateway_witness:
  "\<exists>c1. on_session_approved tree_ops demo_ros 9 (approval ''1'') demo_controller = Returned c1
     \<and> (\<exists>c2. on_session_approved tree_ops demo_ros 12 (approval ''2'') (handle_session_teardown ''1'' c1) = Thrown c2)"
proof -
  obtain c1 where c1: "on_session_approved tree_ops demo_ros 9 (approval ''1'') demo_controller = Returned c1"
    "aget (ct_active_sessions c1) ''2'' = Some (gateway_session ''2'')" "aget (ct_task_database c1) ''7'' = Some demo_task"
    "aget (ct_active_sessions c1) ''1'' = Some ((gateway_session ''1'')\<lparr>ss_last_keepalive_sent := 9\<rparr>)"
    using first_approval by blast
  have td: "aget (ct_task_database demo_controller) (ss_task_id (gateway_session ''1'')) = Some demo_task"
    by (simp add: gateway_session_def demo_tables)
  have k: "handler_type StringTestInputHandler \<in> set (td_input_types demo_task) \<union> set (td_output_types demo_task)"
    by (simp add: demo_task_def)
  have s2: "aget (ct_active_sessions (handle_session_teardown ''1'' c1)) ''2'' = Some (gateway_session ''2'')"
    "ss_task_id (gateway_session ''2'') = ss_task_id (gateway_session ''1'')"
    using c1 by (simp_all add: handle_session_teardown_def gateway_session_def set_data_plane_def Let_def)
  show ?thesis
    using second_session_ends_gateway [OF demo_inv demo_ros_laws(1) demo_tables(1) td approval_fields c1(1) k s2 approval_fields] c1(1)
    by blast
qed

end
