(* ===== verification/Gateway_Messages.thy ===== *)
theory Gateway_Messages
  imports Gateway_Guarantees
begin

text \<open>
  Properties of single operations of a gateway: the sender threads, the retransmission of control messages, the ids of the offloading
  service and an early confirmation of the data plane.
\<close>

section \<open>Sender threads\<close>

text \<open>A full socket buffer truncates a message. When the kernel takes only part of a queued message and then would block, the sender
  thread of the client transport gives up the rest, keeps the connection and sends the next message right behind the fragment.\<close>

lemma blocked_send_truncates_message:
  assumes "gwc_is_connected c" "gwc_outgoing_queue c = data # queue" "0 < n" "n < length data"
  shows "gwc_sender_turn (Took n # WouldBlock # as) c =
     Some (c\<lparr>gwc_outgoing_queue := queue, gwc_wire := gwc_wire c @ take n data\<rparr>)"
proof -
  obtain b bs where data: "data = b # bs" using assms(4) by (cases data) auto
  obtain d ds where rest: "drop n data = d # ds" using assms(4) by (cases "drop n data") auto
  have "gwc_send_loop data (Took n # WouldBlock # as) = Some (take n data, False)"
    using rest unfolding data by simp
  with assms show ?thesis by (simp add: gwc_sender_turn_def Let_def)
qed

section \<open>Retransmission\<close>

text \<open>Every time is more than the timeout later than the one before.\<close>

fun checks_spaced :: "int \<Rightarrow> int list \<Rightarrow> bool" where
  "checks_spaced t [] \<longleftrightarrow> True"
| "checks_spaced t (u # us) \<longleftrightarrow> u - t > CP_ACK_TIMEOUT \<and> checks_spaced u us"

lemma resend_single:
  assumes "cp_transport c = Some t" "gwc_is_connected t" "cp_pending_acks c = [(n, p)]" "now - cpa_time_sent p > CP_ACK_TIMEOUT"
  shows "cp_check_for_timeouts ops (\<lambda>_. True) now c = c\<lparr>cp_pending_acks := [(n, p\<lparr>cpa_time_sent := now\<rparr>)],
     cp_transport := Some (t\<lparr>gwc_outgoing_queue := gwc_outgoing_queue t @ [bytes_of_text (js_dump ops (cpa_message p))]\<rparr>)\<rparr>"
  using assms by (simp add: cp_check_for_timeouts_def cp_overdue_def cp_resend_def gwc_async_send_data_def)

text \<open>A gateway never gives up. A control message that the bridge does not acknowledge is queued again at every check after the
  timeout, as often as there are checks, and stays pending for ever; the comments promise a maximum number of retries, which
  only the bridge has.\<close>

lemma gateway_retries_for_ever:
  assumes "cp_transport c = Some t" "gwc_is_connected t" "cp_pending_acks c = [(n, p)]" "checks_spaced (cpa_time_sent p) ts"
  shows "\<exists>t'. fold (cp_check_for_timeouts ops (\<lambda>_. True)) ts c
       = c\<lparr>cp_transport := Some t', cp_pending_acks := [(n, p\<lparr>cpa_time_sent := last (cpa_time_sent p # ts)\<rparr>)]\<rparr>
     \<and> gwc_outgoing_queue t' = gwc_outgoing_queue t @ replicate (length ts) (bytes_of_text (js_dump ops (cpa_message p)))"
  using assms
proof (induction ts arbitrary: c t p)
  case Nil
  then show ?case by (intro exI [of _ t]) simp
next
  case (Cons u us)
  let ?text = "bytes_of_text (js_dump ops (cpa_message p))"
  let ?t = "t\<lparr>gwc_outgoing_queue := gwc_outgoing_queue t @ [?text]\<rparr>" and ?p = "p\<lparr>cpa_time_sent := u\<rparr>"
  let ?c = "c\<lparr>cp_pending_acks := [(n, ?p)], cp_transport := Some ?t\<rparr>"
  have step: "cp_check_for_timeouts ops (\<lambda>_. True) u c = ?c"
    by (rule resend_single [OF Cons.prems(1-3)]) (use Cons.prems(4) in simp)
  have "cp_transport ?c = Some ?t" "gwc_is_connected ?t" "cp_pending_acks ?c = [(n, ?p)]" "checks_spaced (cpa_time_sent ?p) us"
    using Cons.prems by (simp_all add: gwc_is_connected_def)
  from Cons.IH [OF this] show ?case by (auto simp: step replicate_append_same)
qed

section \<open>Services\<close>

lemma show_int_inject: "show_int i = show_int j \<longleftrightarrow> i = j"
proof
  assume "show_int i = show_int j"
  then have "scan_int (show_int i @ []) = scan_int (show_int j @ [])" by (rule arg_cong)
  then show "i = j" unfolding scan_int_show_int [OF disjI1 [OF refl]] by simp
qed simp

text \<open>The id the offloading service returns names no session. The service and the control thread each take a number from the same
  counter: the answer carries one, the session the next. Ending the session with the id that was returned does nothing.\<close>

lemma service_id_names_no_session:
  assumes up: "ct_running c" "ct_state c = GW_OPERATIONAL" "ct_component_type c = ''V''" "ct_offloading_request_queue c = []"
    and fresh: "aget (ct_active_sessions c) (show_int (uint (ct_request_id_counter c))) = None"
    and call: "offloading_request_service_handler task_id vhc_data c = (resp, c1)" "aget (ct_task_database c) task_id \<noteq> None"
    and turn: "control_turn ops ro env c1 = Returned c2"
  shows "sr_success resp \<and> sr_request_id resp = show_int (uint (ct_request_id_counter c))
     \<and> (\<exists>s. ss_task_id s = task_id
          \<and> ct_active_sessions c2 = aput (show_int (uint (ct_request_id_counter c + 1))) s (ct_active_sessions c))
     \<and> aget (ct_active_sessions c2) (sr_request_id resp) = None \<and> handle_session_teardown (sr_request_id resp) c2 = c2"
proof -
  let ?n = "ct_request_id_counter c" and ?q = "\<lparr>or_task_id = task_id, or_vhc_data = vhc_data\<rparr>"
  have c1: "sr_success resp" "sr_request_id resp = show_int (uint ?n)"
    "c1 = c\<lparr>ct_offloading_request_queue := [?q], ct_request_id_counter := ?n + 1\<rparr>"
    using call up by (auto simp: offloading_request_service_handler_def Let_def)
  have "process_offload ops env ?q (c1\<lparr>ct_offloading_request_queue := []\<rparr>) = Returned c2"
    using turn up c1(3) by (simp add: control_turn_def operational_turn_def)
  then have "ct_active_sessions c2 = aput (show_int (uint (?n + 1))) \<lparr>ss_request_id = show_int (uint (?n + 1)), ss_task_id = task_id,
      ss_last_keepalive_sent = ge_now env\<rparr> (ct_active_sessions c)"
    unfolding c1(3) by (auto simp: process_offload_def Let_def split: if_splits option.splits outcome.splits)
  then have "\<exists>s. ss_task_id s = task_id \<and> ct_active_sessions c2 = aput (show_int (uint (?n + 1))) s (ct_active_sessions c)"
    by (metis SessionState.select_convs(2))
  moreover have "show_int (uint ?n) \<noteq> show_int (uint (?n + 1))"
    unfolding show_int_inject by (simp flip: word_uint_eq_iff)
  ultimately show ?thesis using c1(1,2) fresh by (auto simp: handle_session_teardown_def)
qed

definition demo_env :: gw_env where
  "demo_env = \<lparr>ge_open = \<lparr>oa_socket = 3, oa_setsockopt = True, oa_bind = True, oa_listen = True\<rparr>,
     ge_connect = \<lparr>ca_socket = 4, ca_inet_pton = True, ca_connect = True\<rparr>, ge_file = None, ge_room = True, ge_now = 0\<rparr>"

section \<open>Attaching to the bridge\<close>

text \<open>Approvals and the end of a session do not change the state of the controller.\<close>

lemma on_session_approved_state: "on_session_approved ops ro now payload c = Returned c' \<Longrightarrow> ct_state c' = ct_state c"
  by (auto simp: on_session_approved_def approve_task_def set_data_plane_def split: if_splits option.splits outcome.splits)

lemma teardown_state: "ct_state (handle_session_teardown r c) = ct_state c"
  by (simp add: handle_session_teardown_def set_data_plane_def Let_def split: option.splits)

text \<open>C36: a confirmation that comes early is lost. Between sending \<open>DP_INFO\<close> and entering the state in which it waits for the confirmation the
  control thread leaves a gap; a confirmation that is received in the gap is acknowledged, so the bridge does not repeat it, and changes nothing. The
  gateway then waits: no turn of the control thread and no other message of the bridge makes it operational.\<close>

theorem early_confirmation_is_lost:
  assumes gap: "ct_state c = CONNECTING_TO_BRIDGE" "ct_dp_info_sent c" "ct_running c" "ct_operation_mode c = ''networked''"
    and cp: "ct_bridge_cp_client c = Some cp" "cp_running cp" "cp_transport cp = Some t" "gwc_is_connected t" "0 \<le> gwc_socket_fd t"
    and msg: "js_parse ops (c_text (take 4095 bs)) = Some m" "bs \<noteq> []" "js_at ops m ''message_code'' = Found code" "js_int ops code = Some 202"
      "js_at ops m ''component_id'' = Found cid" "js_string ops cid = Some i" "js_at ops m ''sequence_number'' = Found sn" "js_int ops sn = Some n"
  shows "\<exists>c1 c2 cp'. client_turn ops ro now rooms True SelectReady (Received bs) c = Returned c1
     \<and> cp_handle_received_message ops True m cp = Returned (cp', DpConfirmed)
     \<and> cp_transport cp' = Some (t\<lparr>gwc_outgoing_queue := gwc_outgoing_queue t @ [bytes_of_text (js_dump ops (cp_ack_message ops (to_int32 n) i))]\<rparr>)
     \<and> c1 = c\<lparr>ct_bridge_cp_client := Some (cp_check_for_timeouts ops rooms now cp')\<rparr>
     \<and> control_turn ops ro env c1 = Returned c2 \<and> ct_state c2 = WAITING_FOR_DP_CONNECTION
     \<and> (\<forall>env'. control_turn ops ro env' c2 = Returned c2)
     \<and> (\<forall>ev c3. ev \<noteq> DpConfirmed \<longrightarrow> run_event ops ro now ev c2 = Returned c3 \<longrightarrow> ct_state c3 = WAITING_FOR_DP_CONNECTION)"
proof -
  let ?ack = "bytes_of_text (js_dump ops (cp_ack_message ops (to_int32 n) i))"
  let ?cp = "cp\<lparr>cp_transport := Some (t\<lparr>gwc_outgoing_queue := gwc_outgoing_queue t @ [?ack]\<rparr>)\<rparr>"
  have h: "cp_handle_received_message ops True m cp = Returned (?cp, DpConfirmed)"
    using cp msg by (simp add: cp_handle_received_message_def js_contains_def js_get_def cp_sequence_of_def to_int32_id
        cp_send_ack_def gwc_async_send_data_def Let_def)
  have same: "cp\<lparr>cp_transport := Some t\<rparr> = cp" using cp(3) by simp
  have "cp_receive ops True SelectReady (Received bs) cp = Returned (?cp, DpConfirmed)"
    using cp msg(1,2) h
    by (simp add: cp_receive_def gwc_data_available_def gwc_receive_data_def Let_def same)
  define c1 where "c1 = c\<lparr>ct_bridge_cp_client := Some (cp_check_for_timeouts ops rooms now ?cp)\<rparr>"
  have t1: "client_turn ops ro now rooms True SelectReady (Received bs) c = Returned c1"
    using cp(1,2) \<open>cp_receive _ _ _ _ _ = _\<close> gap(1) by (simp add: client_turn_def on_dp_confirmed_def c1_def)
  define c2 where "c2 = c1\<lparr>ct_state := WAITING_FOR_DP_CONNECTION, ct_dp_info_sent := False\<rparr>"
  have t2: "control_turn ops ro env c1 = Returned c2"
    using gap by (simp add: control_turn_def connecting_turn_def c1_def c2_def)
  have t3: "control_turn ops ro env' c2 = Returned c2" for env'
    using gap by (simp add: control_turn_def waiting_turn_def c1_def c2_def)
  have t4: "ct_state c3 = ct_state x" if "ev \<noteq> DpConfirmed" "run_event ops ro now ev x = Returned c3" for ev x c3
    using that by (cases ev) (auto simp: on_session_approved_state on_session_denied_def teardown_state)
  have "ct_state c2 = WAITING_FOR_DP_CONNECTION" by (simp add: c2_def)
  with t1 h t2 t3 t4 show ?thesis unfolding c1_def by auto
qed

definition confirmation :: json_tree where
  "confirmation = JObject [(''component_id'', JString ''15:10''), (''message_code'', JInt 202), (''sequence_number'', JInt 1)]"

definition confirming_ops :: "json_tree json_ops" where
  "confirming_ops = tree_ops\<lparr>js_parse := (\<lambda>s. Some confirmation)\<rparr>"

definition connecting_client :: "json_tree BridgeCpClient" where
  "connecting_client = BridgeCpClient_init\<lparr>cp_running := True,
     cp_transport := Some ((GwClient_init ''10.0.0.2'' 8000 3)\<lparr>gwc_connected := True, gwc_socket_fd := 6\<rparr>)\<rparr>"

definition connecting_controller :: "(json_tree, string list, u8 list) GatewayController" where
  "connecting_controller = (GatewayController_init [] demo_params)\<lparr>ct_state := CONNECTING_TO_BRIDGE, ct_dp_info_sent := True,
     ct_bridge_cp_client := Some connecting_client\<rparr>"

theorem early_confirmation_is_lost_witness:
  "\<exists>c1 c2. client_turn confirming_ops demo_ros 0 (\<lambda>_. True) True SelectReady (Received [123]) connecting_controller = Returned c1
     \<and> control_turn confirming_ops demo_ros demo_env c1 = Returned c2 \<and> ct_state c2 = WAITING_FOR_DP_CONNECTION
     \<and> (\<forall>env. control_turn confirming_ops demo_ros env c2 = Returned c2)"
proof -
  let ?t = "(GwClient_init ''10.0.0.2'' 8000 3)\<lparr>gwc_connected := True, gwc_socket_fd := 6\<rparr>"
  have c: "ct_state connecting_controller = CONNECTING_TO_BRIDGE" "ct_dp_info_sent connecting_controller" "ct_running connecting_controller"
    "ct_operation_mode connecting_controller = ''networked''" "ct_bridge_cp_client connecting_controller = Some connecting_client"
    "cp_running connecting_client" "cp_transport connecting_client = Some ?t" "gwc_is_connected ?t" "0 \<le> gwc_socket_fd ?t"
    by (simp_all add: connecting_controller_def connecting_client_def GatewayController_init_def demo_params_def gwc_is_connected_def)
  have m: "js_parse confirming_ops (c_text (take 4095 [123])) = Some confirmation" "[123 :: u8] \<noteq> []"
    "js_at confirming_ops confirmation ''message_code'' = Found (JInt 202)" "js_int confirming_ops (JInt 202) = Some 202"
    "js_at confirming_ops confirmation ''component_id'' = Found (JString ''15:10'')" "js_string confirming_ops (JString ''15:10'') = Some ''15:10''"
    "js_at confirming_ops confirmation ''sequence_number'' = Found (JInt 1)" "js_int confirming_ops (JInt 1) = Some 1"
    by (simp_all add: confirming_ops_def confirmation_def tree_ops_def)
  show ?thesis using early_confirmation_is_lost [OF c m, of demo_ros 0 "\<lambda>_. True" demo_env] by blast
qed

end
