(* ===== verification/Control_Exchange.thy ===== *)
theory Control_Exchange
  imports Bridge_Guarantees Bridge_Messages Gateway_Messages
begin

text \<open>
  The exchange of control messages between a gateway and the bridge: what a gateway sends is run through the handlers
  of the bridge, and what the bridge answers through the client of the gateway. Messages are taken over whole, one
  per read; two texts in one read, which the receiver cannot parse, are the matter of the two thread loops.
\<close>

section \<open>Numbered messages\<close>

definition numbered :: "'j json_ops \<Rightarrow> u64 \<Rightarrow> 'j \<Rightarrow> 'j" where
  "numbered ops n message = js_set ops message ''sequence_number'' (js_of_int ops (uint n))"

lemma cp_message_same: "cp_message = mgw_message"
  by (intro ext) (simp add: cp_message_def mgw_message_def)

lemma numbered_fields:
  assumes "json_laws ops"
  shows "js_at ops (numbered ops n (mgw_message ops i code ty p)) k =
     (if k = ''sequence_number'' then Found (js_of_int ops (uint n)) else js_at ops (mgw_message ops i code ty p) k)"
  unfolding numbered_def mgw_message_def
  by (rule json_set_object [OF assms, of "[(''component_id'', js_of_string ops i), (''message_code'', js_of_int ops code),
       (''message_type'', js_of_string ops ty), (''payload'', p)]" "''sequence_number''" "js_of_int ops (uint n)"])
    (simp add: json_object_at [OF assms])

lemma numbered_get:
  assumes "json_laws ops"
  defines "m \<equiv> \<lambda>n i code ty p. numbered ops n (mgw_message ops i code ty p)"
  shows "js_at ops (m n i code ty p) ''component_id'' = Found (js_of_string ops i)"
    "js_at ops (m n i code ty p) ''message_code'' = Found (js_of_int ops code)"
    "js_at ops (m n i code ty p) ''message_type'' = Found (js_of_string ops ty)"
    "js_at ops (m n i code ty p) ''sequence_number'' = Found (js_of_int ops (uint n))"
    "js_at ops (m n i code ty p) ''payload'' = Found p"
  unfolding m_def by (simp_all add: numbered_fields [OF assms(1)]) (simp_all add: mgw_message_def json_object_at [OF assms(1)])

lemma ack_get:
  assumes "json_laws ops"
  shows "js_at ops (cp_ack_message ops n i) ''component_id'' = Found (js_of_string ops i)"
    "js_at ops (cp_ack_message ops n i) ''message_code'' = Found (js_of_int ops 900)"
    "js_at ops (cp_ack_message ops n i) ''message_type'' = Found (js_of_string ops ''ACK'')"
    "js_at ops (cp_ack_message ops n i) ''sequence_number'' = Found (js_of_int ops 0)"
    "js_at ops (cp_ack_message ops n i) ''payload'' = Found (js_object ops [(''ack_sequence_number'', js_of_int ops n)])"
  by (simp_all add: cp_ack_message_def json_object_at [OF assms])

lemmas message_reads = js_contains_def js_get_def validate_message_structure_def

text \<open>Sequence numbers are read as \<open>int\<close> on both sides.\<close>

definition read_number :: "u64 \<Rightarrow> u64" where
  "read_number n = of_int (to_int32 (uint n))"

lemma to_int32_range: "- (2 ^ 31) \<le> to_int32 v" "to_int32 v < 2 ^ 31"
  using sint_ge [of "of_int v :: u32"] sint_lt [of "of_int v :: u32"] by (simp_all add: to_int32_def)

lemma to_int32_shift: "to_int32 v = (v + 2 ^ 31) mod 2 ^ 32 - 2 ^ 31"
  by (simp add: to_int32_def signed_of_int signed_take_bit_eq_take_bit_shift take_bit_eq_mod)

lemma to_int32_mod: "to_int32 (v mod 2 ^ 64) = to_int32 v"
proof -
  have "(v mod 2 ^ 64 + 2 ^ 31) mod 2 ^ 32 = (v mod 2 ^ 64 mod 2 ^ 32 + 2 ^ 31) mod 2 ^ 32"
    by (rule mod_add_left_eq [symmetric])
  also have "v mod 2 ^ 64 mod 2 ^ 32 = v mod 2 ^ 32" by (rule mod_mod_cancel) simp
  finally show ?thesis unfolding to_int32_shift by (simp only: mod_add_left_eq)
qed

lemma uint_read_number: "uint (read_number n) = to_int32 (uint n) mod 2 ^ 64"
  by (simp add: read_number_def uint_word_of_int)

lemma read_number_again: "of_int (to_int32 (uint (read_number n))) = read_number n"
  unfolding uint_read_number to_int32_mod to_int32_id [OF to_int32_range] unfolding read_number_def ..

text \<open>A number survives the narrowing exactly when it is the sign extension of 32 bits.\<close>

lemma read_number_exact: "read_number n = n \<longleftrightarrow> uint n < 2 ^ 31 \<or> 2 ^ 64 - 2 ^ 31 \<le> uint n"
proof -
  have n: "0 \<le> uint n" "uint n < 2 ^ 64" using uint_bounded [of n] by simp_all
  have small: "to_int32 (uint n) = uint n" if "uint n < 2 ^ 31"
    using that n(1) by (intro to_int32_id) linarith+
  have large: "to_int32 (uint n) = uint n - 2 ^ 64" if "2 ^ 64 - 2 ^ 31 \<le> uint n"
  proof -
    have "to_int32 (uint n) = to_int32 ((uint n - 2 ^ 64) mod 2 ^ 64)" using n by simp
    also have "\<dots> = uint n - 2 ^ 64" unfolding to_int32_mod by (rule to_int32_id) (use that n in simp_all)
    finally show ?thesis .
  qed
  define s where "s = to_int32 (uint n)"
  have s: "- (2 ^ 31) \<le> s" "s < 2 ^ 31" unfolding s_def by (rule to_int32_range)+
  have wrap: "s mod 2 ^ 64 = (if s < 0 then s + 2 ^ 64 else s)"
    using s mod_pos_pos_trivial [of s "2 ^ 64"] mod_pos_pos_trivial [of "s + 2 ^ 64" "2 ^ 64"] by simp
  show ?thesis
    unfolding word_uint_eq_iff uint_read_number s_def [symmetric] wrap
    using s n small large unfolding s_def [symmetric] by (auto split: if_splits)
qed

section \<open>The two ends\<close>

lemma send_ack_up:
  assumes "lk_connected lk (mc_transport_client_id c)" "lk_send_ok lk (mc_transport_client_id c)"
  shows "send_ack ops lk n c = c\<lparr>mc_sent := mc_sent c @ [js_dump ops (cp_ack_message ops (uint n) (mc_component_id c))]\<rparr>"
  using assms by (simp add: send_ack_def cp_ack_message_def)

lemma bridge_sends:
  assumes "lk_connected lk (mc_transport_client_id c)" "lk_send_ok lk (mc_transport_client_id c)"
  shows "send_reliable_message ops lk now m c = c\<lparr>mc_sequence_number := mc_sequence_number c + 1,
     mc_pending_acks := aput (mc_sequence_number c) \<lparr>pa_message = numbered ops (mc_sequence_number c) m, pa_time_sent = now,
       pa_retry_count = 0\<rparr> (mc_pending_acks c),
     mc_sent := mc_sent c @ [js_dump ops (numbered ops (mc_sequence_number c) m)]\<rparr>"
  using assms by (simp add: send_reliable_message_def numbered_def Let_def)

lemma gateway_sends:
  assumes "cp_transport g = Some t" "gwc_is_connected t" "cp_running g"
  shows "cp_send_reliable_message ops True now m g = g\<lparr>cp_sequence_number := cp_sequence_number g + 1,
     cp_transport := Some (t\<lparr>gwc_outgoing_queue := gwc_outgoing_queue t @ [bytes_of_text (js_dump ops (numbered ops (cp_sequence_number g) m))]\<rparr>),
     cp_pending_acks := aput (cp_sequence_number g) \<lparr>cpa_message = numbered ops (cp_sequence_number g) m, cpa_time_sent = now\<rparr>
       (cp_pending_acks g)\<rparr>"
  using assms by (simp add: cp_send_reliable_message_def numbered_def gwc_async_send_data_def Let_def)

lemma bridge_takes_ack:
  assumes "json_laws ops"
  shows "handle_received_message ops lk ok now (cp_ack_message ops n i) (c, b) =
     Returned (c\<lparr>mc_pending_acks := aerase (of_int n) (mc_pending_acks c)\<rparr>, b)"
  using assms
  by (simp add: handle_received_message_def message_reads ack_get json_scalars to_int32_id handle_ack_def json_object_at)

lemma gateway_takes_ack:
  assumes "json_laws ops"
  shows "cp_handle_received_message ops room (cp_ack_message ops n i) g =
     Returned (g\<lparr>cp_pending_acks := aerase (of_int (to_int32 n)) (cp_pending_acks g)\<rparr>, NoEvent)"
  using assms
  by (simp add: cp_handle_received_message_def cp_sequence_of_def message_reads ack_get json_scalars to_int32_id cp_handle_ack_def
      json_object_at)

lemma bridge_takes_message:
  assumes laws: "json_laws ops" and code: "code \<in> {100, 101, 102, 103}" and bind: "bind_component_id i (c, b) = (True, c1, b1)"
  shows "handle_received_message ops lk ok now (numbered ops n (mgw_message ops i code ty p)) (c, b) =
     (let st = (send_ack ops lk (read_number n) c1, b1) in
      if code = 103 then handle_dp_info ops lk now p st
      else if code = 100 then handle_offload_request ops ok now p st
      else if code = 101 then handle_session_keepalive ops ok now p st
      else handle_session_terminate_request ops ok now p st)"
proof -
  have "to_int32 code = code" using code by (auto intro: to_int32_id)
  then show ?thesis using code bind
    by (auto simp: handle_received_message_def message_reads numbered_get [OF laws] json_scalars [OF laws] read_number_def)
qed

lemma gateway_takes_message:
  fixes ops :: "'j json_ops" and p :: 'j and n :: u64 and i ty :: string
  assumes laws: "json_laws ops" and code: "code \<in> {200, 201, 202}" and gw: "cp_transport g = Some t" "gwc_is_connected t"
  defines "m \<equiv> numbered ops n (mgw_message ops i code ty p)"
  defines "g' \<equiv> g\<lparr>cp_transport := Some (t\<lparr>gwc_outgoing_queue := gwc_outgoing_queue t @
     [bytes_of_text (js_dump ops (cp_ack_message ops (to_int32 (uint n)) i))]\<rparr>)\<rparr>"
  shows "cp_handle_received_message ops True m g =
     Returned (g', if code = 200 then cp_session_approved ops m else if code = 201 then cp_session_denied ops m else DpConfirmed)"
proof -
  have "to_int32 code = code" using code by (auto intro: to_int32_id)
  then show ?thesis using code gw unfolding m_def g'_def
    by (auto simp: cp_handle_received_message_def cp_sequence_of_def message_reads numbered_get [OF laws] json_scalars [OF laws]
        cp_send_ack_def gwc_async_send_data_def)
qed

section \<open>Acknowledgements\<close>

lemma mc_sent_forward:
  "outcome_state (forward_from ops ok now code ty p (c, b)) = Some (c', b') \<Longrightarrow> c' = c"
  by (auto simp: forward_from_def split: outcome.splits)

lemma handlers_sent:
  "outcome_state (handle_dp_info ops lk now p (c, b)) = Some (c', b') \<Longrightarrow> \<exists>rest. mc_sent c' = mc_sent c @ rest"
  "outcome_state (handle_offload_request ops ok now p (c, b)) = Some (c', b') \<Longrightarrow> c' = c"
  "outcome_state (handle_session_keepalive ops ok now p (c, b)) = Some (c', b') \<Longrightarrow> c' = c"
  "outcome_state (handle_session_terminate_request ops ok now p (c, b)) = Some (c', b') \<Longrightarrow> c' = c"
  by (auto simp: handle_dp_info_def handle_offload_request_def handle_session_keepalive_def Let_def
      handle_session_terminate_request_def set_state_def send_dp_connection_confirmed_def send_reliable_message_def
      dest: mc_sent_forward split: if_splits option.splits outcome.splits bool.splits)

lemma bind_accepts:
  assumes "is_valid_component_id i" "mc_component_id c = [] \<or> mc_component_id c = i"
  obtains b1 where "bind_component_id i (c, b) = (True, c\<lparr>mc_component_id := i\<rparr>, b1)"
  using assms by (cases "mc_component_id c = []") (auto simp: bind_component_id_def)

lemma handled_is_acknowledged:
  assumes laws: "json_laws ops" and link: "lk_connected lk (mc_transport_client_id c)" "lk_send_ok lk (mc_transport_client_id c)"
    and id: "is_valid_component_id i" "mc_component_id c = [] \<or> mc_component_id c = i" and code: "code \<in> {100, 101, 102, 103}"
    and run: "outcome_state (handle_received_message ops lk ok now (numbered ops n (mgw_message ops i code ty p)) (c, b)) = Some (c', b')"
  shows "\<exists>rest. mc_sent c' = mc_sent c @ js_dump ops (cp_ack_message ops (uint (read_number n)) i) # rest"
proof -
  let ?ack = "cp_ack_message ops (uint (read_number n)) i"
  obtain b1 where bind: "bind_component_id i (c, b) = (True, c\<lparr>mc_component_id := i\<rparr>, b1)"
    using bind_accepts [OF id] .
  let ?c1 = "c\<lparr>mc_component_id := i, mc_sent := mc_sent c @ [js_dump ops ?ack]\<rparr>"
  have "send_ack ops lk (read_number n) (c\<lparr>mc_component_id := i\<rparr>) = ?c1"
    using link by (subst send_ack_up) simp_all
  then have "\<exists>rest. mc_sent c' = mc_sent ?c1 @ rest"
    using run unfolding bridge_takes_message [OF laws code bind] Let_def
    by (auto dest!: handlers_sent split: if_splits)
  then show ?thesis by auto
qed

text \<open>C19: every control message of a gateway is acknowledged. A message the gateway sends is pending under its sequence number; when the bridge handles it, on
  whatever branch, it first answers with an acknowledgement, and the gateway that receives this removes the message from the pending ones. Both
  sides read the number as an \<open>int\<close>, so this holds for the numbers below \<open>2 ^ 31\<close> (and the highest ones); for any other number the acknowledgement
  names another message.\<close>

theorem control_message_acknowledged:
  assumes laws: "json_laws ops" and link: "lk_connected lk (mc_transport_client_id c)" "lk_send_ok lk (mc_transport_client_id c)"
    and gw: "cp_transport g = Some t" "gwc_is_connected t" "cp_running g"
    and id: "is_valid_component_id i" "mc_component_id c = [] \<or> mc_component_id c = i" and code: "code \<in> {100, 101, 102, 103}"
    and sent: "cp_send_reliable_message ops True now (cp_message ops i code ty p) g = g1"
    and pend: "aget (cp_pending_acks g1) (cp_sequence_number g) = Some pa"
    and run: "outcome_state (handle_received_message ops lk ok now' (cpa_message pa) (c, b)) = Some (c', b')"
  shows "let ack = cp_ack_message ops (uint (read_number (cp_sequence_number g))) i in
     \<exists>rest t1. cp_transport g1 = Some t1 \<and> gwc_outgoing_queue t1 = gwc_outgoing_queue t @ [bytes_of_text (js_dump ops (cpa_message pa))]
     \<and> mc_sent c' = mc_sent c @ js_dump ops ack # rest
     \<and> (\<forall>room g2. \<exists>g3. cp_handle_received_message ops room ack g2 = Returned (g3, NoEvent)
          \<and> (aget (cp_pending_acks g3) (cp_sequence_number g) = None \<longleftrightarrow>
               aget (cp_pending_acks g2) (cp_sequence_number g) = None
               \<or> uint (cp_sequence_number g) < 2 ^ 31 \<or> 2 ^ 64 - 2 ^ 31 \<le> uint (cp_sequence_number g)))"
proof -
  let ?n = "cp_sequence_number g"
  let ?m = "numbered ops ?n (mgw_message ops i code ty p)" and ?ack = "cp_ack_message ops (uint (read_number ?n)) i"
  have g1: "cp_pending_acks g1 = aput ?n \<lparr>cpa_message = ?m, cpa_time_sent = now\<rparr> (cp_pending_acks g)"
    "cp_transport g1 = Some (t\<lparr>gwc_outgoing_queue := gwc_outgoing_queue t @ [bytes_of_text (js_dump ops ?m)]\<rparr>)"
    using sent by (simp_all add: gateway_sends [OF gw] cp_message_same flip: sent)
  with pend have pa: "cpa_message pa = ?m" by auto
  obtain rest where "mc_sent c' = mc_sent c @ js_dump ops ?ack # rest"
    using handled_is_acknowledged [OF laws link id code] run unfolding pa by blast
  moreover have "\<exists>g3. cp_handle_received_message ops room ?ack g2 = Returned (g3, NoEvent)
      \<and> (aget (cp_pending_acks g3) ?n = None \<longleftrightarrow> aget (cp_pending_acks g2) ?n = None \<or> read_number ?n = ?n)" for room g2
    unfolding gateway_takes_ack [OF laws] read_number_again by auto
  ultimately show ?thesis using g1(2) pa unfolding read_number_exact Let_def by auto
qed

theorem control_message_acknowledged_witness:
  "\<exists>ack rest c' b' g1 g3. cp_send_reliable_message tree_ops True 0 (cp_message tree_ops ''60:5'' 101 ''SESSION_KEEPALIVE'' JNull) connecting_client = g1
     \<and> aget (cp_pending_acks g1) 1 \<noteq> None
     \<and> handle_received_message tree_ops demo_link True 0 (numbered tree_ops 1 (mgw_message tree_ops ''60:5'' 101 ''SESSION_KEEPALIVE'' JNull))
         (MGWCPConnection_init 1 4 ''10.0.0.5'', Bridge_init) = Returned (c', b')
     \<and> mc_sent c' = js_dump tree_ops ack # rest
     \<and> cp_handle_received_message tree_ops True ack g1 = Returned (g3, NoEvent) \<and> aget (cp_pending_acks g3) 1 = None"
proof -
  let ?c = "MGWCPConnection_init 1 4 ''10.0.0.5'' :: json_tree MGWCPConnection" and ?b = "Bridge_init :: json_tree Bridge"
  let ?t = "(GwClient_init ''10.0.0.2'' 8000 3)\<lparr>gwc_connected := True, gwc_socket_fd := 6\<rparr>"
  let ?m = "mgw_message tree_ops ''60:5'' 101 ''SESSION_KEEPALIVE'' JNull"
  let ?g1 = "cp_send_reliable_message tree_ops True 0 (cp_message tree_ops ''60:5'' 101 ''SESSION_KEEPALIVE'' JNull) connecting_client"
  have gw: "cp_transport connecting_client = Some ?t" "gwc_is_connected ?t" "cp_running connecting_client" "cp_sequence_number connecting_client = 1"
    by (simp_all add: connecting_client_def gwc_is_connected_def BridgeCpClient_init_def)
  have c: "lk_connected demo_link (mc_transport_client_id ?c)" "lk_send_ok demo_link (mc_transport_client_id ?c)"
    "mc_component_id ?c = [] \<or> mc_component_id ?c = ''60:5''" "mc_sent ?c = []" "(101 :: int) \<in> {100, 101, 102, 103}"
    by (simp_all add: demo_link_def MGWCPConnection_init_def)
  have pend: "aget (cp_pending_acks ?g1) (cp_sequence_number connecting_client) = Some \<lparr>cpa_message = numbered tree_ops 1 ?m, cpa_time_sent = 0\<rparr>"
    unfolding gateway_sends [OF gw(1-3)] by (simp add: gw(4) cp_message_same)
  obtain b1 where bind: "bind_component_id ''60:5'' (?c, ?b) = (True, ?c\<lparr>mc_component_id := ''60:5''\<rparr>, b1)"
    using bind_accepts [OF demo_ids(1) c(3)] .
  obtain c' b' where run: "handle_received_message tree_ops demo_link True 0 (numbered tree_ops 1 ?m) (?c, ?b) = Returned (c', b')"
    unfolding bridge_takes_message [OF tree_laws c(5) bind]
    by (simp add: handle_session_keepalive_def js_contains_def tree_ops_def Let_def)
  have "outcome_state (handle_received_message tree_ops demo_link True 0
      (cpa_message \<lparr>cpa_message = numbered tree_ops 1 ?m, cpa_time_sent = 0\<rparr>) (?c, ?b)) = Some (c', b')"
    by (simp add: run)
  from control_message_acknowledged [OF tree_laws c(1,2) gw(1-3) demo_ids(1) c(3,5) refl pend this]
  obtain ack rest where ack: "mc_sent c' = js_dump tree_ops ack # rest"
    "\<And>g2. \<exists>g3. cp_handle_received_message tree_ops True ack g2 = Returned (g3, NoEvent) \<and> aget (cp_pending_acks g3) 1 = None"
    unfolding Let_def c(4) gw(4) by auto
  from ack(2) [of ?g1] run ack(1) pend show ?thesis unfolding gw(4) by (metis option.distinct(1))
qed

section \<open>Attaching a gateway\<close>

text \<open>The payload-carrying part of the two messages of the handshake.\<close>

definition dp_info :: "'j json_ops \<Rightarrow> string \<Rightarrow> int \<Rightarrow> 'j" where
  "dp_info ops i port = mgw_message ops i 103 ''DP_INFO''
     (js_object ops [(''dp_host'', js_of_string ops ''0.0.0.0''), (''dp_port'', js_of_int ops port)])"

definition dp_confirmed :: "'j json_ops \<Rightarrow> 'j" where
  "dp_confirmed ops = mgw_message ops ''15:10'' 202 ''DP_CONNECTION_CONFIRMED'' (js_null ops)"

lemma connecting_client_sends:
  fixes ops :: "'j json_ops"
  assumes "ct_running gc" "ct_state gc = CONNECTING_TO_BRIDGE" "\<not> ct_dp_info_sent gc" "ge_room env"
    and "0 \<le> ca_socket (ge_connect env)" "ca_inet_pton (ge_connect env)" "ca_connect (ge_connect env)"
  defines "m \<equiv> numbered ops 1 (dp_info ops (ct_component_id gc) (ct_data_plane_listen_port gc))"
  obtains g t where "control_turn ops ro env gc = Returned (gc\<lparr>ct_bridge_cp_client := Some g, ct_dp_info_sent := True\<rparr>)"
    "cp_transport g = Some t" "gwc_is_connected t" "gwc_outgoing_queue t = [bytes_of_text (js_dump ops m)]"
    "cp_pending_acks g = [(1, \<lparr>cpa_message = m, cpa_time_sent = ge_now env\<rparr>)]"
proof -
  let ?closed = "GwClient_init (ct_bridge_cp_host gc) (ct_bridge_cp_port gc) 3"
  obtain t where t: "gwc_connect (ge_connect env) ?closed = (True, t)" "gwc_is_connected t" "gwc_outgoing_queue t = []"
    using assms(5-7) by (simp add: gwc_connect_def perform_connect_logic_def GwClient_init_def gwc_is_connected_def Let_def)
  let ?fresh = "BridgeCpClient_init\<lparr>cp_transport := Some t, cp_running := True\<rparr>"
  have up: "cp_transport ?fresh = Some t" "cp_running ?fresh" "cp_sequence_number ?fresh = 1" "cp_pending_acks ?fresh = []"
    by (simp_all add: BridgeCpClient_init_def)
  let ?g = "cp_send_dp_info ops True (ge_now env) (ct_component_id gc) ''0.0.0.0'' (ct_data_plane_listen_port gc) ?fresh"
  have "control_turn ops ro env gc = Returned (gc\<lparr>ct_bridge_cp_client := Some ?g, ct_dp_info_sent := True\<rparr>)"
    using assms(1-4) t(1) by (simp add: control_turn_def connecting_turn_def cp_start_def BridgeCpClient_init_def)
  moreover have "?g = ?fresh\<lparr>cp_sequence_number := 2,
      cp_transport := Some (t\<lparr>gwc_outgoing_queue := [bytes_of_text (js_dump ops m)]\<rparr>),
      cp_pending_acks := [(1, \<lparr>cpa_message = m, cpa_time_sent = ge_now env\<rparr>)]\<rparr>"
    unfolding cp_send_dp_info_def gateway_sends [OF up(1) t(2) up(2)] by (simp add: m_def dp_info_def cp_message_same up t(3))
  moreover have "gwc_is_connected (t\<lparr>gwc_outgoing_queue := q\<rparr>)" for q using t(2) by (simp add: gwc_is_connected_def)
  ultimately show thesis by (intro that [of ?g "t\<lparr>gwc_outgoing_queue := [bytes_of_text (js_dump ops m)]\<rparr>"]) simp_all
qed

text \<open>A \<open>DP_INFO\<close> that is the first message of a connection.\<close>

lemma dp_info_attaches:
  fixes n :: u64
  assumes laws: "json_laws ops" and link: "lk_connected lk (mc_transport_client_id c)" "lk_send_ok lk (mc_transport_client_id c)"
    and i: "is_valid_component_id i" and new: "mc_component_id c = []" "mc_state c = CONNECTING" "mc_client_ip c \<noteq> []"
    and none: "aget (br_transport_handlers b) i = None" and port: "0 < port" "port \<le> 65535"
  defines "m \<equiv> numbered ops n (dp_info ops i port)" and "conf \<equiv> numbered ops (mc_sequence_number c) (dp_confirmed ops)"
  obtains c' b' h where "handle_received_message ops lk ok now m (c, b) = Returned (c', b')" "mc_state c' = OPERATIONAL"
    "mc_component_id c' = i" "aget (br_component_id_to_transport_id b') i = Some (mc_transport_client_id c)"
    "aget (br_transport_handlers b') i = Some h" "target_ip h = mc_client_ip c" "target_port h = port" "handler_thread_joinable h"
    "mc_sent c' = mc_sent c @ [js_dump ops (cp_ack_message ops (uint (read_number n)) i), js_dump ops conf]"
    "mc_pending_acks c' = aput (mc_sequence_number c) \<lparr>pa_message = conf, pa_time_sent = now, pa_retry_count = 0\<rparr> (mc_pending_acks c)"
proof -
  let ?p = "js_object ops [(''dp_host'', js_of_string ops ''0.0.0.0''), (''dp_port'', js_of_int ops port)]"
  let ?c1 = "c\<lparr>mc_component_id := i\<rparr>"
  let ?b1 = "b\<lparr>br_component_id_to_transport_id := aput i (mc_transport_client_id c) (br_component_id_to_transport_id b)\<rparr>"
  have bind: "bind_component_id i (c, b) = (True, ?c1, ?b1)"
    using i new(1) by (simp add: bind_component_id_def)
  let ?c2 = "?c1\<lparr>mc_sent := mc_sent c @ [js_dump ops (cp_ack_message ops (uint (read_number n)) i)]\<rparr>"
  have ack: "send_ack ops lk (read_number n) ?c1 = ?c2" using link by (subst send_ack_up) simp_all
  let ?c3 = "?c2\<lparr>mc_dp_port := port, mc_dp_host := mc_client_ip c, mc_state := OPERATIONAL\<rparr>"
  have fields: "js_contains ops ?p ''dp_host''" "js_contains ops ?p ''dp_port''"
    "js_string ops (js_get ops ?p ''dp_host'') = Some ''0.0.0.0''" "js_int ops (js_get ops ?p ''dp_port'') = Some port"
    by (simp_all add: js_contains_def js_get_def json_object_at [OF laws] json_scalars [OF laws])
  have small: "to_int32 port = port" using port by (intro to_int32_id) simp_all
  have ne: "i \<noteq> []" using i by auto
  obtain h b2 where made: "establish_mgwcp_data_plane_connection i (mc_client_ip c) port ?b1 = Returned (True, b2)"
    "aget (br_transport_handlers b2) i = Some h" "target_ip h = mc_client_ip c" "target_port h = port" "handler_thread_joinable h"
    "aget (br_component_id_to_transport_id b2) i = Some (mc_transport_client_id c)"
    using none new(3) port ne
    by (simp add: establish_mgwcp_data_plane_connection_def create_transport_handler_for_mgwdp_def TransportHandler_init_def th_start_def)
  have "handle_dp_info ops lk now ?p (?c2, ?b1) = Returned (send_dp_connection_confirmed ops lk now ?c3, b2)"
    using new(2) fields made(1) by (simp add: handle_dp_info_def small set_state_def)
  then have run: "handle_received_message ops lk ok now m (c, b) = Returned (send_dp_connection_confirmed ops lk now ?c3, b2)"
    unfolding m_def dp_info_def by (subst bridge_takes_message [OF laws _ bind]) (simp_all add: ack Let_def)
  have sent: "send_dp_connection_confirmed ops lk now ?c3 = ?c3\<lparr>mc_sequence_number := mc_sequence_number c + 1,
      mc_pending_acks := aput (mc_sequence_number c) \<lparr>pa_message = conf, pa_time_sent = now, pa_retry_count = 0\<rparr> (mc_pending_acks c),
      mc_sent := mc_sent ?c3 @ [js_dump ops conf]\<rparr>"
    using link by (simp add: send_dp_connection_confirmed_def bridge_sends conf_def dp_confirmed_def)
  show thesis by (rule that [OF run _ _ made(6) made(2-5)]) (simp_all add: sent)
qed

text \<open>C4: the handshake that attaches a gateway. A gateway that is connecting to the bridge opens the control connection and announces its data plane port; the bridge
  binds the connection to the gateway, starts a data plane handler towards the address of the client and that port, and confirms; the
  gateway acknowledges the confirmation, becomes operational, and nothing of the exchange stays pending on either side.\<close>

theorem data_plane_handshake:
  assumes laws: "json_laws ops"
    and gw: "ct_running gc" "ct_state gc = CONNECTING_TO_BRIDGE" "\<not> ct_dp_info_sent gc" "ct_operation_mode gc = ''networked''"
    and env: "ge_room env" "0 \<le> ca_socket (ge_connect env)" "ca_inet_pton (ge_connect env)" "ca_connect (ge_connect env)"
    and i: "is_valid_component_id (ct_component_id gc)" and port: "0 < ct_data_plane_listen_port gc" "ct_data_plane_listen_port gc \<le> 65535"
    and link: "lk_connected lk (mc_transport_client_id c)" "lk_send_ok lk (mc_transport_client_id c)"
    and new: "mc_component_id c = []" "mc_state c = CONNECTING" "mc_client_ip c \<noteq> []" "mc_sequence_number c = 1" "mc_pending_acks c = []"
    and none: "aget (br_transport_handlers b) (ct_component_id gc) = None"
  shows "let m = numbered ops 1 (dp_info ops (ct_component_id gc) (ct_data_plane_listen_port gc)); conf = numbered ops 1 (dp_confirmed ops);
      ack = cp_ack_message ops 1 (ct_component_id gc); ack2 = cp_ack_message ops 1 ''15:10'' in
    \<exists>g t gc2 c' b' h g2 t2 c2 gc3.
      control_turn ops ro env gc = Returned (gc\<lparr>ct_bridge_cp_client := Some g, ct_dp_info_sent := True\<rparr>)
    \<and> cp_transport g = Some t \<and> gwc_outgoing_queue t = [bytes_of_text (js_dump ops m)]
    \<and> control_turn ops ro env (gc\<lparr>ct_bridge_cp_client := Some g, ct_dp_info_sent := True\<rparr>) = Returned gc2
    \<and> handle_received_message ops lk ok now m (c, b) = Returned (c', b')
    \<and> mc_state c' = OPERATIONAL \<and> mc_component_id c' = ct_component_id gc
    \<and> aget (br_component_id_to_transport_id b') (ct_component_id gc) = Some (mc_transport_client_id c)
    \<and> aget (br_transport_handlers b') (ct_component_id gc) = Some h \<and> handler_thread_joinable h
    \<and> target_ip h = mc_client_ip c \<and> target_port h = ct_data_plane_listen_port gc
    \<and> mc_sent c' = mc_sent c @ [js_dump ops ack, js_dump ops conf]
    \<and> cp_handle_received_message ops True ack g = Returned (g\<lparr>cp_pending_acks := []\<rparr>, NoEvent)
    \<and> cp_handle_received_message ops True conf (g\<lparr>cp_pending_acks := []\<rparr>) = Returned (g2, DpConfirmed)
    \<and> cp_transport g2 = Some t2 \<and> gwc_outgoing_queue t2 = gwc_outgoing_queue t @ [bytes_of_text (js_dump ops ack2)]
    \<and> run_event ops ro now DpConfirmed (gc2\<lparr>ct_bridge_cp_client := Some g2\<rparr>) = Returned gc3 \<and> ct_state gc3 = GW_OPERATIONAL
    \<and> handle_received_message ops lk ok now ack2 (c', b') = Returned (c2, b') \<and> mc_pending_acks c2 = []"
proof -
  let ?i = "ct_component_id gc"
  let ?m = "numbered ops 1 (dp_info ops ?i (ct_data_plane_listen_port gc))" and ?conf = "numbered ops 1 (dp_confirmed ops)"
  have one: "read_number 1 = 1" "to_int32 1 = 1" by (simp_all add: read_number_exact to_int32_id)
  obtain g t where g: "control_turn ops ro env gc = Returned (gc\<lparr>ct_bridge_cp_client := Some g, ct_dp_info_sent := True\<rparr>)"
    "cp_transport g = Some t" "gwc_is_connected t" "gwc_outgoing_queue t = [bytes_of_text (js_dump ops ?m)]"
    "cp_pending_acks g = [(1, \<lparr>cpa_message = ?m, cpa_time_sent = ge_now env\<rparr>)]"
    using connecting_client_sends [OF gw(1-3) env] .
  obtain c' b' h where b: "handle_received_message ops lk ok now ?m (c, b) = Returned (c', b')" "mc_state c' = OPERATIONAL"
    "mc_component_id c' = ?i" "aget (br_component_id_to_transport_id b') ?i = Some (mc_transport_client_id c)"
    "aget (br_transport_handlers b') ?i = Some h" "target_ip h = mc_client_ip c" "target_port h = ct_data_plane_listen_port gc"
    "handler_thread_joinable h"
    "mc_sent c' = mc_sent c @ [js_dump ops (cp_ack_message ops 1 ?i), js_dump ops ?conf]"
    "mc_pending_acks c' = [(1, \<lparr>pa_message = ?conf, pa_time_sent = now, pa_retry_count = 0\<rparr>)]"
    by (rule dp_info_attaches [OF laws link i new(1-3) none port, where n = 1 and ok = ok and now = now])
      (rule that, simp_all add: new(4,5) one)
  let ?g = "g\<lparr>cp_pending_acks := []\<rparr>"
  have ack: "cp_handle_received_message ops True (cp_ack_message ops 1 ?i) g = Returned (?g, NoEvent)"
    unfolding gateway_takes_ack [OF laws] by (simp add: one g(5))
  let ?ack2 = "cp_ack_message ops 1 ''15:10''"
  let ?t = "t\<lparr>gwc_outgoing_queue := gwc_outgoing_queue t @ [bytes_of_text (js_dump ops ?ack2)]\<rparr>"
  have conf: "cp_handle_received_message ops True ?conf ?g = Returned (?g\<lparr>cp_transport := Some ?t\<rparr>, DpConfirmed)"
    unfolding dp_confirmed_def by (subst gateway_takes_message [OF laws, where t = t]) (simp_all add: g(2,3) one)
  have ack2: "handle_received_message ops lk ok now ?ack2 (c', b') = Returned (c'\<lparr>mc_pending_acks := []\<rparr>, b')"
    unfolding bridge_takes_ack [OF laws] by (simp add: b(10))
  let ?gc = "gc\<lparr>ct_bridge_cp_client := Some g, ct_state := WAITING_FOR_DP_CONNECTION, ct_dp_info_sent := False\<rparr>"
  have turn: "control_turn ops ro env (gc\<lparr>ct_bridge_cp_client := Some g, ct_dp_info_sent := True\<rparr>) = Returned ?gc"
    using gw by (simp add: control_turn_def connecting_turn_def)
  have "\<exists>gc3. run_event ops ro now DpConfirmed (?gc\<lparr>ct_bridge_cp_client := Some (?g\<lparr>cp_transport := Some ?t\<rparr>)\<rparr>) = Returned gc3
      \<and> ct_state gc3 = GW_OPERATIONAL"
    using gw(4) by (simp add: on_dp_confirmed_def)
  then show ?thesis using g(1,2,4) turn b(1-9) ack conf ack2 unfolding Let_def by fastforce
qed

theorem data_plane_handshake_witness:
  "\<exists>gc1 c' b' h. control_turn tree_ops demo_ros demo_env (connecting_controller\<lparr>ct_dp_info_sent := False, ct_bridge_cp_client := None\<rparr>)
       = Returned gc1
     \<and> handle_received_message tree_ops demo_link True 5 (numbered tree_ops 1 (dp_info tree_ops ''60:5'' 7401))
         (MGWCPConnection_init 1 4 ''10.0.0.5'', Bridge_init) = Returned (c', b')
     \<and> mc_state c' = OPERATIONAL \<and> aget (br_transport_handlers b') ''60:5'' = Some h \<and> target_port h = 7401"
proof -
  let ?gc = "connecting_controller\<lparr>ct_dp_info_sent := False, ct_bridge_cp_client := None\<rparr>"
  let ?c = "MGWCPConnection_init 1 4 ''10.0.0.5'' :: json_tree MGWCPConnection" and ?b = "Bridge_init :: json_tree Bridge"
  have i: "ct_component_id ?gc = ''60:5''"
    by (simp add: connecting_controller_def GatewayController_init_def demo_params_def show_int_def text_simps)
  have gc: "ct_running ?gc" "ct_state ?gc = CONNECTING_TO_BRIDGE" "\<not> ct_dp_info_sent ?gc" "ct_operation_mode ?gc = ''networked''"
    "ge_room demo_env" "0 \<le> ca_socket (ge_connect demo_env)" "ca_inet_pton (ge_connect demo_env)" "ca_connect (ge_connect demo_env)"
    "is_valid_component_id (ct_component_id ?gc)" "0 < ct_data_plane_listen_port ?gc" "ct_data_plane_listen_port ?gc \<le> 65535"
    "ct_data_plane_listen_port ?gc = 7401"
    unfolding i by (simp_all add: connecting_controller_def GatewayController_init_def demo_params_def demo_env_def demo_ids)
  have c: "lk_connected demo_link (mc_transport_client_id ?c)" "lk_send_ok demo_link (mc_transport_client_id ?c)"
    "mc_component_id ?c = []" "mc_state ?c = CONNECTING" "mc_client_ip ?c \<noteq> []" "mc_sequence_number ?c = 1" "mc_pending_acks ?c = []"
    "aget (br_transport_handlers ?b) (ct_component_id ?gc) = None"
    by (simp_all add: demo_link_def MGWCPConnection_init_def Bridge_init_def)
  show ?thesis
    using data_plane_handshake [OF tree_laws gc(1-11) c, of demo_ros True 5] unfolding i gc(12) Let_def
    by (elim exE conjE) (intro exI conjI; assumption)
qed

section \<open>Offload requests\<close>

lemma offload_payload_get:
  assumes "json_laws ops"
  shows "js_at ops (offload_payload ops r k name vhc) ''request_id'' = Found (js_of_string ops r)"
    "js_at ops (offload_payload ops r k name vhc) ''task_id'' = Found (js_of_int ops k)"
    "js_at ops (offload_payload ops r k name vhc) ''task_name'' = Found (js_of_string ops name)"
proof -
  let ?m = "[(''request_id'', js_of_string ops r), (''task_id'', js_of_int ops k), (''task_name'', js_of_string ops name)]"
  obtain m' where m': "js_set ops (js_object ops ?m) ''vhc_data'' (js_of_string ops vhc) = js_object ops m'"
    "map_of m' = (map_of ?m)(''vhc_data'' \<mapsto> js_of_string ops vhc)"
    by (rule json_set_object [OF assms])
  show "js_at ops (offload_payload ops r k name vhc) ''request_id'' = Found (js_of_string ops r)"
    "js_at ops (offload_payload ops r k name vhc) ''task_id'' = Found (js_of_int ops k)"
    "js_at ops (offload_payload ops r k name vhc) ''task_name'' = Found (js_of_string ops name)"
    using m' by (simp_all add: offload_payload_def Let_def json_object_at [OF assms])
qed

text \<open>What the control thread of a vehicle does with the next request of its queue.\<close>

lemma vehicle_sends_request:
  assumes gw: "ct_running gc" "ct_state gc = GW_OPERATIONAL" "ct_component_type gc = ''V''" "ct_operation_mode gc = ''networked''"
    and req: "ct_offloading_request_queue gc = req # reqs" "aget (ct_task_database gc) (or_task_id req) = Some td" "stoi (or_task_id req) = Some k"
    and cp: "ge_room env" "ct_bridge_cp_client gc = Some g" "cp_transport g = Some t" "gwc_is_connected t" "cp_running g"
  obtains gc' g' t' where "control_turn ops ro env gc = Returned gc'" "ct_bridge_cp_client gc' = Some g'" "cp_transport g' = Some t'"
    "gwc_outgoing_queue t' = gwc_outgoing_queue t @ [bytes_of_text (js_dump ops (numbered ops (cp_sequence_number g)
       (mgw_message ops (ct_component_id gc) 100 ''OFFLOAD_REQUEST''
         (offload_payload ops (show_int (uint (ct_request_id_counter gc))) k (td_task_name td) (or_vhc_data req)))))]"
    "ct_active_sessions gc' = aput (show_int (uint (ct_request_id_counter gc)))
       \<lparr>ss_request_id = show_int (uint (ct_request_id_counter gc)), ss_task_id = or_task_id req, ss_last_keepalive_sent = ge_now env\<rparr>
       (ct_active_sessions gc)"
  using assms
  by (simp add: control_turn_def operational_turn_def process_offload_def cp_send_offload_request_def gateway_sends cp_message_same Let_def)

text \<open>What the bridge does with a request on an operational connection, whether or not it opens a session.\<close>

lemma offload_request_forwarded:
  assumes laws: "json_laws ops" and op: "mc_state c = OPERATIONAL" and om: "br_om_connected b"
    and made: "create_session now r (mc_component_id c) (of_int k) name (br_global_config b) (br_session_manager b) = Some (new, sm)"
  obtains m where "handle_offload_request ops True now (offload_payload ops r k name vhc) (c, b)
      = Returned (c, b\<lparr>br_session_manager := sm, br_om_sent := br_om_sent b @ [m]\<rparr>)"
    "js_at ops m ''payload'' = Found (offload_payload ops r k name vhc)" "js_at ops m ''component_id'' = Found (js_of_string ops (mc_component_id c))"
    "js_at ops m ''bridge_component_id'' = Found (js_of_string ops BRIDGE_COMPONENT_ID)"
proof -
  let ?p = "offload_payload ops r k name vhc" and ?id = "js_of_string ops (mc_component_id c)" and ?own = "js_of_string ops BRIDGE_COMPONENT_ID"
  let ?m = "mgw_message ops (mc_component_id c) 100 ''OFFLOAD_REQUEST'' ?p"
  let ?fields = "[(''component_id'', ?id), (''message_code'', js_of_int ops 100), (''message_type'', js_of_string ops ''OFFLOAD_REQUEST''),
       (''payload'', ?p)]"
  obtain m' where m': "js_set ops ?m ''bridge_component_id'' ?own = js_object ops m'"
    "map_of m' = (map_of ?fields)(''bridge_component_id'' \<mapsto> ?own)"
    unfolding mgw_message_def by (rule json_set_object [OF laws])
  have fields: "js_at ops (js_object ops m') ''payload'' = Found ?p" "js_at ops (js_object ops m') ''component_id'' = Found ?id"
    "js_at ops (js_object ops m') ''bridge_component_id'' = Found ?own"
    by (simp_all add: json_object_at [OF laws] m'(2))
  have nobridge: "\<not> js_contains ops ?m ''bridge_component_id''"
    by (simp add: mgw_message_def json_object_contains [OF laws])
  have reads: "js_contains ops ?p ''request_id''" "js_contains ops ?p ''task_id''" "js_contains ops ?p ''task_name''"
    "js_string ops (js_get ops ?p ''request_id'') = Some r" "js_int ops (js_get ops ?p ''task_id'') = Some k"
    "js_string ops (js_get ops ?p ''task_name'') = Some name"
    by (simp_all add: js_contains_def js_get_def offload_payload_get [OF laws] json_scalars [OF laws])
  have opened: "open_session ops now (mc_component_id c) ?m b = Returned (b\<lparr>br_session_manager := sm\<rparr>)"
    using made reads
    by (simp add: open_session_def mgw_message_contains [OF laws] mgw_message_code [OF laws] mgw_message_payload [OF laws])
  have "handle_offload_request ops True now ?p (c, b) =
      Returned (c, send_om_message True (js_object ops m') (b\<lparr>br_session_manager := sm\<rparr>))"
    using op opened nobridge fields m'(1) reads unfolding handle_offload_request_def forward_from_def forward_message_to_om_def
    by (simp add: Let_def js_value_def json_scalars [OF laws])
  then show thesis using om fields by (intro that) (simp_all add: send_om_message_def)
qed

text \<open>The same, from the message on the wire: the connection of the gateway only gets the acknowledgement.\<close>

lemma bridge_takes_request:
  assumes laws: "json_laws ops" and op: "mc_state c = OPERATIONAL" and om: "br_om_connected b" and i: "mc_component_id c \<noteq> []"
    and made: "create_session now r (mc_component_id c) (of_int k) name (br_global_config b) (br_session_manager b) = Some (new, sm)"
  obtains m where
    "handle_received_message ops lk True now (numbered ops n (mgw_message ops (mc_component_id c) 100 ''OFFLOAD_REQUEST''
       (offload_payload ops r k name vhc))) (c, b)
     = Returned (send_ack ops lk (read_number n) c, b\<lparr>br_session_manager := sm, br_om_sent := br_om_sent b @ [m]\<rparr>)"
    "js_at ops m ''payload'' = Found (offload_payload ops r k name vhc)"
    "js_at ops m ''component_id'' = Found (js_of_string ops (mc_component_id c))"
    "js_at ops m ''bridge_component_id'' = Found (js_of_string ops BRIDGE_COMPONENT_ID)"
proof -
  let ?c = "send_ack ops lk (read_number n) c"
  have c: "mc_state ?c = OPERATIONAL" "mc_component_id ?c = mc_component_id c" using op by (simp_all add: send_ack_def)
  have bind: "bind_component_id (mc_component_id c) (c, b) = (True, c, b)" using i by (simp add: bind_component_id_def)
  show thesis
  proof (rule offload_request_forwarded [OF laws c(1) om, where r = r and now = now and k = k and name = name and vhc = vhc])
    show "create_session now r (mc_component_id ?c) (of_int k) name (br_global_config b) (br_session_manager b) = Some (new, sm)"
      using made c(2) by simp
  next
    fix m
    assume m: "handle_offload_request ops True now (offload_payload ops r k name vhc) (?c, b)
        = Returned (?c, b\<lparr>br_session_manager := sm, br_om_sent := br_om_sent b @ [m]\<rparr>)"
      "js_at ops m ''payload'' = Found (offload_payload ops r k name vhc)" "js_at ops m ''component_id'' = Found (js_of_string ops (mc_component_id ?c))"
      "js_at ops m ''bridge_component_id'' = Found (js_of_string ops BRIDGE_COMPONENT_ID)"
    show thesis
      by (rule that [OF _ m(2) _ m(4)]) (use m(1,3) c(2) in \<open>simp_all add: bridge_takes_message [OF laws _ bind] Let_def\<close>)
  qed
qed

text \<open>C14: a request of a vehicle opens a session at the bridge. The control thread of an operational vehicle gateway takes the next request of its queue, records a session under a
  new id and queues an offload request; the bridge, when it knows the task and the id is free, opens a session of that id for the gateway
  with the message types of its own task database, and passes the request on to the offloading manager with the gateway's id kept and the bridge's id
  added. While the gateway's connection is not operational, the bridge answers with an acknowledgement only.\<close>

theorem vehicle_request_opens_session:
  assumes laws: "json_laws ops"
    and gw: "ct_running gc" "ct_state gc = GW_OPERATIONAL" "ct_component_type gc = ''V''" "ct_operation_mode gc = ''networked''"
    and req: "ct_offloading_request_queue gc = req # reqs" "aget (ct_task_database gc) (or_task_id req) = Some td" "stoi (or_task_id req) = Some k"
    and cp: "ge_room env" "ct_bridge_cp_client gc = Some g" "cp_transport g = Some t" "gwc_is_connected t" "cp_running g"
    and conn: "mc_component_id c = ct_component_id gc" "mc_component_id c \<noteq> []" and om: "br_om_connected b"
    and new: "get_session (br_session_manager b) (show_int (uint (ct_request_id_counter gc))) = None"
    and task: "get_task_config (br_global_config b) (of_int k) = Some (Some task)"
  shows "let r = show_int (uint (ct_request_id_counter gc)); p = offload_payload ops r k (td_task_name td) (or_vhc_data req);
      m = numbered ops (cp_sequence_number g) (cp_message ops (ct_component_id gc) 100 ''OFFLOAD_REQUEST'' p) in
    \<exists>gc' g' t' ss. control_turn ops ro env gc = Returned gc' \<and> ct_bridge_cp_client gc' = Some g' \<and> cp_transport g' = Some t'
    \<and> gwc_outgoing_queue t' = gwc_outgoing_queue t @ [bytes_of_text (js_dump ops m)]
    \<and> aget (ct_active_sessions gc') r = Some ss \<and> ss_task_id ss = or_task_id req
    \<and> (mc_state c = OPERATIONAL \<longrightarrow>
         (\<exists>c' b' s f. handle_received_message ops lk True now m (c, b) = Returned (c', b')
            \<and> get_session (br_session_manager b') r = Some s \<and> se_mgwcp_component_id s = ct_component_id gc
            \<and> se_input_message_types s = tk_input_message_types task \<and> se_output_message_types s = tk_output_message_types task
            \<and> br_om_sent b' = br_om_sent b @ [f] \<and> js_at ops f ''payload'' = Found p
            \<and> js_at ops f ''component_id'' = Found (js_of_string ops (ct_component_id gc))
            \<and> js_at ops f ''bridge_component_id'' = Found (js_of_string ops BRIDGE_COMPONENT_ID)))
    \<and> (mc_state c \<noteq> OPERATIONAL \<longrightarrow>
         handle_received_message ops lk True now m (c, b) = Returned (send_ack ops lk (read_number (cp_sequence_number g)) c, b))"
proof -
  let ?r = "show_int (uint (ct_request_id_counter gc))"
  let ?p = "offload_payload ops ?r k (td_task_name td) (or_vhc_data req)"
  let ?m = "numbered ops (cp_sequence_number g) (mgw_message ops (mc_component_id c) 100 ''OFFLOAD_REQUEST'' ?p)"
  obtain gc' g' t' where sent: "control_turn ops ro env gc = Returned gc'" "ct_bridge_cp_client gc' = Some g'" "cp_transport g' = Some t'"
    "gwc_outgoing_queue t' = gwc_outgoing_queue t @ [bytes_of_text (js_dump ops ?m)]"
    "ct_active_sessions gc' = aput ?r \<lparr>ss_request_id = ?r, ss_task_id = or_task_id req, ss_last_keepalive_sent = ge_now env\<rparr>
       (ct_active_sessions gc)"
    by (rule vehicle_sends_request [OF gw req cp, of ops ro]) (rule that, simp_all add: conn(1))
  obtain sm s where made: "create_session now ?r (mc_component_id c) (of_int k) (td_task_name td) (br_global_config b) (br_session_manager b)
      = Some (True, sm)" "aget sm ?r = Some s" "se_mgwcp_component_id s = mc_component_id c"
    "se_input_message_types s = tk_input_message_types task" "se_output_message_types s = tk_output_message_types task"
    using task new by (simp add: create_session_def get_session_def)
  have opens: "\<exists>c' b' s f. handle_received_message ops lk True now ?m (c, b) = Returned (c', b')
      \<and> get_session (br_session_manager b') ?r = Some s \<and> se_mgwcp_component_id s = ct_component_id gc
      \<and> se_input_message_types s = tk_input_message_types task \<and> se_output_message_types s = tk_output_message_types task
      \<and> br_om_sent b' = br_om_sent b @ [f] \<and> js_at ops f ''payload'' = Found ?p
      \<and> js_at ops f ''component_id'' = Found (js_of_string ops (ct_component_id gc))
      \<and> js_at ops f ''bridge_component_id'' = Found (js_of_string ops BRIDGE_COMPONENT_ID)" if op: "mc_state c = OPERATIONAL"
    by (rule bridge_takes_request [OF laws op om conn(2) made(1), where lk = lk and n = "cp_sequence_number g" and vhc = "or_vhc_data req"])
      (use made(2-5) conn(1) in \<open>simp add: get_session_def\<close>)
  have "bind_component_id (mc_component_id c) (c, b) = (True, c, b)" using conn(2) by (simp add: bind_component_id_def)
  from bridge_takes_message [OF laws _ this, of 100 lk True now "cp_sequence_number g" "''OFFLOAD_REQUEST''" ?p]
  have idle: "handle_received_message ops lk True now ?m (c, b) = Returned (send_ack ops lk (read_number (cp_sequence_number g)) c, b)"
    if "mc_state c \<noteq> OPERATIONAL"
    using that by (simp add: handle_offload_request_def send_ack_def)
  show ?thesis using sent opens idle unfolding Let_def cp_message_same conn(1) by simp
qed

definition requesting_controller :: "(json_tree, string list, u8 list) GatewayController" where
  "requesting_controller = demo_controller\<lparr>ct_bridge_cp_client := Some connecting_client,
     ct_offloading_request_queue := [\<lparr>or_task_id = ''7'', or_vhc_data = []\<rparr>]\<rparr>"

lemma requesting_facts:
  fixes req defines "req \<equiv> \<lparr>or_task_id = ''7'', or_vhc_data = []\<rparr>"
  fixes t defines "t \<equiv> (GwClient_init ''10.0.0.2'' 8000 3)\<lparr>gwc_connected := True, gwc_socket_fd := 6\<rparr>"
  shows "ct_component_id requesting_controller = ''60:5''" "show_int (uint (ct_request_id_counter requesting_controller)) = ''3''"
    "ct_running requesting_controller" "ct_state requesting_controller = GW_OPERATIONAL" "ct_component_type requesting_controller = ''V''"
    "ct_operation_mode requesting_controller = ''networked''" "ct_offloading_request_queue requesting_controller = [req]"
    "aget (ct_task_database requesting_controller) (or_task_id req) = Some demo_task" "stoi (or_task_id req) = Some 7"
    "ge_room demo_env" "ct_bridge_cp_client requesting_controller = Some connecting_client" "cp_transport connecting_client = Some t"
    "gwc_is_connected t" "cp_running connecting_client" "cp_sequence_number connecting_client = 1" "td_task_name demo_task = ''echo''"
    "or_vhc_data req = []"
proof -
  show "ct_component_id requesting_controller = ''60:5''" "show_int (uint (ct_request_id_counter requesting_controller)) = ''3''"
    by (simp_all add: requesting_controller_def demo_tables) (simp_all add: show_int_def text_simps)
  show "stoi (or_task_id req) = Some 7" unfolding req_def by simp code_simp
qed (simp_all add: requesting_controller_def demo_tables connecting_client_def gwc_is_connected_def BridgeCpClient_init_def demo_env_def
        demo_task_def req_def t_def)

theorem vehicle_request_opens_session_witness:
  "\<exists>gc' c' b' s. control_turn tree_ops demo_ros demo_env requesting_controller = Returned gc'
     \<and> handle_received_message tree_ops demo_link True 0 (numbered tree_ops 1 (mgw_message tree_ops ''60:5'' 100 ''OFFLOAD_REQUEST''
          (offload_payload tree_ops ''3'' 7 ''echo'' [])))
          ((MGWCPConnection_init 1 4 ''10.0.0.5'')\<lparr>mc_component_id := ''60:5'', mc_state := OPERATIONAL\<rparr>,
           Bridge_init\<lparr>br_om_connected := True, br_global_config := demo_gc\<rparr>) = Returned (c', b')
     \<and> get_session (br_session_manager b') ''3'' = Some s \<and> se_mgwcp_component_id s = ''60:5'' \<and> se_input_message_types s = [11, 12]"
proof -
  let ?t = "(GwClient_init ''10.0.0.2'' 8000 3)\<lparr>gwc_connected := True, gwc_socket_fd := 6\<rparr>"
  let ?c = "(MGWCPConnection_init 1 4 ''10.0.0.5'' :: json_tree MGWCPConnection)\<lparr>mc_component_id := ''60:5'', mc_state := OPERATIONAL\<rparr>"
  let ?b = "(Bridge_init :: json_tree Bridge)\<lparr>br_om_connected := True, br_global_config := demo_gc\<rparr>"
  let ?gc = requesting_controller
  let ?task = "\<lparr>tk_task_id = 7, tk_task_name = ''t'', tk_input_message_types = [11, 12], tk_output_message_types = [21]\<rparr>"
  have c: "mc_component_id ?c = ct_component_id ?gc" "mc_component_id ?c \<noteq> []" "br_om_connected ?b"
    "get_session (br_session_manager ?b) (show_int (uint (ct_request_id_counter ?gc))) = None"
    "get_task_config (br_global_config ?b) (of_int 7) = Some (Some ?task)" "mc_state ?c = OPERATIONAL"
    by (simp_all add: requesting_facts Bridge_init_def get_session_def get_task_config_def store_task_def GlobalConfig_init_def demo_gc_def)
  from vehicle_request_opens_session [OF tree_laws requesting_facts(3-14) c(1-5), of demo_ros demo_link 0] c(6)
  show ?thesis unfolding Let_def cp_message_same requesting_facts(1,2,15-17) by auto
qed

section \<open>Colliding request ids\<close>

lemma with_connection_connections:
  "aget (br_connections (with_connection i f b)) tid =
     (if aget (br_component_id_to_transport_id b) i = Some tid then map_option f (aget (br_connections b) tid)
      else aget (br_connections b) tid)"
  "br_component_id_to_transport_id (with_connection i f b) = br_component_id_to_transport_id b"
  by (auto simp: with_connection_def split: option.splits)

lemma create_rules_keeps:
  "br_connections (create_routing_rules_for_session r b) = br_connections b"
  "br_component_id_to_transport_id (create_routing_rules_for_session r b) = br_component_id_to_transport_id b"
  by (auto simp: create_routing_rules_for_session_def Let_def split: option.splits parsed_id.splits)

lemma create_rules_session:
  assumes "get_session (br_session_manager b) r = Some s"
  shows "\<exists>s'. get_session (br_session_manager (create_routing_rules_for_session r b)) r = Some s'
     \<and> se_mgwcp_component_id s' = se_mgwcp_component_id s \<and> se_assigned_mec_id s' = se_assigned_mec_id s"
  using assms
  by (auto simp: create_routing_rules_for_session_def Let_def get_session_def set_routing_rules_created_def modify_session_def
      split: option.splits parsed_id.splits)

text \<open>The MEC of a session after an approval: the one the payload assigns, else the one it had.\<close>

definition mec_after_approval :: "'j json_ops \<Rightarrow> 'j \<Rightarrow> ActiveSession \<Rightarrow> string" where
  "mec_after_approval ops p s =
     (if js_contains ops p ''assigned_mec_id''
      then (case js_string ops (js_get ops p ''assigned_mec_id'') of Some mec_id \<Rightarrow> mec_id | None \<Rightarrow> se_assigned_mec_id s)
      else se_assigned_mec_id s)"

text \<open>An approval goes to the gateway recorded in the session, then to the assigned MEC, and to nobody else.\<close>

lemma approval_goes_to_owner:
  assumes s: "get_session (br_session_manager b) r = Some s" and p: "js_at ops m ''payload'' = Found p"
    and r: "js_at ops p ''request_id'' = Found rv" "js_string ops rv = Some r"
  shows "\<exists>s'. get_session (br_session_manager (handle_session_approved ops lk now m b)) r = Some s'
     \<and> se_mgwcp_component_id s' = se_mgwcp_component_id s \<and> se_assigned_mec_id s' = mec_after_approval ops p s
     \<and> (\<forall>tid. aget (br_connections (handle_session_approved ops lk now m b)) tid =
          map_option ((if se_assigned_mec_id s' \<noteq> [] \<and> aget (br_component_id_to_transport_id b) (se_assigned_mec_id s') = Some tid
                       then send_session_approved ops lk now p else id)
            \<circ> (if aget (br_component_id_to_transport_id b) (se_mgwcp_component_id s) = Some tid
               then send_session_approved ops lk now p else id)) (aget (br_connections b) tid))"
proof -
  define b1 where "b1 = (if js_contains ops p ''assigned_mec_id'' then
      (case js_string ops (js_get ops p ''assigned_mec_id'') of
         Some mec_id \<Rightarrow> b\<lparr>br_session_manager := snd (set_assigned_mec r mec_id (br_session_manager b))\<rparr> | None \<Rightarrow> b) else b)"
  have b1: "br_connections b1 = br_connections b" "br_component_id_to_transport_id b1 = br_component_id_to_transport_id b"
    by (simp_all add: b1_def split: option.splits)
  have "\<exists>s1. get_session (br_session_manager b1) r = Some s1 \<and> se_mgwcp_component_id s1 = se_mgwcp_component_id s
      \<and> se_assigned_mec_id s1 = mec_after_approval ops p s"
    using s by (auto simp: b1_def mec_after_approval_def get_session_def set_assigned_mec_def modify_session_def split: option.splits)
  then obtain s1 where s1: "get_session (br_session_manager b1) r = Some s1" "se_mgwcp_component_id s1 = se_mgwcp_component_id s"
      "se_assigned_mec_id s1 = mec_after_approval ops p s"
    by blast
  let ?b2 = "create_routing_rules_for_session r b1"
  obtain s' where s': "get_session (br_session_manager ?b2) r = Some s'" "se_mgwcp_component_id s' = se_mgwcp_component_id s"
      "se_assigned_mec_id s' = mec_after_approval ops p s"
    using create_rules_session [OF s1(1)] s1(2,3) by auto
  let ?send = "send_session_approved ops lk now p"
  have pc: "js_contains ops m ''payload''" "js_get ops m ''payload'' = p" "js_contains ops p ''request_id''" "payload_request_id ops p = Some r"
    using p r by (simp_all add: js_contains_def js_get_def payload_request_id_def)
  have eq: "handle_session_approved ops lk now m b =
      (let b = with_connection (se_mgwcp_component_id s) ?send ?b2
       in if se_assigned_mec_id s' \<noteq> [] then with_connection (se_assigned_mec_id s') ?send b else b)"
    using s' pc unfolding handle_session_approved_def pc(2) Let_def
    by (simp flip: b1_def)
  have "aget (br_connections (handle_session_approved ops lk now m b)) tid =
          map_option ((if se_assigned_mec_id s' \<noteq> [] \<and> aget (br_component_id_to_transport_id b) (se_assigned_mec_id s') = Some tid
                       then ?send else id)
            \<circ> (if aget (br_component_id_to_transport_id b) (se_mgwcp_component_id s) = Some tid
               then ?send else id)) (aget (br_connections b) tid)" for tid
    unfolding eq Let_def
    by (simp add: with_connection_connections create_rules_keeps b1 option.map_comp option.map_id)
  moreover have "get_session (br_session_manager (handle_session_approved ops lk now m b)) r = Some s'"
    using s'(1) unfolding eq by (auto simp: Let_def)
  ultimately show ?thesis using s'(2,3) by blast
qed

text \<open>C18: the requests of two vehicles collide. Every gateway numbers its requests from a counter of its own that starts at 1, while the bridge tells sessions apart by the
  request id alone. When another gateway already holds a session of that id, the bridge acknowledges the request of the second vehicle and passes it on to the
  offloading manager, but opens no session for it. The approval of the manager is then sent over the connection of the first gateway, which the table of sessions still
  names, and over that of the assigned MEC (twice if both are the same connection); every other connection, that of the second vehicle included, gets nothing.\<close>

theorem request_ids_collide:
  assumes laws: "json_laws ops"
    and gw: "ct_running gc" "ct_state gc = GW_OPERATIONAL" "ct_component_type gc = ''V''" "ct_operation_mode gc = ''networked''"
    and req: "ct_offloading_request_queue gc = req # reqs" "aget (ct_task_database gc) (or_task_id req) = Some td" "stoi (or_task_id req) = Some k"
    and cp: "ge_room env" "ct_bridge_cp_client gc = Some g" "cp_transport g = Some t" "gwc_is_connected t" "cp_running g"
    and conn: "mc_component_id c = ct_component_id gc" "mc_component_id c \<noteq> []" "mc_state c = OPERATIONAL" and om: "br_om_connected b"
    and other: "get_session (br_session_manager b) (show_int (uint (ct_request_id_counter gc))) = Some s" "se_mgwcp_component_id s \<noteq> ct_component_id gc"
    and ok: "js_at ops a ''payload'' = Found p" "js_at ops p ''request_id'' = Found rv"
      "js_string ops rv = Some (show_int (uint (ct_request_id_counter gc)))"
  shows "let r = show_int (uint (ct_request_id_counter gc)); q = offload_payload ops r k (td_task_name td) (or_vhc_data req);
      m = numbered ops (cp_sequence_number g) (cp_message ops (ct_component_id gc) 100 ''OFFLOAD_REQUEST'' q) in
    \<exists>gc' g' t' b1 f s'. control_turn ops ro env gc = Returned gc' \<and> ct_bridge_cp_client gc' = Some g' \<and> cp_transport g' = Some t'
    \<and> gwc_outgoing_queue t' = gwc_outgoing_queue t @ [bytes_of_text (js_dump ops m)]
    \<and> handle_received_message ops lk True now m (c, b) = Returned (send_ack ops lk (read_number (cp_sequence_number g)) c, b1)
    \<and> br_session_manager b1 = br_session_manager b \<and> br_om_sent b1 = br_om_sent b @ [f] \<and> js_at ops f ''payload'' = Found q
    \<and> get_session (br_session_manager (handle_session_approved ops lk now' a b1)) r = Some s'
    \<and> se_mgwcp_component_id s' = se_mgwcp_component_id s \<and> se_assigned_mec_id s' = mec_after_approval ops p s
    \<and> (\<forall>tid. aget (br_component_id_to_transport_id b) (se_mgwcp_component_id s) \<noteq> Some tid
          \<and> aget (br_component_id_to_transport_id b) (se_assigned_mec_id s') \<noteq> Some tid \<longrightarrow>
          aget (br_connections (handle_session_approved ops lk now' a b1)) tid = aget (br_connections b) tid)
    \<and> (\<forall>tid. aget (br_connections (handle_session_approved ops lk now' a b1)) tid =
          map_option ((if se_assigned_mec_id s' \<noteq> [] \<and> aget (br_component_id_to_transport_id b) (se_assigned_mec_id s') = Some tid
                       then send_session_approved ops lk now' p else id)
            \<circ> (if aget (br_component_id_to_transport_id b) (se_mgwcp_component_id s) = Some tid
               then send_session_approved ops lk now' p else id)) (aget (br_connections b) tid))"
proof -
  let ?r = "show_int (uint (ct_request_id_counter gc))"
  let ?q = "offload_payload ops ?r k (td_task_name td) (or_vhc_data req)"
  let ?m = "numbered ops (cp_sequence_number g) (mgw_message ops (mc_component_id c) 100 ''OFFLOAD_REQUEST'' ?q)"
  obtain gc' g' t' where sent: "control_turn ops ro env gc = Returned gc'" "ct_bridge_cp_client gc' = Some g'" "cp_transport g' = Some t'"
    "gwc_outgoing_queue t' = gwc_outgoing_queue t @ [bytes_of_text (js_dump ops ?m)]"
    by (rule vehicle_sends_request [OF gw req cp, of ops ro]) (rule that, simp_all add: conn(1))
  have kept: "create_session now ?r (mc_component_id c) (of_int k) (td_task_name td) (br_global_config b) (br_session_manager b)
      = Some (False, br_session_manager b)"
    using other(1) by (simp add: create_session_def get_session_def)
  obtain f where f: "handle_received_message ops lk True now ?m (c, b) = Returned (send_ack ops lk (read_number (cp_sequence_number g)) c,
      b\<lparr>br_session_manager := br_session_manager b, br_om_sent := br_om_sent b @ [f]\<rparr>)" "js_at ops f ''payload'' = Found ?q"
    using bridge_takes_request [OF laws conn(3) om conn(2) kept, where lk = lk and n = "cp_sequence_number g" and vhc = "or_vhc_data req"] .
  let ?b = "b\<lparr>br_om_sent := br_om_sent b @ [f]\<rparr>"
  have "get_session (br_session_manager ?b) ?r = Some s" using other(1) by simp
  then obtain s' where s': "get_session (br_session_manager (handle_session_approved ops lk now' a ?b)) ?r = Some s'"
    "se_mgwcp_component_id s' = se_mgwcp_component_id s" "se_assigned_mec_id s' = mec_after_approval ops p s"
    "\<forall>tid. aget (br_connections (handle_session_approved ops lk now' a ?b)) tid =
          map_option ((if se_assigned_mec_id s' \<noteq> [] \<and> aget (br_component_id_to_transport_id b) (se_assigned_mec_id s') = Some tid
                       then send_session_approved ops lk now' p else id)
            \<circ> (if aget (br_component_id_to_transport_id b) (se_mgwcp_component_id s) = Some tid
               then send_session_approved ops lk now' p else id)) (aget (br_connections b) tid)"
    using approval_goes_to_owner [OF _ ok, of ?b s lk now'] by auto
  have others: "aget (br_connections (handle_session_approved ops lk now' a ?b)) tid = aget (br_connections b) tid"
    if "aget (br_component_id_to_transport_id b) (se_mgwcp_component_id s) \<noteq> Some tid"
      "aget (br_component_id_to_transport_id b) (se_assigned_mec_id s') \<noteq> Some tid" for tid
    using s'(4) that by (simp add: option.map_id)
  have rcv: "handle_received_message ops lk True now ?m (c, b) = Returned (send_ack ops lk (read_number (cp_sequence_number g)) c, ?b)"
    using f(1) by simp
  show ?thesis
    unfolding Let_def cp_message_same conn(1) [symmetric]
    by (rule exI [of _ gc'], rule exI [of _ g'], rule exI [of _ t'], rule exI [of _ ?b], rule exI [of _ f], rule exI [of _ s'])
      (use sent rcv f(2) s' others in \<open>intro conjI; simp\<close>)
qed

definition colliding_bridge :: "json_tree Bridge" where
  "colliding_bridge = Bridge_init\<lparr>br_om_connected := True, br_session_manager := [(''3'', demo_session_of ''60:6'')],
     br_component_id_to_transport_id := [(''60:6'', 3), (''60:5'', 4)],
     br_connections := [(3, (MGWCPConnection_init 2 3 ''10.0.0.6'')\<lparr>mc_component_id := ''60:6'', mc_state := OPERATIONAL\<rparr>),
       (4, (MGWCPConnection_init 1 4 ''10.0.0.5'')\<lparr>mc_component_id := ''60:5'', mc_state := OPERATIONAL\<rparr>)]\<rparr>"

theorem request_ids_collide_witness:
  "let c = (MGWCPConnection_init 1 4 ''10.0.0.5'')\<lparr>mc_component_id := ''60:5'', mc_state := OPERATIONAL\<rparr>;
       c6 = (MGWCPConnection_init 2 3 ''10.0.0.6'')\<lparr>mc_component_id := ''60:6'', mc_state := OPERATIONAL\<rparr>;
       p = JObject [(''request_id'', JString ''3'')]
   in \<exists>b1. handle_received_message tree_ops demo_link True 0 (numbered tree_ops 1 (mgw_message tree_ops ''60:5'' 100 ''OFFLOAD_REQUEST''
          (offload_payload tree_ops ''3'' 7 ''echo'' []))) (c, colliding_bridge) = Returned (send_ack tree_ops demo_link 1 c, b1)
     \<and> br_session_manager b1 = [(''3'', demo_session_of ''60:6'')]
     \<and> aget (br_connections (handle_session_approved tree_ops demo_link 0 (JObject [(''payload'', p)]) b1)) 3
         = Some (send_session_approved tree_ops demo_link 0 p c6)
     \<and> aget (br_connections (handle_session_approved tree_ops demo_link 0 (JObject [(''payload'', p)]) b1)) 4 = Some c"
proof -
  let ?t = "(GwClient_init ''10.0.0.2'' 8000 3)\<lparr>gwc_connected := True, gwc_socket_fd := 6\<rparr>"
  let ?c = "(MGWCPConnection_init 1 4 ''10.0.0.5'' :: json_tree MGWCPConnection)\<lparr>mc_component_id := ''60:5'', mc_state := OPERATIONAL\<rparr>"
  let ?c6 = "(MGWCPConnection_init 2 3 ''10.0.0.6'' :: json_tree MGWCPConnection)\<lparr>mc_component_id := ''60:6'', mc_state := OPERATIONAL\<rparr>"
  let ?b = colliding_bridge
  let ?gc = requesting_controller and ?ok = "JObject [(''payload'', JObject [(''request_id'', JString ''3'')])]"
  have c: "mc_component_id ?c = ct_component_id ?gc" "mc_component_id ?c \<noteq> []" "mc_state ?c = OPERATIONAL" "br_om_connected ?b"
    "get_session (br_session_manager ?b) (show_int (uint (ct_request_id_counter ?gc))) = Some (demo_session_of ''60:6'')"
    "se_mgwcp_component_id (demo_session_of ''60:6'') \<noteq> ct_component_id ?gc"
    "js_at tree_ops ?ok ''payload'' = Found (JObject [(''request_id'', JString ''3'')])"
    "js_at tree_ops (JObject [(''request_id'', JString ''3'')]) ''request_id'' = Found (JString ''3'')"
    "js_string tree_ops (JString ''3'') = Some (show_int (uint (ct_request_id_counter ?gc)))"
    by (simp_all add: requesting_facts get_session_def demo_session_of_def tree_ops_def colliding_bridge_def)
  have one: "read_number 1 = 1" by (simp add: read_number_exact)
  have mec: "mec_after_approval tree_ops (JObject [(''request_id'', JString ''3'')]) (demo_session_of ''60:6'') \<notin> {''60:5'', ''60:6''}"
    by (simp add: mec_after_approval_def js_contains_def tree_ops_def demo_session_of_def)
  have tables: "br_session_manager ?b = [(''3'', demo_session_of ''60:6'')]" "se_mgwcp_component_id (demo_session_of ''60:6'') = ''60:6''"
    "aget (br_component_id_to_transport_id ?b) ''60:6'' = Some 3" "aget (br_connections ?b) 3 = Some ?c6" "aget (br_connections ?b) 4 = Some ?c"
    "\<And>i. i \<notin> {''60:5'', ''60:6''} \<Longrightarrow> aget (br_component_id_to_transport_id ?b) i = None"
    by (simp_all add: colliding_bridge_def demo_session_of_def)
  from request_ids_collide [OF tree_laws requesting_facts(3-14) c, of demo_ros demo_link 0 0]
  show ?thesis
    unfolding Let_def cp_message_same requesting_facts(1,2,15-17) one tables(1,2)
    using tables(3-5) tables(6) [OF mec] by (elim exE conjE) (rule exI, auto)
qed

end
