(* ===== verification/Reliable_Delivery.thy ===== *)
theory Reliable_Delivery
  imports Control_Exchange Data_Plane
begin

text \<open>
  What the acknowledgements and retransmissions between a gateway and the bridge guarantee, and what they do not: a control message reaches the
  bridge at least once; a request that the bridge handles again is passed on again, and an approval that it handles again multiplies the
  data of the session, while an approval that a gateway handles again changes nothing as long as the session lives.
\<close>

section \<open>At least once\<close>

text \<open>C15: a control message survives losses. However often a message of a gateway or its acknowledgement is lost, every check after the timeout queues
  the same text again and the message stays pending; whenever the bridge handles a copy, on whatever branch, it acknowledges it, and the
  acknowledgement, received at any later time, leaves nothing pending.\<close>

theorem message_survives_losses:
  assumes laws: "json_laws ops" and gw: "cp_transport g = Some t" "gwc_is_connected t" "cp_running g" "cp_pending_acks g = []"
    and n: "uint (cp_sequence_number g) < 2 ^ 31" and id: "is_valid_component_id i" and code: "code \<in> {100, 101, 102, 103}"
    and ts: "checks_spaced sent ts"
    and g': "fold (cp_check_for_timeouts ops (\<lambda>_. True)) ts (cp_send_reliable_message ops True sent (cp_message ops i code ty p) g) = g'"
  shows "let m = numbered ops (cp_sequence_number g) (cp_message ops i code ty p); ack = cp_ack_message ops (uint (cp_sequence_number g)) i in
    (\<exists>t' late. cp_transport g' = Some t' \<and> cp_pending_acks g' = [(cp_sequence_number g, \<lparr>cpa_message = m, cpa_time_sent = late\<rparr>)]
       \<and> gwc_outgoing_queue t' = gwc_outgoing_queue t @ replicate (Suc (length ts)) (bytes_of_text (js_dump ops m)))
    \<and> (\<forall>lk ok now c b c' b'. lk_connected lk (mc_transport_client_id c) \<and> lk_send_ok lk (mc_transport_client_id c)
         \<and> (mc_component_id c = [] \<or> mc_component_id c = i)
         \<and> outcome_state (handle_received_message ops lk ok now m (c, b)) = Some (c', b') \<longrightarrow>
         (\<exists>rest. mc_sent c' = mc_sent c @ js_dump ops ack # rest))
    \<and> (\<forall>room. cp_handle_received_message ops room ack g' = Returned (g'\<lparr>cp_pending_acks := []\<rparr>, NoEvent))"
proof -
  let ?n = "cp_sequence_number g"
  let ?m = "numbered ops ?n (mgw_message ops i code ty p)"
  let ?pa = "\<lparr>cpa_message = ?m, cpa_time_sent = sent\<rparr>"
  let ?t = "t\<lparr>gwc_outgoing_queue := gwc_outgoing_queue t @ [bytes_of_text (js_dump ops ?m)]\<rparr>"
  define g1 where "g1 = cp_send_reliable_message ops True sent (cp_message ops i code ty p) g"
  have g1: "cp_transport g1 = Some ?t" "cp_pending_acks g1 = [(?n, ?pa)]"
    by (simp_all add: g1_def gateway_sends [OF gw(1-3)] cp_message_same gw(4))
  have up: "gwc_is_connected ?t" using gw(2) by (simp add: gwc_is_connected_def)
  have "checks_spaced (cpa_time_sent ?pa) ts" using ts by simp
  from gateway_retries_for_ever [OF g1(1) up g1(2) this, of ops] obtain t' where
    t': "g' = g1\<lparr>cp_transport := Some t', cp_pending_acks := [(?n, ?pa\<lparr>cpa_time_sent := last (cpa_time_sent ?pa # ts)\<rparr>)]\<rparr>"
    "gwc_outgoing_queue t' = gwc_outgoing_queue ?t @ replicate (length ts) (bytes_of_text (js_dump ops ?m))"
    using g' unfolding g1_def by auto
  have exact: "read_number ?n = ?n" using n by (simp add: read_number_exact)
  have small: "to_int32 (uint ?n) = uint ?n"
    using n by (intro to_int32_id) (use uint_ge_0 [of ?n] in linarith)+
  have "cp_handle_received_message ops room (cp_ack_message ops (uint ?n) i) g' = Returned (g'\<lparr>cp_pending_acks := []\<rparr>, NoEvent)" for room
    unfolding gateway_takes_ack [OF laws] by (simp add: small t'(1))
  moreover have "\<exists>t' late. cp_transport g' = Some t' \<and> cp_pending_acks g' = [(?n, \<lparr>cpa_message = ?m, cpa_time_sent = late\<rparr>)]
       \<and> gwc_outgoing_queue t' = gwc_outgoing_queue t @ replicate (Suc (length ts)) (bytes_of_text (js_dump ops ?m))"
    using t' by simp
  ultimately show ?thesis
    using handled_is_acknowledged [OF laws _ _ id(1) _ code, where n = ?n and ty = ty and p = p] exact
    unfolding Let_def cp_message_same by metis
qed

theorem message_survives_losses_witness:
  "\<exists>g' t'. fold (cp_check_for_timeouts tree_ops (\<lambda>_. True)) [6000, 12000]
       (cp_send_reliable_message tree_ops True 0 (cp_message tree_ops ''60:5'' 101 ''SESSION_KEEPALIVE'' JNull) connecting_client) = g'
     \<and> cp_transport g' = Some t' \<and> length (gwc_outgoing_queue t') = 3
     \<and> cp_handle_received_message tree_ops True (cp_ack_message tree_ops 1 ''60:5'') g' = Returned (g'\<lparr>cp_pending_acks := []\<rparr>, NoEvent)"
proof -
  let ?t = "(GwClient_init ''10.0.0.2'' 8000 3)\<lparr>gwc_connected := True, gwc_socket_fd := 6\<rparr>"
  have gw: "cp_transport connecting_client = Some ?t" "gwc_is_connected ?t" "cp_running connecting_client" "cp_pending_acks connecting_client = []"
    "cp_sequence_number connecting_client = 1" "uint (cp_sequence_number connecting_client) < 2 ^ 31" "gwc_outgoing_queue ?t = []"
    by (simp_all add: connecting_client_def gwc_is_connected_def BridgeCpClient_init_def GwClient_init_def)
  have "(101 :: int) \<in> {100, 101, 102, 103}" "checks_spaced 0 [6000, 12000]" by (simp_all add: CP_ACK_TIMEOUT_def)
  from message_survives_losses [OF tree_laws gw(1-4,6) demo_ids(1) this refl, of "''SESSION_KEEPALIVE''" JNull]
  show ?thesis unfolding Let_def gw(5,7) by auto
qed

section \<open>More than once\<close>

text \<open>C37: a request that is sent again is handled again. When the acknowledgement of an offload request is late, the gateway queues the same text again; the
  bridge, which does not look at sequence numbers, leaves the session alone the second time but passes the request on to the offloading manager once
  more.\<close>

theorem retransmission_forwarded_twice:
  assumes laws: "json_laws ops" and op: "mc_state c = OPERATIONAL" "mc_component_id c \<noteq> []" and om: "br_om_connected b"
    and new: "get_session (br_session_manager b) r = None" and task: "get_task_config (br_global_config b) (of_int k) = Some (Some task)"
    and gw: "cp_transport g = Some t" "gwc_is_connected t" "cp_pending_acks g = [(n, pa)]" "late - cpa_time_sent pa > CP_ACK_TIMEOUT"
      "cpa_message pa = numbered ops n (mgw_message ops (mc_component_id c) 100 ''OFFLOAD_REQUEST'' (offload_payload ops r k name vhc))"
  shows "\<exists>t' c1 b1 c2 b2 f f'.
      cp_transport (cp_check_for_timeouts ops (\<lambda>_. True) late g) = Some t'
    \<and> gwc_outgoing_queue t' = gwc_outgoing_queue t @ [bytes_of_text (js_dump ops (cpa_message pa))]
    \<and> handle_received_message ops lk True now (cpa_message pa) (c, b) = Returned (c1, b1)
    \<and> handle_received_message ops lk True now' (cpa_message pa) (c1, b1) = Returned (c2, b2)
    \<and> get_session (br_session_manager b1) r \<noteq> None \<and> br_session_manager b2 = br_session_manager b1
    \<and> br_om_sent b2 = br_om_sent b @ [f, f']
    \<and> js_at ops f ''payload'' = Found (offload_payload ops r k name vhc) \<and> js_at ops f' ''payload'' = Found (offload_payload ops r k name vhc)"
proof -
  obtain sm s where made: "create_session now r (mc_component_id c) (of_int k) name (br_global_config b) (br_session_manager b) = Some (True, sm)"
    "aget sm r = Some s"
    using task new by (simp add: create_session_def get_session_def)
  let ?m = "numbered ops n (mgw_message ops (mc_component_id c) 100 ''OFFLOAD_REQUEST'' (offload_payload ops r k name vhc))"
  let ?c = "send_ack ops lk (read_number n) c"
  obtain f where f: "handle_received_message ops lk True now ?m (c, b) = Returned (?c, b\<lparr>br_session_manager := sm, br_om_sent := br_om_sent b @ [f]\<rparr>)"
    "js_at ops f ''payload'' = Found (offload_payload ops r k name vhc)"
    using bridge_takes_request [OF laws op(1) om op(2) made(1), where lk = lk and n = n and vhc = vhc] .
  let ?b = "b\<lparr>br_session_manager := sm, br_om_sent := br_om_sent b @ [f]\<rparr>"
  have again: "mc_state ?c = OPERATIONAL" "mc_component_id ?c = mc_component_id c" "br_om_connected ?b"
    using op om by (simp_all add: send_ack_def)
  have "create_session now' r (mc_component_id ?c) (of_int k) name (br_global_config ?b) (br_session_manager ?b) = Some (False, sm)"
    using made(2) by (simp add: create_session_def)
  from bridge_takes_request [OF laws again(1,3) _ this, where lk = lk and n = n and vhc = vhc] op(2) again(2)
  obtain f' where f': "handle_received_message ops lk True now' ?m (?c, ?b) = Returned (send_ack ops lk (read_number n) ?c,
      ?b\<lparr>br_session_manager := sm, br_om_sent := br_om_sent ?b @ [f']\<rparr>)" "js_at ops f' ''payload'' = Found (offload_payload ops r k name vhc)"
    by auto
  show ?thesis
    using resend_single [OF gw(1-4), of ops] f f' made(2) unfolding gw(5) by (simp add: get_session_def)
qed

theorem retransmission_forwarded_twice_witness:
  "\<exists>c1 b1 c2 b2 f f'. handle_received_message tree_ops demo_link True 0 (numbered tree_ops 1 (mgw_message tree_ops ''60:5'' 100 ''OFFLOAD_REQUEST''
          (offload_payload tree_ops ''3'' 7 ''echo'' [])))
          ((MGWCPConnection_init 1 4 ''10.0.0.5'')\<lparr>mc_component_id := ''60:5'', mc_state := OPERATIONAL\<rparr>,
           Bridge_init\<lparr>br_om_connected := True, br_global_config := demo_gc\<rparr>) = Returned (c1, b1)
     \<and> handle_received_message tree_ops demo_link True 9000 (numbered tree_ops 1 (mgw_message tree_ops ''60:5'' 100 ''OFFLOAD_REQUEST''
          (offload_payload tree_ops ''3'' 7 ''echo'' []))) (c1, b1) = Returned (c2, b2)
     \<and> br_om_sent b2 = [f, f'] \<and> br_session_manager b2 = br_session_manager b1"
proof -
  let ?t = "(GwClient_init ''10.0.0.2'' 8000 3)\<lparr>gwc_connected := True, gwc_socket_fd := 6\<rparr>"
  let ?c = "(MGWCPConnection_init 1 4 ''10.0.0.5'' :: json_tree MGWCPConnection)\<lparr>mc_component_id := ''60:5'', mc_state := OPERATIONAL\<rparr>"
  let ?b = "(Bridge_init :: json_tree Bridge)\<lparr>br_om_connected := True, br_global_config := demo_gc\<rparr>"
  let ?task = "\<lparr>tk_task_id = 7, tk_task_name = ''t'', tk_input_message_types = [11, 12], tk_output_message_types = [21]\<rparr>"
  let ?pa = "\<lparr>cpa_message = numbered tree_ops 1 (mgw_message tree_ops (mc_component_id ?c) 100 ''OFFLOAD_REQUEST''
      (offload_payload tree_ops ''3'' 7 ''echo'' [])), cpa_time_sent = 0\<rparr>"
  let ?g = "connecting_client\<lparr>cp_pending_acks := [(1, ?pa)]\<rparr>"
  have c: "mc_state ?c = OPERATIONAL" "mc_component_id ?c \<noteq> []" "br_om_connected ?b" "get_session (br_session_manager ?b) ''3'' = None"
    "get_task_config (br_global_config ?b) (of_int 7) = Some (Some ?task)"
    by (simp_all add: Bridge_init_def get_session_def get_task_config_def store_task_def GlobalConfig_init_def demo_gc_def)
  have g: "cp_transport ?g = Some ?t" "gwc_is_connected ?t" "cp_pending_acks ?g = [(1, ?pa)]" "9000 - cpa_time_sent ?pa > CP_ACK_TIMEOUT"
    "br_om_sent ?b = []"
    by (simp_all add: connecting_client_def gwc_is_connected_def BridgeCpClient_init_def CP_ACK_TIMEOUT_def Bridge_init_def)
  from retransmission_forwarded_twice [OF tree_laws c g(1-4), of "''echo''" "[]" demo_link 0 9000]
  show ?thesis unfolding g(5) by auto
qed

section \<open>Activating what is active\<close>

lemma configure_again: "configure_handler_mode m (configure_handler_mode m' h) = configure_handler_mode m h"
  by (cases m; cases m') (simp_all add: configure_handler_mode_def)

lemma configured_in_mode: "in_mode m h \<Longrightarrow> configure_handler_mode m h = h"
  by (cases m) (auto simp: in_mode_def configure_handler_mode_def)

definition registered_at :: "MessageType list \<Rightarrow> ('n, 'm) RosGateway \<Rightarrow> nat \<Rightarrow> bool" where
  "registered_at mts rg p \<longleftrightarrow> (\<exists>k. handler_type k \<in> set mts \<and> aget (rg_handlers rg) (handler_name k) = Some p)"

lemma activate_registered:
  assumes "dp_inv ro (inst, rg)" "\<And>k. handler_type k \<in> set mts \<Longrightarrow> aget (rg_handlers rg) (handler_name k) \<noteq> None"
  shows "\<exists>objs. activate ro mode mts (inst, rg) = Returned (inst, rg\<lparr>rg_objects := objs\<rparr>) \<and> length objs = length (rg_objects rg)
     \<and> (\<forall>p < length objs. objs ! p =
          (if registered_at mts rg p then configure_handler_mode mode (rg_objects rg ! p) else rg_objects rg ! p))"
  using assms
proof (induction mts arbitrary: rg)
  case Nil
  then show ?case by (auto simp: registered_at_def intro!: exI [of _ "rg_objects rg"])
next
  case (Cons t mts)
  note inv = Cons.prems(1)
  show ?case
  proof (cases "mt_creator t")
    case None
    then have nt: "handler_type k \<noteq> t" for k using mt_creator_iff [of t k] by auto
    have typed: "instances_typed inst (rg_objects rg)" using inv by (simp add: dp_inv_def handlers_typed_def)
    have "aget inst t = None" using instances_typed_get [OF typed, of t] nt by (cases "aget inst t") auto
    then have "activate ro mode (t # mts) (inst, rg) = activate ro mode mts (inst, rg)"
      using None by (simp add: get_or_create_def)
    moreover have "registered_at (t # mts) rg = registered_at mts rg" using nt by (auto simp: registered_at_def)
    ultimately show ?thesis using Cons.IH [OF inv] Cons.prems(2) by simp
  next
    case (Some k)
    then have t: "t = handler_type k" by (simp add: mt_creator_iff)
    with Cons.prems(2) obtain p where p: "aget (rg_handlers rg) (handler_name k) = Some p" by fastforce
    have q: "aget inst t = Some p" using inv p t by (auto simp: dp_inv_def registered_cached_def)
    have len: "p < length (rg_objects rg)" "mh_kind (rg_objects rg ! p) = k"
      using inv objects_typed_get [OF _ p] by (auto simp: dp_inv_def handlers_typed_def handler_name_inject)
    let ?c = "configure_object mode p rg"
    have hs: "rg_handlers ?c = rg_handlers rg" by (simp add: configure_object_def)
    have "register_handler ro p ?c = Returned (False, ?c)"
      using p configure_object_kind(1) [OF len(1), of mode] len(2) hs by (simp add: register_handler_def Let_def)
    then have step: "activate ro mode (t # mts) (inst, rg) = activate ro mode mts (inst, ?c)"
      using q by (simp add: get_or_create_def)
    have "handler_type l \<in> set mts \<Longrightarrow> aget (rg_handlers ?c) (handler_name l) \<noteq> None" for l using Cons.prems(2) [of l] by (simp add: hs)
    from Cons.IH [OF configure_object_inv [OF inv len(1)] this] obtain objs where
      objs: "activate ro mode mts (inst, ?c) = Returned (inst, ?c\<lparr>rg_objects := objs\<rparr>)" "length objs = length (rg_objects ?c)"
      "\<forall>r < length objs. objs ! r =
         (if registered_at mts ?c r then configure_handler_mode mode (rg_objects ?c ! r) else rg_objects ?c ! r)"
      by blast
    have eq: "?c\<lparr>rg_objects := objs\<rparr> = rg\<lparr>rg_objects := objs\<rparr>" by (simp add: configure_object_def)
    have reg: "registered_at (t # mts) rg r \<longleftrightarrow> r = p \<or> registered_at mts ?c r" for r
      using p t by (auto simp: registered_at_def hs handler_type_inject)
    have "objs ! r = (if registered_at (t # mts) rg r then configure_handler_mode mode (rg_objects rg ! r) else rg_objects rg ! r)"
      if "r < length objs" for r
      using objs(2,3) that len(1) unfolding reg by (auto simp: configure_object_def configure_again nth_list_update)
    then show ?thesis using objs(1,2) step eq by (auto simp: configure_object_kind(2))
  qed
qed

text \<open>A task that has been activated is not changed by being activated again.\<close>

lemma activate_task_again:
  assumes inv: "dp_inv ro s" and a: "activate_task ro ctype td s = Returned (inst, rg)" and plain: "td_required_handlers td = []"
    and ne: "td_input_types td \<noteq> [] \<or> td_output_types td \<noteq> []"
  shows "activate_task ro ctype td (inst, rg) = Returned (inst, rg)"
proof -
  let ?i = "td_input_types td" and ?o = "td_output_types td"
  note res = activate_task_result [OF inv a ne]
  have inv': "dp_inv ro (inst, rg)" by (rule activate_task_inv [OF inv plain a])
  have reg: "handler_type k \<in> set ?i \<union> set ?o \<Longrightarrow> aget (rg_handlers rg) (handler_name k) \<noteq> None" for k
    using res by (force simp: active_def)
  obtain o1 where o1: "activate ro (input_mode ctype) ?i (inst, rg) = Returned (inst, rg\<lparr>rg_objects := o1\<rparr>)" "length o1 = length (rg_objects rg)"
    "\<forall>p < length o1. o1 ! p = (if registered_at ?i rg p then configure_handler_mode (input_mode ctype) (rg_objects rg ! p) else rg_objects rg ! p)"
    using activate_registered [OF inv', of ?i "input_mode ctype"] reg by auto
  let ?rg1 = "rg\<lparr>rg_objects := o1\<rparr>"
  have inv1: "dp_inv ro (inst, ?rg1)" by (rule activate_inv [OF inv' o1(1)])
  have rg1: "registered_at ?o ?rg1 = registered_at ?o rg" "rg_objects ?rg1 = o1" "\<And>x. ?rg1\<lparr>rg_objects := x\<rparr> = rg\<lparr>rg_objects := x\<rparr>"
    by (simp_all add: registered_at_def fun_eq_iff)
  obtain o2 where o2: "activate ro (output_mode ctype) ?o (inst, rg\<lparr>rg_objects := o1\<rparr>) = Returned (inst, rg\<lparr>rg_objects := o2\<rparr>)" "length o2 = length o1"
    "\<forall>p < length o2. o2 ! p = (if registered_at ?o rg p then configure_handler_mode (output_mode ctype) (o1 ! p) else o1 ! p)"
    by (rule exE [OF activate_registered [OF inv1, of ?o "output_mode ctype", unfolded rg1]]) (use reg in \<open>auto intro: that\<close>)
  have "o2 ! p = rg_objects rg ! p" if "p < length o2" for p
  proof (cases "registered_at ?o rg p")
    case True
    then have "in_mode (output_mode ctype) (rg_objects rg ! p)" using res by (auto simp: registered_at_def active_def)
    then show ?thesis using True that o1(2,3) o2(2,3) by (auto simp: configure_again configured_in_mode)
  next
    case False
    have "in_mode (input_mode ctype) (rg_objects rg ! p)" if "registered_at ?i rg p"
      using that False res by (fastforce simp: registered_at_def active_def)
    then show ?thesis using False that o1(2,3) o2(2,3) by (auto simp: configured_in_mode)
  qed
  then have "o2 = rg_objects rg" using o1(2) o2(2) by (simp add: nth_equalityI)
  then show ?thesis using o1(1) o2(1) ne by (simp add: activate_task_def)
qed

text \<open>C16: an approval that is delivered twice. While the session lives, the second copy changes nothing but the time of the last keepalive: the
  handlers are neither created nor registered again and keep their modes. A copy that comes after the end of the session finds the session gone,
  activates the task by the id in the message and throws, which ends the gateway.\<close>

theorem repeated_approval:
  assumes inv: "gateway_inv ro c" and once: "declare_once ro"
    and first: "aget (ct_active_sessions c) r = Some s" "aget (ct_task_database c) (ss_task_id s) = Some td"
      "js_contains ops payload ''request_id''" "js_string ops (js_get ops payload ''request_id'') = Some r"
      "on_session_approved ops ro now payload c = Returned c1"
    and types: "handler_type k \<in> set (td_input_types td) \<union> set (td_output_types td)"
  shows "on_session_approved ops ro later payload c1 =
       Returned (c1\<lparr>ct_active_sessions := aput r (s\<lparr>ss_last_keepalive_sent := later\<rparr>) (ct_active_sessions c1)\<rparr>)
     \<and> (js_contains ops payload ''task_id'' \<and> js_string ops (js_get ops payload ''task_id'') = Some (ss_task_id s) \<longrightarrow>
          (\<exists>c2. on_session_approved ops ro later payload (handle_session_teardown r c1) = Thrown c2))"
proof (intro conjI impI)
  let ?dp = "(ct_instances c, ct_gateway c)"
  obtain inst rg where a: "activate_task ro (ct_component_type c) td ?dp = Returned (inst, rg)"
    and c1: "c1 = set_data_plane (inst, rg) (c\<lparr>ct_active_sessions := aput r (s\<lparr>ss_last_keepalive_sent := now\<rparr>) (ct_active_sessions c)\<rparr>)"
    using first by (auto simp: on_session_approved_def approve_task_def split: outcome.splits)
  have ne: "td_input_types td \<noteq> [] \<or> td_output_types td \<noteq> []" using types by auto
  have dp: "dp_inv ro ?dp" "td_required_handlers td = []"
    using inv gw_inv_task [OF inv first(2)] by (auto simp: gateway_inv_def)
  from activate_task_again [OF dp(1) a dp(2) ne]
  show "on_session_approved ops ro later payload c1 =
       Returned (c1\<lparr>ct_active_sessions := aput r (s\<lparr>ss_last_keepalive_sent := later\<rparr>) (ct_active_sessions c1)\<rparr>)"
    using first c1 by (simp add: on_session_approved_def approve_task_def set_data_plane_def)
next
  assume "js_contains ops payload ''task_id'' \<and> js_string ops (js_get ops payload ''task_id'') = Some (ss_task_id s)"
  then show "\<exists>c2. on_session_approved ops ro later payload (handle_session_teardown r c1) = Thrown c2"
    using approved_then_ended [OF inv once first types refl] first(3,4)
    by (auto simp: on_session_approved_def approve_task_def)
qed

theorem repeated_approval_witness:
  "\<exists>c1. on_session_approved tree_ops demo_ros 9 (approval ''1'') demo_controller = Returned c1
     \<and> (\<exists>c2. on_session_approved tree_ops demo_ros 12 (approval ''1'') c1 = Returned c2 \<and> ct_gateway c2 = ct_gateway c1)
     \<and> (\<exists>c2. on_session_approved tree_ops demo_ros 12 (approval ''1'') (handle_session_teardown ''1'' c1) = Thrown c2)"
proof -
  obtain c1 where c1: "on_session_approved tree_ops demo_ros 9 (approval ''1'') demo_controller = Returned c1"
    using first_approval by blast
  have td: "aget (ct_task_database demo_controller) (ss_task_id (gateway_session ''1'')) = Some demo_task"
    by (simp add: gateway_session_def demo_tables)
  have k: "handler_type StringTestInputHandler \<in> set (td_input_types demo_task) \<union> set (td_output_types demo_task)"
    by (simp add: demo_task_def)
  have "js_contains tree_ops (approval ''1'') ''task_id''"
    "js_string tree_ops (js_get tree_ops (approval ''1'') ''task_id'') = Some (ss_task_id (gateway_session ''1''))"
    by (simp_all add: approval_def js_contains_def js_get_def tree_ops_def gateway_session_def)
  with repeated_approval [OF demo_inv demo_ros_laws(1) demo_tables(1) td approval_fields c1 k, of 12] c1 show ?thesis by simp
qed

section \<open>Approving again at the bridge\<close>

text \<open>What one approval of a session changes, whether it assigns the MEC or finds it assigned, and what a number of them add up to.\<close>

lemma assigning_approval_routes:
  assumes s: "get_session (br_session_manager b) r = Some s"
    and ids: "parse_group_id (se_mgwcp_component_id s) = GroupId g i" "parse_group_id (mec_after_approval ops p s) = GroupId mg mi"
    and gwh: "aget (br_transport_handlers b) (se_mgwcp_component_id s) = Some gh" "input_queue gh = Some gq"
    and mec: "aget (br_transport_handlers b) (mec_after_approval ops p s) = Some mh" "input_queue mh = Some mq"
    and p: "js_at ops m ''payload'' = Found p" "js_at ops p ''request_id'' = Found rv" "js_string ops rv = Some r"
    and b': "handle_session_approved ops lk now m b = b'"
  shows "get_destinations (br_routing_table b') k = get_destinations (br_routing_table b) k
       @ replicate (length (filter (\<lambda>t. construct_routing_key g i t = k) (se_input_message_types s))) (Some mq)
       @ replicate (length (filter (\<lambda>t. construct_routing_key mg mi t = k) (se_output_message_types s))) (Some gq)"
    and "br_transport_handlers b' = br_transport_handlers b"
    and "get_session (br_session_manager b') r = Some (s\<lparr>se_assigned_mec_id := mec_after_approval ops p s, se_routing_rules_created := True\<rparr>)"
proof -
  define b1 where "b1 = (if js_contains ops p ''assigned_mec_id'' then
      (case js_string ops (js_get ops p ''assigned_mec_id'') of
         Some mec_id \<Rightarrow> b\<lparr>br_session_manager := snd (set_assigned_mec r mec_id (br_session_manager b))\<rparr> | None \<Rightarrow> b) else b)"
  let ?s = "s\<lparr>se_assigned_mec_id := mec_after_approval ops p s\<rparr>"
  have s1: "get_session (br_session_manager b1) r = Some ?s"
    using s by (auto simp: b1_def mec_after_approval_def get_session_def set_assigned_mec_def modify_session_def split: option.splits)
  have b1: "br_transport_handlers b1 = br_transport_handlers b" "br_routing_table b1 = br_routing_table b"
    by (simp_all add: b1_def split: option.splits)
  have ids1: "parse_group_id (se_mgwcp_component_id ?s) = GroupId g i" "parse_group_id (se_assigned_mec_id ?s) = GroupId mg mi"
    and at1: "aget (br_transport_handlers b) (se_mgwcp_component_id ?s) = Some gh"
      "aget (br_transport_handlers b) (se_assigned_mec_id ?s) = Some mh"
    using ids gwh(1) mec(1) by simp_all
  let ?b2 = "create_routing_rules_for_session r b1"
  note rules = approval_adds_session_routes [OF s1 ids1, unfolded b1, OF at1(1) gwh(2) at1(2) mec(2)]
  have ne: "se_assigned_mec_id ?s \<noteq> []" using ids1(2) by (auto simp: parse_group_id_def find_char_def)
  have b2: "br_transport_handlers ?b2 = br_transport_handlers b"
    "get_session (br_session_manager ?b2) r = Some (?s\<lparr>se_routing_rules_created := True\<rparr>)"
    using s1 ids1 at1 ne b1
    by (auto simp: create_routing_rules_for_session_def Let_def get_session_def set_routing_rules_created_def modify_session_def)
  have pc: "js_contains ops m ''payload''" "js_get ops m ''payload'' = p" "js_contains ops p ''request_id''" "payload_request_id ops p = Some r"
    using p by (simp_all add: js_contains_def js_get_def payload_request_id_def)
  have run: "b' = with_connection (se_assigned_mec_id ?s) (send_session_approved ops lk now p)
      (with_connection (se_mgwcp_component_id ?s) (send_session_approved ops lk now p) ?b2)"
    using b' b2(2) ne pc unfolding handle_session_approved_def pc(2) Let_def by (simp flip: b1_def)
  show "get_destinations (br_routing_table b') k = get_destinations (br_routing_table b) k
       @ replicate (length (filter (\<lambda>t. construct_routing_key g i t = k) (se_input_message_types s))) (Some mq)
       @ replicate (length (filter (\<lambda>t. construct_routing_key mg mi t = k) (se_output_message_types s))) (Some gq)"
    unfolding run by (simp add: rules)
  show "br_transport_handlers b' = br_transport_handlers b"
    "get_session (br_session_manager b') r = Some (s\<lparr>se_assigned_mec_id := mec_after_approval ops p s, se_routing_rules_created := True\<rparr>)"
    unfolding run using b2 by simp_all
qed

lemma approval_routes:
  assumes s: "get_session (br_session_manager b) r = Some s"
    and ids: "parse_group_id (se_mgwcp_component_id s) = GroupId g i" "parse_group_id (se_assigned_mec_id s) = GroupId mg mi"
    and gwh: "aget (br_transport_handlers b) (se_mgwcp_component_id s) = Some gh" "input_queue gh = Some gq"
    and mec: "aget (br_transport_handlers b) (se_assigned_mec_id s) = Some mh" "input_queue mh = Some mq"
    and p: "js_at ops m ''payload'' = Found p" "js_at ops p ''request_id'' = Found rv" "js_string ops rv = Some r"
    and same: "js_contains ops p ''assigned_mec_id'' \<Longrightarrow> js_string ops (js_get ops p ''assigned_mec_id'') = Some (se_assigned_mec_id s)"
    and b': "handle_session_approved ops lk now m b = b'"
  shows "get_destinations (br_routing_table b') k = get_destinations (br_routing_table b) k
       @ replicate (length (filter (\<lambda>t. construct_routing_key g i t = k) (se_input_message_types s))) (Some mq)
       @ replicate (length (filter (\<lambda>t. construct_routing_key mg mi t = k) (se_output_message_types s))) (Some gq)"
    and "br_transport_handlers b' = br_transport_handlers b"
    and "get_session (br_session_manager b') r = Some (s\<lparr>se_routing_rules_created := True\<rparr>)"
proof -
  have mid: "mec_after_approval ops p s = se_assigned_mec_id s" using same by (simp add: mec_after_approval_def)
  note one = assigning_approval_routes [OF s ids(1) _ gwh _ mec(2) p b', unfolded mid, OF ids(2) mec(1)]
  show "get_destinations (br_routing_table b') k = get_destinations (br_routing_table b) k
       @ replicate (length (filter (\<lambda>t. construct_routing_key g i t = k) (se_input_message_types s))) (Some mq)
       @ replicate (length (filter (\<lambda>t. construct_routing_key mg mi t = k) (se_output_message_types s))) (Some gq)"
    "br_transport_handlers b' = br_transport_handlers b"
    "get_session (br_session_manager b') r = Some (s\<lparr>se_routing_rules_created := True\<rparr>)"
    using one by simp_all
qed

text \<open>The first approval of a session whose task lists a message type once gives its frames exactly one destination.\<close>

lemma first_approval_destination:
  assumes s: "get_session (br_session_manager b) r = Some s"
    and ids: "parse_group_id (se_mgwcp_component_id s) = GroupId g i" "parse_group_id (mec_after_approval ops p s) = GroupId mg mi" "(g, i) \<noteq> (mg, mi)"
    and gwh: "aget (br_transport_handlers b) (se_mgwcp_component_id s) = Some gh" "input_queue gh = Some gq"
    and mec: "aget (br_transport_handlers b) (mec_after_approval ops p s) = Some mh" "input_queue mh = Some mq"
    and p: "js_at ops m ''payload'' = Found p" "js_at ops p ''request_id'' = Found rv" "js_string ops rv = Some r"
    and new: "get_destinations (br_routing_table b) (construct_routing_key k n t) = []"
    and dir: "count_list (se_input_message_types s) t = 1 \<and> (k, n) = (g, i) \<and> peer = mh
       \<or> count_list (se_output_message_types s) t = 1 \<and> (k, n) = (mg, mi) \<and> peer = gh"
  shows "get_destinations (br_routing_table (handle_session_approved ops lk now m b)) (construct_routing_key k n t) = [input_queue peer]
     \<and> input_queue peer \<noteq> None"
proof -
  have sel: "length (filter (\<lambda>u. construct_routing_key k' n' u = construct_routing_key k n t) xs) =
      (if (k', n') = (k, n) then count_list xs t else 0)" for k' n' xs
    by (auto simp: construct_routing_key_inject count_list_eq_length_filter intro!: arg_cong [where f = length] filter_cong)
  show ?thesis
    using dir ids(3) gwh(2) mec(2) unfolding assigning_approval_routes(1) [OF s ids(1,2) gwh mec p refl] new sel by auto
qed

lemma approvals_routes:
  assumes s: "get_session (br_session_manager b) r = Some s"
    and ids: "parse_group_id (se_mgwcp_component_id s) = GroupId g i" "parse_group_id (se_assigned_mec_id s) = GroupId mg mi"
    and gwh: "aget (br_transport_handlers b) (se_mgwcp_component_id s) = Some gh" "input_queue gh = Some gq"
    and mec: "aget (br_transport_handlers b) (se_assigned_mec_id s) = Some mh" "input_queue mh = Some mq"
    and p: "js_at ops m ''payload'' = Found p" "js_at ops p ''request_id'' = Found rv" "js_string ops rv = Some r"
    and same: "js_contains ops p ''assigned_mec_id'' \<Longrightarrow> js_string ops (js_get ops p ''assigned_mec_id'') = Some (se_assigned_mec_id s)"
    and t: "t \<in> set (se_input_message_types s)"
  shows "length nows + length (filter (\<lambda>d. d = Some mq) (get_destinations (br_routing_table b) (construct_routing_key g i t)))
     \<le> length (filter (\<lambda>d. d = Some mq)
       (get_destinations (br_routing_table (fold (\<lambda>now. handle_session_approved ops lk now m) nows b)) (construct_routing_key g i t)))"
  using s gwh(1) mec(1) ids t same
proof (induction nows arbitrary: b s)
  case (Cons now nows)
  let ?k = "construct_routing_key g i t" and ?b = "handle_session_approved ops lk now m b"
  let ?s = "s\<lparr>se_routing_rules_created := True\<rparr>"
  note one = approval_routes [OF Cons.prems(1,4,5,2) gwh(2) Cons.prems(3) mec(2) p Cons.prems(7) refl, where lk = lk and now = now]
  have "filter (\<lambda>u. construct_routing_key g i u = ?k) (se_input_message_types s) \<noteq> []"
    using Cons.prems(6) by (auto simp: filter_empty_conv)
  then have "Suc (length (filter (\<lambda>d. d = Some mq) (get_destinations (br_routing_table b) ?k)))
      \<le> length (filter (\<lambda>d. d = Some mq) (get_destinations (br_routing_table ?b) ?k))"
    using one(1) [of ?k] by (cases "filter (\<lambda>u. construct_routing_key g i u = ?k) (se_input_message_types s)") simp_all
  moreover have "length nows + length (filter (\<lambda>d. d = Some mq) (get_destinations (br_routing_table ?b) ?k))
      \<le> length (filter (\<lambda>d. d = Some mq) (get_destinations (br_routing_table (fold (\<lambda>now. handle_session_approved ops lk now m) nows ?b)) ?k))"
    using Cons.prems one(2) by (intro Cons.IH [OF one(3)]) simp_all
  ultimately show ?case by simp
qed simp

text \<open>C17: approving a session again multiplies its data. When the bridge handles the approval of an assigned session \<open>n\<close> times, whenever that is, every frame of
  the vehicle with an input message type of the task is put into the queue of the MEC's handler at least \<open>n\<close> times.\<close>

theorem approvals_multiply_frames:
  assumes s: "get_session (br_session_manager b) r = Some s" "t \<in> set (se_input_message_types s)"
    and ids: "parse_group_id (se_mgwcp_component_id s) = GroupId g i" "parse_group_id (se_assigned_mec_id s) = GroupId mg mi"
    and gwh: "aget (br_transport_handlers b) (se_mgwcp_component_id s) = Some gh" "input_queue gh = Some gq"
    and mec: "aget (br_transport_handlers b) (se_assigned_mec_id s) = Some mh" "input_queue mh = Some mq"
    and p: "js_at ops m ''payload'' = Found p" "js_at ops p ''request_id'' = Found rv" "js_string ops rv = Some r"
    and same: "js_contains ops p ''assigned_mec_id'' \<Longrightarrow> js_string ops (js_get ops p ''assigned_mec_id'') = Some (se_assigned_mec_id s)"
    and h: "th_wf h" "tc_is_connected (tcp_client h)" "receive_buffer_watermark h = 0"
    and len: "length payload < 2 ^ 32" "length (make_frame topic t g i flags payload) \<le> MAX_RECEIVE_BUFFER_SIZE h"
  shows "\<exists>h' calls. handle_incoming_data h (\<lambda>_. False) (\<lambda>_. br_routing_table (fold (\<lambda>now. handle_session_approved ops lk now m) nows b))
       (Received (make_frame topic t g i flags payload)) = Some (h', calls)
     \<and> length nows \<le> length (filter (\<lambda>c. c = (Some mq, make_frame topic t g i flags payload)) calls)"
  using handler_routes_exactly [OF h len, of "br_routing_table (fold (\<lambda>now. handle_session_approved ops lk now m) nows b)"]
    approvals_routes [OF s(1) ids gwh mec p same s(2), of nows lk]
  by (auto simp: route_frame_copies)

theorem approvals_multiply_frames_witness:
  "\<exists>h' calls. handle_incoming_data (example_handler 8192) (\<lambda>_. False)
       (\<lambda>_. br_routing_table (fold (\<lambda>now. handle_session_approved tree_ops demo_link now
          (JObject [(''payload'', JObject [(''request_id'', JString ''r'')])])) [1, 2] demo_approved))
       (Received (make_frame [47] 11 60 5 0 [1, 2])) = Some (h', calls)
     \<and> 2 \<le> length (filter (\<lambda>c. c = (Some 1, make_frame [47] 11 60 5 0 [1, 2])) calls)"
proof -
  let ?p = "JObject [(''request_id'', JString ''r'')]"
  obtain s gw mec where S: "get_session (br_session_manager demo_approved) ''r'' = Some s" "se_mgwcp_component_id s = ''60:5''"
    "se_assigned_mec_id s = ''70:1''" "se_input_message_types s = [11, 12]" "se_output_message_types s = [21]"
    "aget (br_transport_handlers demo_approved) ''60:5'' = Some gw" "input_queue gw = Some 0"
    "aget (br_transport_handlers demo_approved) ''70:1'' = Some mec" "input_queue mec = Some 1"
    using demo_session by blast
  have ids: "parse_group_id (se_mgwcp_component_id s) = GroupId 60 5" "parse_group_id (se_assigned_mec_id s) = GroupId 70 1"
    and handlers: "aget (br_transport_handlers demo_approved) (se_mgwcp_component_id s) = Some gw"
      "aget (br_transport_handlers demo_approved) (se_assigned_mec_id s) = Some mec"
    and t: "11 \<in> set (se_input_message_types s)"
    using S demo_ids by simp_all
  have len: "length ([1, 2] :: u8 list) < 2 ^ 32" "length (make_frame [47] 11 60 5 0 [1, 2]) \<le> MAX_RECEIVE_BUFFER_SIZE (example_handler 8192)"
    by (simp_all add: make_frame_def length_create_header)
  have p: "js_at tree_ops (JObject [(''payload'', ?p)]) ''payload'' = Found ?p" "js_at tree_ops ?p ''request_id'' = Found (JString ''r'')"
    "js_string tree_ops (JString ''r'') = Some ''r''"
    "js_contains tree_ops ?p ''assigned_mec_id'' \<Longrightarrow> js_string tree_ops (js_get tree_ops ?p ''assigned_mec_id'') = Some (se_assigned_mec_id s)"
    by (simp_all add: tree_ops_def js_contains_def)
  from approvals_multiply_frames [OF S(1) t ids handlers(1) S(7) handlers(2) S(9) p example_handler(1,2,4) len, of demo_link "[1, 2]"]
  show ?thesis by (simp add: numeral_2_eq_2)
qed

end
