(* ===== verification/Gateway_Shutdown.thy ===== *)
theory Gateway_Shutdown
  imports Gateway_Guarantees
begin

text \<open>
  The end of a gateway: \<open>~GatewayController\<close> (gateway_controller.cpp) and \<open>~RosGateway\<close> (ros_gateway.cpp). The threads of the clients and the control
  thread check their flags between two turns and are taken at such a point. The thread that accepts data plane connections may be inside
  \<open>accept\<close> on its blocking socket: \<open>InAccept None\<close> when no client connects any more. \<open>None\<close>: the destructor does not return.
\<close>

section \<open>The destructors\<close>

fun tr_disconnect :: "DataTransport \<Rightarrow> DataTransport" where
  "tr_disconnect (ServerTransport s) = ServerTransport (gws_disconnect s)"
| "tr_disconnect (ClientTransport c) = ClientTransport (gwc_disconnect c)"

definition rg_destroy :: "('n, 'm) RosGateway \<Rightarrow> ('n, 'm) RosGateway" where
  "rg_destroy rg = (let rg = rg_stop_receiver rg in rg\<lparr>rg_transport := map_option tr_disconnect (rg_transport rg)\<rparr>)"

datatype accept_position = BetweenTurns | InAccept "int option"

text \<open>What is left of the thread when it is joined: the turn that it is in, and no other one since \<open>running_\<close> is false. A thread inside \<open>accept\<close>
  has found the transport listening and without a client.\<close>

definition join_connection_thread ::
  "'j json_ops \<Rightarrow> ('n, 'm) ros_ops \<Rightarrow> int \<Rightarrow> accept_position \<Rightarrow> ('j, 'n, 'm) GatewayController \<Rightarrow>
   ('j, 'n, 'm) GatewayController outcome option" where
  "join_connection_thread ops ro now pos c =
     (if \<not> ct_accepting c then Some (Returned c)
      else (case pos of
         BetweenTurns \<Rightarrow> Some (Returned c)
       | InAccept None \<Rightarrow> None
       | InAccept (Some new_socket) \<Rightarrow> Some (accept_body ops ro now new_socket c)))"

definition gw_destroy ::
  "'j json_ops \<Rightarrow> ('n, 'm) ros_ops \<Rightarrow> int \<Rightarrow> accept_position \<Rightarrow> ('j, 'n, 'm) GatewayController \<Rightarrow>
   ('j, 'n, 'm) GatewayController outcome option" where
  "gw_destroy ops ro now pos c =
     (let c = c\<lparr>ct_running := False, ct_discovery_client := map_option dc_stop (ct_discovery_client c),
                ct_bridge_cp_client := map_option cp_stop (ct_bridge_cp_client c)\<rparr> in
      map_option (\<lambda>r. run_then r (\<lambda>c. Returned (c\<lparr>ct_gateway := rg_destroy (rg_stop_receiver (ct_gateway c))\<rparr>)))
        (join_connection_thread ops ro now pos c))"

section \<open>What is left of a gateway\<close>

definition tr_down :: "DataTransport \<Rightarrow> bool" where
  "tr_down t \<longleftrightarrow> \<not> tr_is_connected t \<and> \<not> tr_open t"

lemma tr_disconnect_down: "tr_down (tr_disconnect t)"
  by (cases t) (simp_all add: tr_down_def gws_disconnect_def gwc_disconnect_def gws_is_connected_def gwc_is_connected_def Let_def)

text \<open>Everything is stopped: the threads by their flags, the connections by their sockets.\<close>

definition gw_stopped :: "('j, 'n, 'm) GatewayController \<Rightarrow> bool" where
  "gw_stopped c \<longleftrightarrow> \<not> ct_running c \<and> \<not> rg_receiver_running (ct_gateway c)
     \<and> (case rg_transport (ct_gateway c) of None \<Rightarrow> True | Some t \<Rightarrow> tr_down t)
     \<and> (case ct_bridge_cp_client c of None \<Rightarrow> True | Some cp \<Rightarrow> \<not> cp_running cp)
     \<and> (case ct_discovery_client c of None \<Rightarrow> True | Some d \<Rightarrow> \<not> dc_running d)"

lemma accept_body_networked:
  assumes "ct_operation_mode c = ''networked''"
  shows "\<exists>t. accept_body ops ro now new_socket c = Returned (c\<lparr>ct_gateway := (ct_gateway c)\<lparr>rg_transport := t\<rparr>\<rparr>)"
proof (cases "rg_transport (ct_gateway c)")
  case None
  then show ?thesis by (intro exI [of _ None]) (simp add: accept_body_def)
next
  case (Some t)
  then show ?thesis
    using assms by (cases t) (auto simp: accept_body_def Let_def intro: exI [of _ "Some t"] split: prod.splits)
qed

text \<open>The destructor of a gateway waits for its bridge. In the networked mode the first turn of the control thread starts the thread that
  accepts the connection of the bridge, on a socket that nothing closes before the thread is joined; as long as no one connects, the
  destructor does not return. In every other situation it returns and leaves everything stopped.\<close>

lemma destructor_waits_for_bridge:
  assumes mode: "gp_operation_mode g = ''networked''"
    and opened: "oa_socket (ge_open env) \<ge> 0" "oa_setsockopt (ge_open env)" "oa_bind (ge_open env)" "oa_listen (ge_open env)"
    and first: "control_turn ops ro env (GatewayController_init node g) = Returned c"
  shows "(\<exists>s. rg_transport (ct_gateway c) = Some (ServerTransport s) \<and> gws_listening s \<and> \<not> gws_client_connected s)
     \<and> ct_state c = DISCOVERING \<and> gw_destroy ops ro now (InAccept None) c = None
     \<and> (\<forall>d pos. ct_operation_mode d = ''networked'' \<and> (pos \<noteq> InAccept None \<or> \<not> ct_accepting d) \<longrightarrow>
          (\<exists>d'. gw_destroy ops ro now pos d = Some (Returned d') \<and> gw_stopped d'))"
proof -
  have c: "ct_accepting c" "ct_state c = DISCOVERING"
    "\<exists>s. rg_transport (ct_gateway c) = Some (ServerTransport s) \<and> gws_listening s \<and> \<not> gws_client_connected s"
    using first mode opened
    by (auto simp: control_turn_def GatewayController_init_def initializing_turn_def open_data_plane_def data_plane_transport_def
        RosGateway_init_def rg_set_identity_def gws_connect_def GwServer_init_def Let_def)
  have "\<exists>d'. gw_destroy ops ro now pos d = Some (Returned d') \<and> gw_stopped d'"
    if d: "ct_operation_mode d = ''networked''" "pos \<noteq> InAccept None \<or> \<not> ct_accepting d"
    for d :: "('a, 'b, 'c) GatewayController" and pos
  proof -
    let ?d = "d\<lparr>ct_running := False, ct_discovery_client := map_option dc_stop (ct_discovery_client d),
                ct_bridge_cp_client := map_option cp_stop (ct_bridge_cp_client d)\<rparr>"
    have "\<exists>t. accept_body ops ro now fd ?d = Returned (?d\<lparr>ct_gateway := (ct_gateway ?d)\<lparr>rg_transport := t\<rparr>\<rparr>)" for fd
      using d(1) by (intro accept_body_networked) simp
    then have "\<exists>t. join_connection_thread ops ro now pos ?d = Some (Returned (?d\<lparr>ct_gateway := (ct_gateway ?d)\<lparr>rg_transport := t\<rparr>\<rparr>))"
      using d(2) by (cases pos) (auto simp: join_connection_thread_def intro!: exI [of _ "rg_transport (ct_gateway d)"] split: option.splits)
    then obtain t where "join_connection_thread ops ro now pos ?d = Some (Returned (?d\<lparr>ct_gateway := (ct_gateway ?d)\<lparr>rg_transport := t\<rparr>\<rparr>))" ..
    then show ?thesis
      by (auto simp: gw_destroy_def gw_stopped_def rg_destroy_def rg_stop_receiver_def tr_disconnect_down Let_def dc_stop_def cp_stop_def
          split: option.splits)
  qed
  then show ?thesis using c by (simp add: gw_destroy_def join_connection_thread_def Let_def)
qed

lemma destructor_waits_for_bridge_witness:
  "\<exists>c. control_turn tree_ops demo_ros \<lparr>ge_open = \<lparr>oa_socket = 4, oa_setsockopt = True, oa_bind = True, oa_listen = True\<rparr>,
         ge_connect = \<lparr>ca_socket = 6, ca_inet_pton = True, ca_connect = True\<rparr>, ge_file = None, ge_room = True, ge_now = 0\<rparr>
       (GatewayController_init [] demo_params) = Returned c
     \<and> gw_destroy tree_ops demo_ros 0 (InAccept None) c = None"
proof -
  let ?env = "\<lparr>ge_open = \<lparr>oa_socket = 4, oa_setsockopt = True, oa_bind = True, oa_listen = True\<rparr>,
         ge_connect = \<lparr>ca_socket = 6, ca_inet_pton = True, ca_connect = True\<rparr>, ge_file = None, ge_room = True, ge_now = 0\<rparr>"
  have mode: "gp_operation_mode demo_params = ''networked''" by (simp add: demo_params_def)
  obtain c where c: "control_turn tree_ops demo_ros ?env (GatewayController_init [] demo_params) = Returned c"
    using mode by (simp add: control_turn_def GatewayController_init_def initializing_turn_def)
  have "oa_socket (ge_open ?env) \<ge> 0" "oa_setsockopt (ge_open ?env)" "oa_bind (ge_open ?env)" "oa_listen (ge_open ?env)" by simp_all
  from destructor_waits_for_bridge [OF mode this c] c show ?thesis by blast
qed

end
