(* ===== verification/Entry_Points.thy ===== *)
theory Entry_Points
  imports Bridge_Shutdown Bridge_Startup Discovery_Service
begin

text \<open>
  The programs: \<open>main\<close> of the bridge (bridge/src/main.cpp) with its signal handler, and \<open>main\<close> of the discovery service
  (DiscoveryService/src/main.cpp) with its arguments. The result is how the process ends; \<open>None\<close> when it does not. Logging is left out,
  and so is the order in which a signal and the threads of the bridge take turns: the argument \<open>run\<close> gives the state in which the main loop is left.
\<close>

section \<open>The bridge\<close>

text \<open>The exit code, or a fault: the process waits for ever on its own lock, or uses an invalid iterator.\<close>

datatype exit_status = ExitCode int | Faulty fault

text \<open>The handler that is installed for the signals of a crash: it flushes the log and exits.\<close>

definition crash_signal_handler :: "int \<Rightarrow> exit_status" where
  "crash_signal_handler signum = ExitCode signum"

definition SIGABRT :: int where "SIGABRT = 6"

text \<open>\<open>start\<close> creates the thread for the discovery service and the thread for the offloading manager where it sets the two flags, so the flags
  it leaves are taken to say whether the object owns running threads.\<close>

definition threads_started :: "'j Bridge \<Rightarrow> bool" where
  "threads_started b \<longleftrightarrow> br_discovery_connected b \<or> br_om_connected b"

text \<open>The destruction of a bridge that is not running: \<open>stop\<close> returns at once and joins no thread; the destructor of a \<open>std::thread\<close> that is
  still joinable calls \<open>std::terminate\<close>, which aborts the process with SIGABRT.\<close>

definition destroy_stopped :: "bool \<Rightarrow> int \<Rightarrow> exit_status" where
  "destroy_stopped joinable exit_code = (if joinable then crash_signal_handler SIGABRT else ExitCode exit_code)"

definition graceful_signal_handler :: "(int \<Rightarrow> bool) \<Rightarrow> 'j bridge_world \<Rightarrow> fault + 'j bridge_world" where
  "graceful_signal_handler send_ok w = (if br_running (fst (snd w)) then br_stop send_ok w else Inr w)"

text \<open>From the end of the main loop on: left because of a signal, or because the bridge has been stopped otherwise. A bridge that has been
  stopped has joined its threads.\<close>

definition leave_main_loop :: "(int \<Rightarrow> bool) \<Rightarrow> bool \<Rightarrow> 'j bridge_world \<Rightarrow> exit_status" where
  "leave_main_loop send_ok signalled w =
     (case (if signalled then graceful_signal_handler send_ok w else Inr w) of
        Inl e \<Rightarrow> Faulty e
      | Inr w \<Rightarrow>
          (case (if br_running (fst (snd w)) then br_stop send_ok w else Inr w) of
             Inl e \<Rightarrow> Faulty e
           | Inr _ \<Rightarrow> destroy_stopped False (if signalled then 0 else 1)))"

definition bridge_main ::
  "'j json_ops \<Rightarrow> startup_env \<Rightarrow> ('j bridge_world \<Rightarrow> (bool \<times> 'j bridge_world) option) \<Rightarrow> exit_status option" where
  "bridge_main ops env run =
     (case br_start ops env Bridge_init of
        None \<Rightarrow> None
      | Some (Inl e) \<Rightarrow> Some (Faulty e)
      | Some (Inr (False, _, b)) \<Rightarrow> Some (destroy_stopped (threads_started b) 1)
      | Some (Inr (True, None, b)) \<Rightarrow> None
      | Some (Inr (True, Some s, b)) \<Rightarrow>
          map_option (\<lambda>(signalled, w). leave_main_loop (se_send_ok env) signalled w) (run (s, b, False)))"

lemma registration_keeps_flags:
  assumes "register_with_discovery_service ops a xs b = Some (ok, c, b')"
  shows "br_om_connected b' = br_om_connected b" "br_discovery_connected b' = (ok \<or> br_discovery_connected b)"
    "br_running b' = br_running b"
proof -
  have keep: "br_om_connected y = br_om_connected x \<and> br_discovery_connected y = br_discovery_connected x \<and> br_running y = br_running x"
    if "apply_registration ops r x = Some (k, y)" for r x k y
    using that by (auto simp: apply_registration_def Let_def split: if_splits option.splits)
  show "br_om_connected b' = br_om_connected b" "br_discovery_connected b' = (ok \<or> br_discovery_connected b)" "br_running b' = br_running b"
    using assms by (auto simp: register_with_discovery_service_def perform_discovery_registration_def dest!: keep
        split: if_splits option.splits prod.splits bool.splits)
qed

definition can_listen :: "listen_answer \<Rightarrow> bool" where
  "can_listen l \<longleftrightarrow> la_socket l \<ge> 0 \<and> la_setsockopt l \<and> la_bind l \<and> la_nonblock l \<and> la_listen l"

text \<open>C38: how a failed start ends. When the bridge cannot reach or register with the discovery service, \<open>main\<close> returns 1, as intended. When the registration has
  succeeded and a later phase fails (no offloading manager, no server socket), the object that \<open>main\<close> destroys still owns running threads, because
  \<open>stop\<close> does nothing for a bridge that is not running: the process aborts, and the handler of SIGABRT ends it with exit code 6.\<close>

theorem failed_start_aborts:
  assumes reg: "register_with_discovery_service ops (se_discovery_connect env) (se_exchanges env) Bridge_init = Some (ok, c, b)"
  shows "(\<not> ok \<longrightarrow> bridge_main ops env run = Some (ExitCode 1))
     \<and> (ok \<and> \<not> fst (connect_to_om (se_om_connect env) b) \<longrightarrow> bridge_main ops env run = Some (ExitCode 6))
     \<and> (ok \<and> fst (connect_to_om (se_om_connect env) b) \<and> \<not> can_listen (se_listen env) \<longrightarrow> bridge_main ops env run = Some (ExitCode 6))"
proof -
  note flags = registration_keeps_flags [OF reg]
  have init: "\<not> br_running (Bridge_init :: 'a Bridge)" "\<not> br_om_connected (Bridge_init :: 'a Bridge)" "\<not> br_discovery_connected (Bridge_init :: 'a Bridge)"
    by (simp_all add: Bridge_init_def)
  obtain up b' where om: "connect_to_om (se_om_connect env) b = (up, b')" by fastforce
  have disc: "br_discovery_connected b' = br_discovery_connected b"
    using om by (auto simp: connect_to_om_def split: if_splits prod.splits bool.splits)
  have server: "\<exists>s. start_mgwcp_server (se_send_ok env) (se_listen env) (b', False) = Inr (False, s, b', False)"
    if "\<not> can_listen (se_listen env)"
    using that by (auto simp: start_mgwcp_server_def ts_connect_def can_listen_def TcpServerTransport_init_def)
  show ?thesis
    using reg om flags init disc server
    by (auto simp: bridge_main_def br_start_def destroy_stopped_def crash_signal_handler_def SIGABRT_def threads_started_def split: bool.splits)
qed

definition lonely_env :: startup_env where
  "lonely_env = \<lparr>se_discovery_connect = \<lparr>ca_socket = 5, ca_inet_pton = True, ca_connect = True\<rparr>,
     se_exchanges = [example_exchange SUCCESS], se_om_connect = \<lparr>ca_socket = 6, ca_inet_pton = True, ca_connect = False\<rparr>, se_send_ok = (\<lambda>i. True),
     se_listen = \<lparr>la_socket = 7, la_setsockopt = True, la_bind = True, la_nonblock = True, la_listen = True\<rparr>\<rparr>"

lemma lonely_registration:
  "register_with_discovery_service tree_ops (se_discovery_connect lonely_env) (se_exchanges lonely_env) Bridge_init =
     Some (True, example_transport, Bridge_init\<lparr>br_om_host := ''10.0.0.4'', br_om_port := 8100, br_discovery_connected := True\<rparr>)"
proof -
  have con: "tc_connect (TcpClientTransport_init DISCOVERY_SERVICE_HOST (uint DISCOVERY_SERVICE_PORT) 3) (se_discovery_connect lonely_env)
      = (True, example_transport)"
    by (simp add: lonely_env_def tc_connect_def example_transport_def TcpClientTransport_init_def)
  have "tc_is_connected example_transport"
    by (simp add: example_transport_def tc_is_connected_def TcpClientTransport_init_def)
  from answered_loop [OF example_answered this, of SUCCESS "[]"]
  have loop: "registration_loop (se_exchanges lonely_env) example_transport = Some (Some (example_response SUCCESS), example_transport)"
    by (simp add: lonely_env_def example_response_def)
  have "stoi ''8100'' = Some 8100" by code_simp
  then show ?thesis
    by (simp add: register_with_discovery_service_def con perform_discovery_registration_def loop apply_registration_def example_response_def)
qed

theorem failed_start_aborts_witness: "bridge_main tree_ops lonely_env (\<lambda>w. None) = Some (ExitCode 6)"
proof -
  let ?b = "(Bridge_init :: json_tree Bridge)\<lparr>br_om_host := ''10.0.0.4'', br_om_port := 8100, br_discovery_connected := True\<rparr>"
  have "\<not> fst (connect_to_om (se_om_connect lonely_env) ?b)"
    by (simp add: connect_to_om_def lonely_env_def tc_connect_def TcpClientTransport_init_def)
  then show ?thesis using failed_start_aborts [OF lonely_registration, of "\<lambda>w. None"] by simp
qed

text \<open>C39: what a termination signal does to a running bridge. Without gateways the process ends with exit code 0; while a gateway is connected the
  handler waits for a lock of its own and the process never ends.\<close>

theorem signal_ends_bridge:
  assumes up: "br_start ops env Bridge_init = Some (Inr (True, Some s, b))" "run (s, b, False) = Some (True, s', b', False)"
      "br_running b'" "ts_running s'"
  shows "(ts_clients s' = [] \<and> br_connections b' = [] \<longrightarrow> bridge_main ops env run = Some (ExitCode 0))
     \<and> (aget (br_connections b') tid = Some c \<and> aget (ts_clients s') tid \<noteq> None
          \<and> (\<forall>t d. aget (br_connections b') t = Some d \<longrightarrow> mc_transport_client_id d = t) \<longrightarrow>
        bridge_main ops env run = Some (Faulty SelfDeadlock))"
proof (intro conjI impI)
  let ?ok = "se_send_ok env"
  have main: "bridge_main ops env run = Some (leave_main_loop ?ok True (s', b', False))"
    using up(1,2) by (simp add: bridge_main_def)
  {
    assume "ts_clients s' = [] \<and> br_connections b' = []"
    then show "bridge_main ops env run = Some (ExitCode 0)"
      unfolding main using up(3,4)
      by (simp add: leave_main_loop_def graceful_signal_handler_def br_stop_def ts_disconnect_def ts_get_client_ids_def destroy_stopped_def)
  next
    assume conn: "aget (br_connections b') tid = Some c \<and> aget (ts_clients s') tid \<noteq> None
       \<and> (\<forall>t d. aget (br_connections b') t = Some d \<longrightarrow> mc_transport_client_id d = t)"
    let ?b = "b'\<lparr>br_shutdown_requested := True, br_running := False\<rparr>"
    have "tid \<in> set (ts_get_client_ids s')" using conn mem_akeys_iff [of tid "ts_clients s'"] by (simp add: ts_get_client_ids_def)
    then have "disconnect_all (mgwcp_callbacks ?ok) (ts_get_client_ids s') (s'\<lparr>ts_running := False\<rparr>, ?b, False) = Inl SelfDeadlock"
      using conn by (intro disconnect_all_deadlock [of ?b tid c]) auto
    then show "bridge_main ops env run = Some (Faulty SelfDeadlock)"
      unfolding main using up(3,4)
      by (simp add: leave_main_loop_def graceful_signal_handler_def br_stop_def ts_disconnect_def)
  }
qed

theorem signal_ends_bridge_witness:
  "bridge_main tree_ops (lonely_env\<lparr>se_om_connect := \<lparr>ca_socket = 6, ca_inet_pton = True, ca_connect = True\<rparr>\<rparr>) (\<lambda>w. Some (True, w))
     = Some (ExitCode 0)"
proof -
  let ?env = "lonely_env\<lparr>se_om_connect := \<lparr>ca_socket = 6, ca_inet_pton = True, ca_connect = True\<rparr>\<rparr>"
  let ?b = "(Bridge_init :: json_tree Bridge)\<lparr>br_om_host := ''10.0.0.4'', br_om_port := 8100, br_discovery_connected := True,
      br_om_connected := True, br_running := True\<rparr>"
  let ?s = "(TcpServerTransport_init (uint MGWCP_SERVER_PORT) True MAX_MGWCP_CONNECTIONS)\<lparr>ts_server_socket_fd := 7, ts_running := True\<rparr>"
  have reg: "register_with_discovery_service tree_ops (se_discovery_connect ?env) (se_exchanges ?env) Bridge_init =
     Some (True, example_transport, Bridge_init\<lparr>br_om_host := ''10.0.0.4'', br_om_port := 8100, br_discovery_connected := True\<rparr>)"
    using lonely_registration by simp
  have start: "br_start tree_ops ?env Bridge_init = Some (Inr (True, Some ?s, ?b))"
    unfolding br_start_def reg
    by (simp add: Bridge_init_def connect_to_om_def tc_connect_def TcpClientTransport_init_def start_mgwcp_server_def ts_connect_def
        TcpServerTransport_init_def lonely_env_def)
  have "br_running ?b" "ts_running ?s" "ts_clients ?s = []" "br_connections ?b = []"
    by (simp_all add: Bridge_init_def TcpServerTransport_init_def)
  then show ?thesis
    using signal_ends_bridge [OF start, where run = "\<lambda>w. Some (True, w)"] by simp
qed

section \<open>The discovery service\<close>

text \<open>The loop over the arguments: the port, narrowed to 16 bits, and the mode. \<open>None\<close>: \<open>std::stoi\<close> throws. Everything else is skipped.\<close>

fun parse_args :: "string list \<Rightarrow> u16 \<times> bool \<Rightarrow> (u16 \<times> bool) option" where
  "parse_args [] st = Some st"
| "parse_args (a # as) (port, p2p) =
     (if a = ''--p2p'' then parse_args as (port, True)
      else if a = ''--port'' then
        (case as of
           [] \<Rightarrow> parse_args as (port, p2p)
         | v # as' \<Rightarrow> (case stoi v of None \<Rightarrow> None | Some i \<Rightarrow> parse_args as' (of_int i, p2p)))
      else parse_args as (port, p2p))"

definition DEFAULT_PORT :: u16 where "DEFAULT_PORT = 9090"

record ds_turn =
  dt_junk :: u16
  dt_now :: int
  dt_later :: int
  dt_answers :: "int \<Rightarrow> recv_answer"
  dt_events :: server_events

text \<open>The loop of \<open>DiscoveryService::start\<close>: \<open>None\<close> when the given turns do not end it; then the exit code of \<open>main\<close>.\<close>

fun ds_loop :: "ds_turn list \<Rightarrow> ds_world \<Rightarrow> exit_status option" where
  "ds_loop [] w = None"
| "ds_loop (x # xs) w =
     (case ds_iteration (dt_junk x) (dt_now x) (dt_later x) (dt_answers x) (dt_events x) w of
        None \<Rightarrow> Some (ExitCode 0)
      | Some (Inl e) \<Rightarrow> Some (Faulty e)
      | Some (Inr w') \<Rightarrow> ds_loop xs w')"

definition discovery_main :: "string list \<Rightarrow> int \<Rightarrow> listen_answer \<Rightarrow> ds_turn list \<Rightarrow> exit_status option" where
  "discovery_main args now l xs =
     (case parse_args args (DEFAULT_PORT, False) of
        None \<Rightarrow> Some (ExitCode 1)
      | Some (port, p2p) \<Rightarrow>
          (case ds_start 0 now (\<lambda>_. RecvWouldBlock) l (TcpServerTransport_init (uint port) True 0, DiscoveryService_init port p2p now) of
             Inl e \<Rightarrow> Some (Faulty e)
           | Inr (False, _) \<Rightarrow> Some (ExitCode 0)
           | Inr (True, w) \<Rightarrow> ds_loop xs w))"


text \<open>The arguments of the discovery service. A port number is taken modulo 65536, whatever number is given, and a trailing \<open>--port\<close> is ignored; a value that
  is no number ends the service with exit code 1, while a server that cannot listen on the port ends with exit code 0.\<close>

lemma discovery_port_wraps:
  assumes "int_range v"
  shows "\<exists>port. parse_args [''--port'', show_int v] (DEFAULT_PORT, False) = Some (port, False) \<and> uint port = v mod 65536
     \<and> parse_args [''--port''] (DEFAULT_PORT, False) = Some (DEFAULT_PORT, False)
     \<and> (stoi x = None \<longrightarrow> discovery_main [''--port'', x] now l xs = Some (ExitCode 1))
     \<and> (\<not> can_listen l \<longrightarrow> discovery_main [''--port'', show_int v] now l xs = Some (ExitCode 0))"
proof -
  have "uint (of_int v :: u16) = v mod 65536" by (simp add: uint_word_of_int)
  moreover have "ts_connect cbs l (TcpServerTransport_init p True 0, d) =
      Inr (False, (TcpServerTransport_init p True 0)\<lparr>ts_server_socket_fd := (if la_socket l < 0 then la_socket l else -1)\<rparr>, d)"
    if "\<not> can_listen l" for cbs :: "DiscoveryService callbacks" and p d
    using that by (auto simp: ts_connect_def can_listen_def TcpServerTransport_init_def)
  ultimately show ?thesis using assms
    by (intro exI [of _ "of_int v"]) (simp add: discovery_main_def ds_start_def)
qed

end
