(* ===== verification/Control_Protocol.thy ===== *)
theory Control_Protocol
  imports Json_Value Cpp_Text "HOL-Library.Countable"
begin

text \<open>
  The header-only library of the control plane protocol (cpplib/control_plane_protocol/include/control_plane_protocol/protocol.hpp): the requests of a
  gateway as JSON texts, and the reading of responses. The exceptions of \<open>deserialize_response\<close> are the values of \<open>deserialize_error\<close>.
\<close>

section \<open>Messages\<close>

datatype ControlPlaneMessageType = CP_UNKNOWN | REQUEST_OFFLOADING | REQUEST_RESPONSE | CP_SESSION_KEEPALIVE | SESSION_TEARDOWN

record OffloadingRequest =
  ofr_request_id :: string
  ofr_component_id :: string
  ofr_task_id :: string

record OffloadingResponse =
  ors_request_id :: string
  ors_approved :: bool
  ors_message :: string
  ors_data_plane_host :: string
  ors_data_plane_port :: int

record SessionKeepalive =
  ska_request_id :: string
  ska_component_id :: string

section \<open>Writing\<close>

definition serialize_request :: "'j json_ops \<Rightarrow> OffloadingRequest \<Rightarrow> string" where
  "serialize_request ops req = js_dump ops (js_object ops
     [(''type'', js_of_string ops ''REQUEST_OFFLOADING''), (''request_id'', js_of_string ops (ofr_request_id req)),
      (''component_id'', js_of_string ops (ofr_component_id req)), (''task_id'', js_of_string ops (ofr_task_id req))])"

definition serialize_keepalive :: "'j json_ops \<Rightarrow> SessionKeepalive \<Rightarrow> string" where
  "serialize_keepalive ops req = js_dump ops (js_object ops
     [(''type'', js_of_string ops ''SESSION_KEEPALIVE''), (''request_id'', js_of_string ops (ska_request_id req)),
      (''component_id'', js_of_string ops (ska_component_id req))])"

section \<open>Reading\<close>

datatype deserialize_error = InvalidType | ParseFailure

text \<open>\<open>j.at(k).get_to(x)\<close>: \<open>None\<close> when the key is missing, the value no object, or the conversion throws.\<close>

definition at_get :: "'j json_ops \<Rightarrow> ('j \<Rightarrow> 'v option) \<Rightarrow> 'j \<Rightarrow> string \<Rightarrow> 'v option" where
  "at_get ops conv j k = (case js_at ops j k of Found v \<Rightarrow> conv v | _ \<Rightarrow> None)"

text \<open>The conversion to \<open>bool\<close> is an argument, and so is the content of the member \<open>data_plane_port\<close>, which has no initialiser; a
  response that is not approved leaves it as it is.\<close>

definition deserialize_response ::
  "'j json_ops \<Rightarrow> ('j \<Rightarrow> bool option) \<Rightarrow> int \<Rightarrow> string \<Rightarrow> deserialize_error + OffloadingResponse" where
  "deserialize_response ops as_bool junk json_str =
     (case js_parse ops json_str of
        None \<Rightarrow> Inl ParseFailure
      | Some j \<Rightarrow>
          (case js_at ops j ''type'' of
             Found ty \<Rightarrow>
               if js_string ops ty \<noteq> Some ''REQUEST_RESPONSE'' then Inl InvalidType
               else (case (at_get ops (js_string ops) j ''request_id'', at_get ops as_bool j ''approved'',
                           at_get ops (js_string ops) j ''message'') of
                  (Some r, Some approved, Some msg) \<Rightarrow>
                    (if \<not> approved then
                       Inr \<lparr>ors_request_id = r, ors_approved = approved, ors_message = msg, ors_data_plane_host = [],
                            ors_data_plane_port = junk\<rparr>
                     else (case (at_get ops (js_string ops) j ''data_plane_host'', at_get ops (js_int ops) j ''data_plane_port'') of
                        (Some host, Some port) \<Rightarrow>
                          Inr \<lparr>ors_request_id = r, ors_approved = approved, ors_message = msg, ors_data_plane_host = host,
                               ors_data_plane_port = to_int32 port\<rparr>
                      | _ \<Rightarrow> Inl ParseFailure))
                | _ \<Rightarrow> Inl ParseFailure)
           | _ \<Rightarrow> Inl ParseFailure))"

definition cp_get_message_type :: "'j json_ops \<Rightarrow> string \<Rightarrow> ControlPlaneMessageType" where
  "cp_get_message_type ops json_str =
     (case js_parse ops json_str of
        None \<Rightarrow> CP_UNKNOWN
      | Some j \<Rightarrow>
          (case js_value ops j ''type'' ''UNKNOWN'' of
             None \<Rightarrow> CP_UNKNOWN
           | Some t \<Rightarrow>
               if t = ''REQUEST_RESPONSE'' then REQUEST_RESPONSE else if t = ''SESSION_TEARDOWN'' then SESSION_TEARDOWN
               else CP_UNKNOWN))"

section \<open>What is read is what was written\<close>

text \<open>No code of the repository produces a response; this is the specification of one: the object a bridge has to send so that \<open>deserialize_response\<close> returns \<open>r\<close>; the conversion to \<open>bool\<close> reads what the other argument writes.\<close>

definition response_object :: "'j json_ops \<Rightarrow> (bool \<Rightarrow> 'j) \<Rightarrow> OffloadingResponse \<Rightarrow> 'j" where
  "response_object ops write_bool r = js_object ops
     ([(''type'', js_of_string ops ''REQUEST_RESPONSE''), (''request_id'', js_of_string ops (ors_request_id r)),
       (''approved'', write_bool (ors_approved r)), (''message'', js_of_string ops (ors_message r))]
      @ (if ors_approved r then [(''data_plane_host'', js_of_string ops (ors_data_plane_host r)),
           (''data_plane_port'', js_of_int ops (ors_data_plane_port r))] else []))"

lemma deserialized_is_response: "deserialize_response ops as_bool junk x = Inr r \<Longrightarrow> cp_get_message_type ops x = REQUEST_RESPONSE"
  by (auto simp: deserialize_response_def cp_get_message_type_def js_value_def split: option.splits lookup.splits if_splits)

text \<open>C40: what the protocol library reads. A response is read back field by field, apart from the port of one that is not approved, which is whatever the memory held;
  a text that is read as a response is classified as one; and the library reads neither of the messages that it writes: both are classified
  as unknown, and as responses they have an invalid type.\<close>

theorem protocol_library_reads_responses:
  assumes laws: "json_laws ops" and texts: "\<And>j. js_parse ops (js_dump ops j) = Some j" and bools: "\<And>b. as_bool (write_bool b) = Some b"
    and port: "int_range (ors_data_plane_port r)" and unset: "\<not> ors_approved r \<longrightarrow> ors_data_plane_host r = []"
  shows "deserialize_response ops as_bool junk (js_dump ops (response_object ops write_bool r))
       = Inr (if ors_approved r then r else r\<lparr>ors_data_plane_port := junk\<rparr>)
     \<and> (\<forall>x r'. deserialize_response ops as_bool junk x = Inr r' \<longrightarrow> cp_get_message_type ops x = REQUEST_RESPONSE)
     \<and> (\<forall>x \<in> {serialize_request ops q, serialize_keepalive ops k}.
          cp_get_message_type ops x = CP_UNKNOWN \<and> deserialize_response ops as_bool junk x = Inl InvalidType)"
proof -
  have "to_int32 (ors_data_plane_port r) = ors_data_plane_port r"
    using port by (intro to_int32_id) (auto simp: int_range_def)
  then have "deserialize_response ops as_bool junk (js_dump ops (response_object ops write_bool r))
      = Inr (if ors_approved r then r else r\<lparr>ors_data_plane_port := junk\<rparr>)"
    using unset by (simp add: deserialize_response_def texts response_object_def at_get_def json_object_at [OF laws] json_scalars [OF laws] bools)
  moreover have "cp_get_message_type ops x = CP_UNKNOWN \<and> deserialize_response ops as_bool junk x = Inl InvalidType"
    if "x \<in> {serialize_request ops q, serialize_keepalive ops k}" for x
    using that by (auto simp: serialize_request_def serialize_keepalive_def cp_get_message_type_def deserialize_response_def texts js_value_def
        json_object_at [OF laws] json_scalars [OF laws])
  ultimately show ?thesis using deserialized_is_response by blast
qed

instance json_tree :: countable
  by countable_datatype

text \<open>Texts that determine the value: its number, in unary.\<close>

definition text_ops :: "json_tree json_ops" where
  "text_ops = tree_ops\<lparr>js_parse := (\<lambda>s. Some (from_nat (length s))), js_dump := (\<lambda>j. replicate (to_nat j) CHR ''x'')\<rparr>"

lemma text_laws: "json_laws text_ops" "js_parse text_ops (js_dump text_ops j) = Some j"
  using tree_laws by (simp_all add: text_ops_def json_laws_def)

theorem protocol_library_reads_responses_witness:
  "\<exists>as_bool write_bool. deserialize_response text_ops as_bool 77 (js_dump text_ops (response_object text_ops write_bool
       \<lparr>ors_request_id = ''3'', ors_approved = True, ors_message = ''ok'', ors_data_plane_host = ''10.0.0.2'', ors_data_plane_port = 7401\<rparr>))
     = Inr \<lparr>ors_request_id = ''3'', ors_approved = True, ors_message = ''ok'', ors_data_plane_host = ''10.0.0.2'', ors_data_plane_port = 7401\<rparr>"
proof -
  let ?as = "\<lambda>j. case j of JInt i \<Rightarrow> Some (i \<noteq> 0) | _ \<Rightarrow> None" and ?to = "\<lambda>b. JInt (if b then 1 else 0)"
  let ?r = "\<lparr>ors_request_id = ''3'', ors_approved = True, ors_message = ''ok'', ors_data_plane_host = ''10.0.0.2'', ors_data_plane_port = 7401\<rparr>"
  have "?as (?to b) = Some b" for b by simp
  moreover have "int_range (ors_data_plane_port ?r)" "\<not> ors_approved ?r \<longrightarrow> ors_data_plane_host ?r = []" by (simp_all add: int_range_def)
  ultimately show ?thesis
    using protocol_library_reads_responses [OF text_laws, where as_bool = ?as and write_bool = ?to and r = ?r and junk = 77]
    by (intro exI [of _ ?as] exI [of _ ?to]) simp
qed

end
