(* ===== verification/Spec2Isabelle.thy ===== *)
theory Spec2Isabelle
  imports Data_Plane Discovery_Guarantees Bridge_Startup Bridge_Guarantees Bridge_Messages Bridge_Shutdown Control_Exchange
    Reliable_Delivery Gateway_Shutdown Entry_Points Control_Protocol
begin

text \<open>
  Verification of a modular edge offloading system: vehicles send sensor data over TCP to a bridge, which
  passes it on to the gateway of an edge computer (MEC) and sends the results back. Paths are relative to the
  source tree.

  \<^bold>\<open>The program.\<close> Four processes work together. The \<^emph>\<open>discovery service\<close> (DiscoveryService/src) registers every
  component, gives out component ids and tells each component where to connect. The \<^emph>\<open>bridge\<close> (bridge/src) has a control
  plane, which talks JSON with the gateways and with the offloading manager, and a data plane, where one
  thread per gateway cuts the byte stream into frames and puts each frame into the queues that the routing table names. The
  \<^emph>\<open>gateways\<close> (ros/src/ros_ws/src/modular_gateway_sender) turn ROS messages into frames and back. The \<^emph>\<open>offloading manager\<close>
  (Python) decides which MEC serves a request. Bridge and discovery service share the libraries cpplib/transport (TCP client and
  server) and cpplib/discovery_protocol (text codec).

  \<^bold>\<open>Conventions.\<close> An object is a record, an operation a function from the object (and its arguments) to its result and
  the new object; names follow the source, with a prefix for the record (\<open>br_\<close> bridge, \<open>ds_\<close> discovery service, \<open>tc_\<close>, \<open>th_\<close>,
  \<open>mc_\<close>, \<open>rg_\<close> ROS gateway, \<open>ct_\<close> gateway controller, ...). Integers of fixed width are words where arithmetic or encoding depends on the width. What the program cannot determine itself is
  an argument: the answers of system calls (\<open>connect_answer\<close>, \<open>send_answer\<close>, lists of received chunks), the clock, the contents of
  third-party queues, ROS, and the JSON library (\<open>'j json_ops\<close>, with the behaviour the code relies on as \<open>json_laws\<close>
  of Json_Value and a tree instance of it). A JSON access that throws is a value: \<open>Thrown s\<close> is an exception leaving the function with
  state \<open>s\<close>, \<open>Undefined\<close> is undefined behaviour of C++, and \<open>None\<close> is explained at each definition (a read outside the
  allocation, an exception, or answers of the system used up). What an object sent is recorded in a field of its record, so that
  properties can speak of it. One handler of one message is one atomic step when the code holds the lock for its whole length.

  \<^bold>\<open>Theories.\<close>
  \<^item> Prelude: words, association lists as hash maps (\<open>awf\<close>, \<open>aget\<close>), bounded reads, fact collections. Cpp_Text: \<open>stoi\<close>,
    \<open>to_string\<close>, stream extraction, \<open>getline\<close> and the round trips between them.
  \<^item> Wire_Header: the binary header (bridge/src/common_types.hpp, the gateway's message_header.hpp): safety of the parser, round
    trip between the gateway's writer and the bridge's reader, equivalence of the three writers.
  \<^item> Routing_Table: RoutingTable.cpp, with the interface of a router as a locale and its interpretation.
  \<^item> Tcp_Client, Tcp_Server: cpplib/transport. Loops over partial sends and receives consume a list of answers.
  \<^item> Framing: the specification of cutting a stream into frames, independent of how it arrives in chunks. Transport_Handler,
    Data_Plane: TransportHandler.cpp, its refinement of the specification, buffer bounds, delivery in order, and the cases in which it loses
    data or makes no progress.
  \<^item> Discovery_Protocol: the text codec with its round trips and the inputs it misreads.
  \<^item> Component_Registry, Discovery_Service, Discovery_Guarantees: registration, id assignment, keepalive, disconnection; uniqueness of
    ids in every reachable state, the table of registration decisions over both modes and every state, the effect of a successful registration,
    liveness of the purge. \<open>registry_inv\<close>, the consistency of the four containers of the registry, holds as long as no client registers twice; the
    properties that need it say so, and Discovery_Guarantees shows how a second registration breaks it.
  \<^item> Json_Value: the interface to the JSON library. Session_Manager: GlobalConfig.cpp and SessionManager.cpp.
  \<^item> Mgwcp_Connection: one control connection of a gateway, with acknowledgements and retries. Bridge_Control_Plane: the handlers of
    MGWCPConnection.cpp and BridgeControlPlane.cpp that change the bridge. Bridge_Server: acceptance and disconnection with the
    callbacks between server and connection. Bridge_Startup: registration of the bridge and its keepalive.
  \<^item> Bridge_Invariant: the step relation \<open>br_step\<close> of the bridge and its invariant \<open>bridge_inv\<close> by rule induction.
    Bridge_Example: a concrete run. Bridge_Guarantees, Bridge_Messages, Bridge_Shutdown: the properties of the control plane.
  \<^item> Gateway_Transport: the two transports of a gateway (src/transport), with their sender threads; a stream of bytes in arbitrary segments is
    \<open>stream_of\<close> of the answers of \<open>recv\<close>. Message_Handler: the seven handler classes (src/handlers, message_handler_base.cpp); ROS is
    the parameter \<open>ros_ops\<close>, with \<open>declare_once\<close> and \<open>serialization_ok\<close> as its documented behaviour. Ros_Gateway: ros_gateway.cpp and
    handler_factory.cpp; handlers are objects of an explicit heap, because the factory, the table of handlers and the sessions share them; the
    interface of a transport is the locale \<open>byte_transport\<close>, extended by \<open>stream_transport\<close> with the turns of the sender thread. Gateway_Data_Plane:
    a message crosses two gateways (a laser scan without its intensities, if they are to be cleared), a transport refines a byte stream, and how a refused payload corrupts the stream.
  \<^item> Bridge_Cp_Client, Discovery_Client: bridge_cp_client.cpp and discovery_client.cpp. Gateway_Controller, Gateway_Control:
    gateway_controller.cpp, its functions and the turns of its threads; \<open>gw_step\<close> is a turn of one thread or a call of a service.
    The field \<open>ct_dp_info_sent\<close> is a program point of the control thread.
  \<^item> Gateway_Invariant: the tables of handlers are well typed, by rule induction over \<open>gw_step\<close>. Gateway_Guarantees,
    Gateway_Messages: what an approval activates, and how a teardown, a second session, the service's id and an early confirmation go wrong.
  \<^item> Control_Exchange: the control messages between a gateway and the bridge, run through both ends: acknowledgements, the handshake that
    attaches a gateway, requests that open sessions, and request ids that collide.
  \<^item> Reliable_Delivery: what retransmission guarantees: every control message is handled at least once whatever is lost, and what a second copy
    of a request or of an approval does at the bridge, at the gateway and on the data plane.
  \<^item> Gateway_Shutdown: \<open>~GatewayController\<close> and \<open>~RosGateway\<close>, and the join that waits for a connection. Entry_Points: \<open>main\<close> and the signal handlers of
    the bridge (bridge/src/main.cpp), \<open>main\<close> of the discovery service (DiscoveryService/src/main.cpp), and how these processes end.
    Control_Protocol: cpplib/control_plane_protocol, a header that no other file includes.
  \<^item> This theory: properties across processes: the bridge learns the address of the offloading manager, frames of a session reach the
    peer, and a ROS message of a vehicle is routed and published exactly once by the MEC gateway after the first approval, and the other way round.

  \<^bold>\<open>Bounds and fuel.\<close> Loops of the code are structural recursions over their input (received bytes, answers, tables) or have a termination proof
  (the frame loop consumes its buffer). Threads are modelled by one turn of their loop, repeated by the step relations. The
  disconnect callback of the bridge calls itself through the server: its first argument bounds the depth; two levels are enough,
  because the second level blocks on the lock of the first, and the value for a deeper call is never reached. A list of
  exchanges given to a registration loop bounds how many answers arrive; that the loop has not returned yet is the value \<open>None\<close>.

  \<^bold>\<open>Not modelled.\<close> The offloading manager, the orchestrator and the ROS nodes and launch files are Python. The two \<open>main\<close> functions of
  the gateway initialise ROS and spin, which is third-party code. Logging changes no state the properties speak of. Interleavings inside a
  handler that holds its lock are not considered, nor the memory model of C++ atomics. ROS itself (subscriptions, serialisation of
  messages), the JSON library and the concurrent queue are third-party code.
  The destructors of the gateway's clients and transports, which call \<open>stop\<close> or \<open>disconnect\<close>, have no definitions of their own; those of the controller and of the
  data plane are taken between two turns of the other threads. In the shipped programs they do not run at all, because the objects that the
  controller owns hold shared pointers to it. Two threads of a gateway that use the table of handlers at the same time (the code has no lock there) are modelled as if
  their turns did not overlap. The control thread takes one request per turn, so that requests which arrive between two turns of the
  model's inner loops may be taken earlier than in the code; keepalives may be sent in every turn without a request.
  The exchanges of Control_Exchange and Reliable_Delivery hand every control message over in one read of its own; two messages in one read are a parse error of the
  receiver and are covered by the turns of the receiving threads only. The turns of the sender threads are the bodies of their loops: the flag that ends a thread is
  not tested in them, which makes no difference before the thread exists, because the queue is empty then. Whether the bridge owns running threads when \<open>start\<close>
  fails is read off the two connection flags.
\<close>

section \<open>The bridge finds the offloading manager\<close>









section \<open>Offloaded data reaches the MEC\<close>

lemma route_frame_mem: "Some q \<in> set (get_destinations rt k) \<Longrightarrow> (Some q, f) \<in> set (route_frame rt k f)"
  by (auto simp: route_frame_def)

lemma handler_routes_frame:
  assumes h: "th_wf h" "tc_is_connected (tcp_client h)" "receive_buffer_watermark h = 0"
    and len: "length payload < 2 ^ 32" "length (make_frame topic t k n flags payload) \<le> MAX_RECEIVE_BUFFER_SIZE h"
    and dest: "Some p \<in> set (get_destinations rt (construct_routing_key k n t))"
  shows "\<exists>h' calls. handle_incoming_data h (\<lambda>_. False) (\<lambda>_. rt) (Received (make_frame topic t k n flags payload)) = Some (h', calls)
     \<and> (Some p, make_frame topic t k n flags payload) \<in> set calls"
  using handler_routes_exactly [OF h len] route_frame_mem [OF dest] by blast

text \<open>The queue that the routes of an approved session lead to.\<close>

lemma session_destination:
  assumes reach: "br_reachable ops gc b" "json_laws ops" "gc_wf gc"
    and s: "get_session (br_session_manager b) r = Some s"
    and ids: "parse_group_id (se_mgwcp_component_id s) = GroupId g i" "parse_group_id (se_assigned_mec_id s) = GroupId mg mi"
    and mec: "aget (br_transport_handlers b) (se_assigned_mec_id s) = Some mh"
    and gwh: "aget (br_transport_handlers b) (se_mgwcp_component_id s) = Some gh"
    and dir: "t \<in> set (se_input_message_types s) \<and> (k, n) = (g, i) \<and> q = input_queue mh
       \<or> t \<in> set (se_output_message_types s) \<and> (k, n) = (mg, mi) \<and> q = input_queue gh"
  obtains p where "q = Some p"
    "Some p \<in> set (get_destinations (br_routing_table (create_routing_rules_for_session r b)) (construct_routing_key k n t))"
proof -
  note H = bridge_invD(1) [OF reachable_inv [OF reach]]
  obtain mq gq where queues: "input_queue mh = Some mq" "input_queue gh = Some gq"
    using H mec gwh unfolding handlers_ok_def by metis
  have some: "x \<in> set (replicate (length (filter P xs)) x)" if "y \<in> set xs" "P y" for x :: queue_ref and P :: "u8 \<Rightarrow> bool" and xs y
    using that by (auto simp: set_replicate_conv_if filter_empty_conv)
  show thesis
    using that dir queues create_rules_table [OF s ids gwh mec]
      some [of t "se_input_message_types s" "\<lambda>u. construct_routing_key g i u = construct_routing_key k n t" "Some mq"]
      some [of t "se_output_message_types s" "\<lambda>u. construct_routing_key mg mi u = construct_routing_key k n t" "Some gq"]
    by (auto simp: dests_add_routes)
qed

text \<open>C5: offloading end to end. In every reachable state of the bridge, once an assigned session is approved, a frame of the
  vehicle with an input message type of the task, read by the vehicle's data plane handler, is put unchanged into the queue of the
  MEC's handler, and a frame of the MEC with an output type into the queue of the vehicle's handler.\<close>

theorem offloaded_frames_reach_their_peer:
  assumes reach: "br_reachable ops gc b" "json_laws ops" "gc_wf gc"
    and s: "get_session (br_session_manager b) r = Some s"
    and ids: "parse_group_id (se_mgwcp_component_id s) = GroupId g i" "parse_group_id (se_assigned_mec_id s) = GroupId mg mi"
    and mec: "aget (br_transport_handlers b) (se_assigned_mec_id s) = Some mh"
    and gwh: "aget (br_transport_handlers b) (se_mgwcp_component_id s) = Some gh"
    and h: "th_wf h" "tc_is_connected (tcp_client h)" "receive_buffer_watermark h = 0"
    and len: "length payload < 2 ^ 32" "length (make_frame topic t k n flags payload) \<le> MAX_RECEIVE_BUFFER_SIZE h"
    and dir: "t \<in> set (se_input_message_types s) \<and> (k, n) = (g, i) \<and> q = input_queue mh
       \<or> t \<in> set (se_output_message_types s) \<and> (k, n) = (mg, mi) \<and> q = input_queue gh"
  shows "\<exists>h' calls. handle_incoming_data h (\<lambda>_. False) (\<lambda>_. br_routing_table (create_routing_rules_for_session r b))
       (Received (make_frame topic t k n flags payload)) = Some (h', calls)
     \<and> (q, make_frame topic t k n flags payload) \<in> set calls \<and> q \<noteq> None"
proof -
  obtain p where p: "q = Some p"
    "Some p \<in> set (get_destinations (br_routing_table (create_routing_rules_for_session r b)) (construct_routing_key k n t))"
    using session_destination [OF reach s ids mec gwh dir] .
  from handler_routes_frame [OF h len p(2)] p(1) show ?thesis by auto
qed

theorem offloaded_frames_reach_their_peer_witness:
  "\<exists>h' calls. handle_incoming_data (example_handler 8192) (\<lambda>_. False)
       (\<lambda>_. br_routing_table (create_routing_rules_for_session ''r'' demo_approved))
       (Received (make_frame [47] 11 60 5 0 [1, 2])) = Some (h', calls) \<and> (Some 1, make_frame [47] 11 60 5 0 [1, 2]) \<in> set calls"
proof -
  obtain s gw mec where S: "get_session (br_session_manager demo_approved) ''r'' = Some s" "se_mgwcp_component_id s = ''60:5''"
    "se_assigned_mec_id s = ''70:1''" "se_input_message_types s = [11, 12]" "se_output_message_types s = [21]"
    "aget (br_transport_handlers demo_approved) ''60:5'' = Some gw" "input_queue gw = Some 0"
    "aget (br_transport_handlers demo_approved) ''70:1'' = Some mec" "input_queue mec = Some 1"
    using demo_session by blast
  have ids: "parse_group_id (se_mgwcp_component_id s) = GroupId 60 5" "parse_group_id (se_assigned_mec_id s) = GroupId 70 1"
    and handlers: "aget (br_transport_handlers demo_approved) (se_assigned_mec_id s) = Some mec"
      "aget (br_transport_handlers demo_approved) (se_mgwcp_component_id s) = Some gw"
    using S demo_ids by simp_all
  have len: "length ([1, 2] :: u8 list) < 2 ^ 32" "length (make_frame [47] 11 60 5 0 [1, 2]) \<le> MAX_RECEIVE_BUFFER_SIZE (example_handler 8192)"
    by (simp_all add: make_frame_def length_create_header)
  show ?thesis
    using offloaded_frames_reach_their_peer [OF demo_approved_reachable demo_laws demo_gc_wf S(1) ids handlers
        example_handler(1,2,4) len, of "Some 1"] S(4,9) by auto
qed

section \<open>From one ROS graph to the other\<close>

text \<open>C1: a ROS message crosses the whole system once, in both directions. The offloading manager approves a session, and the bridge handles the approval; the
  bridge had no route for the sender's messages of this type before, the two gateways have different ids, and the task lists the type once. A message on a topic
  that a gateway subscribes to (the vehicle, with an input type of the task, or the assigned MEC, with an output type) is queued as a frame; the gateway's handler in
  the bridge, which reads the frame, puts it exactly once into exactly one queue, that of the other gateway's handler; when that handler has sent it, the bytes on the
  wire are the same frame, and the other gateway that reads them, in whatever segments, publishes one message on the (first 255 bytes of the) topic. It is the message
  that was received, except that a laser scan loses its intensities when the sending handler is set to clear them, which is the default.\<close>

theorem ros_message_crosses_bridge:
  assumes sender: "rg_transport a = Some ta" "tr_is_connected ta" "handle_message ro (rg_objects a ! p) m = Some x" "length (sa_data x) < 2 ^ 32"
    and reach: "br_reachable ops gc b" "json_laws ops" "gc_wf gc"
    and s: "get_session (br_session_manager b) r = Some s"
    and approval: "js_at ops am ''payload'' = Found pl" "js_at ops pl ''request_id'' = Found rv" "js_string ops rv = Some r"
    and ids: "parse_group_id (se_mgwcp_component_id s) = GroupId g i" "parse_group_id (mec_after_approval ops pl s) = GroupId mg mi" "(g, i) \<noteq> (mg, mi)"
    and mec: "aget (br_transport_handlers b) (mec_after_approval ops pl s) = Some mh"
    and gwh: "aget (br_transport_handlers b) (se_mgwcp_component_id s) = Some gh"
    and new: "get_destinations (br_routing_table b) (construct_routing_key (rg_id_group a) (rg_identifier_in_group a) (sa_type x)) = []"
    and dir: "count_list (se_input_message_types s) (sa_type x) = 1 \<and> (rg_id_group a, rg_identifier_in_group a) = (g, i) \<and> peer = mh
       \<or> count_list (se_output_message_types s) (sa_type x) = 1 \<and> (rg_id_group a, rg_identifier_in_group a) = (mg, mi) \<and> peer = gh"
    and h: "th_wf h" "tc_is_connected (tcp_client h)" "receive_buffer_watermark h = 0"
      "11 + min (length (sa_topic x)) 255 + length (sa_data x) \<le> MAX_RECEIVE_BUFFER_SIZE h"
    and receiver: "objects_typed (rg_handlers e) (rg_objects e)" "rg_transport e = Some te" "tr_open te"
      "aget (rg_handlers e) (handler_name (mh_kind (rg_objects a ! p))) = Some q" "is_ros_publisher_enabled (rg_objects e ! q)"
    and ros: "serialization_ok ro" "ro_topic_valid ro (take 255 (sa_topic x))" "fits (length (sa_data x))"
  shows "\<exists>header ta' frame h'. rg_transport (ros_callback ro True True p m a) = Some ta'
     \<and> tr_queue ta' = tr_queue ta @ [header, sa_data x] \<and> frame = header @ sa_data x
     \<and> handle_incoming_data h (\<lambda>_. False) (\<lambda>_. br_routing_table (handle_session_approved ops lk now am b)) (Received frame)
         = Some (h', [(input_queue peer, frame)])
     \<and> input_queue peer \<noteq> None
     \<and> (\<forall>mh' mh'' sends connects work wire segments rest.
          handle_outgoing_messages mh' (Dequeued frame) sends connects = Some (work, mh'', Some wire) \<and> stream_of segments = wire @ rest \<longrightarrow>
          (\<exists>left o'. stream_of left = rest
             \<and> receive_and_process_message ro fits segments te e = Some (Returned (True, left, e\<lparr>rg_objects := (rg_objects e)[q := o']\<rparr>))
             \<and> mh_published o' = mh_published (rg_objects e ! q) @ [(take 255 (sa_topic x),
                 case m of
                   Text txt \<Rightarrow> Text txt
                 | Structured y \<Rightarrow> Structured (if mh_kind (rg_objects a ! p) = LaserScanHandler \<and> mh_empty_intensities (rg_objects a ! p)
                                              then ro_clear_intensities ro y else y))]))"
proof -
  let ?f = "make_frame (sa_topic x) (sa_type x) (rg_id_group a) (rg_identifier_in_group a) (to_flags (sa_options x)) (sa_data x)"
  let ?rt = "br_routing_table (handle_session_approved ops lk now am b)"
  let ?key = "construct_routing_key (rg_id_group a) (rg_identifier_in_group a) (sa_type x)"
  obtain header ta' where sent: "rg_transport (ros_callback ro True True p m a) = Some ta'" "tr_queue ta' = tr_queue ta @ [header, sa_data x]"
    "header @ sa_data x = ?f"
    using callback_queues_frame [OF sender(1-3)] by blast
  obtain mq gq where queues: "input_queue mh = Some mq" "input_queue gh = Some gq"
    using bridge_invD(1) [OF reachable_inv [OF reach]] mec gwh unfolding handlers_ok_def by metis
  have dest: "get_destinations ?rt ?key = [input_queue peer]" "input_queue peer \<noteq> None"
    using first_approval_destination [OF s ids gwh queues(2) mec queues(1) approval new dir, of lk now] by blast+
  have len: "length ?f \<le> MAX_RECEIVE_BUFFER_SIZE h"
    using h(4) by (simp add: make_frame_def length_create_header)
  have "route_frame ?rt ?key ?f = [(input_queue peer, ?f)]" using dest by (simp add: route_frame_def)
  then obtain h' where routed: "handle_incoming_data h (\<lambda>_. False) (\<lambda>_. ?rt) (Received ?f) = Some (h', [(input_queue peer, ?f)])"
    using handler_routes_exactly [OF h(1-3) sender(4) len, of ?rt] by auto
  have wire: "wire = ?f" if "handle_outgoing_messages mh' (Dequeued ?f) sends connects = Some (work, mh'', Some wire)" for mh' mh'' sends connects work wire
    using that by (auto simp: handle_outgoing_messages_def dest: tc_send_data_complete split: if_splits option.splits bool.splits)
  have "\<exists>left o'. stream_of left = rest
      \<and> receive_and_process_message ro fits segments te e = Some (Returned (True, left, e\<lparr>rg_objects := (rg_objects e)[q := o']\<rparr>))
      \<and> mh_published o' = mh_published (rg_objects e ! q) @ [(take 255 (sa_topic x),
          case m of
            Text txt \<Rightarrow> Text txt
          | Structured y \<Rightarrow> Structured (if mh_kind (rg_objects a ! p) = LaserScanHandler \<and> mh_empty_intensities (rg_objects a ! p)
                                       then ro_clear_intensities ro y else y))]"
    if "handle_outgoing_messages mh' (Dequeued ?f) sends connects = Some (work, mh'', Some wire) \<and> stream_of segments = wire @ rest"
    for mh' mh'' sends connects work wire segments rest
  proof -
    have "stream_of segments = ?f @ rest" using that wire by blast
    from gateway_publishes_frame [where fits = fits, OF sender(3,4) receiver ros this, unfolded published_message_def] show ?thesis .
  qed
  note publish = this
  show ?thesis
    by (rule exI [of _ header], rule exI [of _ ta'], rule exI [of _ ?f], rule exI [of _ h'])
      (intro conjI allI impI; (erule publish | use sent routed dest(2) in simp))
qed

text \<open>The example session after the vehicle's request and before the approval.\<close>

definition demo_requested :: "json_tree Bridge" where
  "demo_requested = gateway_turn demo_ops demo_link True 0 4 (Bytes ''rq'') demo_operational"

definition demo_approval :: json_tree where
  "demo_approval = JObject [(''request_id'', JString ''r''), (''assigned_mec_id'', JString ''70:1'')]"

lemma demo_requested:
  "\<exists>s gw mec. get_session (br_session_manager demo_requested) ''r'' = Some s \<and> se_mgwcp_component_id s = ''60:5''
     \<and> mec_after_approval demo_ops demo_approval s = ''70:1''
     \<and> se_input_message_types s = [11, 12] \<and> se_output_message_types s = [21]
     \<and> aget (br_transport_handlers demo_requested) ''60:5'' = Some gw \<and> input_queue gw = Some 0
     \<and> aget (br_transport_handlers demo_requested) ''70:1'' = Some mec \<and> input_queue mec = Some 1"
  "get_destinations (br_routing_table demo_requested) k = []"
  by (simp_all add: demo_requested_def demo_operational_def demo_approval_def mec_after_approval_def demo_eval session_eval Let_def
      get_destinations_def)

lemma demo_requested_reachable: "br_reachable demo_ops demo_gc demo_requested"
  unfolding demo_requested_def by (intro gateway_turn_reachable demo_operational_reachable)

definition scan_gateway :: "HandlerMode \<Rightarrow> (string list, u8 list) RosGateway" where
  "scan_gateway mode = (demo_gateway mode)\<lparr>rg_handlers := [(handler_name LaserScanHandler, 0)],
     rg_objects := [configure_handler_mode mode (MessageHandler_init LaserScanHandler)\<lparr>mh_enabled := True, mh_topic_name := [47, 116]\<rparr>]\<rparr>"

theorem ros_message_crosses_bridge_witness:
  "\<exists>header ta' h'. rg_transport (ros_callback demo_ros True True 0 (Structured [1, 2, 3]) (scan_gateway SUBSCRIBER_ONLY)) = Some ta'
     \<and> tr_queue ta' = tr_queue demo_server @ [header, [1, 2, 3]]
     \<and> handle_incoming_data (example_handler 8192) (\<lambda>_. False)
         (\<lambda>_. br_routing_table (handle_session_approved demo_ops demo_link 0 (JObject [(''payload'', demo_approval)]) demo_requested))
         (Received (header @ [1, 2, 3])) = Some (h', [(Some 1, header @ [1, 2, 3])])"
proof -
  let ?a = "scan_gateway SUBSCRIBER_ONLY" and ?e = "scan_gateway PUBLISHER_ONLY"
  let ?x = "\<lparr>sa_topic = [47, 116], sa_type = 11, sa_data = [1, 2, 3], sa_options = cdr_options\<rparr>"
  let ?ok = "JObject [(''payload'', demo_approval)]"
  have a: "rg_transport ?a = Some demo_server" "tr_is_connected demo_server"
    "handle_message demo_ros (rg_objects ?a ! 0) (Structured [1, 2, 3]) = Some ?x" "length (sa_data ?x) < 2 ^ 32"
    "rg_id_group ?a = 60" "rg_identifier_in_group ?a = 5"
    by (simp_all add: scan_gateway_def demo_gateway_def RosGateway_init_def demo_server_def gws_is_connected_def handle_laserscan_def
        is_ros_subscriber_enabled_def configure_handler_mode_def MessageHandler_init_def demo_ros_def)
  have e: "objects_typed (rg_handlers ?e) (rg_objects ?e)" "rg_transport ?e = Some demo_server" "tr_open demo_server"
    "aget (rg_handlers ?e) (handler_name (mh_kind (rg_objects ?a ! 0))) = Some 0" "is_ros_publisher_enabled (rg_objects ?e ! 0)"
    "ro_topic_valid demo_ros (take 255 (sa_topic ?x))"
    by (simp_all add: scan_gateway_def demo_gateway_def RosGateway_init_def demo_server_def objects_typed_def is_ros_publisher_enabled_def
        configure_handler_mode_def MessageHandler_init_def demo_ros_def)
  obtain s gw mec where S: "get_session (br_session_manager demo_requested) ''r'' = Some s" "se_mgwcp_component_id s = ''60:5''"
    "mec_after_approval demo_ops demo_approval s = ''70:1''" "se_input_message_types s = [11, 12]"
    "aget (br_transport_handlers demo_requested) ''60:5'' = Some gw"
    "aget (br_transport_handlers demo_requested) ''70:1'' = Some mec" "input_queue mec = Some 1"
    using demo_requested(1) by blast
  have ok: "js_at demo_ops ?ok ''payload'' = Found demo_approval" "js_at demo_ops demo_approval ''request_id'' = Found (JString ''r'')"
    "js_string demo_ops (JString ''r'') = Some ''r''"
    by (simp_all add: demo_ops_def tree_ops_def demo_approval_def)
  have ids: "parse_group_id (se_mgwcp_component_id s) = GroupId 60 5" "parse_group_id (mec_after_approval demo_ops demo_approval s) = GroupId 70 1"
      "(60, 5) \<noteq> (70 :: u8, 1 :: u8)"
    and dir: "count_list (se_input_message_types s) (sa_type ?x) = 1 \<and> (rg_id_group ?a, rg_identifier_in_group ?a) = (60, 5) \<and> mec = mec
       \<or> count_list (se_output_message_types s) (sa_type ?x) = 1 \<and> (rg_id_group ?a, rg_identifier_in_group ?a) = (70, 1) \<and> mec = gw"
    and handlers: "aget (br_transport_handlers demo_requested) (mec_after_approval demo_ops demo_approval s) = Some mec"
      "aget (br_transport_handlers demo_requested) (se_mgwcp_component_id s) = Some gw"
    using S demo_ids a(5,6) by simp_all
  have len: "11 + min (length (sa_topic ?x)) 255 + length (sa_data ?x) \<le> MAX_RECEIVE_BUFFER_SIZE (example_handler 8192)" by simp
  have fits: "(\<lambda>n. True) (length (sa_data ?x))" by simp
  from ros_message_crosses_bridge [OF a(1-4) demo_requested_reachable demo_laws demo_gc_wf S(1) ok ids handlers demo_requested(2)
      dir example_handler(1,2,4) len e(1-5) demo_ros_laws(2) e(6) fits, of demo_link 0] S(7)
  show ?thesis by auto
qed

end
